(* ===== verification/Prelude.thy ===== *)
theory Prelude
  imports Main "HOL-Library.Word" "HOL-Library.AList"
begin

text \<open>
  What every component of the cluster manager shares.

  \<^item> Go's effects: a computation takes the state it may change and either returns a
    value, panics (with the state reached so far) or blocks on a channel. A call of the
    source is sequenced with \<open>bnd\<close>; an early return is a branch that does not continue.
  \<^item> Go's values: \<open>error\<close> values, maps with the nil map kept apart, fixed-width integers,
    and the functions of \<open>strconv\<close> and \<open>strings\<close> the sources call.
  \<^item> The lemmas on them that the component theories use. The collection \<open>go_simps\<close> runs a
    computation symbolically, \<open>go_elims\<close> takes a finished run apart.
\<close>

named_theorems go_simps "equations that run Go computations"
named_theorems go_elims "elimination rules for finished Go computations"
named_theorems keys_simps "the distinctness facts of the annotation keys and states"

section \<open>Go computations\<close>

datatype panic = NilDereference | IndexOutOfRange | NilMapWrite | TypeAssertion

datatype 'a outcome = Ret 'a | Crash panic | Blocked

type_synonym ('s, 'a) go = "'s \<Rightarrow> 'a outcome \<times> 's"

definition ret :: "'a \<Rightarrow> ('s, 'a) go" where
  "ret x = (\<lambda>s. (Ret x, s))"

definition crash :: "panic \<Rightarrow> ('s, 'a) go" where
  "crash p = (\<lambda>s. (Crash p, s))"

definition block :: "('s, 'a) go" where
  "block = (\<lambda>s. (Blocked, s))"

definition bnd :: "('s, 'a) go \<Rightarrow> ('a \<Rightarrow> ('s, 'b) go) \<Rightarrow> ('s, 'b) go" where
  "bnd m f = (\<lambda>s. case m s of
      (Ret x, s') \<Rightarrow> f x s'
    | (Crash p, s') \<Rightarrow> (Crash p, s')
    | (Blocked, s') \<Rightarrow> (Blocked, s'))"

definition gets :: "('s \<Rightarrow> 'a) \<Rightarrow> ('s, 'a) go" where
  "gets f = (\<lambda>s. (Ret (f s), s))"

definition modify :: "('s \<Rightarrow> 's) \<Rightarrow> ('s, unit) go" where
  "modify f = (\<lambda>s. (Ret (), f s))"

text \<open>Dereferencing a pointer that may be nil.\<close>

definition deref :: "'a option \<Rightarrow> ('s, 'a) go" where
  "deref p = (case p of None \<Rightarrow> crash NilDereference | Some x \<Rightarrow> ret x)"

text \<open>A computation on a part of the state, run on the whole.\<close>

definition zoom :: "('t \<Rightarrow> 's) \<Rightarrow> ('s \<Rightarrow> 't \<Rightarrow> 't) \<Rightarrow> ('s, 'a) go \<Rightarrow> ('t, 'a) go" where
  "zoom get put m = (\<lambda>t. case m (get t) of (r, s) \<Rightarrow> (r, put s t))"

text \<open>\<open>for _, x := range xs { body }\<close>, and a deferred call, which a panic runs too.\<close>

primrec for_each :: "('a \<Rightarrow> ('s, unit) go) \<Rightarrow> 'a list \<Rightarrow> ('s, unit) go" where
  "for_each body [] = ret ()"
| "for_each body (x # xs) = bnd (body x) (\<lambda>_. for_each body xs)"

definition deferring :: "('s, unit) go \<Rightarrow> ('s, 'a) go \<Rightarrow> ('s, 'a) go" where
  "deferring d m = (\<lambda>s. case m s of
      (Blocked, s') \<Rightarrow> (Blocked, s')
    | (r, s') \<Rightarrow> (r, snd (d s')))"

lemma ret_run [go_simps]: "ret x s = (Ret x, s)"
  by (simp add: ret_def)

lemma crash_run [go_simps]: "crash p s = (Crash p, s)"
  by (simp add: crash_def)

lemma block_run [go_simps]: "block s = (Blocked, s)"
  by (simp add: block_def)

lemma gets_run [go_simps]: "gets f s = (Ret (f s), s)"
  by (simp add: gets_def)

lemma modify_run [go_simps]: "modify f s = (Ret (), f s)"
  by (simp add: modify_def)

lemma deref_run [go_simps]:
  "deref None s = (Crash NilDereference, s)"
  "deref (Some x) s = (Ret x, s)"
  by (simp_all add: deref_def crash_def ret_def)

lemma bnd_run [go_simps]:
  "bnd m f s = (case m s of
      (Ret x, s') \<Rightarrow> f x s'
    | (Crash p, s') \<Rightarrow> (Crash p, s')
    | (Blocked, s') \<Rightarrow> (Blocked, s'))"
  by (simp add: bnd_def)

lemma bnd_ret [simp]: "bnd (ret x) f = f x"
  by (simp add: bnd_def ret_def)

lemma bnd_assoc: "bnd (bnd m f) g = bnd m (\<lambda>x. bnd (f x) g)"
  by (rule ext) (simp add: bnd_def split: prod.split outcome.split)

lemma bnd_RetE [go_elims]:
  assumes "bnd m f s = (Ret y, s'')"
  obtains x s' where "m s = (Ret x, s')" "f x s' = (Ret y, s'')"
  using assms by (auto simp: bnd_def split: prod.splits outcome.splits)

lemma ret_RetE [go_elims]:
  assumes "ret x s = (Ret y, s')"
  obtains "y = x" "s' = s"
  using assms by (auto simp: ret_def)

lemma gets_RetE [go_elims]:
  assumes "gets f s = (Ret y, s')"
  obtains "y = f s" "s' = s"
  using assms that unfolding gets_def by blast

lemma modify_RetE [go_elims]:
  assumes "modify f s = (Ret y, s')"
  obtains "s' = f s"
  by (rule that) (use assms in \<open>simp add: modify_def\<close>)

lemma deref_RetE [go_elims]:
  assumes "deref p s = (Ret y, s')"
  obtains "p = Some y" "s' = s"
  using assms by (cases p) (auto simp: deref_def crash_def ret_def)

lemma crash_RetE [go_elims]: "crash p s = (Ret y, s') \<Longrightarrow> Q"
  by (simp add: crash_def)

lemma block_RetE [go_elims]: "block s = (Ret y, s') \<Longrightarrow> Q"
  by (simp add: block_def)

lemma zoom_RetE [go_elims]:
  assumes "zoom get put m t = (Ret y, t')"
  obtains s where "m (get t) = (Ret y, s)" "t' = put s t"
  using assms by (auto simp: zoom_def split: prod.splits)

subsection \<open>Properties of every run\<close>

text \<open>
  \<open>keeps R m\<close>: however the run of \<open>m\<close> ends, the state before and the state after are
  related by \<open>R\<close>. For a reflexive and transitive \<open>R\<close> (a frame condition, a growing
  history) it goes through sequencing.
\<close>

definition keeps :: "('s \<Rightarrow> 's \<Rightarrow> bool) \<Rightarrow> ('s, 'a) go \<Rightarrow> bool" where
  "keeps R m \<longleftrightarrow> (\<forall>s. R s (snd (m s)))"

lemma keepsD: "keeps R m \<Longrightarrow> m s = (r, s') \<Longrightarrow> R s s'"
  unfolding keeps_def by (metis snd_conv)

lemma keepsI: "(\<And>s r s'. m s = (r, s') \<Longrightarrow> R s s') \<Longrightarrow> keeps R m"
  unfolding keeps_def by (metis prod.collapse)

lemma keeps_bnd_result:
  assumes R: "transp R" and m: "keeps R m" and f: "\<And>s x s'. m s = (Ret x, s') \<Longrightarrow> keeps R (f x)"
  shows "keeps R (bnd m f)"
proof (rule keepsI)
  fix s r s' assume run: "bnd m f s = (r, s')"
  obtain o1 s1 where m1: "m s = (o1, s1)" by (cases "m s")
  with m have 1: "R s s1" by (rule keepsD)
  show "R s s'"
  proof (cases o1)
    case (Ret x)
    with run m1 have "f x s1 = (r, s')" by (simp add: bnd_def)
    moreover from m1 Ret have "m s = (Ret x, s1)" by simp
    from f [OF this] have "keeps R (f x)" .
    ultimately have "R s1 s'" by (blast dest: keepsD)
    with R 1 show ?thesis by (blast dest: transpD)
  qed (use run m1 1 in \<open>auto simp: bnd_def\<close>)
qed

lemma keeps_bnd: "transp R \<Longrightarrow> keeps R m \<Longrightarrow> (\<And>x. keeps R (f x)) \<Longrightarrow> keeps R (bnd m f)"
  by (rule keeps_bnd_result)

lemma keeps_ret: "reflp R \<Longrightarrow> keeps R (ret x)"
  by (simp add: keeps_def ret_def reflp_def)

lemma keeps_crash: "reflp R \<Longrightarrow> keeps R (crash p)"
  by (simp add: keeps_def crash_def reflp_def)

lemma keeps_gets: "reflp R \<Longrightarrow> keeps R (gets f)"
  by (simp add: keeps_def gets_def reflp_def)

lemma keeps_block: "reflp R \<Longrightarrow> keeps R block"
  by (simp add: keeps_def block_def reflp_def)

lemma keeps_deref: "reflp R \<Longrightarrow> keeps R (deref p)"
  by (cases p) (simp_all add: deref_def keeps_ret keeps_crash)

lemma keeps_modify: "(\<And>s. R s (f s)) \<Longrightarrow> keeps R (modify f)"
  by (simp add: keeps_def modify_def)

lemma keeps_for_each:
  "reflp R \<Longrightarrow> transp R \<Longrightarrow> (\<And>x. keeps R (body x)) \<Longrightarrow> keeps R (for_each body xs)"
  by (induction xs) (auto intro: keeps_ret keeps_bnd)

lemma keeps_deferring:
  assumes "transp R" "keeps R d" "keeps R m"
  shows "keeps R (deferring d m)"
proof (rule keepsI)
  fix s r s' assume run: "deferring d m s = (r, s')"
  obtain o1 s1 where m1: "m s = (o1, s1)" by (cases "m s")
  then have "R s s1" "R s1 (snd (d s1))" using assms(2,3) by (auto simp: keeps_def dest: keepsD [OF assms(3)])
  with run m1 show "R s s'" using assms(1)
    by (auto simp: deferring_def split: outcome.splits dest: transpD)
qed

text \<open>The rules that push such a relation through a computation.\<close>

locale run_frame =
  fixes R :: "'s \<Rightarrow> 's \<Rightarrow> bool"
  assumes frame_refl: "reflp R" and frame_trans: "transp R"
begin

lemma keeps_prod: "(\<And>a b. keeps R (f a b)) \<Longrightarrow> keeps R (case p of (a, b) \<Rightarrow> f a b)"
  by (cases p) simp

lemma keeps_option:
  "keeps R m \<Longrightarrow> (\<And>x. keeps R (f x)) \<Longrightarrow> keeps R (case p of None \<Rightarrow> m | Some x \<Rightarrow> f x)"
  by (cases p) simp_all

lemma keeps_if: "keeps R a \<Longrightarrow> keeps R b \<Longrightarrow> keeps R (if c then a else b)"
  by simp

lemmas rules = keeps_bnd [OF frame_trans] keeps_ret [OF frame_refl] keeps_crash [OF frame_refl]
  keeps_gets [OF frame_refl] keeps_deref [OF frame_refl] keeps_for_each [OF frame_refl frame_trans]
  keeps_prod keeps_option keeps_if

end

section \<open>Computations that return\<close>

text \<open>From a world of \<open>W\<close> the computation returns, with a result of \<open>Q\<close>, and leaves a world of \<open>W\<close>.\<close>

definition total_on :: "('w \<Rightarrow> bool) \<Rightarrow> ('w, 'a) go \<Rightarrow> ('a \<Rightarrow> bool) \<Rightarrow> bool" where
  "total_on W m Q \<longleftrightarrow> (\<forall>w. W w \<longrightarrow> (\<exists>x w'. m w = (Ret x, w') \<and> Q x \<and> W w'))"

abbreviation returns :: "('w \<Rightarrow> bool) \<Rightarrow> ('w, 'a) go \<Rightarrow> bool" where
  "returns W m \<equiv> total_on W m (\<lambda>_. True)"

lemma total_on_law: "returns W m \<Longrightarrow> (\<And>w x w'. m w = (Ret x, w') \<Longrightarrow> Q x) \<Longrightarrow> total_on W m Q"
  unfolding total_on_def by meson

lemma total_on_weaken: "total_on W m Q \<Longrightarrow> (\<And>x. Q x \<Longrightarrow> Q' x) \<Longrightarrow> total_on W m Q'"
  unfolding total_on_def by meson

lemma total_on_bnd:
  "total_on W m Q1 \<Longrightarrow> (\<And>x. Q1 x \<Longrightarrow> total_on W (f x) Q) \<Longrightarrow> total_on W (bnd m f) Q"
  unfolding total_on_def bnd_def by fastforce

named_theorems total_intros "rules for computations that return"

lemma total_bnd [total_intros]: "returns W m \<Longrightarrow> (\<And>x. returns W (f x)) \<Longrightarrow> returns W (bnd m f)"
  by (rule total_on_bnd)

lemma total_ret [total_intros]: "returns W (ret x)"
  by (simp add: total_on_def ret_def)

lemma total_if [total_intros]: "returns W a \<Longrightarrow> returns W b \<Longrightarrow> returns W (if c then a else b)"
  by simp

lemma total_option [total_intros]:
  "returns W a \<Longrightarrow> (\<And>x. returns W (f x)) \<Longrightarrow> returns W (case p of None \<Rightarrow> a | Some x \<Rightarrow> f x)"
  by (cases p) simp_all

lemma total_prod [total_intros]: "(\<And>a b. returns W (f a b)) \<Longrightarrow> returns W (case p of (a, b) \<Rightarrow> f a b)"
  by (cases p) simp

section \<open>Errors\<close>

text \<open>
  An \<open>error\<close> of Go: one made from a formatted message (\<open>errors.Errorf\<close>, \<open>fmt.Errorf\<close>),
  or an API status with its reason, the field \<open>apierrors.IsConflict\<close> looks at.
\<close>

datatype error = Errorf string | StatusError string string

definition StatusReasonConflict :: string where
  "StatusReasonConflict = ''Conflict''"

fun IsConflict :: "error \<Rightarrow> bool" where
  "IsConflict (StatusError reason msg) = (reason = StatusReasonConflict)"
| "IsConflict (Errorf msg) = False"

fun error_string :: "error \<Rightarrow> string" where
  "error_string (Errorf m) = m"
| "error_string (StatusError r m) = m"

section \<open>Maps\<close>

text \<open>
  A Go map with string keys is an association list, read with \<open>map_of\<close>, written with
  \<open>AList.update\<close> and \<open>AList.delete\<close>. The order of the list is the order in which a
  \<open>range\<close> loop visits the entries; the lemmas show which results do not depend on it.
  The nil map is \<open>None\<close> where the source can see the difference.
\<close>

type_synonym 'v gomap = "(string \<times> 'v) list"

definition map_get :: "'v gomap option \<Rightarrow> string \<Rightarrow> 'v option" where
  "map_get m k = (case m of None \<Rightarrow> None | Some kvs \<Rightarrow> map_of kvs k)"

definition map_len :: "'v gomap option \<Rightarrow> nat" where
  "map_len m = (case m of None \<Rightarrow> 0 | Some kvs \<Rightarrow> length kvs)"

lemma map_get_simps [simp]:
  "map_get None k = None"
  "map_get (Some kvs) k = map_of kvs k"
  by (simp_all add: map_get_def)

lemma map_len_simps [simp]:
  "map_len None = 0"
  "map_len (Some kvs) = length kvs"
  by (simp_all add: map_len_def)

text \<open>A slice that may be nil, as the list of its elements.\<close>

definition the_list :: "'a list option \<Rightarrow> 'a list" where
  "the_list xs = (case xs of None \<Rightarrow> [] | Some ys \<Rightarrow> ys)"

lemma list_all_ptrs: "list_all (pred_option P) ps \<longleftrightarrow> (\<forall>x. Some x \<in> set ps \<longrightarrow> P x)"
  by (induction ps) (auto simp: pred_option_def split: option.splits)

text \<open>\<open>for key, value := range kvs { m[key] = value }\<close>\<close>

definition update_all :: "'v gomap \<Rightarrow> 'v gomap \<Rightarrow> 'v gomap" where
  "update_all kvs m = fold (\<lambda>(k, v) m. AList.update k v m) kvs m"

text \<open>\<open>for _, key := range ks { delete(m, key) }\<close>\<close>

definition delete_all :: "string list \<Rightarrow> 'v gomap \<Rightarrow> 'v gomap" where
  "delete_all ks m = fold AList.delete ks m"

lemma map_of_update_all:
  "map_of (update_all kvs m) k =
     (case map_of (rev kvs) k of None \<Rightarrow> map_of m k | Some v \<Rightarrow> Some v)"
  unfolding update_all_def
proof (induction kvs arbitrary: m)
  case Nil
  then show ?case by simp
next
  case (Cons kv kvs)
  obtain a b where "kv = (a, b)" by (cases kv)
  with Cons show ?case
    by (auto simp: AList.update_conv' map_add_def split: option.splits)
qed

lemma map_of_update_all_distinct:
  assumes "distinct (map fst kvs)"
  shows "map_of (update_all kvs m) = map_of m ++ map_of kvs"
proof
  fix k
  from assms have "map_of (rev kvs) = map_of kvs"
    by (simp add: map_of_inject_set rev_map [symmetric])
  then show "map_of (update_all kvs m) k = (map_of m ++ map_of kvs) k"
    by (simp add: map_of_update_all map_add_def)
qed

lemma map_of_delete_all:
  "map_of (delete_all ks m) k = (if k \<in> set ks then None else map_of m k)"
  unfolding delete_all_def
  by (induction ks arbitrary: m) (auto simp: AList.delete_conv')

lemma distinct_update_all:
  "distinct (map fst m) \<Longrightarrow> distinct (map fst (update_all kvs m))"
  unfolding update_all_def
  by (induction kvs arbitrary: m) (auto simp: AList.distinct_update)

lemma distinct_delete_all:
  "distinct (map fst m) \<Longrightarrow> distinct (map fst (delete_all ks m))"
  unfolding delete_all_def
  by (induction ks arbitrary: m) (auto simp: AList.distinct_delete)

lemma find_append:
  "find P (as @ bs) = (case find P as of None \<Rightarrow> find P bs | Some y \<Rightarrow> Some y)"
  by (induction as) auto

section \<open>Fixed-width integers\<close>

type_synonym int32 = "32 word"
type_synonym int64 = "64 word"

text \<open>Signed 64-bit arithmetic on \<open>int\<close> with the wrap-around written out.\<close>

definition wrap64 :: "int \<Rightarrow> int" where
  "wrap64 x = (x + 2 ^ 63) mod 2 ^ 64 - 2 ^ 63"

lemma wrap64_id: "- (2 ^ 63) \<le> x \<Longrightarrow> x < 2 ^ 63 \<Longrightarrow> wrap64 x = x"
  by (simp add: wrap64_def)

text \<open>Conversion between the integer types: \<open>int32(x)\<close> truncates, \<open>int(x)\<close> extends the sign.\<close>

definition to_int32 :: "int64 \<Rightarrow> int32" where
  "to_int32 x = ucast x"

definition to_int64 :: "int32 \<Rightarrow> int64" where
  "to_int64 x = scast x"

end
