(* ===== verification/Strconv.thy ===== *)
theory Strconv
  imports Prelude
begin

text \<open>
  The functions of Go's \<open>strconv\<close> and \<open>strings\<close> packages that the sources call:
  \<open>ParseInt\<close> in base 10, \<open>Atoi\<close>, \<open>Itoa\<close>, and \<open>Split\<close>/\<open>Join\<close> on one separator. A number
  that does not fit is reported with the clamped value beside the error, as Go does, since
  one caller ignores the error and uses the value.
\<close>

section \<open>Decimal numbers\<close>

datatype numError = ErrSyntax | ErrRange

definition is_digit :: "char \<Rightarrow> bool" where
  "is_digit c \<longleftrightarrow> 48 \<le> (of_char c :: nat) \<and> (of_char c :: nat) \<le> 57"

definition digit_val :: "char \<Rightarrow> nat" where
  "digit_val c = of_char c - 48"

definition digit_char :: "nat \<Rightarrow> char" where
  "digit_char d = char_of (48 + d)"

text \<open>
  The loop of \<open>ParseUint\<close>. The source guards the multiplication with a cutoff and the
  addition with a carry test; over unbounded numbers both say that the next value exceeds
  the maximum of the bit size. The first overflow ends the loop, before later bytes are
  looked at.
\<close>

fun parse_uint_loop :: "nat \<Rightarrow> nat \<Rightarrow> string \<Rightarrow> nat \<times> numError option" where
  "parse_uint_loop maxVal n [] = (n, None)"
| "parse_uint_loop maxVal n (c # cs) =
     (if \<not> is_digit c then (0, Some ErrSyntax)
      else if maxVal < n * 10 + digit_val c then (2 ^ 64 - 1, Some ErrRange)
      else parse_uint_loop maxVal (n * 10 + digit_val c) cs)"

definition ParseUint :: "string \<Rightarrow> nat \<Rightarrow> nat \<times> numError option" where
  "ParseUint s bitSize =
     (if s = [] then (0, Some ErrSyntax) else parse_uint_loop (2 ^ bitSize - 1) 0 s)"

definition ParseInt :: "string \<Rightarrow> nat \<Rightarrow> int \<times> numError option" where
  "ParseInt s bitSize =
     (if s = [] then (0, Some ErrSyntax) else
      let neg = (hd s = CHR ''-'');
          digits = (if hd s = CHR ''+'' \<or> hd s = CHR ''-'' then tl s else s);
          (un, err) = ParseUint digits bitSize;
          cutoff = 2 ^ (bitSize - 1)
      in if err = Some ErrSyntax then (0, err)
         else if \<not> neg \<and> cutoff \<le> un then (int cutoff - 1, Some ErrRange)
         else if neg \<and> cutoff < un then (- int cutoff, Some ErrRange)
         else (if neg then - int un else int un, None))"

definition Atoi :: "string \<Rightarrow> int \<times> numError option" where
  "Atoi s = ParseInt s 64"

fun nat_digits :: "nat \<Rightarrow> string" where
  "nat_digits n =
     (if n < 10 then [digit_char n] else nat_digits (n div 10) @ [digit_char (n mod 10)])"

declare nat_digits.simps [simp del]

definition Itoa :: "int \<Rightarrow> string" where
  "Itoa i = (if i < 0 then CHR ''-'' # nat_digits (nat (- i)) else nat_digits (nat i))"

lemma digit_char_is_digit [simp]: "d < 10 \<Longrightarrow> is_digit (digit_char d)"
  by (simp add: is_digit_def digit_char_def)

lemma digit_val_digit_char [simp]: "d < 10 \<Longrightarrow> digit_val (digit_char d) = d"
  by (simp add: digit_val_def digit_char_def)

lemma nat_digits_nonempty [simp]: "nat_digits n \<noteq> []"
  by (subst nat_digits.simps) simp

lemma nat_digits_all_digits: "c \<in> set (nat_digits n) \<Longrightarrow> is_digit c"
proof (induction n rule: nat_digits.induct)
  case (1 n)
  then show ?case
    by (subst (asm) (2) nat_digits.simps) (auto split: if_splits)
qed

lemma is_digit_not_sign: "is_digit c \<Longrightarrow> c \<noteq> CHR ''+'' \<and> c \<noteq> CHR ''-''"
  by (auto simp: is_digit_def)

lemma hd_nat_digits_not_sign:
  "hd (nat_digits n) \<noteq> CHR ''+''" "hd (nat_digits n) \<noteq> CHR ''-''"
proof -
  have "is_digit (hd (nat_digits n))"
    by (rule nat_digits_all_digits [where n = n]) simp
  then show "hd (nat_digits n) \<noteq> CHR ''+''" "hd (nat_digits n) \<noteq> CHR ''-''"
    by (auto dest: is_digit_not_sign)
qed

lemma parse_uint_loop_append:
  "parse_uint_loop m n xs = (k, None) \<Longrightarrow>
   parse_uint_loop m n (xs @ ys) = parse_uint_loop m k ys"
  by (induction xs arbitrary: n) (auto split: if_splits)

lemma parse_uint_loop_nat_digits:
  "n \<le> m \<Longrightarrow> parse_uint_loop m 0 (nat_digits n) = (n, None)"
proof (induction n rule: nat_digits.induct)
  case (1 n)
  show ?case
  proof (cases "n < 10")
    case True
    with "1.prems" show ?thesis by (subst nat_digits.simps) simp
  next
    case False
    with 1 have "parse_uint_loop m 0 (nat_digits (n div 10)) = (n div 10, None)"
      by simp
    from parse_uint_loop_append [OF this] False "1.prems" show ?thesis
      by (subst nat_digits.simps) simp
  qed
qed

lemma ParseUint_nat_digits: "n < 2 ^ b \<Longrightarrow> ParseUint (nat_digits n) b = (n, None)"
  by (simp add: ParseUint_def parse_uint_loop_nat_digits)

text \<open>Reading back a printed number, within the range of the type.\<close>

lemma ParseInt_Itoa:
  assumes "0 < b" "- (2 ^ (b - 1)) \<le> i" "i < 2 ^ (b - 1)"
  shows "ParseInt (Itoa i) b = (i, None)"
proof -
  have pow: "(2::nat) ^ b = 2 * 2 ^ (b - 1)"
    using assms(1) by (cases b) simp_all
  have bound: "int n < 2 ^ (b - 1) \<longleftrightarrow> n < 2 ^ (b - 1)"
    "int n \<le> 2 ^ (b - 1) \<longleftrightarrow> n \<le> 2 ^ (b - 1)" for n
    by simp_all
  show ?thesis
  proof (cases "i < 0")
    case True
    define n where "n = nat (- i)"
    with True assms have n: "i = - int n" "n \<le> 2 ^ (b - 1)"
      using bound(2) [of n] by auto
    have "n < 2 ^ b" using n(2) pow by (simp add: le_less_trans [OF n(2)])
    then show ?thesis using n True
      by (simp add: ParseInt_def Itoa_def ParseUint_nat_digits Let_def)
  next
    case False
    define n where "n = nat i"
    with False assms have n: "i = int n" "n < 2 ^ (b - 1)"
      using bound(1) [of n] by auto
    then have "n < 2 ^ b" using pow by simp
    then show ?thesis using n
      by (simp add: ParseInt_def Itoa_def ParseUint_nat_digits hd_nat_digits_not_sign Let_def)
  qed
qed

text \<open>
  The same functions on \<open>int\<close>, whose numerals are binary: the equations by which they are
  evaluated.
\<close>

fun parse_loop_int :: "int \<Rightarrow> int \<Rightarrow> string \<Rightarrow> int \<times> numError option" where
  "parse_loop_int maxVal n [] = (n, None)"
| "parse_loop_int maxVal n (c # cs) =
     (if \<not> is_digit c then (0, Some ErrSyntax)
      else if maxVal < n * 10 + int (digit_val c) then (2 ^ 64 - 1, Some ErrRange)
      else parse_loop_int maxVal (n * 10 + int (digit_val c)) cs)"

lemma parse_loop_int: "parse_loop_int (int m) (int n) s = map_prod int id (parse_uint_loop m n s)"
proof (induction s arbitrary: n)
  case (Cons c s)
  have "int m < int n * 10 + int (digit_val c) \<longleftrightarrow> m < n * 10 + digit_val c"
    by (metis of_nat_add of_nat_less_iff of_nat_mult of_nat_numeral)
  moreover have "parse_loop_int (int m) (int n * 10 + int (digit_val c)) s =
      map_prod int id (parse_uint_loop m (n * 10 + digit_val c) s)"
    using Cons [of "n * 10 + digit_val c"] by (simp add: id_def)
  ultimately show ?case by (simp add: id_def)
qed simp

definition parse_uint_int :: "string \<Rightarrow> nat \<Rightarrow> int \<times> numError option" where
  "parse_uint_int s bitSize =
     (if s = [] then (0, Some ErrSyntax) else parse_loop_int (2 ^ bitSize - 1) 0 s)"

lemma parse_uint_int: "parse_uint_int s b = map_prod int id (ParseUint s b)"
proof -
  have "int (2 ^ b - 1) = 2 ^ b - 1" by (simp add: of_nat_diff)
  then show ?thesis
    using parse_loop_int [of "2 ^ b - 1" 0 s] by (simp add: parse_uint_int_def ParseUint_def)
qed

lemma ParseUint_code [code]: "ParseUint s b = map_prod nat id (parse_uint_int s b)"
  by (simp add: parse_uint_int prod.map_comp map_prod_def split: prod.split)

lemma ParseInt_code [code]:
  "ParseInt s bitSize =
     (if s = [] then (0, Some ErrSyntax) else
      let neg = (hd s = CHR ''-'');
          digits = (if hd s = CHR ''+'' \<or> hd s = CHR ''-'' then tl s else s);
          (un, err) = parse_uint_int digits bitSize;
          cutoff = 2 ^ (bitSize - 1)
      in if err = Some ErrSyntax then (0, err)
         else if \<not> neg \<and> cutoff \<le> un then (cutoff - 1, Some ErrRange)
         else if neg \<and> cutoff < un then (- cutoff, Some ErrRange)
         else (if neg then - un else un, None))"
proof -
  have cmp: "(2::int) ^ k \<le> int n \<longleftrightarrow> 2 ^ k \<le> n" "(2::int) ^ k < int n \<longleftrightarrow> 2 ^ k < n" for k n by simp_all
  define ds where "ds = (if hd s = CHR ''+'' \<or> hd s = CHR ''-'' then tl s else s)"
  obtain un err where "ParseUint ds bitSize = (un, err)" by (cases "ParseUint ds bitSize")
  then show ?thesis
    unfolding ParseInt_def ds_def [symmetric] parse_uint_int Let_def by (simp add: cmp)
qed

function int_digits :: "int \<Rightarrow> string" where
  "int_digits i = (if i < 10 then [digit_char (nat i)] else int_digits (i div 10) @ [digit_char (nat (i mod 10))])"
  by pat_completeness auto
termination int_digits
  by (relation "measure nat") auto

declare int_digits.simps [simp del]

lemma int_digits: "int_digits (int n) = nat_digits n"
proof (induction n rule: nat_digits.induct)
  case (1 n)
  have "nat (int n mod 10) = n mod 10" "int n div 10 = int (n div 10)" by (simp_all add: nat_mod_distrib zdiv_int)
  with 1 show ?case by (subst int_digits.simps, subst nat_digits.simps) simp
qed

lemma Itoa_code [code]: "Itoa i = (if i < 0 then CHR ''-'' # int_digits (- i) else int_digits i)"
  using int_digits [of "nat i"] int_digits [of "nat (- i)"] by (cases "i < 0") (simp_all add: Itoa_def)

lemma Atoi_Itoa:
  assumes "- (2 ^ 63) \<le> i" "i < 2 ^ 63"
  shows "Atoi (Itoa i) = (i, None)"
  using ParseInt_Itoa [of 64 i] assms by (simp add: Atoi_def)

lemma ParseInt_bounds:
  assumes "0 < b"
  shows "- (2 ^ (b - 1)) \<le> fst (ParseInt s b) \<and> fst (ParseInt s b) < 2 ^ (b - 1)"
proof -
  have "- int x < 2 ^ k" "- (2 ^ k) \<le> int x" for x k :: nat
    by (rule le_less_trans [of _ 0], simp_all, rule order_trans [of _ 0], simp_all)
  then show ?thesis
    by (auto simp: ParseInt_def Let_def not_le not_less split: prod.splits)
qed

lemma Atoi_bounds: "- (2 ^ 63) \<le> fst (Atoi s) \<and> fst (Atoi s) < 2 ^ 63"
  using ParseInt_bounds [of 64 s] by (simp add: Atoi_def)

section \<open>Splitting and joining\<close>

fun Split :: "string \<Rightarrow> char \<Rightarrow> string list" where
  "Split [] sep = [[]]"
| "Split (c # cs) sep =
     (if c = sep then [] # Split cs sep
      else (case Split cs sep of [] \<Rightarrow> [[c]] | w # ws \<Rightarrow> (c # w) # ws))"

fun Join :: "string list \<Rightarrow> string \<Rightarrow> string" where
  "Join [] sep = []"
| "Join [s] sep = s"
| "Join (s # t # ss) sep = s @ sep @ Join (t # ss) sep"

lemma Split_nonempty [simp]: "Split s sep \<noteq> []"
  by (cases s) (auto split: list.splits)

lemma Join_Cons: "ss \<noteq> [] \<Longrightarrow> Join (s # ss) sep = s @ sep @ Join ss sep"
  by (cases ss) simp_all

lemma Join_Cons_char: "Join ((c # w) # ws) sep = c # Join (w # ws) sep"
  by (cases ws) simp_all

lemma Join_Split: "Join (Split s sep) [sep] = s"
  by (induction s sep rule: Split.induct)
    (auto simp: Join_Cons Join_Cons_char split: list.splits)

lemma Split_no_sep: "w \<in> set (Split s sep) \<Longrightarrow> sep \<notin> set w"
  by (induction s sep arbitrary: w rule: Split.induct) (auto split: if_splits list.splits)

end
