(* ===== verification/Annotations.thy ===== *)
theory Annotations
  imports Strconv
begin

text \<open>
  The federation \<open>Cluster\<close> object and the annotations on it.

  \<^item> The annotation keys and lifecycle states (\<open>pkg/common/constants.go\<close> and the constants
    of the navarkos package).
  \<^item> \<open>cluster\<close>: the fields of \<open>federationv1beta1.Cluster\<close> the controller reads or writes.
    Fields it never touches (labels, status, the rest of the metadata) are left out.
  \<^item> \<open>ClusterAnnotation\<close> (\<open>util/cluster_annotation.go\<close>): a patch of annotations to set and
    annotations to delete, with its three methods.
  \<^item> The locale \<open>annotation_patch\<close>: what a patch promises to those who build one and apply
    it; interpreted on \<open>ClusterAnnotation\<close>.
\<close>

section \<open>Keys and states\<close>

definition ClusterManagerClusterClassKey :: string where
  "ClusterManagerClusterClassKey = ''cluster-manager.n6s.io/cluster.class''"
definition ClusterManagerClusterOKEIdKey :: string where
  "ClusterManagerClusterOKEIdKey = ''cluster-manager.n6s.io/cluster.oke.id''"
definition ClusterManagerClusterOKEWorkItemKey :: string where
  "ClusterManagerClusterOKEWorkItemKey = ''cluster-manager.n6s.io/cluster.oke.work-item''"
definition ClusterManagerClusterScaleUpSizeKey :: string where
  "ClusterManagerClusterScaleUpSizeKey = ''cluster-manager.n6s.io/cluster.scale-up-size''"
definition ClusterManagerClusterScaleDownSizeKey :: string where
  "ClusterManagerClusterScaleDownSizeKey = ''cluster-manager.n6s.io/cluster.scale-down-size''"
definition ClusterManagerClusterConfigKey :: string where
  "ClusterManagerClusterConfigKey = ''cluster-manager.n6s.io/cluster.config''"

definition NavarkosClusterStateKey :: string where
  "NavarkosClusterStateKey = ''n6s.io/cluster.lifecycle.state''"
definition NavarkosClusterNodeCountKey :: string where
  "NavarkosClusterNodeCountKey = ''n6s.io/cluster.node-count''"
definition NavarkosClusterCapacityAllocatablePodsKey :: string where
  "NavarkosClusterCapacityAllocatablePodsKey = ''n6s.io/cluster.capacity.allocatable-pods''"
definition NavarkosClusterCapacityPodsKey :: string where
  "NavarkosClusterCapacityPodsKey = ''n6s.io/cluster.capacity.total-capacity-pods''"
definition NavarkosClusterCapacityUsedPodsKey :: string where
  "NavarkosClusterCapacityUsedPodsKey = ''n6s.io/cluster.capacity.used-pods''"
definition NavarkosClusterCapacitySystemPodsKey :: string where
  "NavarkosClusterCapacitySystemPodsKey = ''n6s.io/cluster.capacity.used-system-pods''"

definition NavarkosClusterStateOffline :: string where
  "NavarkosClusterStateOffline = ''offline''"
definition NavarkosClusterStatePending :: string where
  "NavarkosClusterStatePending = ''pending-provision''"
definition NavarkosClusterStateReady :: string where
  "NavarkosClusterStateReady = ''ready''"
definition NavarkosClusterStatePendingShutdown :: string where
  "NavarkosClusterStatePendingShutdown = ''pending-shutdown''"
definition NavarkosClusterStatePendingScaleUp :: string where
  "NavarkosClusterStatePendingScaleUp = ''pending-up''"
definition NavarkosClusterStatePendingScaleDown :: string where
  "NavarkosClusterStatePendingScaleDown = ''pending-down''"
definition NavarkosClusterStateProvisioning :: string where
  "NavarkosClusterStateProvisioning = ''provisioning''"
definition NavarkosClusterStateJoining :: string where
  "NavarkosClusterStateJoining = ''joining''"
definition NavarkosClusterStateShuttingDown :: string where
  "NavarkosClusterStateShuttingDown = ''shutting-down''"
definition NavarkosClusterStateScalingUp :: string where
  "NavarkosClusterStateScalingUp = ''scaling-up''"
definition NavarkosClusterStateScalingDown :: string where
  "NavarkosClusterStateScalingDown = ''scaling-down''"
definition NavarkosClusterStateFailedProvision :: string where
  "NavarkosClusterStateFailedProvision = ''failed-provision''"
definition NavarkosClusterStateFailedScaleUp :: string where
  "NavarkosClusterStateFailedScaleUp = ''failed-up''"
definition NavarkosClusterStateFailedScaleDown :: string where
  "NavarkosClusterStateFailedScaleDown = ''failed-down''"

lemmas key_defs =
  ClusterManagerClusterClassKey_def ClusterManagerClusterOKEIdKey_def
  ClusterManagerClusterOKEWorkItemKey_def ClusterManagerClusterScaleUpSizeKey_def
  ClusterManagerClusterScaleDownSizeKey_def ClusterManagerClusterConfigKey_def
  NavarkosClusterStateKey_def NavarkosClusterNodeCountKey_def
  NavarkosClusterCapacityAllocatablePodsKey_def NavarkosClusterCapacityPodsKey_def
  NavarkosClusterCapacityUsedPodsKey_def NavarkosClusterCapacitySystemPodsKey_def

lemmas state_defs =
  NavarkosClusterStateOffline_def NavarkosClusterStatePending_def NavarkosClusterStateReady_def
  NavarkosClusterStatePendingShutdown_def NavarkosClusterStatePendingScaleUp_def
  NavarkosClusterStatePendingScaleDown_def NavarkosClusterStateProvisioning_def
  NavarkosClusterStateJoining_def NavarkosClusterStateShuttingDown_def
  NavarkosClusterStateScalingUp_def NavarkosClusterStateScalingDown_def
  NavarkosClusterStateFailedProvision_def NavarkosClusterStateFailedScaleUp_def
  NavarkosClusterStateFailedScaleDown_def

section \<open>The federation object\<close>

record serverAddressByClientCIDR =
  ClientCIDR :: string
  ServerAddress :: string

record cluster =
  Name :: string
  ResourceVersion :: string
  Annotations :: "string gomap option"
  ServerAddressByClientCIDRs :: "serverAddressByClientCIDR list"
  SecretRef :: "string option"

definition annotation :: "cluster \<Rightarrow> string \<Rightarrow> string option" where
  "annotation c k = map_get (Annotations c) k"

definition state_of :: "cluster \<Rightarrow> string option" where
  "state_of c = annotation c NavarkosClusterStateKey"

section \<open>Annotation patches\<close>

record ClusterAnnotation =
  ca_Annotations :: "string gomap option"
  ca_DeleteAnnotations :: "string list"

definition emptyClusterAnnotation :: ClusterAnnotation where
  "emptyClusterAnnotation = \<lparr>ca_Annotations = None, ca_DeleteAnnotations = []\<rparr>"

definition SetAnnotation :: "string \<Rightarrow> string \<Rightarrow> ClusterAnnotation \<Rightarrow> ClusterAnnotation" where
  "SetAnnotation key val ca =
     (let m = (case ca_Annotations ca of None \<Rightarrow> [] | Some m \<Rightarrow> m)
      in ca\<lparr>ca_Annotations := Some (AList.update key val m)\<rparr>)"

definition DeleteAnnotation :: "string \<Rightarrow> ClusterAnnotation \<Rightarrow> ClusterAnnotation" where
  "DeleteAnnotation key ca = ca\<lparr>ca_DeleteAnnotations := ca_DeleteAnnotations ca @ [key]\<rparr>"

text \<open>
  Writing an entry of a nil map panics, deleting from it does nothing.
\<close>

definition ApplyAnnotation :: "ClusterAnnotation \<Rightarrow> string gomap option \<Rightarrow> ('s, string gomap option) go" where
  "ApplyAnnotation ca annotations =
     bnd (case ca_Annotations ca of
            None \<Rightarrow> ret annotations
          | Some kvs \<Rightarrow>
              if kvs = [] then ret annotations
              else (case annotations of
                  None \<Rightarrow> crash NilMapWrite
                | Some m \<Rightarrow> ret (Some (update_all kvs m))))
       (\<lambda>annotations. ret (map_option (delete_all (ca_DeleteAnnotations ca)) annotations))"

text \<open>A patch keeps the keys of its map apart, as a Go map does.\<close>

definition wf_patch :: "ClusterAnnotation \<Rightarrow> bool" where
  "wf_patch ca \<longleftrightarrow> (case ca_Annotations ca of None \<Rightarrow> True | Some m \<Rightarrow> distinct (map fst m))"

text \<open>What a patch does to a lookup.\<close>

definition patch_effect :: "ClusterAnnotation \<Rightarrow> (string \<rightharpoonup> string) \<Rightarrow> (string \<rightharpoonup> string)" where
  "patch_effect ca f = (\<lambda>k.
     if k \<in> set (ca_DeleteAnnotations ca) then None
     else (case map_get (ca_Annotations ca) k of None \<Rightarrow> f k | Some v \<Rightarrow> Some v))"

section \<open>Facts\<close>

lemma keys_distinct [keys_simps]:
  "NavarkosClusterStateKey \<noteq> ClusterManagerClusterOKEIdKey"
  "NavarkosClusterStateKey \<noteq> ClusterManagerClusterOKEWorkItemKey"
  "NavarkosClusterStateKey \<noteq> NavarkosClusterNodeCountKey"
  "NavarkosClusterStateKey \<noteq> ClusterManagerClusterClassKey"
  "ClusterManagerClusterOKEIdKey \<noteq> NavarkosClusterStateKey"
  "ClusterManagerClusterOKEWorkItemKey \<noteq> NavarkosClusterStateKey"
  "NavarkosClusterNodeCountKey \<noteq> NavarkosClusterStateKey"
  "ClusterManagerClusterClassKey \<noteq> NavarkosClusterStateKey"
  "ClusterManagerClusterOKEIdKey \<noteq> ClusterManagerClusterOKEWorkItemKey"
  "ClusterManagerClusterOKEIdKey \<noteq> NavarkosClusterNodeCountKey"
  "ClusterManagerClusterOKEWorkItemKey \<noteq> NavarkosClusterNodeCountKey"
  "ClusterManagerClusterOKEWorkItemKey \<noteq> ClusterManagerClusterOKEIdKey"
  "NavarkosClusterNodeCountKey \<noteq> ClusterManagerClusterOKEIdKey"
  "NavarkosClusterNodeCountKey \<noteq> ClusterManagerClusterOKEWorkItemKey"
  by (simp_all add: key_defs)

lemma wf_patch_empty [simp]: "wf_patch emptyClusterAnnotation"
  by (simp add: wf_patch_def emptyClusterAnnotation_def)

lemma wf_patch_SetAnnotation [simp]: "wf_patch ca \<Longrightarrow> wf_patch (SetAnnotation k v ca)"
  by (auto simp: wf_patch_def SetAnnotation_def Let_def AList.distinct_update split: option.splits)

lemma wf_patch_DeleteAnnotation [simp]: "wf_patch ca \<Longrightarrow> wf_patch (DeleteAnnotation k ca)"
  by (simp add: wf_patch_def DeleteAnnotation_def)

lemma map_get_SetAnnotation [simp]:
  "map_get (ca_Annotations (SetAnnotation k v ca)) = (map_get (ca_Annotations ca))(k \<mapsto> v)"
  by (rule ext) (auto simp: SetAnnotation_def Let_def AList.update_conv' split: option.splits)

lemma ca_selectors [simp]:
  "ca_DeleteAnnotations (SetAnnotation k v ca) = ca_DeleteAnnotations ca"
  "ca_DeleteAnnotations (DeleteAnnotation k ca) = ca_DeleteAnnotations ca @ [k]"
  "ca_Annotations (DeleteAnnotation k ca) = ca_Annotations ca"
  "ca_DeleteAnnotations emptyClusterAnnotation = []"
  "ca_Annotations emptyClusterAnnotation = None"
  by (simp_all add: SetAnnotation_def DeleteAnnotation_def Let_def emptyClusterAnnotation_def)

text \<open>
  Applying a patch to a map that is not nil returns a map that reads as \<open>patch_effect\<close>
  says; on a nil map it panics exactly when there is something to set.
\<close>

lemma ApplyAnnotation_Some:
  assumes "wf_patch ca"
  obtains m' where "ApplyAnnotation ca (Some m) s = (Ret (Some m'), s)"
    and "map_of m' = patch_effect ca (map_of m)"
proof -
  let ?m1 = "case ca_Annotations ca of None \<Rightarrow> m | Some kvs \<Rightarrow> update_all kvs m"
  let ?m' = "delete_all (ca_DeleteAnnotations ca) ?m1"
  have "ApplyAnnotation ca (Some m) s = (Ret (Some ?m'), s)"
    by (auto simp: ApplyAnnotation_def go_simps update_all_def split: option.split)
  moreover have "map_of ?m' = patch_effect ca (map_of m)"
    using assms
    by (auto simp: fun_eq_iff patch_effect_def map_of_delete_all map_of_update_all_distinct
        map_add_def wf_patch_def split: option.splits)
  ultimately show ?thesis by (rule that)
qed

lemma ApplyAnnotation_None:
  "ApplyAnnotation ca None s =
     (if map_len (ca_Annotations ca) = 0 then (Ret None, s) else (Crash NilMapWrite, s))"
  by (auto simp: ApplyAnnotation_def go_simps split: option.split)

section \<open>The interface of a patch\<close>

text \<open>
  A patch is built by setting and deleting keys and then applied. The provider of the
  interface promises how each of the builders changes the effect; the user gets that the
  effect is idempotent (a retried update writes the same annotations again), that keys the
  patch does not mention are left alone, and that a deleted key is gone whatever was set.
\<close>

locale annotation_patch =
  fixes start :: 'p
    and setk :: "string \<Rightarrow> string \<Rightarrow> 'p \<Rightarrow> 'p"
    and delk :: "string \<Rightarrow> 'p \<Rightarrow> 'p"
    and deleted :: "'p \<Rightarrow> string set"
    and eff :: "'p \<Rightarrow> (string \<rightharpoonup> string) \<Rightarrow> (string \<rightharpoonup> string)"
  assumes eff_start: "eff start f = f"
    and deleted_start: "deleted start = {}"
    and eff_setk: "eff (setk k v p) f = (\<lambda>k'. if k' = k \<and> k \<notin> deleted p then Some v else eff p f k')"
    and deleted_setk: "deleted (setk k v p) = deleted p"
    and eff_delk: "eff (delk k p) f = (eff p f)(k := None)"
    and deleted_delk: "deleted (delk k p) = insert k (deleted p)"
begin

text \<open>Building a patch by a list of settings and then a list of deletions.\<close>

definition build :: "(string \<times> string) list \<Rightarrow> string list \<Rightarrow> 'p" where
  "build kvs ks = fold delk ks (fold (\<lambda>(k, v). setk k v) kvs start)"

lemma eff_fold_delk:
  "eff (fold delk ks p) f = (\<lambda>k. if k \<in> set ks then None else eff p f k)"
  by (induction ks arbitrary: p) (auto simp: eff_delk)

lemma eff_fold_setk:
  "deleted p = {} \<Longrightarrow>
   eff (fold (\<lambda>(k, v). setk k v) kvs p) f =
     (\<lambda>k. case map_of (rev kvs) k of Some v \<Rightarrow> Some v | None \<Rightarrow> eff p f k)"
proof (induction kvs arbitrary: p)
  case (Cons kv kvs)
  then show ?case
    by (cases kv) (auto simp: eff_setk deleted_setk map_add_def fun_eq_iff split: option.splits)
qed simp

lemma eff_build:
  "eff (build kvs ks) f =
     (\<lambda>k. if k \<in> set ks then None
          else case map_of (rev kvs) k of Some v \<Rightarrow> Some v | None \<Rightarrow> f k)"
  unfolding build_def eff_fold_delk eff_fold_setk [OF deleted_start] eff_start ..

lemma build_idempotent: "eff (build kvs ks) (eff (build kvs ks) f) = eff (build kvs ks) f"
  by (auto simp: eff_build fun_eq_iff split: option.split)

lemma build_untouched:
  "k \<notin> fst ` set kvs \<Longrightarrow> k \<notin> set ks \<Longrightarrow> eff (build kvs ks) f k = f k"
  by (force simp: eff_build split: option.split dest: map_of_SomeD)

end

interpretation ca: annotation_patch emptyClusterAnnotation SetAnnotation DeleteAnnotation
  "\<lambda>p. set (ca_DeleteAnnotations p)" patch_effect
  by unfold_locales
    (auto simp: patch_effect_def emptyClusterAnnotation_def fun_eq_iff split: option.split)

lemma patch_effect_idem: "patch_effect ca (patch_effect ca f) = patch_effect ca f"
  by (auto simp: patch_effect_def fun_eq_iff split: option.split)

end
