(* ===== verification/Secrets.thy ===== *)
theory Secrets
  imports Strconv
begin

text \<open>
  Kubeconfigs and the secrets that hold them.

  \<^item> The types of the \<open>clientcmdapi\<close> package the controller and the providers pass around.
    The \<open>Extensions\<close> maps, which no code of the repository reads, are left out.
  \<^item> \<open>util/secret.go\<close> and \<open>util/secret_toolset.go\<close>: building the secret of a kubeconfig,
    creating and deleting it. The encoder of a kubeconfig (the kubernetes codec) and the
    secrets client are parameters.
\<close>

section \<open>Kubeconfigs\<close>

record kubeCluster =
  kc_LocationOfOrigin :: string
  kc_Server :: string
  kc_InsecureSkipTLSVerify :: bool
  kc_CertificateAuthority :: string
  kc_CertificateAuthorityData :: string

record authProviderConfig =
  ap_Name :: string
  ap_Config :: "string gomap option"

record authInfo =
  ai_LocationOfOrigin :: string
  ai_ClientCertificate :: string
  ai_ClientCertificateData :: string
  ai_ClientKey :: string
  ai_ClientKeyData :: string
  ai_Token :: string
  ai_TokenFile :: string
  ai_Impersonate :: string
  ai_ImpersonateGroups :: "string list option"
  ai_ImpersonateUserExtra :: "string list option gomap option"
  ai_Username :: string
  ai_Password :: string
  ai_AuthProvider :: "authProviderConfig option"

record kubeContext =
  cx_LocationOfOrigin :: string
  cx_Cluster :: string
  cx_AuthInfo :: string
  cx_Namespace :: string

record kubeConfig =
  cfg_Kind :: string
  cfg_APIVersion :: string
  cfg_Colors :: bool
  cfg_Clusters :: "kubeCluster option gomap option"
  cfg_AuthInfos :: "authInfo option gomap option"
  cfg_Contexts :: "kubeContext option gomap option"
  cfg_CurrentContext :: string

section \<open>Secrets\<close>

definition FederationNameAnnotation :: string where
  "FederationNameAnnotation = ''federation.alpha.kubernetes.io/federation-name''"
definition ClusterNameAnnotation :: string where
  "ClusterNameAnnotation = ''federation.alpha.kubernetes.io/cluster-name''"
definition KubeconfigSecretDataKey :: string where
  "KubeconfigSecretDataKey = ''kubeconfig''"

record secret =
  sec_Name :: string
  sec_Namespace :: string
  sec_Annotations :: "string gomap"
  sec_Data :: "string gomap"

record 'w secretToolSet =
  CreateSecret :: "string \<Rightarrow> secret \<Rightarrow> ('w, secret option \<times> error option) go"
  DeleteSecret :: "string \<Rightarrow> string \<Rightarrow> ('w, error option) go"

text \<open>The secrets client of the in-cluster clientset: create, and delete with its options.\<close>

record 'w secretsClient =
  client_create :: "string \<Rightarrow> secret \<Rightarrow> ('w, secret option \<times> error option) go"
  client_delete :: "string \<Rightarrow> string \<Rightarrow> bool option \<Rightarrow> ('w, error option) go"

definition SecretToolSet_CreateSecret ::
  "'w secretsClient \<Rightarrow> string \<Rightarrow> secret \<Rightarrow> ('w, secret option \<times> error option) go" where
  "SecretToolSet_CreateSecret client namespace secret = client_create client namespace secret"

definition SecretToolSet_DeleteSecret ::
  "'w secretsClient \<Rightarrow> string \<Rightarrow> string \<Rightarrow> ('w, error option) go" where
  "SecretToolSet_DeleteSecret client namespace name =
     (let orphanDependents = False in client_delete client namespace name (Some orphanDependents))"

definition NewSecretToolSet ::
  "(error + 'cfg) \<Rightarrow> ('cfg \<Rightarrow> error + 'w secretsClient) \<Rightarrow> 'w secretToolSet option" where
  "NewSecretToolSet inClusterConfig newForConfig =
     (case inClusterConfig of
        Inl err \<Rightarrow> None
      | Inr incc \<Rightarrow>
          (case newForConfig incc of
             Inl err \<Rightarrow> None
           | Inr clientset \<Rightarrow> Some
               \<lparr>CreateSecret = SecretToolSet_CreateSecret clientset,
                DeleteSecret = SecretToolSet_DeleteSecret clientset\<rparr>))"

text \<open>\<open>Write\<close> is the codec's encoder, a parameter.\<close>

definition kubeconfig_secret :: "string \<Rightarrow> string \<Rightarrow> string \<Rightarrow> string \<Rightarrow> string \<Rightarrow> secret" where
  "kubeconfig_secret configBytes namespace name federationName clusterName =
     (let annotations = [(FederationNameAnnotation, federationName)];
          annotations = (if clusterName \<noteq> '''' then AList.update ClusterNameAnnotation clusterName annotations
                         else annotations)
      in \<lparr>sec_Name = name, sec_Namespace = namespace, sec_Annotations = annotations,
          sec_Data = [(KubeconfigSecretDataKey, configBytes)]\<rparr>)"

definition CreateKubeconfigSecret ::
  "(kubeConfig \<Rightarrow> string \<times> error option) \<Rightarrow> 'w secretToolSet \<Rightarrow> kubeConfig \<Rightarrow> string \<Rightarrow> string \<Rightarrow>
   string \<Rightarrow> string \<Rightarrow> bool \<Rightarrow> ('w, secret option \<times> error option) go" where
  "CreateKubeconfigSecret Write secretToolSet kubeconfig namespace name federationName clusterName dryRun =
     (let (configBytes, err) = Write kubeconfig in
      if err \<noteq> None then ret (None, err)
      else let secret = kubeconfig_secret configBytes namespace name federationName clusterName in
        if \<not> dryRun then CreateSecret secretToolSet namespace secret
        else ret (Some secret, None))"

definition DeleteKubeconfigSecret :: "'w secretToolSet \<Rightarrow> string \<Rightarrow> string \<Rightarrow> ('w, error option) go" where
  "DeleteKubeconfigSecret secretToolSet namespace name = DeleteSecret secretToolSet namespace name"

lemma kubeconfig_secret_reads:
  "map_of (sec_Annotations (kubeconfig_secret b ns n f c)) FederationNameAnnotation = Some f"
  "map_of (sec_Annotations (kubeconfig_secret b ns n f c)) ClusterNameAnnotation =
     (if c = '''' then None else Some c)"
  "map_of (sec_Data (kubeconfig_secret b ns n f c)) KubeconfigSecretDataKey = Some b"
  by (auto simp: kubeconfig_secret_def Let_def AList.update_conv'
      FederationNameAnnotation_def ClusterNameAnnotation_def)

end
