(* ===== verification/Provider.thy ===== *)
theory Provider
  imports Annotations Secrets
begin

text \<open>
  The interface between the controller and a cloud provider (\<open>provider/kubeprovider.go\<close>).

  \<open>provider\<close> is the Go interface as a record of its methods. \<open>provider_contract\<close> is what
  the controller relies on: a failed create or scale returns no patch, no provider writes
  the lifecycle state except to report that there is nothing to scale down, and a
  validation only ever deletes the work item. The two provider theories interpret it.
\<close>

record 'w provider =
  CreateKubeCluster :: "cluster \<Rightarrow> ('w, ClusterAnnotation option \<times> error option) go"
  DeleteKubeCluster :: "cluster \<Rightarrow> ('w, error option) go"
  ValidateKubeCluster :: "cluster \<Rightarrow> ('w, ClusterAnnotation option \<times> error option) go"
  ScaleKubeCluster :: "cluster \<Rightarrow> int64 \<Rightarrow> ('w, ClusterAnnotation option \<times> error option) go"
  ExportKubeConfig :: "cluster \<Rightarrow> ('w, kubeConfig option \<times> error option) go"
  GetProviderName :: string

text \<open>
  A constructor that fails returns a nil pointer, which the controller stores all the same:
  the interface value is then not nil, and every method call dereferences the nil pointer.
\<close>

definition nil_provider :: "'w provider" where
  "nil_provider = \<lparr>
     CreateKubeCluster = (\<lambda>c. crash NilDereference),
     DeleteKubeCluster = (\<lambda>c. crash NilDereference),
     ValidateKubeCluster = (\<lambda>c. crash NilDereference),
     ScaleKubeCluster = (\<lambda>c n. crash NilDereference),
     ExportKubeConfig = (\<lambda>c. crash NilDereference),
     GetProviderName = ''''\<rparr>"

definition provider_value :: "('p \<Rightarrow> 'w provider) \<Rightarrow> 'p option \<Rightarrow> 'w provider" where
  "provider_value methods p = (case p of None \<Rightarrow> nil_provider | Some k \<Rightarrow> methods k)"

section \<open>Scaled sizes\<close>

text \<open>
  Both providers compute the new size the same way: the signed 32-bit size plus the scale
  size truncated to 32 bits, and at least 1.
\<close>

definition scaled_size :: "int32 \<Rightarrow> int64 \<Rightarrow> int32" where
  "scaled_size n scaleSize =
     (let n' = n + to_int32 scaleSize in if sint n' < 1 then 1 else n')"

lemma scaled_size_ge_1: "1 \<le> sint (scaled_size n scaleSize)"
  by (simp add: scaled_size_def Let_def not_less)

lemma sint_to_int32: "- (2 ^ 31) \<le> sint k \<Longrightarrow> sint k < 2 ^ 31 \<Longrightarrow> sint (to_int32 k) = sint k"
  unfolding to_int32_def
  by (simp add: signed_ucast_eq uint_sint signed_take_bit_take_bit signed_take_bit_int_eq_self_iff)

text \<open>Without overflow the size is the sum, raised to 1.\<close>

lemma scaled_size_exact:
  assumes "- (2 ^ 31) \<le> sint scaleSize" "sint scaleSize < 2 ^ 31"
    and "- (2 ^ 31) \<le> sint n + sint scaleSize" "sint n + sint scaleSize < 2 ^ 31"
  shows "sint (scaled_size n scaleSize) = max 1 (sint n + sint scaleSize)"
proof -
  have "sint (n + to_int32 scaleSize) = sint n + sint scaleSize"
    using assms by (simp add: sint_to_int32 sint_word_add signed_take_bit_int_eq_self_iff)
  then show ?thesis by (simp add: scaled_size_def Let_def)
qed

section \<open>The contract\<close>

definition patch_keys :: "ClusterAnnotation \<Rightarrow> string set" where
  "patch_keys a = dom (map_get (ca_Annotations a))"

lemma patch_keys_simps [simp]:
  "patch_keys emptyClusterAnnotation = {}"
  "patch_keys (SetAnnotation k v p) = insert k (patch_keys p)"
  "patch_keys (DeleteAnnotation k p) = patch_keys p"
  by (auto simp: patch_keys_def emptyClusterAnnotation_def)

definition ready_patch :: ClusterAnnotation where
  "ready_patch = SetAnnotation NavarkosClusterStateKey NavarkosClusterStateReady emptyClusterAnnotation"

locale provider_contract =
  fixes P :: "'w provider"
  assumes create_law: "CreateKubeCluster P c w = (Ret (ann, err), w') \<Longrightarrow>
      (err \<noteq> None \<longrightarrow> ann = None) \<and>
      (\<forall>a. ann = Some a \<longrightarrow> wf_patch a \<and> ca_DeleteAnnotations a = [] \<and>
         patch_keys a \<subseteq> {ClusterManagerClusterOKEIdKey, ClusterManagerClusterOKEWorkItemKey,
           NavarkosClusterNodeCountKey})"
    and scale_law: "ScaleKubeCluster P c n w = (Ret (ann, err), w') \<Longrightarrow>
      (err \<noteq> None \<longrightarrow> ann = None) \<and>
      (\<forall>a. ann = Some a \<longrightarrow> wf_patch a \<and> ca_DeleteAnnotations a = [] \<and>
         (a = ready_patch \<and> sint n < 0 \<or>
          patch_keys a \<subseteq> {ClusterManagerClusterOKEWorkItemKey, NavarkosClusterNodeCountKey}))"
    and validate_law: "ValidateKubeCluster P c w = (Ret (ann, err), w') \<Longrightarrow>
      (\<forall>a. ann = Some a \<longrightarrow> ca_Annotations a = None \<and>
         set (ca_DeleteAnnotations a) \<subseteq> {ClusterManagerClusterOKEWorkItemKey})"
begin

lemma create_error: "CreateKubeCluster P c w = (Ret (ann, Some e), w') \<Longrightarrow> ann = None"
  by (drule create_law) simp

lemma create_patch:
  assumes "CreateKubeCluster P c w = (Ret (Some a, err), w')"
  shows "err = None" "wf_patch a" "patch_effect a f NavarkosClusterStateKey = f NavarkosClusterStateKey"
proof -
  note law = create_law [OF assms]
  from law show "err = None" "wf_patch a" by auto
  from law have "NavarkosClusterStateKey \<notin> patch_keys a" "ca_DeleteAnnotations a = []"
    by (auto simp: keys_simps)
  then show "patch_effect a f NavarkosClusterStateKey = f NavarkosClusterStateKey"
    by (simp add: patch_keys_def patch_effect_def domIff)
qed

lemma scale_error: "ScaleKubeCluster P c n w = (Ret (ann, Some e), w') \<Longrightarrow> ann = None"
  by (drule scale_law) simp

lemma ready_patch_effect:
  "patch_effect ready_patch f = f(NavarkosClusterStateKey \<mapsto> NavarkosClusterStateReady)"
  by (auto simp: ready_patch_def patch_effect_def fun_eq_iff split: option.split)

lemma scale_patch:
  assumes "ScaleKubeCluster P c n w = (Ret (Some a, err), w')"
  shows "err = None" "wf_patch a"
    "patch_effect a f NavarkosClusterStateKey = f NavarkosClusterStateKey \<or>
     sint n < 0 \<and> patch_effect a f NavarkosClusterStateKey = Some NavarkosClusterStateReady"
proof -
  note law = scale_law [OF assms]
  from law show "err = None" "wf_patch a" by auto
  show "patch_effect a f NavarkosClusterStateKey = f NavarkosClusterStateKey \<or>
     sint n < 0 \<and> patch_effect a f NavarkosClusterStateKey = Some NavarkosClusterStateReady"
  proof (cases "a = ready_patch \<and> sint n < 0")
    case True
    then show ?thesis by (simp add: ready_patch_effect)
  next
    case False
    with law have "NavarkosClusterStateKey \<notin> patch_keys a" "ca_DeleteAnnotations a = []"
      by (auto simp: keys_simps)
    then show ?thesis by (simp add: patch_keys_def patch_effect_def domIff)
  qed
qed

lemma validate_patch:
  assumes "ValidateKubeCluster P c w = (Ret (Some a, err), w')"
  shows "wf_patch a" "k \<noteq> ClusterManagerClusterOKEWorkItemKey \<Longrightarrow> patch_effect a f k = f k"
  using validate_law [OF assms] by (auto simp: wf_patch_def patch_effect_def)

end

text \<open>A nil provider never returns, so it keeps every promise about what is returned.\<close>

interpretation nil_prov: provider_contract nil_provider
  by unfold_locales (auto simp: nil_provider_def crash_def)

end
