(* ===== verification/Retrier.thy ===== *)
theory Retrier
  imports Prelude
begin

text \<open>
  The retrier of failed cluster updates and its backoff (\<open>clustercontroller.go\<close>, types
  \<open>clusterUpdateRetrier\<close> and \<open>backoffItem\<close>).

  \<^item> Time: a \<open>time.Time\<close> is the number of nanoseconds since the zero time, a
    \<open>time.Duration\<close> a signed 64-bit number of nanoseconds (as an \<open>int\<close> with the wrap-around
    written out); \<open>Sub\<close> saturates.
  \<^item> \<open>clusterUpdateRetrier\<close>: the waiting items and the two buffered channels, with one
    definition per method.
  \<^item> The goroutines that share it, as a step relation \<open>retrier_step\<close>: the main loop \<open>run\<close>
    between its blocking points (\<open>run_step\<close>), the senders (\<open>deliverAfter\<close>), the handler loop of
    \<open>startWithHandler\<close>, \<open>stop\<close> and the passing of time. The invariant of the reachable
    states: nothing is lost or duplicated or reordered, and nothing is delivered early.
  \<^item> \<open>backoffItem\<close>: the delays are 5 s, 10 s, 15 s, \<open>\<dots>\<close> and the expiry after two hours
    bounds the number of retries.
\<close>

section \<open>Time\<close>

type_synonym time = int
type_synonym duration = int

definition time_zero :: time where "time_zero = 0"

definition IsZero :: "time \<Rightarrow> bool" where "IsZero t \<longleftrightarrow> t = time_zero"

definition time_Add :: "time \<Rightarrow> duration \<Rightarrow> time" where "time_Add t d = t + d"

definition time_Before :: "time \<Rightarrow> time \<Rightarrow> bool" where "time_Before t u \<longleftrightarrow> t < u"

definition minDuration :: duration where "minDuration = - (2 ^ 63)"
definition maxDuration :: duration where "maxDuration = 2 ^ 63 - 1"

definition time_Sub :: "time \<Rightarrow> time \<Rightarrow> duration" where
  "time_Sub t u = max minDuration (min maxDuration (t - u))"

definition Second :: duration where "Second = 1000000000"
definition Minute :: duration where "Minute = 60 * Second"
definition Hour :: duration where "Hour = 60 * Minute"

lemmas time_defs = time_zero_def IsZero_def time_Add_def time_Before_def time_Sub_def
  minDuration_def maxDuration_def Second_def Minute_def Hour_def

definition KubeConfReadRetryDelay :: duration where "KubeConfReadRetryDelay = 15 * Second"
definition MaxRetryCount :: nat where "MaxRetryCount = 3"
definition BackoffIncrementalDuration :: duration where "BackoffIncrementalDuration = 5 * Second"
definition BackoffMaxDuration :: duration where "BackoffMaxDuration = 30 * Minute"
definition BackoffExpiryDuration :: duration where "BackoffExpiryDuration = 2 * Hour"

lemmas backoff_const_defs = BackoffIncrementalDuration_def BackoffMaxDuration_def
  BackoffExpiryDuration_def Second_def Minute_def Hour_def

section \<open>The retrier\<close>

record 'v clusterUpdaterRetryItem =
  item_value :: 'v
  deliveryTime :: time

record 'v clusterUpdateRetrier =
  targetChannel :: "'v clusterUpdaterRetryItem list"
  data :: "'v clusterUpdaterRetryItem list"
  updateChannel :: "'v clusterUpdaterRetryItem list"
  stopChannel :: bool

definition targetCapacity :: nat where "targetCapacity = 100"
definition updateCapacity :: nat where "updateCapacity = 1000"

definition newClusterUpdateRetrier :: "'v clusterUpdateRetrier" where
  "newClusterUpdateRetrier =
     \<lparr>targetChannel = [], data = [], updateChannel = [], stopChannel = False\<rparr>"

definition push :: "'v clusterUpdaterRetryItem \<Rightarrow> ('v clusterUpdateRetrier, unit) go" where
  "push item = modify (\<lambda>r. r\<lparr>data := data r @ [item]\<rparr>)"

definition pop :: "('v clusterUpdateRetrier, 'v clusterUpdaterRetryItem) go" where
  "pop = (\<lambda>r. case data r of
      [] \<Rightarrow> (Crash IndexOutOfRange, r)
    | item # rest \<Rightarrow> (Ret item, r\<lparr>data := rest\<rparr>))"

text \<open>Sending on a buffered channel blocks while the buffer is full.\<close>

definition send_target :: "'v clusterUpdaterRetryItem \<Rightarrow> ('v clusterUpdateRetrier, unit) go" where
  "send_target item = (\<lambda>r.
     if length (targetChannel r) < targetCapacity
     then (Ret (), r\<lparr>targetChannel := targetChannel r @ [item]\<rparr>) else (Blocked, r))"

definition send_update :: "'v clusterUpdaterRetryItem \<Rightarrow> ('v clusterUpdateRetrier, unit) go" where
  "send_update item = (\<lambda>r.
     if length (updateChannel r) < updateCapacity
     then (Ret (), r\<lparr>updateChannel := updateChannel r @ [item]\<rparr>) else (Blocked, r))"

function deliver :: "time \<Rightarrow> ('v clusterUpdateRetrier, unit) go" where
  "deliver timestamp r =
     (case data r of
        [] \<Rightarrow> (Ret (), r)
      | first # _ \<Rightarrow>
          if time_Before timestamp (deliveryTime first) then (Ret (), r)
          else (case bnd pop send_target r of
              (Ret _, r') \<Rightarrow> deliver timestamp r'
            | (Crash p, r') \<Rightarrow> (Crash p, r')
            | (Blocked, r') \<Rightarrow> (Blocked, r')))"
  by pat_completeness auto

lemma pop_send_run:
  "data r = item # rest \<Longrightarrow> bnd pop send_target r =
     (if length (targetChannel r) < targetCapacity
      then (Ret (), r\<lparr>data := rest, targetChannel := targetChannel r @ [item]\<rparr>)
      else (Blocked, r\<lparr>data := rest\<rparr>))"
  by (simp add: bnd_def pop_def send_target_def)

termination deliver
  by (relation "measure (\<lambda>(t, r). length (data r))")
    (auto simp: pop_send_run split: if_splits)

declare deliver.simps [simp del]

text \<open>\<open>deliverAfter\<close> reads the clock, given here as \<open>now\<close>.\<close>

definition deliverAfter :: "time \<Rightarrow> 'v \<Rightarrow> duration \<Rightarrow> ('v clusterUpdateRetrier, unit) go" where
  "deliverAfter now val delay =
     send_update \<lparr>item_value = val, deliveryTime = time_Add now delay\<rparr>"

definition stop :: "('v clusterUpdateRetrier, unit) go" where
  "stop = modify (\<lambda>r. r\<lparr>stopChannel := True\<rparr>)"

text \<open>The time \<open>run\<close> sleeps after a round of deliveries.\<close>

definition sleepTime :: "time \<Rightarrow> 'v clusterUpdateRetrier \<Rightarrow> duration" where
  "sleepTime now r =
     (let nextWakeUp = time_Add now Hour;
          nextWakeUp = (case data r of [] \<Rightarrow> nextWakeUp | first # _ \<Rightarrow> deliveryTime first)
      in time_Sub nextWakeUp now)"

subsection \<open>What a round of deliveries does\<close>

text \<open>The items in front of the first one that is not yet due.\<close>

definition due :: "time \<Rightarrow> 'v clusterUpdaterRetryItem \<Rightarrow> bool" where
  "due timestamp item \<longleftrightarrow> deliveryTime item \<le> timestamp"

definition due_prefix :: "time \<Rightarrow> 'v clusterUpdaterRetryItem list \<Rightarrow> 'v clusterUpdaterRetryItem list" where
  "due_prefix timestamp = takeWhile (due timestamp)"

lemma deliver_complete:
  assumes "length (targetChannel r) + length (due_prefix ts (data r)) \<le> targetCapacity"
  shows "deliver ts r = (Ret (), r\<lparr>data := dropWhile (due ts) (data r),
     targetChannel := targetChannel r @ due_prefix ts (data r)\<rparr>)"
  using assms
proof (induction "data r" arbitrary: r)
  case Nil
  then show ?case by (simp add: deliver.simps due_prefix_def)
next
  case (Cons item rest)
  note d = Cons.hyps(2) [symmetric]
  show ?case
  proof (cases "due ts item")
    case True
    define r' where "r' = r\<lparr>data := rest, targetChannel := targetChannel r @ [item]\<rparr>"
    have "deliver ts r = deliver ts r'"
      using d True Cons.prems
      by (subst deliver.simps) (simp add: pop_send_run r'_def due_def time_defs due_prefix_def)
    also have "\<dots> = (Ret (), r'\<lparr>data := dropWhile (due ts) (data r'),
        targetChannel := targetChannel r' @ due_prefix ts (data r')\<rparr>)"
      using Cons.prems d True by (intro Cons.hyps(1)) (simp_all add: r'_def due_prefix_def)
    finally show ?thesis using d True by (simp add: r'_def due_prefix_def)
  next
    case False
    with d show ?thesis
      by (subst deliver.simps) (simp add: due_def time_defs due_prefix_def not_le)
  qed
qed

text \<open>
  When the target channel fills up the delivery blocks, after it has taken out what fits
  and one item more, which it holds in its hand.
\<close>

lemma deliver_blocks:
  assumes "length (targetChannel r) \<le> targetCapacity"
    and "targetCapacity < length (targetChannel r) + length (due_prefix ts (data r))"
  defines "n \<equiv> targetCapacity - length (targetChannel r)"
  shows "deliver ts r = (Blocked, r\<lparr>data := drop (Suc n) (data r),
     targetChannel := targetChannel r @ take n (data r)\<rparr>)"
  using assms(1,2) unfolding n_def
proof (induction "data r" arbitrary: r)
  case Nil
  then show ?case by (simp add: due_prefix_def)
next
  case (Cons item rest)
  note d = Cons.hyps(2) [symmetric]
  from Cons.prems d have "due ts item" by (auto simp: due_prefix_def split: if_splits)
  then have step: "deliver ts r = (case bnd pop send_target r of
      (Ret _, r') \<Rightarrow> deliver ts r' | (Crash p, r') \<Rightarrow> (Crash p, r') | (Blocked, r') \<Rightarrow> (Blocked, r'))"
    using d by (subst deliver.simps) (simp add: due_def time_defs)
  show ?case
  proof (cases "length (targetChannel r) < targetCapacity")
    case True
    define r' where "r' = r\<lparr>data := rest, targetChannel := targetChannel r @ [item]\<rparr>"
    have "deliver ts r = deliver ts r'"
      using step d True by (simp add: pop_send_run r'_def)
    also have "\<dots> = (Blocked, r'\<lparr>data := drop (Suc (targetCapacity - length (targetChannel r'))) (data r'),
        targetChannel := targetChannel r' @ take (targetCapacity - length (targetChannel r')) (data r')\<rparr>)"
      using Cons.prems d True \<open>due ts item\<close> by (intro Cons.hyps(1)) (simp_all add: r'_def due_prefix_def)
    finally show ?thesis using d True by (simp add: r'_def take_Cons' Suc_diff_Suc)
  next
    case False
    with Cons.prems step d show ?thesis by (simp add: pop_send_run)
  qed
qed

text \<open>On a list sorted by time the prefix is everything that is due; in general it is not.\<close>

lemma due_prefix_sorted:
  assumes "sorted (map deliveryTime items)"
  shows "due_prefix ts items = filter (due ts) items"
  using assms unfolding due_prefix_def
proof (induction items)
  case (Cons i items)
  show ?case
  proof (cases "due ts i")
    case False
    with Cons.prems have "filter (due ts) items = []" by (force simp: due_def filter_empty_conv)
    with False show ?thesis by simp
  qed (use Cons in simp)
qed simp

section \<open>The goroutines around the retrier\<close>

text \<open>
  Where the goroutine of \<open>run\<close> is: at the head of its loop, inside \<open>deliver\<close> with the time
  it read, about to send an item it has popped, in the \<open>select\<close> with the time at which the
  timer fires, or returned.
\<close>

datatype 'v runPoint =
    LoopHead
  | Delivering time
  | Sending time "'v clusterUpdaterRetryItem"
  | Selecting time
  | Returned

text \<open>
  The steps of the goroutine between its blocking points, at the time \<open>clock\<close>. In the
  \<open>select\<close> it waits for its timer, an item in the update channel or the closed stop channel.
\<close>

inductive run_step :: "time \<Rightarrow> 'v runPoint \<times> 'v clusterUpdateRetrier \<Rightarrow>
    'v runPoint \<times> 'v clusterUpdateRetrier \<Rightarrow> bool" for clock where
  loop: "run_step clock (LoopHead, r) (Delivering clock, r)"
| pop_due: "data r \<noteq> [] \<Longrightarrow> \<not> time_Before now (deliveryTime (hd (data r))) \<Longrightarrow> pop r = (Ret item, r') \<Longrightarrow>
    run_step clock (Delivering now, r) (Sending now item, r')"
| send: "send_target item r = (Ret (), r') \<Longrightarrow>
    run_step clock (Sending now item, r) (Delivering now, r')"
| sleep: "data r = [] \<or> time_Before now (deliveryTime (hd (data r))) \<Longrightarrow>
    run_step clock (Delivering now, r) (Selecting (clock + sleepTime now r), r)"
| wake: "t \<le> clock \<Longrightarrow> run_step clock (Selecting t, r) (LoopHead, r)"
| receive: "updateChannel r = item # rest \<Longrightarrow> push item (r\<lparr>updateChannel := rest\<rparr>) = (Ret (), r') \<Longrightarrow>
    run_step clock (Selecting t, r) (LoopHead, r')"
| return: "stopChannel r \<Longrightarrow> run_step clock (Selecting t, r) (Returned, r)"

inductive_cases run_stepE: "run_step clock (p, r) (p', r')"

text \<open>
  The state of the system: the retrier, the point of \<open>run\<close>, the clock, and two histories:
  every item ever handed to \<open>deliverAfter\<close>, and every item the handler has received.
\<close>

record 'v retrierSystem =
  retr :: "'v clusterUpdateRetrier"
  point :: "'v runPoint"
  clock :: time
  submitted :: "'v clusterUpdaterRetryItem list"
  handled :: "'v clusterUpdaterRetryItem list"

definition retrier_init :: "time \<Rightarrow> 'v retrierSystem" where
  "retrier_init t = \<lparr>retr = newClusterUpdateRetrier, point = LoopHead, clock = t, submitted = [], handled = []\<rparr>"

inductive retrier_step :: "'v retrierSystem \<Rightarrow> 'v retrierSystem \<Rightarrow> bool" where
  tick: "clock s \<le> t \<Longrightarrow> retrier_step s (s\<lparr>clock := t\<rparr>)"
| submit: "deliverAfter (clock s) v d (retr s) = (Ret (), r) \<Longrightarrow>
    retrier_step s (s\<lparr>retr := r,
      submitted := submitted s @ [\<lparr>item_value = v, deliveryTime = time_Add (clock s) d\<rparr>]\<rparr>)"
| run: "run_step (clock s) (point s, retr s) (p, r) \<Longrightarrow> retrier_step s (s\<lparr>retr := r, point := p\<rparr>)"
| handle: "targetChannel (retr s) = item # rest \<Longrightarrow>
    retrier_step s (s\<lparr>retr := (retr s)\<lparr>targetChannel := rest\<rparr>, handled := handled s @ [item]\<rparr>)"
| close: "stop (retr s) = (Ret (), r) \<Longrightarrow> retrier_step s (s\<lparr>retr := r\<rparr>)"

definition in_hand :: "'v runPoint \<Rightarrow> 'v clusterUpdaterRetryItem list" where
  "in_hand p = (case p of Sending _ item \<Rightarrow> [item] | _ \<Rightarrow> [])"

text \<open>A step of the goroutine moves items on in their order and keeps the channels within bounds.\<close>

definition waiting :: "'v runPoint \<Rightarrow> 'v clusterUpdateRetrier \<Rightarrow> 'v clusterUpdaterRetryItem list" where
  "waiting p r = targetChannel r @ in_hand p @ data r @ updateChannel r"

lemma run_step_waiting:
  assumes "run_step ts (p, r) (p', r')"
  shows "waiting p' r' = waiting p r \<and>
    (length (targetChannel r) \<le> targetCapacity \<longrightarrow> length (targetChannel r') \<le> targetCapacity) \<and>
    length (updateChannel r') \<le> length (updateChannel r)"
  using assms
  by (cases rule: run_stepE)
    (auto simp: waiting_def in_hand_def pop_def send_target_def push_def modify_def split: list.splits if_splits)

text \<open>The times the goroutine holds are in the past.\<close>

definition point_time_ok :: "'v retrierSystem \<Rightarrow> bool" where
  "point_time_ok s \<longleftrightarrow> (case point s of
      Delivering now \<Rightarrow> now \<le> clock s
    | Sending now item \<Rightarrow> now \<le> clock s
    | _ \<Rightarrow> True)"

definition retrier_inv :: "'v retrierSystem \<Rightarrow> bool" where
  "retrier_inv s \<longleftrightarrow>
     submitted s = handled s @ targetChannel (retr s) @ in_hand (point s) @ data (retr s) @ updateChannel (retr s) \<and>
     (\<forall>item \<in> set (handled s @ targetChannel (retr s) @ in_hand (point s)). deliveryTime item \<le> clock s) \<and>
     length (targetChannel (retr s)) \<le> targetCapacity \<and>
     length (updateChannel (retr s)) \<le> updateCapacity \<and>
     point_time_ok s"

lemma retrier_inv_init: "retrier_inv (retrier_init t)"
  by (simp add: retrier_inv_def retrier_init_def newClusterUpdateRetrier_def in_hand_def point_time_ok_def)

text \<open>What a step delivers is due.\<close>

lemma run_step_due:
  assumes "run_step ts (p, r) (p', r')" "item \<in> set (targetChannel r' @ in_hand p')"
    and "case p of Delivering now \<Rightarrow> now \<le> ts | Sending now item \<Rightarrow> now \<le> ts | _ \<Rightarrow> True"
  shows "item \<in> set (targetChannel r @ in_hand p) \<or> deliveryTime item \<le> ts"
  using assms
  by (cases rule: run_stepE)
    (auto simp: in_hand_def pop_def send_target_def push_def modify_def time_Before_def split: list.splits if_splits)

lemma retrier_inv_step: "retrier_step s s' \<Longrightarrow> retrier_inv s \<Longrightarrow> retrier_inv s'"
proof (induction rule: retrier_step.induct)
  case (tick s t)
  then show ?case
    by (force simp: retrier_inv_def point_time_ok_def split: runPoint.splits)
next
  case (submit s v d r)
  then show ?case
    by (auto simp: retrier_inv_def deliverAfter_def send_update_def point_time_ok_def
        split: if_splits runPoint.splits)
next
  case (run s p r)
  have "point_time_ok (s\<lparr>retr := r, point := p\<rparr>)"
    using run by (auto simp: retrier_inv_def point_time_ok_def elim: run_stepE)
  with run run_step_waiting [OF run(1)] run_step_due [OF run(1)] show ?case
    by (fastforce simp: retrier_inv_def waiting_def point_time_ok_def)
qed (auto simp: retrier_inv_def in_hand_def point_time_ok_def stop_def modify_def split: runPoint.splits)

lemma retrier_inv_reachable:
  "retrier_step\<^sup>*\<^sup>* (retrier_init t) s \<Longrightarrow> retrier_inv s"
  by (induction rule: rtranclp_induct) (auto intro: retrier_inv_init retrier_inv_step)

text \<open>The method \<open>deliver\<close>, when it returns, is a run of the steps of the goroutine inside it.\<close>

lemma deliver_steps:
  assumes "deliver now r = (Ret (), r')" "retr s = r" "point s = Delivering now"
  shows "retrier_step\<^sup>*\<^sup>* s (s\<lparr>retr := r', point := Delivering now\<rparr>)"
  using assms
proof (induction now r arbitrary: s r' rule: deliver.induct)
  case (1 now r)
  show ?case
  proof (cases "data r = [] \<or> time_Before now (deliveryTime (hd (data r)))")
    case True
    with 1 have "r' = r" by (subst (asm) deliver.simps) (auto split: list.splits if_splits)
    with 1 have "s\<lparr>retr := r', point := Delivering now\<rparr> = s" by simp
    then show ?thesis by simp
  next
    case False
    then obtain item rest where d: "data r = item # rest" by (cases "data r") auto
    have nb: "\<not> time_Before now (deliveryTime item)" using False d by simp
    have room: "length (targetChannel r) < targetCapacity"
      using 1(2) d nb by (subst (asm) deliver.simps) (auto simp: pop_send_run split: if_splits)
    define r1 where "r1 = r\<lparr>data := rest, targetChannel := targetChannel r @ [item]\<rparr>"
    have ps: "bnd pop send_target r = (Ret (), r1)" using d room by (simp add: pop_send_run r1_def)
    have rec: "deliver now r1 = (Ret (), r')"
      using 1(2) d nb ps by (subst (asm) deliver.simps) auto
    define s1 where "s1 = s\<lparr>retr := r\<lparr>data := rest\<rparr>, point := Sending now item\<rparr>"
    define s2 where "s2 = s1\<lparr>retr := r1, point := Delivering now\<rparr>"
    have "retrier_step s s1"
      unfolding s1_def using d nb 1(3,4) by (intro retrier_step.run) (auto simp: pop_def intro!: run_step.pop_due)
    moreover have "retrier_step s1 s2"
      unfolding s2_def s1_def using room
      by (intro retrier_step.run) (auto simp: send_target_def r1_def intro!: run_step.send)
    moreover have "retrier_step\<^sup>*\<^sup>* s2 (s2\<lparr>retr := r', point := Delivering now\<rparr>)"
      using 1(1) [OF d nb ps [symmetric] refl rec, of s2] by (simp add: s2_def)
    ultimately show ?thesis
      by (simp add: s1_def s2_def converse_rtranclp_into_rtranclp)
  qed
qed

section \<open>Backoff\<close>

record backoffItem =
  bo_duration :: duration
  startTime :: time
  incrementalDuration :: duration
  bo_maxDuration :: duration
  expiryDuration :: duration

definition next_backoff :: "backoffItem \<Rightarrow> duration \<times> backoffItem" where
  "next_backoff b =
     (let newDuration = wrap64 (bo_duration b + incrementalDuration b);
          b' = b\<lparr>bo_duration := (if newDuration \<le> bo_maxDuration b then newDuration else bo_maxDuration b)\<rparr>
      in (bo_duration b', b'))"

definition hasExpired :: "time \<Rightarrow> backoffItem \<Rightarrow> bool" where
  "hasExpired now b \<longleftrightarrow> expiryDuration b > 0 \<and> time_Sub now (startTime b) \<ge> expiryDuration b"

definition new_backoff :: backoffItem where
  "new_backoff = \<lparr>bo_duration = 0, startTime = time_zero,
     incrementalDuration = BackoffIncrementalDuration, bo_maxDuration = BackoffMaxDuration,
     expiryDuration = BackoffExpiryDuration\<rparr>"

text \<open>The constants of an item made by the controller stay as they are.\<close>

definition backoff_ok :: "backoffItem \<Rightarrow> bool" where
  "backoff_ok b \<longleftrightarrow> incrementalDuration b = BackoffIncrementalDuration \<and>
     bo_maxDuration b = BackoffMaxDuration \<and> expiryDuration b = BackoffExpiryDuration \<and>
     0 \<le> bo_duration b \<and> bo_duration b \<le> BackoffMaxDuration"

lemma backoff_ok_new: "backoff_ok new_backoff"
  by (simp add: backoff_ok_def new_backoff_def backoff_const_defs)

lemma next_backoff_exact:
  assumes "backoff_ok b" "next_backoff b = (d, b')"
  shows "d = min (bo_duration b + 5 * Second) (30 * Minute)" "bo_duration b' = d"
    "startTime b' = startTime b" "backoff_ok b'"
proof -
  have "wrap64 (bo_duration b + incrementalDuration b) = bo_duration b + incrementalDuration b"
    using assms(1) by (intro wrap64_id) (simp_all add: backoff_ok_def backoff_const_defs)
  then show "d = min (bo_duration b + 5 * Second) (30 * Minute)" "bo_duration b' = d"
    "startTime b' = startTime b" "backoff_ok b'"
    using assms by (auto simp: next_backoff_def Let_def backoff_ok_def backoff_const_defs min_def split: if_splits)
qed

text \<open>The delays of successive retries.\<close>

fun backoff_delays :: "nat \<Rightarrow> backoffItem \<Rightarrow> duration list" where
  "backoff_delays 0 b = []"
| "backoff_delays (Suc n) b = (let (d, b') = next_backoff b in d # backoff_delays n b')"

lemma backoff_delays_length [simp]: "length (backoff_delays n b) = n"
  by (induction n arbitrary: b) (auto simp: Let_def split: prod.split)

lemma backoff_delays_nth:
  assumes "backoff_ok b" "i < n"
  shows "backoff_delays n b ! i = min (bo_duration b + 5 * Second * (int i + 1)) (30 * Minute)"
  using assms
proof (induction n arbitrary: b i)
  case (Suc n)
  obtain d b' where nb: "next_backoff b = (d, b')" by (cases "next_backoff b")
  note ex = next_backoff_exact [OF Suc.prems(1) nb]
  show ?case
  proof (cases i)
    case 0
    with nb ex show ?thesis by simp
  next
    case (Suc j)
    with Suc.prems have "backoff_delays n b' ! j = min (bo_duration b' + 5 * Second * (int j + 1)) (30 * Minute)"
      by (intro Suc.IH ex) simp
    with nb ex Suc show ?thesis by (simp add: Second_def algebra_simps)
  qed
qed simp

text \<open>
  A retry history: the times at which an updater was put back, each at least the delay of
  the one before later, and none of them past the expiry.
\<close>

fun retry_times :: "time list \<Rightarrow> backoffItem \<Rightarrow> bool" where
  "retry_times [] b \<longleftrightarrow> True"
| "retry_times (t # ts) b \<longleftrightarrow> \<not> hasExpired t b \<and>
     (let (d, b') = next_backoff b in (case ts of [] \<Rightarrow> True | u # _ \<Rightarrow> t + d \<le> u) \<and> retry_times ts b')"

lemma retry_times_last:
  assumes "retry_times (t # ts) b" "backoff_ok b"
  shows "last (t # ts) \<ge> t + sum_list (backoff_delays (length ts) b)"
  using assms
proof (induction ts arbitrary: t b)
  case (Cons u ts)
  obtain d b' where nb: "next_backoff b = (d, b')" by (cases "next_backoff b")
  with Cons.prems have "t + d \<le> u" "retry_times (u # ts) b'" by simp_all
  with Cons.IH [of u b'] next_backoff_exact(4) [OF Cons.prems(2) nb] nb show ?case by simp
qed simp

lemma retry_times_not_expired:
  assumes "retry_times (t # ts) b" "backoff_ok b"
  shows "last (t # ts) - startTime b < 2 * Hour"
  using assms
proof (induction ts arbitrary: t b)
  case Nil
  then show ?case
    by (auto simp: hasExpired_def backoff_ok_def time_defs backoff_const_defs split: prod.splits)
next
  case (Cons u ts)
  obtain d b' where nb: "next_backoff b = (d, b')" by (cases "next_backoff b")
  with Cons.prems have "retry_times (u # ts) b'" by simp
  with Cons.IH [of u b'] next_backoff_exact [OF Cons.prems(2) nb] show ?case by simp
qed

lemma backoff_delays_take:
  "k \<le> n \<Longrightarrow> take k (backoff_delays n b) = backoff_delays k b"
proof (induction n arbitrary: k b)
  case (Suc n)
  then show ?case by (cases k) (auto simp: Let_def split: prod.split)
qed simp

lemma backoff_delays_nonneg:
  "backoff_ok b \<Longrightarrow> \<forall>d \<in> set (backoff_delays n b). 0 \<le> d"
proof (induction n arbitrary: b)
  case (Suc n)
  obtain d b' where nb: "next_backoff b = (d, b')" by (cases "next_backoff b")
  note ex = next_backoff_exact [OF Suc.prems nb]
  with Suc.prems have "0 \<le> d" by (simp add: backoff_ok_def Second_def Minute_def)
  with Suc.IH [OF ex(4)] nb show ?case by simp
qed simp

lemma backoff_delays_map:
  assumes "backoff_ok b"
  shows "backoff_delays n b =
     map (\<lambda>i. min (bo_duration b + 5 * Second * (int i + 1)) (30 * Minute)) [0..<n]"
  by (rule nth_equalityI) (simp_all add: backoff_delays_nth [OF assms])

lemma backoff_sum_mono:
  assumes "backoff_ok b" "k \<le> n"
  shows "sum_list (backoff_delays k b) \<le> sum_list (backoff_delays n b)"
proof -
  have "sum_list (backoff_delays n b) =
      sum_list (take k (backoff_delays n b)) + sum_list (drop k (backoff_delays n b))"
    by (metis append_take_drop_id sum_list_append)
  moreover have "0 \<le> sum_list (drop k (backoff_delays n b))"
    using backoff_delays_nonneg [OF assms(1)] by (intro sum_list_nonneg) (auto dest: in_set_dropD)
  ultimately show ?thesis using assms(2) by (simp add: backoff_delays_take)
qed

lemma delays_54: "sum_list (map (\<lambda>i. min (5 * Second * (int i + 1)) (30 * Minute)) [0..<54]) = 7425 * Second"
  by code_simp

lemma retry_count:
  assumes "retry_times (t # ts) b" "backoff_ok b" "bo_duration b = 0" "startTime b \<le> t"
  shows "length (t # ts) \<le> 54"
proof (rule ccontr)
  assume "\<not> ?thesis"
  then have "54 \<le> length ts" by simp
  with backoff_sum_mono [OF assms(2)] have
    "sum_list (backoff_delays 54 b) \<le> sum_list (backoff_delays (length ts) b)" by blast
  moreover have "sum_list (backoff_delays 54 b) = 7425 * Second"
    unfolding backoff_delays_map [OF assms(2)] assms(3) using delays_54 by simp
  ultimately show False
    using retry_times_last [OF assms(1,2)] retry_times_not_expired [OF assms(1,2)] assms(4)
    by (simp add: Second_def Minute_def Hour_def)
qed

end
