(* ===== verification/WorkQueue.thy ===== *)
theory WorkQueue
  imports Prelude
begin

text \<open>
  The work queue between the informer callbacks and the worker (the vendored
  \<open>k8s.io/client-go/util/workqueue\<close>, \<open>queue.go\<close>): the operations the controller calls, each
  atomic under the queue's lock. \<open>Get\<close> blocks while the queue is empty and not shut down.
  The invariant \<open>wq_ok\<close> is the one the comments of the type state.
\<close>

record 'a workQueue =
  queue :: "'a list"
  dirty :: "'a set"
  processing :: "'a set"
  shuttingDown :: bool

definition newWorkQueue :: "'a workQueue" where
  "newWorkQueue = \<lparr>queue = [], dirty = {}, processing = {}, shuttingDown = False\<rparr>"

definition Add :: "'a \<Rightarrow> ('a workQueue, unit) go" where
  "Add item = modify (\<lambda>q.
     if shuttingDown q then q
     else if item \<in> dirty q then q
     else let q = q\<lparr>dirty := insert item (dirty q)\<rparr> in
       if item \<in> processing q then q else q\<lparr>queue := queue q @ [item]\<rparr>)"

definition Get :: "('a workQueue, 'a option \<times> bool) go" where
  "Get = (\<lambda>q. case queue q of
      [] \<Rightarrow> if shuttingDown q then (Ret (None, True), q) else (Blocked, q)
    | item # rest \<Rightarrow> (Ret (Some item, False),
        q\<lparr>queue := rest, processing := insert item (processing q), dirty := dirty q - {item}\<rparr>))"

definition Done :: "'a \<Rightarrow> ('a workQueue, unit) go" where
  "Done item = modify (\<lambda>q.
     let q = q\<lparr>processing := processing q - {item}\<rparr> in
     if item \<in> dirty q then q\<lparr>queue := queue q @ [item]\<rparr> else q)"

definition ShutDown :: "('a workQueue, unit) go" where
  "ShutDown = modify (\<lambda>q. q\<lparr>shuttingDown := True\<rparr>)"

text \<open>
  Every element of the queue is dirty and not being processed, once; a dirty item that is
  not in the queue is being processed.
\<close>

definition wq_ok :: "'a workQueue \<Rightarrow> bool" where
  "wq_ok q \<longleftrightarrow> distinct (queue q) \<and> set (queue q) \<subseteq> dirty q \<and>
     set (queue q) \<inter> processing q = {} \<and> dirty q \<subseteq> set (queue q) \<union> processing q"

lemma wq_ok_new: "wq_ok newWorkQueue"
  by (simp add: wq_ok_def newWorkQueue_def)

lemma wq_ok_Add: "wq_ok q \<Longrightarrow> Add item q = (r, q') \<Longrightarrow> wq_ok q'"
  by (auto simp: wq_ok_def Add_def modify_def Let_def split: if_splits)

lemma wq_ok_Get: "wq_ok q \<Longrightarrow> Get q = (r, q') \<Longrightarrow> wq_ok q'"
  by (auto simp: wq_ok_def Get_def split: list.splits if_splits)

lemma wq_ok_Done: "wq_ok q \<Longrightarrow> item \<in> processing q \<Longrightarrow> Done item q = (r, q') \<Longrightarrow> wq_ok q'"
  by (auto simp: wq_ok_def Done_def modify_def Let_def split: if_splits)

lemma wq_ok_ShutDown: "wq_ok q \<Longrightarrow> ShutDown q = (r, q') \<Longrightarrow> wq_ok q'"
  by (auto simp: wq_ok_def ShutDown_def modify_def)

text \<open>An item added again while it is worked on comes back after \<open>Done\<close>: no wake-up is lost.\<close>

lemma Add_while_processing:
  assumes "wq_ok q" "item \<in> processing q" "\<not> shuttingDown q"
    and "Add item q = (Ret (), q1)" "Done item q1 = (Ret (), q2)"
  shows "item \<in> set (queue q2)"
  using assms by (auto simp: Add_def Done_def modify_def Let_def wq_ok_def split: if_splits)

end
