(* ===== verification/Updater.thy ===== *)
theory Updater
  imports Provider Retrier WorkQueue
begin

text \<open>
  The controller's state and its update engine (\<open>clustercontroller.go\<close>, \<open>clusterUpdater\<close>;
  \<open>cluster_toolset.go\<close>).

  \<^item> \<open>state\<close>: the heap of cluster objects (an object is addressed by its index; the code
    passes pointers and two places hold the same one), the work queue, the retrier, the
    state \<open>world\<close> of everything outside the process, and a history of the calls that left
    the process.
  \<^item> \<open>clusterToolSet\<close>: the federation API as the controller sees it, over the generated
    client, which is a parameter.
  \<^item> \<open>clusterUpdater\<close> with its methods; \<open>update\<close> with its retry loop is \<open>cu_update\<close>.
  \<^item> What an update sends: every object it submits carries the patch, a conflict is retried
    at most three times on a fresh copy, any other error ends it.
\<close>

section \<open>The federation API\<close>

text \<open>The generated client: names, objects and options in, objects and errors out.\<close>

record 'w federationClient =
  Clusters_Get :: "string \<Rightarrow> ('w, cluster option \<times> error option) go"
  Clusters_Update :: "cluster \<Rightarrow> ('w, cluster option \<times> error option) go"
  Clusters_List :: "('w, cluster list option \<times> error option) go"
  Clusters_Delete :: "string \<Rightarrow> ('w, error option) go"
  Clusters_Create :: "cluster \<Rightarrow> ('w, cluster option \<times> error option) go"

record 'w clusterToolSet =
  ts_getCluster :: "string \<Rightarrow> ('w, cluster option \<times> error option) go"
  ts_updateCluster :: "cluster \<Rightarrow> ('w, cluster option \<times> error option) go"
  ts_listClusters :: "('w, cluster list option \<times> error option) go"
  ts_deleteCluster :: "string \<Rightarrow> ('w, error option) go"
  ts_createCluster :: "cluster \<Rightarrow> ('w, cluster option \<times> error option) go"

definition newClusterToolSet :: "'w federationClient \<Rightarrow> 'w clusterToolSet" where
  "newClusterToolSet federationClient = \<lparr>
     ts_getCluster = Clusters_Get federationClient,
     ts_updateCluster = Clusters_Update federationClient,
     ts_listClusters = Clusters_List federationClient,
     ts_deleteCluster = Clusters_Delete federationClient,
     ts_createCluster = Clusters_Create federationClient\<rparr>"

section \<open>The controller and its state\<close>

type_synonym ptr = "nat option"

text \<open>
  The packages the controller calls that are not part of it: the clock, the deep copy of the
  API machinery, and the kubeconfig functions \<open>FlattenConfig\<close> (which reads files) and
  \<open>Write\<close>.
\<close>

record 'w packages =
  time_Now :: "('w, time) go"
  DeepCopy :: "cluster \<Rightarrow> error + cluster"
  FlattenConfig :: "kubeConfig \<Rightarrow> ('w, kubeConfig \<times> error option) go"
  clientcmd_Write :: "kubeConfig \<Rightarrow> string \<times> error option"

record 'w ClusterController =
  actionableStates :: "string set"
  clusterProviders :: "'w provider gomap"
  federationName :: string
  federationNamespace :: string
  clusterToolSet :: "'w clusterToolSet"
  secretToolSet :: "'w secretToolSet option"
  packages :: "'w packages"

text \<open>
  The updater. Its pointer to the controller is only compared with nil. The code never uses an
  updater again once it is handed to the retrier, so it is passed by value.
\<close>

record clusterUpdater =
  cu_cc :: bool
  cu_cluster :: ptr
  needsResync :: bool
  isDirty :: bool
  backoff :: backoffItem
  clusterAnnotation :: ClusterAnnotation
  serverAddress :: "string option"
  secretRefName :: "string option"

datatype providerCall = CallCreate | CallDelete | CallValidate | CallScale int64 | CallExport

datatype event =
    EvGet string "cluster option" "error option"
  | EvUpdate cluster "error option"
  | EvList "cluster list option" "error option"
  | EvDelete string "error option"
  | EvCreate cluster "error option"
  | EvProvider providerCall cluster "error option"
  | EvSecretCreate string "error option"
  | EvSecretDelete string "error option"

record 'w state =
  heap :: "cluster list"
  workQueue :: "ptr workQueue"
  updateRetrier :: "clusterUpdater clusterUpdateRetrier"
  world :: 'w
  trace :: "event list"

definition initState :: "'w \<Rightarrow> 'w state" where
  "initState w = \<lparr>heap = [], workQueue = newWorkQueue, updateRetrier = newClusterUpdateRetrier,
     world = w, trace = []\<rparr>"

subsection \<open>Objects\<close>

definition alloc :: "cluster \<Rightarrow> ('w state, ptr) go" where
  "alloc c = (\<lambda>s. (Ret (Some (length (heap s))), s\<lparr>heap := heap s @ [c]\<rparr>))"

definition load :: "ptr \<Rightarrow> ('w state, cluster) go" where
  "load p = (\<lambda>s. case p of
      None \<Rightarrow> (Crash NilDereference, s)
    | Some a \<Rightarrow> if a < length (heap s) then (Ret (heap s ! a), s) else (Crash NilDereference, s))"

definition store :: "ptr \<Rightarrow> cluster \<Rightarrow> ('w state, unit) go" where
  "store p c = (\<lambda>s. case p of
      None \<Rightarrow> (Crash NilDereference, s)
    | Some a \<Rightarrow> if a < length (heap s) then (Ret (), s\<lparr>heap := (heap s)[a := c]\<rparr>) else (Crash NilDereference, s))"

text \<open>The object the API returned, as a pointer.\<close>

definition alloc_result :: "cluster option \<Rightarrow> ('w state, ptr) go" where
  "alloc_result oc = (case oc of None \<Rightarrow> ret None | Some c \<Rightarrow> alloc c)"

subsection \<open>Calls that leave the process\<close>

definition outside :: "('w, 'a) go \<Rightarrow> ('w state, 'a) go" where
  "outside m = zoom world (\<lambda>w s. s\<lparr>world := w\<rparr>) m"

definition log_event :: "event \<Rightarrow> ('w state, unit) go" where
  "log_event e = modify (\<lambda>s. s\<lparr>trace := trace s @ [e]\<rparr>)"

definition logged :: "('a \<Rightarrow> event) \<Rightarrow> ('w, 'a) go \<Rightarrow> ('w state, 'a) go" where
  "logged ev m = bnd (outside m) (\<lambda>r. bnd (log_event (ev r)) (\<lambda>_. ret r))"

definition getCluster :: "'w ClusterController \<Rightarrow> string \<Rightarrow> ('w state, ptr \<times> error option) go" where
  "getCluster cc name =
     bnd (logged (\<lambda>(oc, err). EvGet name oc err) (ts_getCluster (clusterToolSet cc) name)) (\<lambda>(oc, err).
     bnd (alloc_result oc) (\<lambda>p. ret (p, err)))"

definition updateCluster :: "'w ClusterController \<Rightarrow> ptr \<Rightarrow> ('w state, error option) go" where
  "updateCluster cc p =
     bnd (load p) (\<lambda>c.
     bnd (logged (\<lambda>r. EvUpdate c (snd r)) (ts_updateCluster (clusterToolSet cc) c)) (\<lambda>(_, err). ret err))"

definition listClusters :: "'w ClusterController \<Rightarrow> ('w state, cluster list option \<times> error option) go" where
  "listClusters cc = logged (\<lambda>(items, err). EvList items err) (ts_listClusters (clusterToolSet cc))"

definition deleteCluster :: "'w ClusterController \<Rightarrow> string \<Rightarrow> ('w state, error option) go" where
  "deleteCluster cc name = logged (\<lambda>err. EvDelete name err) (ts_deleteCluster (clusterToolSet cc) name)"

definition recreateCluster :: "'w ClusterController \<Rightarrow> ptr \<Rightarrow> ('w state, error option) go" where
  "recreateCluster cc p =
     bnd (load p) (\<lambda>c.
     bnd (logged (\<lambda>r. EvCreate c (snd r)) (ts_createCluster (clusterToolSet cc) c)) (\<lambda>(_, err). ret err))"

section \<open>The updater\<close>

definition newClusterUpdater :: "ptr \<Rightarrow> clusterUpdater" where
  "newClusterUpdater cluster = \<lparr>
     cu_cc = True,
     cu_cluster = cluster,
     needsResync = False,
     isDirty = False,
     backoff = new_backoff,
     clusterAnnotation = emptyClusterAnnotation,
     serverAddress = None,
     secretRefName = None\<rparr>"

definition reset :: "clusterUpdater \<Rightarrow> clusterUpdater" where
  "reset cu = cu\<lparr>
     needsResync := False,
     isDirty := False,
     clusterAnnotation := \<lparr>ca_Annotations = None, ca_DeleteAnnotations = []\<rparr>,
     serverAddress := None,
     secretRefName := None,
     backoff := (backoff cu)\<lparr>bo_duration := 0, startTime := time_zero\<rparr>\<rparr>"

definition setAnnotation :: "string \<Rightarrow> string \<Rightarrow> clusterUpdater \<Rightarrow> clusterUpdater" where
  "setAnnotation key val cu =
     cu\<lparr>clusterAnnotation := SetAnnotation key val (clusterAnnotation cu), isDirty := True\<rparr>"

definition deleteAnnotation :: "string \<Rightarrow> clusterUpdater \<Rightarrow> clusterUpdater" where
  "deleteAnnotation key cu =
     cu\<lparr>clusterAnnotation := DeleteAnnotation key (clusterAnnotation cu), isDirty := True\<rparr>"

definition copyAnnotation :: "ClusterAnnotation \<Rightarrow> clusterUpdater \<Rightarrow> clusterUpdater" where
  "copyAnnotation new cu =
     (let cu = (case ca_Annotations new of
            None \<Rightarrow> cu
          | Some kvs \<Rightarrow>
              if kvs = [] then cu
              else cu\<lparr>clusterAnnotation :=
                       fold (\<lambda>(key, val). SetAnnotation key val) kvs (clusterAnnotation cu),
                     isDirty := True\<rparr>)
      in if ca_DeleteAnnotations new = [] then cu
         else cu\<lparr>clusterAnnotation := (clusterAnnotation cu)\<lparr>ca_DeleteAnnotations :=
                    ca_DeleteAnnotations (clusterAnnotation cu) @ ca_DeleteAnnotations new\<rparr>,
                 isDirty := True\<rparr>)"

definition setSecretRefName :: "string \<Rightarrow> clusterUpdater \<Rightarrow> clusterUpdater" where
  "setSecretRefName name cu = cu\<lparr>secretRefName := Some name, isDirty := True\<rparr>"

definition setServerAddress :: "string \<Rightarrow> clusterUpdater \<Rightarrow> clusterUpdater" where
  "setServerAddress address cu = cu\<lparr>serverAddress := Some address, isDirty := True\<rparr>"

text \<open>
  Applying the updater's fields to its object: the annotations are written into the object's
  map (a panic when that is nil), the server address into the first entry of the list (a panic
  when there is none).
\<close>

definition set_server_address :: "string option \<Rightarrow> cluster \<Rightarrow> ('w state, cluster) go" where
  "set_server_address oaddr c = (case oaddr of
      None \<Rightarrow> ret c
    | Some addr \<Rightarrow> (case ServerAddressByClientCIDRs c of
          [] \<Rightarrow> crash IndexOutOfRange
        | first # rest \<Rightarrow> ret (c\<lparr>ServerAddressByClientCIDRs := first\<lparr>ServerAddress := addr\<rparr> # rest\<rparr>)))"

definition set_secret_ref :: "string option \<Rightarrow> cluster \<Rightarrow> cluster" where
  "set_secret_ref oname c = (case oname of None \<Rightarrow> c | Some name \<Rightarrow> c\<lparr>SecretRef := Some name\<rparr>)"

definition updateData :: "clusterUpdater \<Rightarrow> ('w state, unit) go" where
  "updateData cu =
     bnd (load (cu_cluster cu)) (\<lambda>c.
     bnd (ApplyAnnotation (clusterAnnotation cu) (Annotations c)) (\<lambda>ann.
     bnd (store (cu_cluster cu) (c\<lparr>Annotations := ann\<rparr>)) (\<lambda>_.
     bnd (set_server_address (serverAddress cu) (c\<lparr>Annotations := ann\<rparr>)) (\<lambda>c.
     store (cu_cluster cu) (set_secret_ref (secretRefName cu) c)))))"

definition resync :: "'w ClusterController \<Rightarrow> string \<Rightarrow> clusterUpdater \<Rightarrow>
    ('w state, error option \<times> clusterUpdater) go" where
  "resync cc clusterName cu =
     bnd (getCluster cc clusterName) (\<lambda>(cluster, err).
       if err = None then
         let cu = cu\<lparr>cu_cluster := cluster\<rparr> in
         bnd (updateData cu) (\<lambda>_. ret (err, cu\<lparr>needsResync := False\<rparr>))
       else ret (err, cu\<lparr>needsResync := True\<rparr>))"

text \<open>The retry loop, by the number of attempts left; \<open>err\<close> is the variable of that name.\<close>

primrec update_loop :: "'w ClusterController \<Rightarrow> string \<Rightarrow> nat \<Rightarrow> error option \<Rightarrow> clusterUpdater \<Rightarrow>
    ('w state, error option \<times> clusterUpdater) go" where
  "update_loop cc clusterName 0 err cu = ret (err, cu)"
| "update_loop cc clusterName (Suc n) err cu =
     bnd (if needsResync cu then resync cc clusterName cu else ret (None, cu)) (\<lambda>(err, cu).
       if err \<noteq> None then ret (err, cu)
       else bnd (updateCluster cc (cu_cluster cu)) (\<lambda>err. case err of
           None \<Rightarrow> ret (None, cu\<lparr>needsResync := False\<rparr>)
         | Some e \<Rightarrow>
             let cu = cu\<lparr>needsResync := True\<rparr> in
             if IsConflict e then update_loop cc clusterName n err cu
             else ret (err, cu)))"

definition nil_cc_error :: error where
  "nil_cc_error = Errorf ''Update of Cluster will not work. ClusterController needs to be set in ClusterUpdater object!''"

definition cu_update :: "'w ClusterController \<Rightarrow> clusterUpdater \<Rightarrow>
    ('w state, error option \<times> clusterUpdater) go" where
  "cu_update cc cu =
     (if cu_cc cu then
        if isDirty cu then
          bnd (if \<not> needsResync cu then updateData cu else ret ()) (\<lambda>_.
          bnd (load (cu_cluster cu)) (\<lambda>c.
          update_loop cc (Name c) MaxRetryCount None cu))
        else ret (None, cu)
      else ret (Some nil_cc_error, cu))"

end
