(* ===== verification/UpdaterFacts.thy ===== *)
theory UpdaterFacts
  imports Updater
begin

text \<open>
  What the update engine does.

  \<^item> \<open>patched cu base c\<close>: \<open>c\<close> is \<open>base\<close> with the changes of the updater \<open>cu\<close> made.
  \<^item> \<open>update_protocol\<close>: the abstract specification of one update, as the sequence of API
    calls it may make and the error it returns. \<open>cu_update_protocol\<close> is the refinement: every
    run of the code that returns makes such a sequence.
  \<^item> What follows for the sequences themselves: at most three submissions, all but the last
    refused with a conflict, success exactly when the last one was accepted.
\<close>

section \<open>Runs of the basic operations\<close>

lemma alloc_run [go_simps]: "alloc c s = (Ret (Some (length (heap s))), s\<lparr>heap := heap s @ [c]\<rparr>)"
  by (simp add: alloc_def)

lemma load_Ret:
  "load p s = (Ret c, s') \<longleftrightarrow> (\<exists>a. p = Some a \<and> a < length (heap s) \<and> heap s ! a = c \<and> s = s')"
  by (cases p) (simp_all add: load_def)

lemma store_Ret:
  "store p c s = (Ret u, s') \<longleftrightarrow>
     (\<exists>a. p = Some a \<and> a < length (heap s) \<and> s\<lparr>heap := (heap s)[a := c]\<rparr> = s')"
  by (cases p) (simp_all add: store_def)

lemma load_RetE [go_elims]:
  assumes "load p s = (Ret c, s')"
  obtains a where "p = Some a" "a < length (heap s)" "c = heap s ! a" "s' = s"
  using assms that unfolding load_Ret by blast

lemma store_RetE [go_elims]:
  assumes "store p c s = (Ret u, s')"
  obtains a where "p = Some a" "a < length (heap s)" "s' = s\<lparr>heap := (heap s)[a := c]\<rparr>"
  using assms that unfolding store_Ret by blast

lemma logged_RetE [go_elims]:
  assumes "logged ev m s = (Ret r, s')"
  obtains w where "m (world s) = (Ret r, w)" "s' = s\<lparr>world := w, trace := trace s @ [ev r]\<rparr>"
  using assms unfolding logged_def outside_def log_event_def
  by (auto elim!: bnd_RetE zoom_RetE ret_RetE modify_RetE)

lemma alloc_result_RetE [go_elims]:
  assumes "alloc_result oc s = (Ret p, s')"
  obtains "oc = None" "p = None" "s' = s"
  | c where "oc = Some c" "p = Some (length (heap s))" "s' = s\<lparr>heap := heap s @ [c]\<rparr>"
  using assms by (auto simp: alloc_result_def alloc_def ret_def split: option.splits)

lemma getCluster_RetE:
  assumes "getCluster cc name s = (Ret (p, err), s')"
  obtains w oc where "ts_getCluster (clusterToolSet cc) name (world s) = (Ret (oc, err), w)"
    "(oc = None \<and> p = None \<and> s' = s\<lparr>world := w, trace := trace s @ [EvGet name oc err]\<rparr>) \<or>
     (\<exists>c. oc = Some c \<and> p = Some (length (heap s)) \<and>
        s' = s\<lparr>world := w, trace := trace s @ [EvGet name oc err], heap := heap s @ [c]\<rparr>)"
proof -
  from assms obtain oc s1 where
    1: "logged (\<lambda>(oc, err). EvGet name oc err) (ts_getCluster (clusterToolSet cc) name) s = (Ret (oc, err), s1)"
    and 2: "alloc_result oc s1 = (Ret p, s')"
    unfolding getCluster_def by (auto elim!: bnd_RetE ret_RetE)
  from 1 obtain w where w: "ts_getCluster (clusterToolSet cc) name (world s) = (Ret (oc, err), w)"
    "s1 = s\<lparr>world := w, trace := trace s @ [EvGet name oc err]\<rparr>"
    by (auto elim!: logged_RetE)
  from 2 w(2) show ?thesis
    by (auto elim!: alloc_result_RetE intro!: that [OF w(1)])
qed

lemma updateCluster_RetE:
  assumes "updateCluster cc p s = (Ret err, s')"
  obtains a w where "p = Some a" "a < length (heap s)"
    "s' = s\<lparr>world := w, trace := trace s @ [EvUpdate (heap s ! a) err]\<rparr>"
proof -
  from assms obtain c s1 oc s2 where
    "load p s = (Ret c, s1)"
    "logged (\<lambda>r. EvUpdate c (snd r)) (ts_updateCluster (clusterToolSet cc) c) s1 = (Ret (oc, err), s')"
    unfolding updateCluster_def by (auto elim!: bnd_RetE ret_RetE)
  then show ?thesis
    by (auto elim!: load_RetE logged_RetE intro!: that)
qed

section \<open>The changes of an updater\<close>

definition patched :: "clusterUpdater \<Rightarrow> cluster \<Rightarrow> cluster \<Rightarrow> bool" where
  "patched cu base c \<longleftrightarrow>
     Name c = Name base \<and> ResourceVersion c = ResourceVersion base \<and>
     annotation c = patch_effect (clusterAnnotation cu) (annotation base) \<and>
     ServerAddressByClientCIDRs c =
       (case serverAddress cu of None \<Rightarrow> ServerAddressByClientCIDRs base
        | Some addr \<Rightarrow> (hd (ServerAddressByClientCIDRs base))\<lparr>ServerAddress := addr\<rparr>
            # tl (ServerAddressByClientCIDRs base)) \<and>
     SecretRef c = (case secretRefName cu of None \<Rightarrow> SecretRef base | Some name \<Rightarrow> Some name)"

text \<open>The changes do not depend on the object in hand.\<close>

lemma patched_cong [simp]:
  "patched (cu\<lparr>cu_cluster := p\<rparr>) = patched cu"
  "patched (cu\<lparr>needsResync := b\<rparr>) = patched cu"
  by (simp_all add: patched_def fun_eq_iff)

lemma map_get_Some: "map_get (Some m) = map_of m"
  by (simp add: fun_eq_iff)

lemma annotation_map_get: "annotation c = map_get (Annotations c)"
  by (simp add: annotation_def fun_eq_iff)

lemma ApplyAnnotation_RetE:
  assumes "ApplyAnnotation ca m s = (Ret m', s')" "wf_patch ca"
  obtains "s' = s" "map_get m' = patch_effect ca (map_get m)"
proof (cases m)
  case None
  with assms(1) have "map_len (ca_Annotations ca) = 0" "m' = None" "s' = s"
    by (auto simp: ApplyAnnotation_None split: if_splits)
  moreover then have "ca_Annotations ca = None \<or> ca_Annotations ca = Some []"
    by (auto simp: map_len_def split: option.splits)
  ultimately show ?thesis using None that by (force simp: patch_effect_def fun_eq_iff)
next
  case (Some kvs)
  from ApplyAnnotation_Some [OF assms(2), of kvs s] obtain m1 where
    "ApplyAnnotation ca (Some kvs) s = (Ret (Some m1), s)" "map_of m1 = patch_effect ca (map_of kvs)" .
  with assms(1) Some that show ?thesis by (auto simp: map_get_Some)
qed

lemma updateData_RetE:
  assumes "updateData cu s = (Ret u, s')" "wf_patch (clusterAnnotation cu)"
  obtains a c where "cu_cluster cu = Some a" "a < length (heap s)"
    "s' = s\<lparr>heap := (heap s)[a := c]\<rparr>" "patched cu (heap s ! a) c"
proof -
  from assms(1) obtain a ann s1 c2 s2 where
    a: "cu_cluster cu = Some a" "a < length (heap s)" and
    ann: "ApplyAnnotation (clusterAnnotation cu) (Annotations (heap s ! a)) s = (Ret ann, s1)" and
    st: "store (Some a) ((heap s ! a)\<lparr>Annotations := ann\<rparr>) s1 = (Ret (), s2)" and
    sa: "set_server_address (serverAddress cu) ((heap s ! a)\<lparr>Annotations := ann\<rparr>) s2 = (Ret c2, s2)" and
    fin: "store (Some a) (set_secret_ref (secretRefName cu) c2) s2 = (Ret u, s')"
    unfolding updateData_def
    by (auto elim!: bnd_RetE load_RetE simp: set_server_address_def ret_def crash_def
        split: option.splits list.splits)
  from ann assms(2) have s1: "s1 = s"
    and ma: "map_get ann = patch_effect (clusterAnnotation cu) (map_get (Annotations (heap s ! a)))"
    by (auto elim: ApplyAnnotation_RetE)
  from st s1 have s2: "s2 = s\<lparr>heap := (heap s)[a := (heap s ! a)\<lparr>Annotations := ann\<rparr>]\<rparr>"
    by (auto elim: store_RetE)
  have p: "patched cu (heap s ! a) (set_secret_ref (secretRefName cu) c2)"
    using sa ma
    by (auto simp: patched_def set_server_address_def set_secret_ref_def annotation_map_get
        ret_def crash_def split: option.splits list.splits)
  have "s' = s\<lparr>heap := (heap s)[a := set_secret_ref (secretRefName cu) c2]\<rparr>"
    using fin s2 by (auto elim!: store_RetE)
  with a p show ?thesis using that by blast
qed

section \<open>The protocol of an update\<close>

text \<open>
  \<open>update_protocol Q name n ob e0 evs r\<close>: with \<open>n\<close> attempts left, the object \<open>b\<close> in hand
  (\<open>ob = Some b\<close>) or a resync needed (\<open>ob = None\<close>) and the last error \<open>e0\<close>, the calls \<open>evs\<close>
  are made and \<open>r\<close> is returned. \<open>Q\<close> relates the object in hand to what is submitted.
\<close>

inductive update_protocol :: "(cluster \<Rightarrow> cluster \<Rightarrow> bool) \<Rightarrow> string \<Rightarrow> nat \<Rightarrow> cluster option \<Rightarrow>
    error option \<Rightarrow> event list \<Rightarrow> error option \<Rightarrow> bool"
  for Q name where
  exhausted: "update_protocol Q name 0 ob e0 [] e0"
| resync_failed: "update_protocol Q name (Suc n) None e0 [EvGet name oc (Some e)] (Some e)"
| resynced: "update_protocol Q name (Suc n) (Some b) e0 evs r \<Longrightarrow>
    update_protocol Q name (Suc n) None e0 (EvGet name (Some b) None # evs) r"
| accepted: "Q b c \<Longrightarrow> update_protocol Q name (Suc n) (Some b) e0 [EvUpdate c None] None"
| refused: "Q b c \<Longrightarrow> \<not> IsConflict e \<Longrightarrow>
    update_protocol Q name (Suc n) (Some b) e0 [EvUpdate c (Some e)] (Some e)"
| conflict: "Q b c \<Longrightarrow> IsConflict e \<Longrightarrow> update_protocol Q name n None (Some e) evs r \<Longrightarrow>
    update_protocol Q name (Suc n) (Some b) e0 (EvUpdate c (Some e) # evs) r"

fun is_update :: "event \<Rightarrow> bool" where
  "is_update (EvUpdate _ _) = True"
| "is_update _ = False"

fun event_error :: "event \<Rightarrow> error option" where
  "event_error (EvGet _ _ e) = e"
| "event_error (EvUpdate _ e) = e"
| "event_error (EvList _ e) = e"
| "event_error (EvDelete _ e) = e"
| "event_error (EvCreate _ e) = e"
| "event_error (EvProvider _ _ e) = e"
| "event_error (EvSecretCreate _ e) = e"
| "event_error (EvSecretDelete _ e) = e"

lemma protocol_submissions:
  "update_protocol Q name n ob e0 evs r \<Longrightarrow> EvUpdate c e \<in> set evs \<Longrightarrow>
     \<exists>b. Q b c \<and> (ob = Some b \<or> EvGet name (Some b) None \<in> set evs)"
  by (induction rule: update_protocol.induct) auto

lemma protocol_kinds:
  "update_protocol Q name n ob e0 evs r \<Longrightarrow> ev \<in> set evs \<Longrightarrow>
     (\<exists>c e. ev = EvUpdate c e) \<or> (\<exists>oc e. ev = EvGet name oc e)"
  by (induction rule: update_protocol.induct) auto

lemma protocol_bound:
  "update_protocol Q name n ob e0 evs r \<Longrightarrow> length (filter is_update evs) \<le> n"
  by (induction rule: update_protocol.induct) auto

lemma protocol_calls_bound:
  "update_protocol Q name n ob e0 evs r \<Longrightarrow> length evs \<le> 2 * n - (if ob = None then 0 else 1)"
  by (induction rule: update_protocol.induct) auto

lemma protocol_result:
  "update_protocol Q name n ob e0 evs r \<Longrightarrow> 0 < n \<Longrightarrow> evs \<noteq> [] \<and> r = event_error (last evs)"
proof (induction rule: update_protocol.induct)
  case (conflict b c e n evs r e0)
  then show ?case by (cases n) (auto elim: update_protocol.cases)
qed auto

lemma protocol_success:
  "update_protocol Q name n ob e0 evs None \<Longrightarrow> e0 = None \<longrightarrow> 0 < n \<Longrightarrow>
     \<exists>b c. last evs = EvUpdate c None \<and> evs \<noteq> [] \<and> Q b c"
proof (induction n ob e0 evs "None :: error option" rule: update_protocol.induct)
  case (conflict b c e n evs e0)
  then have "\<exists>b c. last evs = EvUpdate c None \<and> evs \<noteq> [] \<and> Q b c" by simp
  then show ?case by auto
qed auto

text \<open>All submissions but the last were refused with a conflict.\<close>

lemma protocol_retried:
  "update_protocol Q name n ob e0 evs r \<Longrightarrow> EvUpdate c (Some e) \<in> set (butlast evs) \<Longrightarrow> IsConflict e"
  by (induction rule: update_protocol.induct) (auto split: if_splits)

lemma protocol_not_accepted_before:
  "update_protocol Q name n ob e0 evs r \<Longrightarrow> EvUpdate c None \<notin> set (butlast evs)"
  by (induction rule: update_protocol.induct) (auto split: if_splits)

text \<open>Every submission after a conflict is preceded by a fetch.\<close>

lemma protocol_refetch:
  "update_protocol Q name n ob e0 evs r \<Longrightarrow> evs = as @ EvUpdate c e # ev # bs \<Longrightarrow> \<exists>oc e'. ev = EvGet name oc e'"
proof (induction arbitrary: as rule: update_protocol.induct)
  case (conflict b1 c1 e1 n evs r e0)
  show ?case
  proof (cases as)
    case Nil
    with conflict have "update_protocol Q name n None (Some e1) (ev # bs) r" by simp
    then show ?thesis by cases auto
  next
    case (Cons a as')
    with conflict show ?thesis by auto
  qed
qed (auto simp: Cons_eq_append_conv)

section \<open>The code follows the protocol\<close>

text \<open>What an update leaves alone: the queue and the retrier, and every object there was.\<close>

definition outside_only :: "'w state \<Rightarrow> 'w state \<Rightarrow> bool" where
  "outside_only s s' \<longleftrightarrow> workQueue s' = workQueue s \<and> updateRetrier s' = updateRetrier s \<and>
     (\<exists>cs. heap s' = heap s @ cs)"

lemma outside_only_refl [simp]: "outside_only s s"
  by (simp add: outside_only_def)

lemma outside_only_trans: "outside_only s t \<Longrightarrow> outside_only t u \<Longrightarrow> outside_only s u"
  by (auto simp: outside_only_def)

lemma outside_only_heap: "outside_only s s' \<Longrightarrow> a < length (heap s) \<Longrightarrow> heap s' ! a = heap s ! a"
  by (auto simp: outside_only_def nth_append)

lemma outside_only_length: "outside_only s s' \<Longrightarrow> length (heap s) \<le> length (heap s')"
  by (auto simp: outside_only_def)

lemma resync_RetE:
  assumes "resync cc name cu s = (Ret (err, cu'), s')" "wf_patch (clusterAnnotation cu)"
  obtains (failed) e oc where "err = Some e" "cu' = cu\<lparr>needsResync := True\<rparr>"
      "trace s' = trace s @ [EvGet name oc (Some e)]" "outside_only s s'"
  | (fetched) b c where "err = None"
      "cu' = cu\<lparr>cu_cluster := Some (length (heap s)), needsResync := False\<rparr>"
      "trace s' = trace s @ [EvGet name (Some b) None]" "outside_only s s'"
      "length (heap s) < length (heap s')" "heap s' ! length (heap s) = c" "patched cu b c"
proof -
  from assms(1) obtain p err1 s1 where get: "getCluster cc name s = (Ret (p, err1), s1)" and
    rest: "(if err1 = None then let cu = cu\<lparr>cu_cluster := p\<rparr> in
             bnd (updateData cu) (\<lambda>_. ret (err1, cu\<lparr>needsResync := False\<rparr>))
           else ret (err1, cu\<lparr>needsResync := True\<rparr>)) s1 = (Ret (err, cu'), s')"
    unfolding resync_def by (auto elim!: bnd_RetE)
  from get obtain w oc where s1: "(oc = None \<and> p = None \<and> s1 = s\<lparr>world := w, trace := trace s @ [EvGet name oc err1]\<rparr>) \<or>
     (\<exists>c. oc = Some c \<and> p = Some (length (heap s)) \<and>
        s1 = s\<lparr>world := w, trace := trace s @ [EvGet name oc err1], heap := heap s @ [c]\<rparr>)"
    by (rule getCluster_RetE) blast
  show ?thesis
  proof (cases err1)
    case (Some e)
    with rest have "err = Some e" "cu' = cu\<lparr>needsResync := True\<rparr>" "s' = s1"
      by (simp_all add: ret_def)
    with s1 Some show ?thesis by (intro failed [of e oc]) (auto simp: outside_only_def)
  next
    case None
    with rest obtain u where upd: "updateData (cu\<lparr>cu_cluster := p\<rparr>) s1 = (Ret u, s')"
      and r: "err = None" "cu' = cu\<lparr>cu_cluster := p, needsResync := False\<rparr>"
      by (auto simp: Let_def elim!: bnd_RetE ret_RetE)
    from upd assms(2) obtain a c where a: "p = Some a" "a < length (heap s1)"
      "s' = s1\<lparr>heap := (heap s1)[a := c]\<rparr>" "patched cu (heap s1 ! a) c"
      by (auto elim: updateData_RetE)
    with s1 obtain b where "a = length (heap s)" "oc = Some b"
      "s1 = s\<lparr>world := w, trace := trace s @ [EvGet name oc err1], heap := heap s @ [b]\<rparr>" by auto
    with a r None show ?thesis by (intro fetched [of b c]) (auto simp: outside_only_def)
  qed
qed

text \<open>The object the loop has in hand: the patched \<open>b\<close>, or none when a resync is due.\<close>

definition in_hand_ok :: "clusterUpdater \<Rightarrow> 'w state \<Rightarrow> cluster option \<Rightarrow> bool" where
  "in_hand_ok cu s ob \<longleftrightarrow>
     (if needsResync cu then ob = None
      else \<exists>a b. ob = Some b \<and> cu_cluster cu = Some a \<and> a < length (heap s) \<and> patched cu b (heap s ! a))"

text \<open>The last call submitted the object \<open>p\<close> points to, and it was accepted.\<close>

definition ends_accepted :: "event list \<Rightarrow> ptr \<Rightarrow> 'w state \<Rightarrow> bool" where
  "ends_accepted evs p s \<longleftrightarrow>
     evs \<noteq> [] \<and> (\<exists>a. p = Some a \<and> a < length (heap s) \<and> last evs = EvUpdate (heap s ! a) None)"

lemma ends_accepted_append: "ends_accepted evs p s \<Longrightarrow> ends_accepted (pre @ evs) p s"
  by (simp add: ends_accepted_def)

lemma update_loop_protocol:
  assumes "update_loop cc name n e0 cu s = (Ret (err, cu'), s')" "wf_patch (clusterAnnotation cu)"
    and "in_hand_ok cu s ob"
  shows "\<exists>evs p. trace s' = trace s @ evs \<and> update_protocol (patched cu) name n ob e0 evs err \<and>
     outside_only s s' \<and>
     cu' = cu\<lparr>cu_cluster := p, needsResync := (if n = 0 then needsResync cu else err \<noteq> None)\<rparr> \<and>
     (err = None \<and> 0 < n \<longrightarrow> ends_accepted evs p s')"
  using assms
proof (induction n arbitrary: e0 cu s ob)
  case 0
  then have "e0 = err" "cu' = cu\<lparr>cu_cluster := cu_cluster cu\<rparr>" "s' = s" by (simp_all add: ret_def)
  then show ?case
    by (intro exI [of _ "[]"] exI [of _ "cu_cluster cu"]) (simp add: update_protocol.exhausted)
next
  case (Suc n)
  have submit: ?case
    if run: "bnd (updateCluster cc (cu_cluster cu1)) (\<lambda>err. case err of
           None \<Rightarrow> ret (None, cu1\<lparr>needsResync := False\<rparr>)
         | Some e \<Rightarrow> let cu = cu1\<lparr>needsResync := True\<rparr> in
             if IsConflict e then update_loop cc name n err cu else ret (err, cu)) s1 = (Ret (err, cu'), s')"
      and cu1: "cu1 = cu\<lparr>cu_cluster := p1, needsResync := False\<rparr>"
      and hand: "in_hand_ok cu1 s1 (Some b)" and out: "outside_only s s1"
      and pre: "trace s1 = trace s @ pre"
      and lift: "\<And>evs. update_protocol (patched cu) name (Suc n) (Some b) e0 evs err \<Longrightarrow>
         update_protocol (patched cu) name (Suc n) ob e0 (pre @ evs) err"
    for s1 p1 cu1 b pre
  proof -
    from hand cu1 obtain a where a: "p1 = Some a" "a < length (heap s1)" "patched cu b (heap s1 ! a)"
      by (auto simp: in_hand_ok_def)
    from run cu1 obtain err1 s2 where upd: "updateCluster cc p1 s1 = (Ret err1, s2)"
      and rest: "(case err1 of
           None \<Rightarrow> ret (None, cu1\<lparr>needsResync := False\<rparr>)
         | Some e \<Rightarrow> let cu = cu1\<lparr>needsResync := True\<rparr> in
             if IsConflict e then update_loop cc name n err1 cu else ret (err1, cu)) s2 = (Ret (err, cu'), s')"
      by (auto elim!: bnd_RetE)
    from upd a have s2: "trace s2 = trace s1 @ [EvUpdate (heap s1 ! a) err1]" "outside_only s1 s2"
      by (auto elim!: updateCluster_RetE simp: outside_only_def)
    show ?thesis
    proof (cases err1)
      case None
      with rest have r: "err = None" "cu' = cu1\<lparr>needsResync := False\<rparr>" "s' = s2" by (simp_all add: ret_def)
      have "update_protocol (patched cu) name (Suc n) ob e0 (pre @ [EvUpdate (heap s1 ! a) None]) None"
        using lift r(1) by (auto intro: update_protocol.accepted a(3))
      moreover have "ends_accepted (pre @ [EvUpdate (heap s1 ! a) None]) p1 s'"
        using r(3) a s2(2) by (simp add: ends_accepted_def outside_only_heap)
          (use outside_only_length [OF s2(2)] in linarith)
      ultimately show ?thesis using r s2 pre out None cu1
        by (intro exI [of _ "pre @ [EvUpdate (heap s1 ! a) None]"] exI [of _ p1])
          (auto intro: outside_only_trans)
    next
      case (Some e)
      show ?thesis
      proof (cases "IsConflict e")
        case False
        with rest Some have r: "err = Some e" "cu' = cu1\<lparr>needsResync := True\<rparr>" "s' = s2"
          by (simp_all add: ret_def Let_def)
        have "update_protocol (patched cu) name (Suc n) ob e0 (pre @ [EvUpdate (heap s1 ! a) (Some e)]) (Some e)"
          using lift r(1) False by (auto intro: update_protocol.refused a(3))
        with r s2 pre out Some cu1 show ?thesis by (auto intro: outside_only_trans)
      next
        case True
        with rest Some have loop: "update_loop cc name n (Some e) (cu1\<lparr>needsResync := True\<rparr>) s2 = (Ret (err, cu'), s')"
          by (simp add: Let_def)
        from Suc.IH [OF loop, of None] Suc.prems(2) cu1 obtain evs p where
          evs: "trace s' = trace s2 @ evs" "update_protocol (patched cu) name n None (Some e) evs err"
          "outside_only s2 s'"
          and cu': "cu' = cu\<lparr>cu_cluster := p, needsResync := (n = 0 \<or> err \<noteq> None)\<rparr>"
          and last: "err = None \<and> 0 < n \<longrightarrow> ends_accepted evs p s'"
          by (cases "n = 0") (auto simp: in_hand_ok_def)
        from evs(2) have "n = 0 \<Longrightarrow> err = Some e" by (auto elim: update_protocol.cases)
        moreover have "update_protocol (patched cu) name (Suc n) ob e0 (pre @ EvUpdate (heap s1 ! a) (Some e) # evs) err"
          using lift True evs(2) by (auto intro: update_protocol.conflict a(3))
        moreover have "outside_only s s'" using evs s2 out by (blast intro: outside_only_trans)
        moreover have "err = None \<longrightarrow> ends_accepted ((pre @ [EvUpdate (heap s1 ! a) (Some e)]) @ evs) p s'"
          using last calculation(1) ends_accepted_append by (cases "n = 0") (simp, blast)
        ultimately show ?thesis using evs s2 pre Some cu'
          by (intro exI [of _ "pre @ EvUpdate (heap s1 ! a) (Some e) # evs"] exI [of _ p]) (cases "n = 0"; simp)
      qed
    qed
  qed
  show ?case
  proof (cases "needsResync cu")
    case False
    with Suc.prems(3) obtain b where "ob = Some b" by (auto simp: in_hand_ok_def)
    with False Suc.prems show ?thesis
      by (intro submit [where ?p1.0 = "cu_cluster cu" and ?cu1.0 = cu and ?s1.0 = s and pre = "[]"]) auto
  next
    case True
    then have ob: "ob = None" using Suc.prems(3) by (simp add: in_hand_ok_def)
    from Suc.prems(1) True obtain err1 cu1 s1 where
      rs: "resync cc name cu s = (Ret (err1, cu1), s1)" and
      rest: "(if err1 \<noteq> None then ret (err1, cu1)
         else bnd (updateCluster cc (cu_cluster cu1)) (\<lambda>err. case err of
           None \<Rightarrow> ret (None, cu1\<lparr>needsResync := False\<rparr>)
         | Some e \<Rightarrow> let cu = cu1\<lparr>needsResync := True\<rparr> in
             if IsConflict e then update_loop cc name n err cu else ret (err, cu))) s1 = (Ret (err, cu'), s')"
      by (auto elim!: bnd_RetE)
    from rs Suc.prems(2) show ?thesis
    proof (cases rule: resync_RetE)
      case (failed e oc)
      with rest have "err = Some e" "cu' = cu1" "s' = s1" by (simp_all add: ret_def)
      with failed ob True show ?thesis
        by (intro exI [of _ "[EvGet name oc (Some e)]"] exI [of _ "cu_cluster cu"])
          (simp add: update_protocol.resync_failed)
    next
      case (fetched b c)
      with rest have rest': "bnd (updateCluster cc (cu_cluster cu1)) (\<lambda>err. case err of
           None \<Rightarrow> ret (None, cu1\<lparr>needsResync := False\<rparr>)
         | Some e \<Rightarrow> let cu = cu1\<lparr>needsResync := True\<rparr> in
             if IsConflict e then update_loop cc name n err cu else ret (err, cu)) s1 = (Ret (err, cu'), s')"
        by simp
      from fetched ob show ?thesis
        by (intro submit [OF rest', where b = b])
          (auto simp: in_hand_ok_def intro: update_protocol.resynced)
    qed
  qed
qed

text \<open>
  One call of \<open>update\<close> on an updater with changes. The object in hand at the start is the
  one the updater points to, unless a resync is due.
\<close>

definition base_of :: "clusterUpdater \<Rightarrow> 'w state \<Rightarrow> cluster" where
  "base_of cu s = heap s ! the (cu_cluster cu)"

lemma cu_update_protocol:
  assumes "cu_update cc cu s = (Ret (err, cu'), s')" "wf_patch (clusterAnnotation cu)"
    and "cu_cc cu" "isDirty cu"
  obtains a evs p where "cu_cluster cu = Some a" "a < length (heap s)" "trace s' = trace s @ evs"
    "update_protocol (patched cu) (Name (base_of cu s)) MaxRetryCount
       (if needsResync cu then None else Some (base_of cu s)) None evs err"
    "workQueue s' = workQueue s" "updateRetrier s' = updateRetrier s" "length (heap s) \<le> length (heap s')"
    "\<And>i. i < length (heap s) \<Longrightarrow> i \<noteq> a \<or> needsResync cu \<Longrightarrow> heap s' ! i = heap s ! i"
    "\<not> needsResync cu \<Longrightarrow> patched cu (heap s ! a) (heap s' ! a)"
    "cu' = cu\<lparr>cu_cluster := p, needsResync := (err \<noteq> None)\<rparr>"
    "err = None \<Longrightarrow> ends_accepted evs p s'"
proof -
  from assms(1,3,4) obtain s1 c u a where
    ud: "(if \<not> needsResync cu then updateData cu else ret ()) s = (Ret u, s1)" and
    a: "cu_cluster cu = Some a" "a < length (heap s1)" "c = heap s1 ! a" and
    loop: "update_loop cc (Name c) MaxRetryCount None cu s1 = (Ret (err, cu'), s')"
    unfolding cu_update_def by (auto elim!: bnd_RetE load_RetE)
  define ob where "ob = (if needsResync cu then None else Some (heap s ! a))"
  have pre: "a < length (heap s) \<and> in_hand_ok cu s1 ob \<and> Name c = Name (heap s ! a) \<and>
      trace s1 = trace s \<and> workQueue s1 = workQueue s \<and> updateRetrier s1 = updateRetrier s \<and>
      length (heap s1) = length (heap s) \<and> (\<forall>i. i \<noteq> a \<or> needsResync cu \<longrightarrow> heap s1 ! i = heap s ! i) \<and>
      (\<not> needsResync cu \<longrightarrow> patched cu (heap s ! a) (heap s1 ! a))"
  proof (cases "needsResync cu")
    case True
    with ud have "s1 = s" by (simp add: ret_def)
    with a True show ?thesis by (simp add: in_hand_ok_def ob_def)
  next
    case False
    with ud have "updateData cu s = (Ret u, s1)" by simp
    with a(1) assms(2) obtain c1 where "a < length (heap s)" "s1 = s\<lparr>heap := (heap s)[a := c1]\<rparr>"
      "patched cu (heap s ! a) c1" by (auto elim: updateData_RetE)
    with a False show ?thesis by (auto simp: in_hand_ok_def ob_def patched_def)
  qed
  then have hand: "in_hand_ok cu s1 ob" by simp
  from update_loop_protocol [OF loop assms(2) hand] obtain evs p where
    "trace s' = trace s1 @ evs" "update_protocol (patched cu) (Name c) MaxRetryCount ob None evs err"
    "outside_only s1 s'" "cu' = cu\<lparr>cu_cluster := p, needsResync := (err \<noteq> None)\<rparr>"
    "err = None \<longrightarrow> ends_accepted evs p s'"
    by (auto simp: MaxRetryCount_def)
  with pre a show ?thesis
    by (intro that [of a evs p])
      (auto simp: base_of_def ob_def outside_only_heap outside_only_def nth_append split: if_splits)
qed

lemma cu_update_clean:
  "cu_cc cu \<Longrightarrow> \<not> isDirty cu \<Longrightarrow> cu_update cc cu s = (Ret (None, cu), s)"
  by (simp add: cu_update_def ret_def)

section \<open>Building an updater\<close>

text \<open>The patch of an updater and its flags, after each of the setters.\<close>

lemma updater_simps [simp]:
  "cu_cc (newClusterUpdater p)" "cu_cluster (newClusterUpdater p) = p"
  "\<not> needsResync (newClusterUpdater p)" "\<not> isDirty (newClusterUpdater p)"
  "clusterAnnotation (newClusterUpdater p) = emptyClusterAnnotation"
  "serverAddress (newClusterUpdater p) = None" "secretRefName (newClusterUpdater p) = None"
  "backoff (newClusterUpdater p) = new_backoff"
  by (simp_all add: newClusterUpdater_def)

lemma reset_simps [simp]:
  "cu_cc (reset cu) = cu_cc cu" "cu_cluster (reset cu) = cu_cluster cu"
  "\<not> needsResync (reset cu)" "\<not> isDirty (reset cu)"
  "clusterAnnotation (reset cu) = emptyClusterAnnotation"
  "serverAddress (reset cu) = None" "secretRefName (reset cu) = None"
  "backoff (reset cu) = (backoff cu)\<lparr>bo_duration := 0, startTime := time_zero\<rparr>"
  by (simp_all add: reset_def emptyClusterAnnotation_def)

lemma setAnnotation_simps [simp]:
  "cu_cc (setAnnotation k v cu) = cu_cc cu" "cu_cluster (setAnnotation k v cu) = cu_cluster cu"
  "needsResync (setAnnotation k v cu) = needsResync cu" "isDirty (setAnnotation k v cu)"
  "clusterAnnotation (setAnnotation k v cu) = SetAnnotation k v (clusterAnnotation cu)"
  "serverAddress (setAnnotation k v cu) = serverAddress cu"
  "secretRefName (setAnnotation k v cu) = secretRefName cu"
  "backoff (setAnnotation k v cu) = backoff cu"
  by (simp_all add: setAnnotation_def)

lemma deleteAnnotation_simps [simp]:
  "cu_cc (deleteAnnotation k cu) = cu_cc cu" "cu_cluster (deleteAnnotation k cu) = cu_cluster cu"
  "needsResync (deleteAnnotation k cu) = needsResync cu" "isDirty (deleteAnnotation k cu)"
  "clusterAnnotation (deleteAnnotation k cu) = DeleteAnnotation k (clusterAnnotation cu)"
  "serverAddress (deleteAnnotation k cu) = serverAddress cu"
  "secretRefName (deleteAnnotation k cu) = secretRefName cu"
  "backoff (deleteAnnotation k cu) = backoff cu"
  by (simp_all add: deleteAnnotation_def)

lemma setServerAddress_simps [simp]:
  "cu_cc (setServerAddress x cu) = cu_cc cu" "cu_cluster (setServerAddress x cu) = cu_cluster cu"
  "needsResync (setServerAddress x cu) = needsResync cu" "isDirty (setServerAddress x cu)"
  "clusterAnnotation (setServerAddress x cu) = clusterAnnotation cu"
  "serverAddress (setServerAddress x cu) = Some x"
  "secretRefName (setServerAddress x cu) = secretRefName cu"
  "backoff (setServerAddress x cu) = backoff cu"
  by (simp_all add: setServerAddress_def)

lemma setSecretRefName_simps [simp]:
  "cu_cc (setSecretRefName x cu) = cu_cc cu" "cu_cluster (setSecretRefName x cu) = cu_cluster cu"
  "needsResync (setSecretRefName x cu) = needsResync cu" "isDirty (setSecretRefName x cu)"
  "clusterAnnotation (setSecretRefName x cu) = clusterAnnotation cu"
  "serverAddress (setSecretRefName x cu) = serverAddress cu"
  "secretRefName (setSecretRefName x cu) = Some x"
  "backoff (setSecretRefName x cu) = backoff cu"
  by (simp_all add: setSecretRefName_def)

lemma copyAnnotation_simps [simp]:
  "cu_cc (copyAnnotation a cu) = cu_cc cu" "cu_cluster (copyAnnotation a cu) = cu_cluster cu"
  "needsResync (copyAnnotation a cu) = needsResync cu"
  "serverAddress (copyAnnotation a cu) = serverAddress cu"
  "secretRefName (copyAnnotation a cu) = secretRefName cu"
  "backoff (copyAnnotation a cu) = backoff cu"
  "isDirty (copyAnnotation a cu) \<longleftrightarrow> isDirty cu \<or> map_len (ca_Annotations a) > 0 \<or> ca_DeleteAnnotations a \<noteq> []"
  by (auto simp: copyAnnotation_def Let_def split: option.splits)

text \<open>Copying a patch into an empty one gives a patch with the same effect.\<close>

lemma wf_patch_fold:
  "wf_patch p \<Longrightarrow> wf_patch (fold (\<lambda>(key, val). SetAnnotation key val) kvs p)"
  by (induction kvs arbitrary: p) auto

lemma fold_SetAnnotation_deletes:
  "ca_DeleteAnnotations (fold (\<lambda>(key, val). SetAnnotation key val) kvs p) = ca_DeleteAnnotations p"
  by (induction kvs arbitrary: p) auto

lemma map_get_fold_SetAnnotation:
  "map_get (ca_Annotations (fold (\<lambda>(key, val). SetAnnotation key val) kvs p)) =
     map_get (ca_Annotations p) ++ map_of (rev kvs)"
  by (induction kvs arbitrary: p) (auto simp: map_add_upd fun_eq_iff map_add_def split: option.splits)

lemma patch_effect_alt:
  "map_get (ca_Annotations p) = map_get (ca_Annotations q) \<Longrightarrow>
   set (ca_DeleteAnnotations p) = set (ca_DeleteAnnotations q) \<Longrightarrow> patch_effect p = patch_effect q"
  by (simp add: patch_effect_def fun_eq_iff)

lemma copyAnnotation_patch:
  assumes "wf_patch a" "clusterAnnotation cu = emptyClusterAnnotation"
  shows "wf_patch (clusterAnnotation (copyAnnotation a cu))"
    "patch_effect (clusterAnnotation (copyAnnotation a cu)) = patch_effect a"
    "set (ca_DeleteAnnotations (clusterAnnotation (copyAnnotation a cu))) = set (ca_DeleteAnnotations a)"
proof -
  let ?c = "clusterAnnotation (copyAnnotation a cu)"
  have "map_of (rev m) = map_of m" if "distinct (map fst m)" for m :: "string gomap"
    using that by (simp add: map_of_inject_set rev_map [symmetric])
  then have 1: "map_get (ca_Annotations ?c) = map_get (ca_Annotations a)"
    using assms
    by (auto simp: copyAnnotation_def Let_def map_get_fold_SetAnnotation wf_patch_def fun_eq_iff
        map_add_def split: option.splits)
  show 2: "set (ca_DeleteAnnotations ?c) = set (ca_DeleteAnnotations a)"
    using assms(2) by (auto simp: copyAnnotation_def Let_def fold_SetAnnotation_deletes split: option.splits)
  show "patch_effect ?c = patch_effect a" by (rule patch_effect_alt [OF 1 2])
  have "wf_patch (p\<lparr>ca_DeleteAnnotations := ks\<rparr>) = wf_patch p" for p ks
    by (simp add: wf_patch_def)
  then show "wf_patch ?c"
    using assms(2) by (simp add: copyAnnotation_def Let_def wf_patch_fold split: option.split)
qed

end
