(* ===== verification/Controller.thy ===== *)
theory Controller
  imports UpdaterFacts
begin

text \<open>
  The handlers of the cluster controller (\<open>clustercontroller.go\<close>): the retry of failed
  updates, the submission of clusters to the work queue, the worker with its four state
  handlers, the periodic validation and joining, and the kubeconfig secrets. Logging is left
  out; where a log statement dereferences a pointer, so does the model.
\<close>

definition DefaultClusterScaleUpSize :: int64 where "DefaultClusterScaleUpSize = 1"
definition DefaultClusterScaleDownSize :: int64 where "DefaultClusterScaleDownSize = 1"
definition DummyServerAddress :: string where "DummyServerAddress = ''https://213.0.0.1''"

definition getActionableStates :: "string set" where
  "getActionableStates = {
     NavarkosClusterStatePending,
     NavarkosClusterStatePendingShutdown,
     NavarkosClusterStatePendingScaleUp,
     NavarkosClusterStatePendingScaleDown}"

section \<open>Retrying updates\<close>

definition now :: "'w ClusterController \<Rightarrow> ('w state, time) go" where
  "now cc = outside (time_Now (packages cc))"

definition hasExpiredNow :: "'w ClusterController \<Rightarrow> backoffItem \<Rightarrow> ('w state, bool) go" where
  "hasExpiredNow cc b =
     (if expiryDuration b > 0 then bnd (now cc) (\<lambda>t. ret (hasExpired t b)) else ret False)"

definition on_retrier :: "(clusterUpdater clusterUpdateRetrier, 'a) go \<Rightarrow> ('w state, 'a) go" where
  "on_retrier m = zoom updateRetrier (\<lambda>r s. s\<lparr>updateRetrier := r\<rparr>) m"

definition on_queue :: "(ptr workQueue, 'a) go \<Rightarrow> ('w state, 'a) go" where
  "on_queue m = zoom workQueue (\<lambda>q s. s\<lparr>workQueue := q\<rparr>) m"

definition retryClusterUpdate :: "'w ClusterController \<Rightarrow> clusterUpdater \<Rightarrow> ('w state, unit) go" where
  "retryClusterUpdate cc updater =
     bnd (if IsZero (startTime (backoff updater))
          then bnd (now cc) (\<lambda>t. ret (updater\<lparr>backoff := (backoff updater)\<lparr>startTime := t\<rparr>\<rparr>))
          else ret updater) (\<lambda>updater.
     bnd (hasExpiredNow cc (backoff updater)) (\<lambda>expired.
       if \<not> expired then
         let (delay, b) = next_backoff (backoff updater); updater = updater\<lparr>backoff := b\<rparr> in
         bnd (now cc) (\<lambda>t. on_retrier (deliverAfter t updater delay))
       else ret ()))"

definition clusterUpdate :: "'w ClusterController \<Rightarrow> clusterUpdater \<Rightarrow> ('w state, unit) go" where
  "clusterUpdate cc updater =
     bnd (cu_update cc updater) (\<lambda>(err, updater).
       if err \<noteq> None then bnd (load (cu_cluster updater)) (\<lambda>_. retryClusterUpdate cc updater)
       else ret ())"

definition retryHandler :: "'w ClusterController \<Rightarrow> clusterUpdater clusterUpdaterRetryItem \<Rightarrow> ('w state, unit) go" where
  "retryHandler cc item =
     (let updater = item_value item in
      bnd (hasExpiredNow cc (backoff updater)) (\<lambda>expired.
        if \<not> expired then clusterUpdate cc updater else ret ()))"

section \<open>Submitting clusters\<close>

definition annotation_or_empty :: "cluster \<Rightarrow> string \<Rightarrow> string" where
  "annotation_or_empty c k = (case annotation c k of None \<Rightarrow> '''' | Some v \<Rightarrow> v)"

definition getProvider :: "'w ClusterController \<Rightarrow> cluster \<Rightarrow> 'w provider option" where
  "getProvider cc c = map_of (clusterProviders cc) (annotation_or_empty c ClusterManagerClusterClassKey)"

definition SubmitClusterForProvisioning :: "'w ClusterController \<Rightarrow> cluster \<Rightarrow> ('w state, unit) go" where
  "SubmitClusterForProvisioning cc c =
     (case annotation c ClusterManagerClusterClassKey of
        None \<Rightarrow> ret ()
      | Some clusterClass \<Rightarrow>
          if map_of (clusterProviders cc) clusterClass \<noteq> None then
            (case annotation c NavarkosClusterStateKey of
               None \<Rightarrow> ret ()
             | Some clusterStatus \<Rightarrow>
                 if clusterStatus \<in> actionableStates cc then
                   bnd (case DeepCopy (packages cc) c of
                          Inl err \<Rightarrow> ret None
                        | Inr newCluster \<Rightarrow> alloc newCluster) (\<lambda>item.
                   on_queue (Add item))
                 else ret ())
          else ret ())"

definition onClusterUpdate :: "'w ClusterController \<Rightarrow> cluster \<Rightarrow> cluster \<Rightarrow> ('w state, unit) go" where
  "onClusterUpdate cc oldObj newObj = SubmitClusterForProvisioning cc newObj"

definition onClusterAdd :: "'w ClusterController \<Rightarrow> cluster \<Rightarrow> ('w state, unit) go" where
  "onClusterAdd cc obj = SubmitClusterForProvisioning cc obj"

text \<open>A method call on the provider of a cluster, which gets a copy of the object.\<close>

definition callProvider :: "'w ClusterController \<Rightarrow> ptr \<Rightarrow> providerCall \<Rightarrow> ('a \<Rightarrow> error option) \<Rightarrow>
    ('w provider \<Rightarrow> cluster \<Rightarrow> ('w, 'a) go) \<Rightarrow> ('w state, 'a) go" where
  "callProvider cc p call err_of method =
     bnd (load p) (\<lambda>c.
     bnd (deref (getProvider cc c)) (\<lambda>P.
     logged (\<lambda>r. EvProvider call c (err_of r)) (method P c)))"

section \<open>Secrets\<close>

definition nil_secret_error :: error where
  "nil_secret_error = Errorf ''Secret Toolset was not successfully created for this clustercontroller''"

definition createSecret :: "'w ClusterController \<Rightarrow> kubeConfig \<Rightarrow> string \<Rightarrow> string \<Rightarrow> string \<Rightarrow> string \<Rightarrow> bool \<Rightarrow>
    ('w state, secret option \<times> error option) go" where
  "createSecret cc clientConfig namespace fedName joiningClusterName secretName dryRun =
     (case secretToolSet cc of
        None \<Rightarrow> ret (None, Some nil_secret_error)
      | Some toolSet \<Rightarrow>
          bnd (outside (FlattenConfig (packages cc) clientConfig)) (\<lambda>(clientConfig, err).
            if err \<noteq> None then ret (None, err)
            else logged (\<lambda>(_, err). EvSecretCreate secretName err)
              (CreateKubeconfigSecret (clientcmd_Write (packages cc)) toolSet clientConfig namespace
                 secretName fedName joiningClusterName dryRun)))"

definition createClusterSecrets :: "'w ClusterController \<Rightarrow> ptr \<Rightarrow> kubeConfig \<Rightarrow> ('w state, error option) go" where
  "createClusterSecrets cc cluster kubeStructConfig =
     bnd (load cluster) (\<lambda>c.
     bnd (createSecret cc kubeStructConfig (federationNamespace cc) (federationName cc) (Name c) (Name c) False)
       (\<lambda>(_, err). ret err))"

definition deleteSecret :: "'w ClusterController \<Rightarrow> string \<Rightarrow> ('w state, error option) go" where
  "deleteSecret cc secretName =
     (case secretToolSet cc of
        None \<Rightarrow> ret (Some nil_secret_error)
      | Some toolSet \<Rightarrow> logged (\<lambda>err. EvSecretDelete secretName err)
          (DeleteKubeconfigSecret toolSet (federationNamespace cc) secretName))"

section \<open>Validating and joining\<close>

definition validateCluster :: "'w ClusterController \<Rightarrow> ptr \<Rightarrow> string \<Rightarrow> ('w state, unit) go" where
  "validateCluster cc cluster clusterStatus =
     bnd (callProvider cc cluster CallValidate snd ValidateKubeCluster) (\<lambda>(ann, validationError).
       let updater = (case ann of
             None \<Rightarrow> None
           | Some a \<Rightarrow> Some (copyAnnotation a (newClusterUpdater cluster)));
           updater = (if validationError = None then
             let updater = (case updater of None \<Rightarrow> newClusterUpdater cluster | Some u \<Rightarrow> u);
                 nextClusterStatus = (if clusterStatus = NavarkosClusterStateProvisioning
                   then NavarkosClusterStateJoining else NavarkosClusterStateReady)
             in Some (setAnnotation NavarkosClusterStateKey nextClusterStatus updater)
             else updater)
       in (case updater of None \<Rightarrow> ret () | Some u \<Rightarrow> clusterUpdate cc u))"

text \<open>
  The loop of \<open>resetCluster\<close> that deletes the object, with the attempts left. After a failed
  attempt the variable \<open>cluster\<close> holds whatever was fetched, or nil.
\<close>

primrec reset_delete :: "'w ClusterController \<Rightarrow> nat \<Rightarrow> error option \<Rightarrow> ptr \<Rightarrow> ('w state, error option \<times> ptr) go" where
  "reset_delete cc 0 err cluster = ret (err, cluster)"
| "reset_delete cc (Suc n) err cluster =
     bnd (load cluster) (\<lambda>c.
     bnd (deleteCluster cc (Name c)) (\<lambda>err.
       if err = None then ret (None, cluster)
       else bnd (load cluster) (\<lambda>c.
            bnd (getCluster cc (Name c)) (\<lambda>(cluster, _). reset_delete cc n err cluster))))"

primrec reset_create :: "'w ClusterController \<Rightarrow> nat \<Rightarrow> error option \<Rightarrow> ptr \<Rightarrow> ('w state, error option) go" where
  "reset_create cc 0 err cluster = ret err"
| "reset_create cc (Suc n) err cluster =
     bnd (recreateCluster cc cluster) (\<lambda>err.
       if err = None then ret None else reset_create cc n err cluster)"

definition resetCluster :: "'w ClusterController \<Rightarrow> ptr \<Rightarrow> ('w state, error option) go" where
  "resetCluster cc cluster =
     bnd (reset_delete cc MaxRetryCount None cluster) (\<lambda>(err, cluster).
       if err \<noteq> None then ret err
       else bnd (load cluster) (\<lambda>c.
            bnd (store cluster (c\<lparr>ResourceVersion := ''''\<rparr>)) (\<lambda>_.
            reset_create cc MaxRetryCount None cluster)))"

text \<open>
  \<open>FlattenConfig\<close> inlines the certificate files into the kubeconfig and does not change the
  server address, which is read before it here and after it in the code.
\<close>

definition finishJoin :: "'w ClusterController \<Rightarrow> ptr \<Rightarrow> kubeCluster option \<Rightarrow> ('w state, unit) go" where
  "finishJoin cc cluster clusterConf =
     bnd (deref clusterConf) (\<lambda>clusterConf.
     bnd (load cluster) (\<lambda>c.
     let updater = newClusterUpdater cluster;
         updater = setAnnotation NavarkosClusterStateKey NavarkosClusterStateReady updater;
         updater = setServerAddress (kc_Server clusterConf) updater;
         updater = setSecretRefName (Name c) updater
     in bnd (updateData updater) (\<lambda>_.
        bnd (resetCluster cc cluster) (\<lambda>err. ret ()))))"

definition clusterJoin :: "'w ClusterController \<Rightarrow> ptr \<Rightarrow> ('w state, unit) go" where
  "clusterJoin cc cluster =
     bnd (callProvider cc cluster CallExport snd ExportKubeConfig) (\<lambda>(kubeConf, err).
       case (err, kubeConf) of
         (None, Some conf) \<Rightarrow>
           (case cfg_Clusters conf of
              None \<Rightarrow> ret ()
            | Some clusters \<Rightarrow>
                bnd (deref (case map_get (cfg_Contexts conf) (cfg_CurrentContext conf) of
                       None \<Rightarrow> None | Some cx \<Rightarrow> cx)) (\<lambda>context.
                let clusterName = cx_Cluster context in
                case map_of clusters clusterName of
                  None \<Rightarrow> ret ()
                | Some clusterConf \<Rightarrow>
                    bnd (createClusterSecrets cc cluster conf) (\<lambda>err.
                      if err = None then finishJoin cc cluster clusterConf else ret ())))
       | _ \<Rightarrow> ret ())"

text \<open>
  The loop variable of \<open>reconcileWhenReady\<close> is one object for the whole loop, overwritten by
  each iteration; the handlers are given its address.
\<close>

definition reconcileOne :: "'w ClusterController \<Rightarrow> ptr \<Rightarrow> cluster \<Rightarrow> ('w state, unit) go" where
  "reconcileOne cc loopVar item =
     bnd (store loopVar item) (\<lambda>_.
       case annotation item NavarkosClusterStateKey of
         None \<Rightarrow> ret ()
       | Some clusterStatus \<Rightarrow>
           if clusterStatus = NavarkosClusterStateProvisioning \<or>
              clusterStatus = NavarkosClusterStateScalingUp \<or>
              clusterStatus = NavarkosClusterStateScalingDown
           then validateCluster cc loopVar clusterStatus
           else if clusterStatus = NavarkosClusterStateJoining
           then clusterJoin cc loopVar
           else ret ())"

definition emptyCluster :: cluster where
  "emptyCluster = \<lparr>Name = '''', ResourceVersion = '''', Annotations = None,
     ServerAddressByClientCIDRs = [], SecretRef = None\<rparr>"

definition reconcileWhenReady :: "'w ClusterController \<Rightarrow> ('w state, error option) go" where
  "reconcileWhenReady cc =
     bnd (listClusters cc) (\<lambda>(clusters, err).
       if err \<noteq> None then ret err
       else bnd (deref clusters) (\<lambda>items.
            bnd (alloc emptyCluster) (\<lambda>loopVar.
            bnd (for_each (reconcileOne cc loopVar) items) (\<lambda>_. ret None))))"

section \<open>The worker\<close>

definition getClusterAnnotationsToDelete :: "string list" where
  "getClusterAnnotationsToDelete = [
     NavarkosClusterCapacityAllocatablePodsKey,
     NavarkosClusterCapacityPodsKey,
     NavarkosClusterCapacityUsedPodsKey,
     NavarkosClusterCapacityUsedPodsKey,
     NavarkosClusterCapacitySystemPodsKey,
     NavarkosClusterNodeCountKey,
     ClusterManagerClusterOKEIdKey,
     ClusterManagerClusterOKEWorkItemKey]"

definition shutdownCluster :: "'w ClusterController \<Rightarrow> ptr \<Rightarrow> ('w state, error option) go" where
  "shutdownCluster cc cluster =
     (let updater = setAnnotation NavarkosClusterStateKey NavarkosClusterStateShuttingDown
                      (newClusterUpdater cluster) in
      bnd (cu_update cc updater) (\<lambda>(err, updater).
        if err \<noteq> None then ret err
        else bnd (callProvider cc cluster CallDelete (\<lambda>err. err) DeleteKubeCluster) (\<lambda>err.
          if err \<noteq> None then ret err
          else bnd (load cluster) (\<lambda>c.
               bnd (deleteSecret cc (Name c)) (\<lambda>err.
               let updater = reset updater;
                   updater = setAnnotation NavarkosClusterStateKey NavarkosClusterStateOffline updater;
                   updater = setServerAddress DummyServerAddress updater;
                   updater = fold deleteAnnotation getClusterAnnotationsToDelete updater
               in bnd (clusterUpdate cc updater) (\<lambda>_. ret err))))))"

definition createCluster :: "'w ClusterController \<Rightarrow> ptr \<Rightarrow> ('w state, error option) go" where
  "createCluster cc cluster =
     bnd (callProvider cc cluster CallCreate snd CreateKubeCluster) (\<lambda>(ann, err).
       let updater = newClusterUpdater cluster;
           updater = (if err \<noteq> None
             then setAnnotation NavarkosClusterStateKey NavarkosClusterStateFailedProvision updater
             else setAnnotation NavarkosClusterStateKey NavarkosClusterStateProvisioning
                    (case ann of None \<Rightarrow> updater | Some a \<Rightarrow> copyAnnotation a updater))
       in bnd (clusterUpdate cc updater) (\<lambda>_. ret err))"

definition getAnnotationIntegerValue :: "cluster \<Rightarrow> string \<Rightarrow> int64 \<Rightarrow> int64" where
  "getAnnotationIntegerValue c annotationName defaultValue =
     (case annotation c annotationName of
        None \<Rightarrow> defaultValue
      | Some original \<Rightarrow>
          if original \<noteq> '''' then
            (case Atoi original of (converted, None) \<Rightarrow> of_int converted | _ \<Rightarrow> defaultValue)
          else defaultValue)"

definition scaleSizeOf :: "cluster \<Rightarrow> bool \<Rightarrow> int64" where
  "scaleSizeOf c up =
     (if up then getAnnotationIntegerValue c ClusterManagerClusterScaleUpSizeKey DefaultClusterScaleUpSize
      else 0 - getAnnotationIntegerValue c ClusterManagerClusterScaleDownSizeKey DefaultClusterScaleDownSize)"

definition scaleCluster :: "'w ClusterController \<Rightarrow> ptr \<Rightarrow> bool \<Rightarrow> ('w state, error option) go" where
  "scaleCluster cc cluster up =
     (let updater = newClusterUpdater cluster;
          updater = (if up
            then setAnnotation NavarkosClusterStateKey NavarkosClusterStateScalingUp updater
            else setAnnotation NavarkosClusterStateKey NavarkosClusterStateScalingDown updater) in
      bnd (cu_update cc updater) (\<lambda>(err, updater).
        if err \<noteq> None then ret err
        else bnd (load cluster) (\<lambda>c.
          let scaleSize = scaleSizeOf c up in
          bnd (callProvider cc cluster (CallScale scaleSize) snd (\<lambda>P c. ScaleKubeCluster P c scaleSize))
            (\<lambda>(ann, err).
              let updater = reset updater;
                  updater = (case ann of None \<Rightarrow> updater | Some a \<Rightarrow> copyAnnotation a updater);
                  updater = (if err \<noteq> None then
                    if up then setAnnotation NavarkosClusterStateKey NavarkosClusterStateFailedScaleUp updater
                    else setAnnotation NavarkosClusterStateKey NavarkosClusterStateFailedScaleDown updater
                    else updater)
              in bnd (clusterUpdate cc updater) (\<lambda>_. ret err)))))"

text \<open>The switch of \<open>workerFunction\<close> over the state of the cluster.\<close>

definition handleState :: "'w ClusterController \<Rightarrow> ptr \<Rightarrow> string \<Rightarrow> ('w state, error option) go" where
  "handleState cc cluster clusterStatus =
     (if clusterStatus = NavarkosClusterStatePending then createCluster cc cluster
      else if clusterStatus = NavarkosClusterStatePendingShutdown then shutdownCluster cc cluster
      else if clusterStatus = NavarkosClusterStatePendingScaleUp then scaleCluster cc cluster True
      else if clusterStatus = NavarkosClusterStatePendingScaleDown then scaleCluster cc cluster False
      else ret None)"

text \<open>One round of the worker after \<open>Get\<close>: the object is fetched again by name.\<close>

definition processItem :: "'w ClusterController \<Rightarrow> ptr \<Rightarrow> ('w state, unit) go" where
  "processItem cc item =
     bnd (if item = None then crash TypeAssertion else load item) (\<lambda>queued.
     bnd (getCluster cc (Name queued)) (\<lambda>(cluster, err).
       if err \<noteq> None then ret ()
       else bnd (load cluster) (\<lambda>c.
         case annotation c NavarkosClusterStateKey of
           None \<Rightarrow> ret ()
         | Some clusterStatus \<Rightarrow>
             bnd (handleState cc cluster clusterStatus) (\<lambda>err. ret ()))))"

definition workerFunction :: "'w ClusterController \<Rightarrow> ('w state, bool) go" where
  "workerFunction cc =
     bnd (on_queue Get) (\<lambda>(item, quit).
       if quit then ret True
       else case item of
         None \<Rightarrow> ret False
       | Some p \<Rightarrow> deferring (on_queue (Done p)) (bnd (processItem cc p) (\<lambda>_. ret False)))"

text \<open>The loop of the worker, for at most \<open>n\<close> rounds; \<open>True\<close> when it has returned.\<close>

primrec worker :: "'w ClusterController \<Rightarrow> nat \<Rightarrow> ('w state, bool) go" where
  "worker cc 0 = ret False"
| "worker cc (Suc n) = bnd (workerFunction cc) (\<lambda>quit. if quit then ret True else worker cc n)"

end
