(* ===== verification/ControllerFacts.thy ===== *)
theory ControllerFacts
  imports Controller
begin

text \<open>
  What the handlers of the controller do, in terms of the calls they make and the objects
  they submit.

  \<^item> Elimination rules for the pieces: provider calls, the retry of an update, \<open>clusterUpdate\<close>.
  \<^item> One lemma per handler giving the exact order of its calls on every branch.
\<close>

section \<open>Pieces\<close>

lemma callProvider_RetE:
  assumes "callProvider cc p call err_of m s = (Ret r, s')"
  obtains a P w where "p = Some a" "a < length (heap s)" "getProvider cc (heap s ! a) = Some P"
    "m P (heap s ! a) (world s) = (Ret r, w)"
    "s' = s\<lparr>world := w, trace := trace s @ [EvProvider call (heap s ! a) (err_of r)]\<rparr>"
proof -
  from assms obtain c P where "load p s = (Ret c, s)" and P: "getProvider cc c = Some P" and
    l: "logged (\<lambda>r. EvProvider call c (err_of r)) (m P c) s = (Ret r, s')"
    unfolding callProvider_def by (auto elim!: bnd_RetE deref_RetE dest: load_RetE simp: load_Ret)
  then obtain a where a: "p = Some a" "a < length (heap s)" "c = heap s ! a" by (auto simp: load_Ret)
  from l obtain w where "m P c (world s) = (Ret r, w)"
    "s' = s\<lparr>world := w, trace := trace s @ [EvProvider call c (err_of r)]\<rparr>"
    by (rule logged_RetE) blast
  with a P show ?thesis using that by blast
qed

text \<open>Reading the clock changes nothing but the world.\<close>

definition world_only :: "'w state \<Rightarrow> 'w state \<Rightarrow> bool" where
  "world_only s s' \<longleftrightarrow> heap s' = heap s \<and> workQueue s' = workQueue s \<and>
     updateRetrier s' = updateRetrier s \<and> trace s' = trace s"

lemma world_only_refl [simp]: "world_only s s"
  by (simp add: world_only_def)

lemma world_only_trans: "world_only s t \<Longrightarrow> world_only t u \<Longrightarrow> world_only s u"
  by (simp add: world_only_def)

lemmas world_onlyD = world_only_def [THEN iffD1]

lemma now_Ret: "now cc s = (Ret t, s') \<Longrightarrow> world_only s s'"
  by (auto simp: now_def outside_def world_only_def elim!: zoom_RetE)

lemma hasExpiredNow_Ret: "hasExpiredNow cc b s = (Ret x, s') \<Longrightarrow> world_only s s' \<and>
    (\<exists>t. x = hasExpired t b)"
  by (auto simp: hasExpiredNow_def hasExpired_def split: if_splits elim!: bnd_RetE ret_RetE dest: now_Ret)

text \<open>
  A retry either finds the updater expired, or puts it into the update channel with its
  backoff advanced.
\<close>

definition retry_item :: "clusterUpdater \<Rightarrow> time \<Rightarrow> time \<Rightarrow> clusterUpdater clusterUpdaterRetryItem" where
  "retry_item cu start t =
     (let (delay, b) = next_backoff ((backoff cu)\<lparr>startTime := start\<rparr>)
      in \<lparr>item_value = cu\<lparr>backoff := b\<rparr>, deliveryTime = t + delay\<rparr>)"

text \<open>
  A retry by the readings of the clock: the first one, unless the updater was retried before, is
  when its retries started; by the second, when the backoff expires at all, it is dropped if its
  time is over; the third is from when its delay counts.
\<close>

definition clock_reads :: "'w ClusterController \<Rightarrow> 'w \<Rightarrow> time \<Rightarrow> 'w \<Rightarrow> bool" where
  "clock_reads cc w t w' \<longleftrightarrow> time_Now (packages cc) w = (Ret t, w')"

definition requeued :: "'w ClusterController \<Rightarrow> clusterUpdater \<Rightarrow> time \<Rightarrow> 'w \<Rightarrow> 'w state \<Rightarrow> 'w state \<Rightarrow> bool" where
  "requeued cc cu start w s s' \<longleftrightarrow> (\<exists>t w'. clock_reads cc w t w' \<and>
     s' = s\<lparr>world := w', updateRetrier := (updateRetrier s)\<lparr>updateChannel :=
       updateChannel (updateRetrier s) @ [retry_item cu start t]\<rparr>\<rparr>)"

definition retried :: "'w ClusterController \<Rightarrow> clusterUpdater \<Rightarrow> 'w state \<Rightarrow> 'w state \<Rightarrow> bool" where
  "retried cc cu s s' \<longleftrightarrow> (\<exists>start w1.
     (if IsZero (startTime (backoff cu)) then clock_reads cc (world s) start w1
      else start = startTime (backoff cu) \<and> w1 = world s) \<and>
     (if 0 < expiryDuration (backoff cu)
      then \<exists>t w2. clock_reads cc w1 t w2 \<and>
        (if expiryDuration (backoff cu) \<le> time_Sub t start then s' = s\<lparr>world := w2\<rparr> else requeued cc cu start w2 s s')
      else requeued cc cu start w1 s s'))"

lemma now_reads: "now cc s = (Ret t, s') \<longleftrightarrow> (\<exists>w'. clock_reads cc (world s) t w' \<and> s' = s\<lparr>world := w'\<rparr>)"
  by (auto simp: now_def outside_def zoom_def clock_reads_def split: prod.splits)

lemma deliver_requeues:
  assumes "bnd (now cc) (\<lambda>t. on_retrier (deliverAfter t (cu\<lparr>backoff := b\<rparr>) delay)) (s\<lparr>world := w\<rparr>) = (Ret u, s')"
    and "next_backoff ((backoff cu)\<lparr>startTime := start\<rparr>) = (delay, b)"
  shows "requeued cc cu start w s s'"
proof -
  from assms(1) obtain t w' where t: "clock_reads cc w t w'"
    and d: "on_retrier (deliverAfter t (cu\<lparr>backoff := b\<rparr>) delay) (s\<lparr>world := w'\<rparr>) = (Ret u, s')"
    by (auto simp: now_reads elim!: bnd_RetE)
  from d assms(2) have "s' = s\<lparr>world := w', updateRetrier := (updateRetrier s)\<lparr>updateChannel :=
       updateChannel (updateRetrier s) @ [retry_item cu start t]\<rparr>\<rparr>"
    by (auto simp: on_retrier_def deliverAfter_def send_update_def retry_item_def time_Add_def Let_def
        elim!: zoom_RetE split: if_splits)
  with t show ?thesis unfolding requeued_def by blast
qed

lemma retryClusterUpdate_retried:
  assumes "retryClusterUpdate cc cu s = (Ret u, s')"
  shows "retried cc cu s s'"
proof -
  from assms obtain cu1 s1 x s2 where
    1: "(if IsZero (startTime (backoff cu))
          then bnd (now cc) (\<lambda>t. ret (cu\<lparr>backoff := (backoff cu)\<lparr>startTime := t\<rparr>\<rparr>))
          else ret cu) s = (Ret cu1, s1)" and
    2: "hasExpiredNow cc (backoff cu1) s1 = (Ret x, s2)" and
    3: "(if \<not> x then let (delay, b) = next_backoff (backoff cu1); updater = cu1\<lparr>backoff := b\<rparr> in
         bnd (now cc) (\<lambda>t. on_retrier (deliverAfter t updater delay)) else ret ()) s2 = (Ret u, s')"
    unfolding retryClusterUpdate_def by (auto elim!: bnd_RetE)
  from 1 obtain start w1 where cu1: "cu1 = cu\<lparr>backoff := (backoff cu)\<lparr>startTime := start\<rparr>\<rparr>" and s1: "s1 = s\<lparr>world := w1\<rparr>"
    and st: "if IsZero (startTime (backoff cu)) then clock_reads cc (world s) start w1
      else start = startTime (backoff cu) \<and> w1 = world s"
    by (auto simp: now_reads split: if_splits elim!: bnd_RetE ret_RetE
        intro: that [of "startTime (backoff cu)" "world s"])
  have queued: "requeued cc cu start w s s'" if "\<not> x" "s2 = s\<lparr>world := w\<rparr>" for w
  proof -
    obtain delay b where nb: "next_backoff ((backoff cu)\<lparr>startTime := start\<rparr>) = (delay, b)"
      by (cases "next_backoff ((backoff cu)\<lparr>startTime := start\<rparr>)")
    with 3 that cu1 have "bnd (now cc) (\<lambda>t. on_retrier (deliverAfter t (cu\<lparr>backoff := b\<rparr>) delay)) (s\<lparr>world := w\<rparr>) = (Ret u, s')"
      by simp
    from deliver_requeues [OF this nb] show ?thesis .
  qed
  show ?thesis
  proof (cases "0 < expiryDuration (backoff cu)")
    case True
    with 2 cu1 s1 obtain t w2 where t: "clock_reads cc w1 t w2" "s2 = s\<lparr>world := w2\<rparr>"
      and x: "x \<longleftrightarrow> expiryDuration (backoff cu) \<le> time_Sub t start"
      by (auto simp: hasExpiredNow_def hasExpired_def now_reads elim!: bnd_RetE ret_RetE)
    have "x \<Longrightarrow> s' = s\<lparr>world := w2\<rparr>" using 3 t(2) by (simp add: ret_def)
    with x queued [OF _ t(2)] have
      "if expiryDuration (backoff cu) \<le> time_Sub t start then s' = s\<lparr>world := w2\<rparr> else requeued cc cu start w2 s s'" by simp
    with st t(1) True show ?thesis unfolding retried_def if_P [OF True] by blast
  next
    case False
    with 2 cu1 s1 have "\<not> x" "s2 = s\<lparr>world := w1\<rparr>" by (auto simp: hasExpiredNow_def ret_def)
    from queued [OF this] st show ?thesis unfolding retried_def if_not_P [OF False] by blast
  qed
qed

lemma retried_frame:
  assumes "retried cc cu s s'"
  shows "trace s' = trace s" "workQueue s' = workQueue s" "heap s' = heap s"
  using assms unfolding retried_def requeued_def by (auto split: if_splits)

text \<open>
  \<open>clusterUpdate\<close>: one update by the protocol; after an error the updater, marked for a
  resync, is handed to the retrier.
\<close>

lemma clusterUpdate_runs:
  assumes "clusterUpdate cc cu s = (Ret u, s')" "wf_patch (clusterAnnotation cu)" "cu_cc cu" "isDirty cu"
  obtains err p s1 where "cu_update cc cu s = (Ret (err, cu\<lparr>cu_cluster := p, needsResync := (err \<noteq> None)\<rparr>), s1)"
    "if err = None then s' = s1 else retried cc (cu\<lparr>cu_cluster := p, needsResync := True\<rparr>) s1 s'"
proof -
  from assms(1) obtain err cu1 s1 where upd: "cu_update cc cu s = (Ret (err, cu1), s1)" and
    rest: "(if err \<noteq> None then bnd (load (cu_cluster cu1)) (\<lambda>_. retryClusterUpdate cc cu1) else ret ()) s1 = (Ret u, s')"
    unfolding clusterUpdate_def by (auto elim!: bnd_RetE)
  from upd assms(2-) obtain p where p: "cu1 = cu\<lparr>cu_cluster := p, needsResync := (err \<noteq> None)\<rparr>"
    by (rule cu_update_protocol) blast
  have "err \<noteq> None \<Longrightarrow> retryClusterUpdate cc cu1 s1 = (Ret u, s')" using rest by (auto elim!: bnd_RetE simp: load_Ret)
  then have "if err = None then s' = s1 else retried cc (cu\<lparr>cu_cluster := p, needsResync := True\<rparr>) s1 s'"
    using rest p by (auto simp: ret_def dest!: retryClusterUpdate_retried)
  from that [OF upd [unfolded p] this] show ?thesis .
qed

lemma clusterUpdate_RetE:
  assumes "clusterUpdate cc cu s = (Ret u, s')" "wf_patch (clusterAnnotation cu)" "cu_cc cu" "isDirty cu"
  obtains a evs err where "cu_cluster cu = Some a" "a < length (heap s)" "trace s' = trace s @ evs"
    "update_protocol (patched cu) (Name (base_of cu s)) MaxRetryCount
       (if needsResync cu then None else Some (base_of cu s)) None evs err"
    "workQueue s' = workQueue s"
proof -
  from clusterUpdate_runs [OF assms] obtain err p s1 where
    upd: "cu_update cc cu s = (Ret (err, cu\<lparr>cu_cluster := p, needsResync := (err \<noteq> None)\<rparr>), s1)" and
    r: "if err = None then s' = s1 else retried cc (cu\<lparr>cu_cluster := p, needsResync := True\<rparr>) s1 s'" .
  have fr: "trace s' = trace s1" "workQueue s' = workQueue s1" using r by (auto split: if_splits dest: retried_frame)
  from upd assms(2-) obtain a evs where "cu_cluster cu = Some a" "a < length (heap s)" "trace s1 = trace s @ evs"
    "update_protocol (patched cu) (Name (base_of cu s)) MaxRetryCount
       (if needsResync cu then None else Some (base_of cu s)) None evs err" "workQueue s1 = workQueue s"
    by (rule cu_update_protocol) blast
  with fr show ?thesis by (intro that [of a evs err]) simp_all
qed

section \<open>What is written\<close>

text \<open>
  \<open>c\<close> is \<open>b\<close> moved to the state \<open>st\<close>, changed otherwise at most at the annotations \<open>ks\<close>.
\<close>

definition moves_to :: "string \<Rightarrow> string set \<Rightarrow> cluster \<Rightarrow> cluster \<Rightarrow> bool" where
  "moves_to st ks b c \<longleftrightarrow> Name c = Name b \<and> ResourceVersion c = ResourceVersion b \<and>
     ServerAddressByClientCIDRs c = ServerAddressByClientCIDRs b \<and> SecretRef c = SecretRef b \<and>
     state_of c = Some st \<and> (\<forall>k. k \<notin> insert NavarkosClusterStateKey ks \<longrightarrow> annotation c k = annotation b k)"

text \<open>\<open>c\<close> is \<open>b\<close> taken offline: the dummy address, and the annotations of a running cluster gone.\<close>

definition goes_offline :: "cluster \<Rightarrow> cluster \<Rightarrow> bool" where
  "goes_offline b c \<longleftrightarrow> Name c = Name b \<and> ResourceVersion c = ResourceVersion b \<and>
     map ServerAddress (take 1 (ServerAddressByClientCIDRs c)) = [DummyServerAddress] \<and>
     state_of c = Some NavarkosClusterStateOffline \<and>
     (\<forall>k \<in> set getClusterAnnotationsToDelete. annotation c k = None) \<and>
     (\<forall>k. k \<notin> insert NavarkosClusterStateKey (set getClusterAnnotationsToDelete) \<longrightarrow>
        annotation c k = annotation b k)"

definition create_keys :: "string set" where
  "create_keys = {ClusterManagerClusterOKEIdKey, ClusterManagerClusterOKEWorkItemKey, NavarkosClusterNodeCountKey}"

definition scale_keys :: "string set" where
  "scale_keys = {ClusterManagerClusterOKEWorkItemKey, NavarkosClusterNodeCountKey}"

lemma update_protocol_mono:
  "update_protocol Q name n ob e0 evs r \<Longrightarrow> (\<And>b c. Q b c \<Longrightarrow> Q' b c) \<Longrightarrow> update_protocol Q' name n ob e0 evs r"
  by (induction rule: update_protocol.induct) (auto intro: update_protocol.intros)

lemma patched_same:
  "patched cu b c \<Longrightarrow> serverAddress cu = None \<Longrightarrow> secretRefName cu = None \<Longrightarrow>
     Name c = Name b \<and> ResourceVersion c = ResourceVersion b \<and>
     ServerAddressByClientCIDRs c = ServerAddressByClientCIDRs b \<and> SecretRef c = SecretRef b"
  by (simp add: patched_def)

lemma patched_annotation:
  "patched cu b c \<Longrightarrow> annotation c = patch_effect (clusterAnnotation cu) (annotation b)"
  by (simp add: patched_def)

lemma moves_to_setAnnotation:
  "patched (setAnnotation NavarkosClusterStateKey st (newClusterUpdater p)) b c \<Longrightarrow> moves_to st {} b c"
  by (auto simp: patched_def moves_to_def state_of_def patch_effect_def split: if_splits)

text \<open>A patch that sets only keys of \<open>ks\<close>, followed by the new state.\<close>

lemma patch_effect_set_after:
  "ca_DeleteAnnotations q = [] \<Longrightarrow> patch_effect (SetAnnotation k v q) f = (patch_effect q f)(k \<mapsto> v)"
  by (auto simp: patch_effect_def fun_eq_iff split: option.split)

lemma patch_effect_outside:
  "k \<notin> patch_keys q \<Longrightarrow> ca_DeleteAnnotations q = [] \<Longrightarrow> patch_effect q f k = f k"
  by (auto simp: patch_effect_def patch_keys_def split: option.split)

lemma moves_to_copied:
  assumes "patched (setAnnotation NavarkosClusterStateKey st (copyAnnotation a cu)) b c"
    and "clusterAnnotation cu = emptyClusterAnnotation" "serverAddress cu = None" "secretRefName cu = None"
    and "wf_patch a" "ca_DeleteAnnotations a = []" "patch_keys a \<subseteq> ks"
  shows "moves_to st ks b c"
proof -
  note cp = copyAnnotation_patch [OF assms(5,2)]
  from cp(3) assms(6) have "ca_DeleteAnnotations (clusterAnnotation (copyAnnotation a cu)) = []" by simp
  then have "annotation c = (patch_effect a (annotation b))(NavarkosClusterStateKey \<mapsto> st)"
    using assms(1) cp(2) by (simp add: patched_def patch_effect_set_after)
  moreover have "Name c = Name b \<and> ResourceVersion c = ResourceVersion b \<and>
      ServerAddressByClientCIDRs c = ServerAddressByClientCIDRs b \<and> SecretRef c = SecretRef b"
    using assms(1,3,4) by (simp add: patched_def)
  moreover have "patch_effect a f k = f k" if "k \<notin> ks" for k f
    using that assms(6,7) by (blast intro: patch_effect_outside)
  ultimately show ?thesis by (simp add: moves_to_def state_of_def)
qed

section \<open>The handlers of the worker\<close>

text \<open>
  The specifications: the calls of a handler that was given the object \<open>c\<close>, and the error it
  returns. A tail of updates that fails for good is left to the retrier.
\<close>

definition create_spec :: "cluster \<Rightarrow> error option \<Rightarrow> event list \<Rightarrow> bool" where
  "create_spec c err evs \<longleftrightarrow> (\<exists>us e.
     evs = EvProvider CallCreate c err # us \<and>
     update_protocol (moves_to (if err = None then NavarkosClusterStateProvisioning
         else NavarkosClusterStateFailedProvision) create_keys)
       (Name c) MaxRetryCount (Some c) None us e)"

inductive shutdown_spec :: "cluster \<Rightarrow> error option \<Rightarrow> event list \<Rightarrow> bool" for c where
  not_marked: "update_protocol (moves_to NavarkosClusterStateShuttingDown {}) (Name c) MaxRetryCount (Some c) None us (Some e) \<Longrightarrow>
    shutdown_spec c (Some e) us"
| not_deleted: "update_protocol (moves_to NavarkosClusterStateShuttingDown {}) (Name c) MaxRetryCount (Some c) None us None \<Longrightarrow>
    moves_to NavarkosClusterStateShuttingDown {} c c1 \<Longrightarrow>
    shutdown_spec c (Some e) (us @ [EvProvider CallDelete c1 (Some e)])"
| deleted: "update_protocol (moves_to NavarkosClusterStateShuttingDown {}) (Name c) MaxRetryCount (Some c) None us None \<Longrightarrow>
    moves_to NavarkosClusterStateShuttingDown {} c c1 \<Longrightarrow>
    last us = EvUpdate b None \<Longrightarrow>
    sec = [] \<and> err = Some nil_secret_error \<or> sec = [EvSecretDelete (Name c) err] \<Longrightarrow>
    update_protocol goes_offline (Name b) MaxRetryCount (Some b) None us' e \<Longrightarrow>
    shutdown_spec c err (us @ [EvProvider CallDelete c1 None] @ sec @ us')"

definition scaling_state :: "bool \<Rightarrow> string" where
  "scaling_state up = (if up then NavarkosClusterStateScalingUp else NavarkosClusterStateScalingDown)"

definition failed_scale_state :: "bool \<Rightarrow> string" where
  "failed_scale_state up = (if up then NavarkosClusterStateFailedScaleUp else NavarkosClusterStateFailedScaleDown)"

text \<open>
  After a scaling that succeeded the object keeps its state, or is moved to ready when
  there was nothing to remove.
\<close>

definition keeps_state :: "string set \<Rightarrow> cluster \<Rightarrow> cluster \<Rightarrow> bool" where
  "keeps_state ks b c \<longleftrightarrow> Name c = Name b \<and> ResourceVersion c = ResourceVersion b \<and>
     ServerAddressByClientCIDRs c = ServerAddressByClientCIDRs b \<and> SecretRef c = SecretRef b \<and>
     (\<forall>k. k \<notin> ks \<longrightarrow> annotation c k = annotation b k)"

inductive scale_spec :: "bool \<Rightarrow> cluster \<Rightarrow> error option \<Rightarrow> event list \<Rightarrow> bool" for up c where
  scale_not_marked: "update_protocol (moves_to (scaling_state up) {}) (Name c) MaxRetryCount (Some c) None us (Some e) \<Longrightarrow>
    scale_spec up c (Some e) us"
| scale_failed: "update_protocol (moves_to (scaling_state up) {}) (Name c) MaxRetryCount (Some c) None us None \<Longrightarrow>
    moves_to (scaling_state up) {} c c1 \<Longrightarrow>
    last us = EvUpdate b None \<Longrightarrow>
    update_protocol (moves_to (failed_scale_state up) {}) (Name b) MaxRetryCount (Some b) None us' e' \<Longrightarrow>
    scale_spec up c (Some e) (us @ [EvProvider (CallScale (scaleSizeOf c up)) c1 (Some e)] @ us')"
| scaled: "update_protocol (moves_to (scaling_state up) {}) (Name c) MaxRetryCount (Some c) None us None \<Longrightarrow>
    moves_to (scaling_state up) {} c c1 \<Longrightarrow>
    last us = EvUpdate b None \<Longrightarrow>
    us' = [] \<or> update_protocol (keeps_state scale_keys) (Name b) MaxRetryCount (Some b) None us' e \<or>
      sint (scaleSizeOf c up) < 0 \<and>
      update_protocol (moves_to NavarkosClusterStateReady {}) (Name b) MaxRetryCount (Some b) None us' e \<Longrightarrow>
    scale_spec up c None (us @ [EvProvider (CallScale (scaleSizeOf c up)) c1 None] @ us')"

text \<open>Taking the object of the last accepted update offline.\<close>

lemma fold_deleteAnnotation_simps:
  "cu_cc (fold deleteAnnotation ks cu) = cu_cc cu"
  "cu_cluster (fold deleteAnnotation ks cu) = cu_cluster cu"
  "needsResync (fold deleteAnnotation ks cu) = needsResync cu"
  "isDirty (fold deleteAnnotation ks cu) = (isDirty cu \<or> ks \<noteq> [])"
  "serverAddress (fold deleteAnnotation ks cu) = serverAddress cu"
  "secretRefName (fold deleteAnnotation ks cu) = secretRefName cu"
  "clusterAnnotation (fold deleteAnnotation ks cu) = fold DeleteAnnotation ks (clusterAnnotation cu)"
  by (induction ks arbitrary: cu) auto

lemma fold_DeleteAnnotation_simps:
  "ca_Annotations (fold DeleteAnnotation ks q) = ca_Annotations q"
  "ca_DeleteAnnotations (fold DeleteAnnotation ks q) = ca_DeleteAnnotations q @ ks"
  "wf_patch q \<Longrightarrow> wf_patch (fold DeleteAnnotation ks q)"
  by (induction ks arbitrary: q) auto

definition offline_updater :: "clusterUpdater \<Rightarrow> clusterUpdater" where
  "offline_updater cu = fold deleteAnnotation getClusterAnnotationsToDelete
     (setServerAddress DummyServerAddress
       (setAnnotation NavarkosClusterStateKey NavarkosClusterStateOffline (reset cu)))"

lemma state_key_kept: "NavarkosClusterStateKey \<notin> set getClusterAnnotationsToDelete"
  by (simp add: getClusterAnnotationsToDelete_def key_defs)

lemma goes_offline_updater:
  assumes "patched (offline_updater cu) b c"
  shows "goes_offline b c"
proof -
  have "annotation c = (\<lambda>k. if k \<in> set getClusterAnnotationsToDelete then None
      else if k = NavarkosClusterStateKey then Some NavarkosClusterStateOffline else annotation b k)"
    using assms by (auto simp: patched_def offline_updater_def patch_effect_def fun_eq_iff
        fold_deleteAnnotation_simps fold_DeleteAnnotation_simps)
  moreover have "Name c = Name b \<and> ResourceVersion c = ResourceVersion b \<and>
      ServerAddressByClientCIDRs c = (hd (ServerAddressByClientCIDRs b))\<lparr>ServerAddress := DummyServerAddress\<rparr>
        # tl (ServerAddressByClientCIDRs b)"
    using assms by (simp add: patched_def offline_updater_def fold_deleteAnnotation_simps)
  ultimately show ?thesis
    using state_key_kept by (simp add: goes_offline_def state_of_def)
qed

lemma offline_updater_simps:
  "cu_cc (offline_updater cu) = cu_cc cu" "cu_cluster (offline_updater cu) = cu_cluster cu"
  "\<not> needsResync (offline_updater cu)" "isDirty (offline_updater cu)"
  "wf_patch (clusterAnnotation (offline_updater cu))"
  by (simp_all add: offline_updater_def fold_deleteAnnotation_simps fold_DeleteAnnotation_simps)

text \<open>The first step of a shutdown or a scaling: the transient state is written.\<close>

lemma first_update:
  assumes "cu_update cc (setAnnotation NavarkosClusterStateKey st (newClusterUpdater p)) s = (Ret (err, cu), s')"
  obtains a evs where "p = Some a" "a < length (heap s)" "a < length (heap s')" "trace s' = trace s @ evs"
    "update_protocol (moves_to st {}) (Name (heap s ! a)) MaxRetryCount (Some (heap s ! a)) None evs err"
    "moves_to st {} (heap s ! a) (heap s' ! a)" "cu_cc cu"
    "err = None \<Longrightarrow> \<exists>a'. cu_cluster cu = Some a' \<and> a' < length (heap s') \<and> evs \<noteq> [] \<and>
       last evs = EvUpdate (heap s' ! a') None"
    "workQueue s' = workQueue s" "updateRetrier s' = updateRetrier s"
proof -
  let ?cu = "setAnnotation NavarkosClusterStateKey st (newClusterUpdater p)"
  have ok: "wf_patch (clusterAnnotation ?cu)" "cu_cc ?cu" "isDirty ?cu" by simp_all
  obtain a evs q where P: "cu_cluster ?cu = Some a" "a < length (heap s)" "trace s' = trace s @ evs"
    "update_protocol (patched ?cu) (Name (base_of ?cu s)) MaxRetryCount
       (if needsResync ?cu then None else Some (base_of ?cu s)) None evs err"
    "workQueue s' = workQueue s" "updateRetrier s' = updateRetrier s"
    "length (heap s) \<le> length (heap s')" "\<not> needsResync ?cu \<Longrightarrow> patched ?cu (heap s ! a) (heap s' ! a)"
    "cu = ?cu\<lparr>cu_cluster := q, needsResync := (err \<noteq> None)\<rparr>" "err = None \<Longrightarrow> ends_accepted evs q s'"
    by (rule cu_update_protocol [OF assms ok]) (rule that, assumption+)
  show ?thesis
  proof (rule that [of a evs])
    show "update_protocol (moves_to st {}) (Name (heap s ! a)) MaxRetryCount (Some (heap s ! a)) None evs err"
      using P(1,4) by (auto simp: base_of_def intro: update_protocol_mono moves_to_setAnnotation)
  qed (use P in \<open>auto simp: ends_accepted_def intro: moves_to_setAnnotation\<close>)
qed

lemma scaleSizeOf_moves: "moves_to st {} b c \<Longrightarrow> st = scaling_state up \<Longrightarrow> scaleSizeOf c up = scaleSizeOf b up"
  by (simp add: moves_to_def scaleSizeOf_def getAnnotationIntegerValue_def key_defs)

lemma deleteSecret_RetE:
  assumes "deleteSecret cc name s = (Ret err, s')"
  obtains sec where "trace s' = trace s @ sec" "heap s' = heap s"
    "sec = [] \<and> err = Some nil_secret_error \<or> sec = [EvSecretDelete name err]"
    "workQueue s' = workQueue s" "updateRetrier s' = updateRetrier s"
  using assms by (auto simp: deleteSecret_def ret_def split: option.splits elim!: logged_RetE)

text \<open>The tail of a handler: an update that is retried later when it fails.\<close>

lemma last_update:
  assumes "clusterUpdate cc cu s = (Ret u, s')" "wf_patch (clusterAnnotation cu)" "cu_cc cu" "isDirty cu"
    and "\<not> needsResync cu" "cu_cluster cu = Some a" "\<And>b c. patched cu b c \<Longrightarrow> Q b c"
  shows "\<exists>evs e. trace s' = trace s @ evs \<and>
     update_protocol Q (Name (heap s ! a)) MaxRetryCount (Some (heap s ! a)) None evs e"
proof -
  from assms(1-4) obtain evs err where "trace s' = trace s @ evs"
    "update_protocol (patched cu) (Name (base_of cu s)) MaxRetryCount
       (if needsResync cu then None else Some (base_of cu s)) None evs err"
    by (rule clusterUpdate_RetE)
  moreover have "base_of cu s = heap s ! a" using assms(6) by (simp add: base_of_def)
  ultimately show ?thesis using assms(5,7) by (auto intro: update_protocol_mono)
qed

lemma shutdownCluster_spec:
  assumes "shutdownCluster cc p s = (Ret err, s')"
  shows "\<exists>a evs. p = Some a \<and> a < length (heap s) \<and> trace s' = trace s @ evs \<and> shutdown_spec (heap s ! a) err evs"
proof -
  let ?cu = "setAnnotation NavarkosClusterStateKey NavarkosClusterStateShuttingDown (newClusterUpdater p)"
  from assms obtain e1 cu1 s1 where upd: "cu_update cc ?cu s = (Ret (e1, cu1), s1)" and
    rest1: "(if e1 \<noteq> None then ret e1
        else bnd (callProvider cc p CallDelete (\<lambda>err. err) DeleteKubeCluster) (\<lambda>err.
          if err \<noteq> None then ret err
          else bnd (load p) (\<lambda>c. bnd (deleteSecret cc (Name c)) (\<lambda>err.
            bnd (clusterUpdate cc (offline_updater cu1)) (\<lambda>_. ret err))))) s1 = (Ret err, s')"
    unfolding shutdownCluster_def Let_def offline_updater_def [symmetric] by (auto elim!: bnd_RetE)
  from upd obtain a us where U: "p = Some a" "a < length (heap s)" "a < length (heap s1)" "trace s1 = trace s @ us"
    "update_protocol (moves_to NavarkosClusterStateShuttingDown {}) (Name (heap s ! a)) MaxRetryCount (Some (heap s ! a)) None us e1"
    "moves_to NavarkosClusterStateShuttingDown {} (heap s ! a) (heap s1 ! a)" "cu_cc cu1"
    "e1 = None \<Longrightarrow> \<exists>a'. cu_cluster cu1 = Some a' \<and> a' < length (heap s1) \<and> us \<noteq> [] \<and> last us = EvUpdate (heap s1 ! a') None"
    by (rule first_update) (rule that)
  show ?thesis
  proof (cases e1)
    case (Some e)
    with rest1 have "err = e1" "s' = s1" by (simp_all add: ret_def)
    with U Some show ?thesis by (auto intro: shutdown_spec.not_marked)
  next
    case None
    with rest1 obtain e2 s2 where
      call: "callProvider cc p CallDelete (\<lambda>err. err) DeleteKubeCluster s1 = (Ret e2, s2)" and
      rest2: "(if e2 \<noteq> None then ret e2
          else bnd (load p) (\<lambda>c. bnd (deleteSecret cc (Name c)) (\<lambda>err.
            bnd (clusterUpdate cc (offline_updater cu1)) (\<lambda>_. ret err)))) s2 = (Ret err, s')"
      by (auto elim!: bnd_RetE)
    from call U(1) have s2: "heap s2 = heap s1" "trace s2 = trace s1 @ [EvProvider CallDelete (heap s1 ! a) e2]"
      by (auto elim: callProvider_RetE)
    show ?thesis
    proof (cases e2)
      case (Some e)
      with rest2 have "err = e2" "s' = s2" by (simp_all add: ret_def)
      with U s2 \<open>e1 = None\<close> Some show ?thesis
        by (auto intro: shutdown_spec.not_deleted)
    next
      case None
      with rest2 U(1) obtain s3 where del: "deleteSecret cc (Name (heap s2 ! a)) s2 = (Ret err, s3)" and
        fin: "clusterUpdate cc (offline_updater cu1) s3 = (Ret (), s')"
        by (auto elim!: bnd_RetE load_RetE ret_RetE)
      from del U(6) s2 obtain sec where s3: "heap s3 = heap s2" "trace s3 = trace s2 @ sec"
        "sec = [] \<and> err = Some nil_secret_error \<or> sec = [EvSecretDelete (Name (heap s ! a)) err]"
        by (auto elim: deleteSecret_RetE simp: moves_to_def)
      from U(8) [OF \<open>e1 = None\<close>] obtain a' where a': "cu_cluster cu1 = Some a'" "last us = EvUpdate (heap s1 ! a') None"
        by blast
      from last_update [OF fin, of a' goes_offline] a'(1) U(7) obtain us' e3 where
        "trace s' = trace s3 @ us'" "update_protocol goes_offline (Name (heap s1 ! a')) MaxRetryCount (Some (heap s1 ! a')) None us' e3"
        by (auto simp: offline_updater_simps goes_offline_updater s3(1) s2(1))
      with shutdown_spec.deleted [OF U(5) [unfolded \<open>e1 = None\<close>] U(6) a'(2) s3(3)]
      have "trace s' = trace s @ us @ [EvProvider CallDelete (heap s1 ! a) None] @ sec @ us'"
        "shutdown_spec (heap s ! a) err (us @ [EvProvider CallDelete (heap s1 ! a) None] @ sec @ us')"
        using U(4) s2(2) s3(2) None by simp_all
      with U(1,2) show ?thesis by blast
    qed
  qed
qed

text \<open>The update that reports a scaling, by what the provider returned.\<close>

lemma keeps_state_copied:
  assumes "patched (copyAnnotation a (reset cu)) b c" "wf_patch a" "ca_DeleteAnnotations a = []" "patch_keys a \<subseteq> ks"
  shows "keeps_state ks b c"
proof -
  have "annotation c = patch_effect a (annotation b)"
    using patched_annotation [OF assms(1)] copyAnnotation_patch(2) [OF assms(2)] by simp
  moreover have "patch_effect a f k = f k" if "k \<notin> ks" for k f
    using that assms(3,4) by (blast intro: patch_effect_outside)
  ultimately show ?thesis using patched_same [OF assms(1)] by (simp add: keeps_state_def)
qed

lemma ready_copied:
  assumes "patched (copyAnnotation ready_patch (reset cu)) b c"
  shows "moves_to NavarkosClusterStateReady {} b c"
proof -
  have "annotation c = (annotation b)(NavarkosClusterStateKey \<mapsto> NavarkosClusterStateReady)"
    using patched_annotation [OF assms] copyAnnotation_patch(2) [of ready_patch "reset cu"]
      nil_prov.ready_patch_effect by (simp add: ready_patch_def)
  with patched_same [OF assms] show ?thesis by (simp add: moves_to_def state_of_def)
qed

lemma scale_tail:
  assumes fin: "clusterUpdate cc
      (let updater = (case ann of None \<Rightarrow> reset cu | Some a \<Rightarrow> copyAnnotation a (reset cu))
       in if err \<noteq> None then setAnnotation NavarkosClusterStateKey st updater else updater) s = (Ret (), s')"
    and law: "(err \<noteq> None \<longrightarrow> ann = None) \<and>
      (\<forall>a. ann = Some a \<longrightarrow> wf_patch a \<and> ca_DeleteAnnotations a = [] \<and>
         (a = ready_patch \<and> sint n < 0 \<or>
          patch_keys a \<subseteq> {ClusterManagerClusterOKEWorkItemKey, NavarkosClusterNodeCountKey}))"
    and cu: "cu_cc cu" "cu_cluster cu = Some a"
  shows "\<exists>us e. trace s' = trace s @ us \<and>
     (if err \<noteq> None then update_protocol (moves_to st {}) (Name (heap s ! a)) MaxRetryCount (Some (heap s ! a)) None us e
      else us = [] \<or> update_protocol (keeps_state scale_keys) (Name (heap s ! a)) MaxRetryCount (Some (heap s ! a)) None us e \<or>
        sint n < 0 \<and> update_protocol (moves_to NavarkosClusterStateReady {}) (Name (heap s ! a)) MaxRetryCount (Some (heap s ! a)) None us e)"
proof (cases err)
  case (Some e)
  let ?cu = "setAnnotation NavarkosClusterStateKey st (reset cu)"
  from Some law fin have fin': "clusterUpdate cc ?cu s = (Ret (), s')" by simp
  have mv: "moves_to st {} b c" if "patched ?cu b c" for b c
    using patched_same [OF that] patched_annotation [OF that]
    by (simp add: moves_to_def state_of_def patch_effect_def)
  have "wf_patch (clusterAnnotation ?cu)" "cu_cc ?cu" "isDirty ?cu" "\<not> needsResync ?cu" "cu_cluster ?cu = Some a"
    using cu by simp_all
  from last_update [OF fin' this mv] Some show ?thesis by simp
next
  case None
  show ?thesis
  proof (cases ann)
    case (Some x)
    let ?cu = "copyAnnotation x (reset cu)"
    from Some None fin have fin': "clusterUpdate cc ?cu s = (Ret (), s')" by simp
    from law Some have x: "wf_patch x" "ca_DeleteAnnotations x = []" by auto
    show ?thesis
    proof (cases "isDirty ?cu")
      case False
      with fin' cu None show ?thesis by (simp add: clusterUpdate_def cu_update_clean go_simps)
    next
      case True
      note upd = last_update [OF fin' _ _ True, where a = a]
      have "wf_patch (clusterAnnotation ?cu)" "cu_cc ?cu" "\<not> needsResync ?cu" "cu_cluster ?cu = Some a"
        using x cu by (simp_all add: copyAnnotation_patch)
      note upd = upd [OF this]
      show ?thesis
      proof (cases "x = ready_patch \<and> sint n < 0")
        case True
        with upd [of "moves_to NavarkosClusterStateReady {}"] ready_copied None show ?thesis by auto
      next
        case False
        with law Some have "patch_keys x \<subseteq> scale_keys" by (auto simp: scale_keys_def)
        with upd [of "keeps_state scale_keys"] keeps_state_copied x None show ?thesis by auto
      qed
    qed
  next
    case None
    with fin cu \<open>err = None\<close> show ?thesis by (simp add: clusterUpdate_def cu_update_clean go_simps)
  qed
qed

section \<open>Controllers with the contract\<close>

text \<open>
  What the handlers need of the controller they run on: its providers keep the provider
  contract. The two provider theories show this of the controller the program builds.
\<close>

locale contract_controller =
  fixes cc :: "'w ClusterController"
  assumes providers_ok: "map_of (clusterProviders cc) k = Some P \<Longrightarrow> provider_contract P"
begin

lemma getProvider_ok: "getProvider cc c = Some P \<Longrightarrow> provider_contract P"
  unfolding getProvider_def by (rule providers_ok)

lemma create_spec_run:
  assumes "createCluster cc p s = (Ret err, s')"
  shows "\<exists>a evs. p = Some a \<and> a < length (heap s) \<and> trace s' = trace s @ evs \<and> create_spec (heap s ! a) err evs"
proof -
  define upd where "upd ann err = (if err \<noteq> (None :: error option)
      then setAnnotation NavarkosClusterStateKey NavarkosClusterStateFailedProvision (newClusterUpdater p)
      else setAnnotation NavarkosClusterStateKey NavarkosClusterStateProvisioning
        (case ann of None \<Rightarrow> newClusterUpdater p | Some a \<Rightarrow> copyAnnotation a (newClusterUpdater p)))" for ann err
  from assms obtain ann s1 where
    call: "callProvider cc p CallCreate snd CreateKubeCluster s = (Ret (ann, err), s1)" and
    fin: "clusterUpdate cc (upd ann err) s1 = (Ret (), s')"
    unfolding createCluster_def Let_def upd_def by (auto elim!: bnd_RetE ret_RetE)
  from call obtain a P w where a: "p = Some a" "a < length (heap s)" and
    P: "getProvider cc (heap s ! a) = Some P" "CreateKubeCluster P (heap s ! a) (world s) = (Ret (ann, err), w)" and
    s1: "heap s1 = heap s" "trace s1 = trace s @ [EvProvider CallCreate (heap s ! a) err]"
    by (auto elim!: callProvider_RetE)
  define st where "st = (if err = None then NavarkosClusterStateProvisioning else NavarkosClusterStateFailedProvision)"
  note law = provider_contract.create_law [OF getProvider_ok [OF P(1)] P(2)]
  have wf: "wf_patch (clusterAnnotation (upd ann err))" "cu_cc (upd ann err)" "isDirty (upd ann err)"
    "\<not> needsResync (upd ann err)" "cu_cluster (upd ann err) = Some a"
    using law a(1) by (auto simp: upd_def copyAnnotation_patch split: option.split)
  have Q: "moves_to st create_keys b c" if "patched (upd ann err) b c" for b c
  proof (cases "err = None \<and> ann \<noteq> None")
    case True
    then obtain x where x: "ann = Some x" by auto
    with True law have "wf_patch x" "ca_DeleteAnnotations x = []" "patch_keys x \<subseteq> create_keys"
      by (auto simp: create_keys_def)
    with True x that show ?thesis
      by (auto simp: upd_def st_def intro!: moves_to_copied [where a = x and cu = "newClusterUpdater p"])
  next
    case False
    with that have "moves_to st {} b c"
      by (cases err) (auto simp: upd_def st_def intro: moves_to_setAnnotation split: option.splits)
    then show ?thesis by (simp add: moves_to_def)
  qed
  from last_update [OF fin wf, of "moves_to st create_keys"] Q s1 obtain us e where
    "trace s' = trace s @ EvProvider CallCreate (heap s ! a) err # us"
    "update_protocol (moves_to st create_keys) (Name (heap s ! a)) MaxRetryCount (Some (heap s ! a)) None us e"
    by auto
  with a show ?thesis unfolding create_spec_def st_def by blast
qed

lemma scale_spec_run:
  assumes "scaleCluster cc p up s = (Ret err, s')"
  shows "\<exists>a evs. p = Some a \<and> a < length (heap s) \<and> trace s' = trace s @ evs \<and> scale_spec up (heap s ! a) err evs"
proof -
  define upd where "upd cu ann err =
    (let updater = (case ann of None \<Rightarrow> reset cu | Some a \<Rightarrow> copyAnnotation a (reset cu))
     in if err \<noteq> (None :: error option)
        then setAnnotation NavarkosClusterStateKey (failed_scale_state up) updater else updater)" for cu ann err
  from assms obtain e1 cu1 s1 where
    first: "cu_update cc (setAnnotation NavarkosClusterStateKey (scaling_state up) (newClusterUpdater p)) s = (Ret (e1, cu1), s1)" and
    rest: "(if e1 \<noteq> None then ret e1 else bnd (load p) (\<lambda>c.
        bnd (callProvider cc p (CallScale (scaleSizeOf c up)) snd (\<lambda>P c'. ScaleKubeCluster P c' (scaleSizeOf c up)))
          (\<lambda>(ann, err). bnd (clusterUpdate cc (upd cu1 ann err)) (\<lambda>_. ret err)))) s1 = (Ret err, s')"
    unfolding scaleCluster_def Let_def upd_def scaling_state_def failed_scale_state_def
    by (cases up) (auto elim!: bnd_RetE simp: if_distrib cong: if_cong)
  from first obtain a us where U: "p = Some a" "a < length (heap s)" "a < length (heap s1)" "trace s1 = trace s @ us"
    "update_protocol (moves_to (scaling_state up) {}) (Name (heap s ! a)) MaxRetryCount (Some (heap s ! a)) None us e1"
    "moves_to (scaling_state up) {} (heap s ! a) (heap s1 ! a)" "cu_cc cu1"
    "e1 = None \<Longrightarrow> \<exists>a'. cu_cluster cu1 = Some a' \<and> a' < length (heap s1) \<and> us \<noteq> [] \<and> last us = EvUpdate (heap s1 ! a') None"
    by (rule first_update) (rule that)
  show ?thesis
  proof (cases e1)
    case (Some e)
    with rest have "err = e1" "s' = s1" by (simp_all add: ret_def)
    with U Some show ?thesis by (auto intro: scale_spec.scale_not_marked)
  next
    case None
    define n where "n = scaleSizeOf (heap s ! a) up"
    from scaleSizeOf_moves [OF U(6) refl] have n1: "scaleSizeOf (heap s1 ! a) up = n" by (simp add: n_def)
    from rest None U(1) n1 obtain ann s2 where
      call: "callProvider cc p (CallScale n) snd (\<lambda>P c'. ScaleKubeCluster P c' n) s1 = (Ret (ann, err), s2)" and
      fin: "clusterUpdate cc (upd cu1 ann err) s2 = (Ret (), s')"
      by (auto elim!: bnd_RetE load_RetE ret_RetE)
    from call U(1) obtain P w where P: "getProvider cc (heap s1 ! a) = Some P"
      "ScaleKubeCluster P (heap s1 ! a) n (world s1) = (Ret (ann, err), w)" and
      s2: "heap s2 = heap s1" "trace s2 = trace s1 @ [EvProvider (CallScale n) (heap s1 ! a) err]"
      by (auto elim!: callProvider_RetE)
    note law = provider_contract.scale_law [OF getProvider_ok [OF P(1)] P(2)]
    from U(8) None obtain a' where a': "cu_cluster cu1 = Some a'" "last us = EvUpdate (heap s1 ! a') None"
      by blast
    have tail: "\<exists>us'. trace s' = trace s2 @ us' \<and> scale_spec up (heap s ! a) err
        (us @ [EvProvider (CallScale n) (heap s1 ! a) err] @ us')"
    proof -
      from scale_tail [OF fin [unfolded upd_def] law U(7) a'(1)] obtain us' e where
        t: "trace s' = trace s2 @ us'" and
        u: "if err \<noteq> None then update_protocol (moves_to (failed_scale_state up) {}) (Name (heap s1 ! a')) MaxRetryCount (Some (heap s1 ! a')) None us' e
          else us' = [] \<or> update_protocol (keeps_state scale_keys) (Name (heap s1 ! a')) MaxRetryCount (Some (heap s1 ! a')) None us' e \<or>
            sint n < 0 \<and> update_protocol (moves_to NavarkosClusterStateReady {}) (Name (heap s1 ! a')) MaxRetryCount (Some (heap s1 ! a')) None us' e"
        unfolding s2(1) by blast
      note us = U(5) [unfolded None] U(6) a'(2)
      have "scale_spec up (heap s ! a) err (us @ [EvProvider (CallScale n) (heap s1 ! a) err] @ us')"
      proof (cases err)
        case None
        with u scale_spec.scaled [OF us, of us' e] show ?thesis by (simp add: n_def)
      next
        case (Some e2)
        with u scale_spec.scale_failed [OF us, of us' e e2] show ?thesis by (simp add: n_def)
      qed
      with t show ?thesis by blast
    qed
    with U s2 show ?thesis by (auto simp: n_def)
  qed
qed

end

end
