(* ===== verification/JoinFacts.thy ===== *)
theory JoinFacts
  imports ControllerFacts
begin

text \<open>
  The second half of the controller: one round of the worker, and the periodic pass that
  validates clusters and lets them join.

  \<^item> \<open>work_spec\<close>: the calls of one round of the worker, by the state of the object it fetched.
  \<^item> \<open>delete_protocol\<close>, \<open>recreates\<close>, \<open>join_spec\<close>, \<open>validate_spec\<close>: the same for the
    handlers of \<open>reconcileWhenReady\<close>.
\<close>

section \<open>Deleting and recreating the object\<close>

definition obj :: "ptr \<Rightarrow> 'w state \<Rightarrow> cluster option" where
  "obj p s = map_option (\<lambda>a. heap s ! a) p"

definition valid_ptr :: "ptr \<Rightarrow> 'w state \<Rightarrow> bool" where
  "valid_ptr p s \<longleftrightarrow> (\<forall>a. p = Some a \<longrightarrow> a < length (heap s))"

inductive delete_protocol :: "nat \<Rightarrow> cluster option \<Rightarrow> error option \<Rightarrow> event list \<Rightarrow> error option \<Rightarrow> cluster option \<Rightarrow> bool" where
  del_exhausted: "delete_protocol 0 ob e0 [] e0 ob"
| del_done: "delete_protocol (Suc n) (Some b) e0 [EvDelete (Name b) None] None (Some b)"
| del_retry: "delete_protocol n ob' (Some e) evs r ob'' \<Longrightarrow>
    delete_protocol (Suc n) (Some b) e0 (EvDelete (Name b) (Some e) # EvGet (Name b) ob' ge # evs) r ob''"

lemma getCluster_obj:
  assumes "getCluster cc name s = (Ret (p, err), s')"
  shows "trace s' = trace s @ [EvGet name (obj p s') err]" "valid_ptr p s'" "outside_only s s'"
  using assms by (auto elim!: getCluster_RetE simp: obj_def valid_ptr_def outside_only_def)

lemma deleteCluster_Ret:
  "deleteCluster cc name s = (Ret err, s') \<Longrightarrow> trace s' = trace s @ [EvDelete name err] \<and> outside_only s s' \<and> heap s' = heap s"
  by (auto simp: deleteCluster_def outside_only_def elim!: logged_RetE)

lemma reset_delete_protocol:
  assumes "reset_delete cc n e0 p s = (Ret (err, p'), s')" "valid_ptr p s"
  shows "\<exists>evs. trace s' = trace s @ evs \<and> delete_protocol n (obj p s) e0 evs err (obj p' s') \<and>
     valid_ptr p' s' \<and> outside_only s s'"
  using assms
proof (induction n arbitrary: e0 p s)
  case 0
  then show ?case by (auto simp: ret_def intro: delete_protocol.del_exhausted)
next
  case (Suc n)
  from Suc.prems(1) obtain a e1 s1 where a: "p = Some a" "a < length (heap s)" and
    del: "deleteCluster cc (Name (heap s ! a)) s = (Ret e1, s1)" and
    rest: "(if e1 = None then ret (None, p)
       else bnd (load p) (\<lambda>c. bnd (getCluster cc (Name c)) (\<lambda>(cluster, _). reset_delete cc n e1 cluster))) s1 = (Ret (err, p'), s')"
    by (auto elim!: bnd_RetE load_RetE)
  note d = deleteCluster_Ret [OF del]
  show ?case
  proof (cases e1)
    case None
    with rest have "err = None" "p' = p" "s' = s1" by (simp_all add: ret_def)
    with None a d show ?thesis by (auto simp: obj_def valid_ptr_def intro: delete_protocol.del_done)
  next
    case (Some e)
    with rest a d obtain q ge s2 where get: "getCluster cc (Name (heap s ! a)) s1 = (Ret (q, ge), s2)" and
      loop: "reset_delete cc n (Some e) q s2 = (Ret (err, p'), s')"
      by (auto elim!: bnd_RetE load_RetE)
    note g = getCluster_obj [OF get]
    from Suc.IH [OF loop g(2)] obtain evs where evs: "trace s' = trace s2 @ evs"
      "delete_protocol n (obj q s2) (Some e) evs err (obj p' s')" "valid_ptr p' s'" "outside_only s2 s'" by blast
    have "delete_protocol (Suc n) (obj p s) e0
        (EvDelete (Name (heap s ! a)) (Some e) # EvGet (Name (heap s ! a)) (obj q s2) ge # evs) err (obj p' s')"
      unfolding a(1) obj_def option.map by (rule delete_protocol.del_retry [OF evs(2) [unfolded obj_def]])
    with evs d g Some show ?thesis by (auto intro: outside_only_trans)
  qed
qed

lemma delete_protocol_success:
  "delete_protocol n ob e0 evs None ob' \<Longrightarrow> e0 \<noteq> None \<or> 0 < n \<Longrightarrow>
     \<exists>b. ob' = Some b \<and> evs \<noteq> [] \<and> last evs = EvDelete (Name b) None"
proof (induction n ob e0 evs "None :: error option" ob' rule: delete_protocol.induct)
  case (del_retry n ob' e evs ob'' b e0 ge)
  then have "\<exists>b. ob'' = Some b \<and> evs \<noteq> [] \<and> last evs = EvDelete (Name b) None" by simp
  then show ?case by auto
qed auto

lemma delete_protocol_bound:
  "delete_protocol n ob e0 evs r ob' \<Longrightarrow> length evs \<le> 2 * n"
  by (induction rule: delete_protocol.induct) auto

text \<open>The attempts to create the object again, by their errors.\<close>

definition recreates :: "nat \<Rightarrow> cluster \<Rightarrow> event list \<Rightarrow> error option \<Rightarrow> bool" where
  "recreates n c evs err \<longleftrightarrow> (\<exists>es. evs = map (EvCreate c) (es @ [err]) \<and> (\<forall>e \<in> set es. e \<noteq> None) \<and>
     length es < n \<and> (err \<noteq> None \<longrightarrow> Suc (length es) = n))"

lemma recreateCluster_Ret:
  "recreateCluster cc (Some a) s = (Ret e, s') \<Longrightarrow>
     trace s' = trace s @ [EvCreate (heap s ! a) e] \<and> heap s' = heap s"
  unfolding recreateCluster_def by (auto elim!: bnd_RetE load_RetE logged_RetE ret_RetE)

lemma MaxRetryCount_Suc: "MaxRetryCount = Suc 2"
  by (simp add: MaxRetryCount_def)

lemma reset_create_recreates:
  assumes "reset_create cc (Suc n) e0 (Some a) s = (Ret err, s')" "a < length (heap s)"
  shows "\<exists>evs. trace s' = trace s @ evs \<and> recreates (Suc n) (heap s ! a) evs err"
  using assms
proof (induction n arbitrary: e0 s)
  case 0
  then show ?case
    by (auto simp: recreateCluster_def recreates_def ret_def elim!: bnd_RetE load_RetE logged_RetE split: if_splits)
next
  case (Suc n)
  from Suc.prems(1) obtain e1 s1 where cr: "recreateCluster cc (Some a) s = (Ret e1, s1)" and
    rest: "(if e1 = None then ret None else reset_create cc (Suc n) e1 (Some a)) s1 = (Ret err, s')"
    by (subst (asm) reset_create.simps(2)) (erule bnd_RetE)
  from recreateCluster_Ret [OF cr]
  have s1: "trace s1 = trace s @ [EvCreate (heap s ! a) e1]" "heap s1 = heap s" by simp_all
  show ?case
  proof (cases e1)
    case None
    with rest have "err = None" "s' = s1" by (simp_all add: ret_def)
    with s1 None show ?thesis by (auto simp: recreates_def intro!: exI [of _ "[]"])
  next
    case (Some e)
    with rest have "reset_create cc (Suc n) e1 (Some a) s1 = (Ret err, s')" by simp
    from Suc.IH [OF this] Suc.prems(2) s1(2) obtain es where
      "trace s' = trace s1 @ map (EvCreate (heap s ! a)) (es @ [err])" "\<forall>e \<in> set es. e \<noteq> None"
      "length es < Suc n" "err \<noteq> None \<longrightarrow> Suc (length es) = Suc n"
      by (auto simp: recreates_def)
    with s1 Some show ?thesis
      by (intro exI [of _ "map (EvCreate (heap s ! a)) ((e1 # es) @ [err])"])
        (auto simp: recreates_def intro!: exI [of _ "e1 # es"])
  qed
qed

inductive reset_spec :: "cluster \<Rightarrow> error option \<Rightarrow> event list \<Rightarrow> bool" for c where
  not_deleted: "delete_protocol MaxRetryCount (Some c) None evs (Some e) ob \<Longrightarrow> reset_spec c (Some e) evs"
| recreated: "delete_protocol MaxRetryCount (Some c) None evs None (Some b) \<Longrightarrow>
    recreates MaxRetryCount (b\<lparr>ResourceVersion := ''''\<rparr>) evs' err \<Longrightarrow> reset_spec c err (evs @ evs')"

lemma resetCluster_spec:
  assumes "resetCluster cc (Some a) s = (Ret err, s')" "a < length (heap s)"
  shows "\<exists>evs. trace s' = trace s @ evs \<and> reset_spec (heap s ! a) err evs"
proof -
  from assms(1) obtain e1 p1 s1 where
    del: "reset_delete cc MaxRetryCount None (Some a) s = (Ret (e1, p1), s1)" and
    rest: "(if e1 \<noteq> None then ret e1 else bnd (load p1) (\<lambda>c. bnd (store p1 (c\<lparr>ResourceVersion := ''''\<rparr>)) (\<lambda>_.
       reset_create cc MaxRetryCount None p1))) s1 = (Ret err, s')"
    unfolding resetCluster_def by (auto elim!: bnd_RetE)
  from reset_delete_protocol [OF del] assms(2) obtain evs where
    t1: "trace s1 = trace s @ evs" and dp: "delete_protocol MaxRetryCount (Some (heap s ! a)) None evs e1 (obj p1 s1)"
    by (auto simp: valid_ptr_def obj_def)
  show ?thesis
  proof (cases e1)
    case (Some e)
    with rest have "err = Some e" "s' = s1" by (simp_all add: ret_def)
    with t1 dp Some show ?thesis by (auto intro: reset_spec.not_deleted)
  next
    case None
    with rest obtain a1 where a1: "p1 = Some a1" "a1 < length (heap s1)" and
      cr: "reset_create cc MaxRetryCount None (Some a1)
         (s1\<lparr>heap := (heap s1)[a1 := (heap s1 ! a1)\<lparr>ResourceVersion := ''''\<rparr>]\<rparr>) = (Ret err, s')"
      by (auto elim!: bnd_RetE load_RetE store_RetE)
    from reset_create_recreates [OF cr [unfolded MaxRetryCount_Suc]] a1(2) obtain evs' where
      "trace s' = trace s1 @ evs'" "recreates (Suc 2) ((heap s1 ! a1)\<lparr>ResourceVersion := ''''\<rparr>) evs' err"
      by auto
    moreover have "delete_protocol MaxRetryCount (Some (heap s ! a)) None evs None (Some (heap s1 ! a1))"
      using dp None a1(1) by (simp add: obj_def)
    ultimately show ?thesis
      using t1 by (auto simp: MaxRetryCount_Suc intro: reset_spec.recreated)
  qed
qed

section \<open>Joining\<close>

text \<open>\<open>c\<close> is \<open>b\<close> ready to use: the state, the server address and the secret are set.\<close>

definition joins :: "string \<Rightarrow> cluster \<Rightarrow> cluster \<Rightarrow> bool" where
  "joins server b c \<longleftrightarrow> Name c = Name b \<and> ResourceVersion c = ResourceVersion b \<and>
     state_of c = Some NavarkosClusterStateReady \<and>
     (\<forall>k. k \<noteq> NavarkosClusterStateKey \<longrightarrow> annotation c k = annotation b k) \<and>
     map ServerAddress (take 1 (ServerAddressByClientCIDRs c)) = [server] \<and>
     SecretRef c = Some (Name b)"

text \<open>The address of the cluster that the current context of an exported kubeconfig names.\<close>

definition exported_server :: "kubeConfig option \<times> error option \<Rightarrow> string option" where
  "exported_server exported = (case exported of
      (Some conf, None) \<Rightarrow>
        (case (cfg_Clusters conf, map_get (cfg_Contexts conf) (cfg_CurrentContext conf)) of
           (Some clusters, Some (Some cx)) \<Rightarrow>
             (case map_of clusters (cx_Cluster cx) of Some (Some kc) \<Rightarrow> Some (kc_Server kc) | _ \<Rightarrow> None)
         | _ \<Rightarrow> None)
    | _ \<Rightarrow> None)"

inductive join_spec :: "string option \<Rightarrow> cluster \<Rightarrow> event list \<Rightarrow> bool" for address c where
  no_config: "join_spec address c [EvProvider CallExport c e]"
| no_secret: "join_spec address c [EvProvider CallExport c None, EvSecretCreate (Name c) (Some e)]"
| joined: "address = Some server \<Longrightarrow> joins server c c' \<Longrightarrow> reset_spec c' err evs \<Longrightarrow>
    join_spec address c ([EvProvider CallExport c None, EvSecretCreate (Name c) None] @ evs)"

lemma createClusterSecrets_RetE:
  assumes "createClusterSecrets cc (Some a) conf s = (Ret err, s')"
  obtains "trace s' = trace s \<and> err \<noteq> None \<and> heap s' = heap s"
  | "trace s' = trace s @ [EvSecretCreate (Name (heap s ! a)) err] \<and> heap s' = heap s"
  using assms unfolding createClusterSecrets_def createSecret_def
  by (auto simp: outside_def elim!: bnd_RetE load_RetE ret_RetE logged_RetE zoom_RetE split: option.splits if_splits)

lemma updateData_joins:
  assumes "updateData (setSecretRefName name (setServerAddress server
      (setAnnotation NavarkosClusterStateKey NavarkosClusterStateReady (newClusterUpdater (Some a))))) s = (Ret u, s')"
    and "name = Name (heap s ! a)"
  shows "joins server (heap s ! a) (heap s' ! a)" "a < length (heap s')" "trace s' = trace s"
proof -
  from assms(1) obtain c where c: "a < length (heap s)" "s' = s\<lparr>heap := (heap s)[a := c]\<rparr>"
    "patched (setSecretRefName name (setServerAddress server
      (setAnnotation NavarkosClusterStateKey NavarkosClusterStateReady (newClusterUpdater (Some a))))) (heap s ! a) c"
    by (rule updateData_RetE) auto
  from patched_annotation [OF c(3)] have
    "annotation c = (annotation (heap s ! a))(NavarkosClusterStateKey \<mapsto> NavarkosClusterStateReady)"
    by (simp add: patch_effect_set_after ca.eff_start)
  with c assms(2) show "joins server (heap s ! a) (heap s' ! a)" "a < length (heap s')" "trace s' = trace s"
    by (simp_all add: joins_def state_of_def) (simp add: patched_def)
qed

lemma finishJoin_spec:
  assumes "finishJoin cc (Some a) conf s = (Ret u, s')"
  shows "\<exists>kc c' err evs. conf = Some kc \<and> joins (kc_Server kc) (heap s ! a) c' \<and> reset_spec c' err evs \<and> trace s' = trace s @ evs"
proof -
  from assms obtain conf' :: kubeCluster and s1 err where "conf = Some conf'" and
    ud: "updateData (setSecretRefName (Name (heap s ! a)) (setServerAddress (kc_Server conf')
       (setAnnotation NavarkosClusterStateKey NavarkosClusterStateReady (newClusterUpdater (Some a))))) s = (Ret (), s1)" and
    rs: "resetCluster cc (Some a) s1 = (Ret err, s')"
    unfolding finishJoin_def Let_def by (auto elim!: bnd_RetE deref_RetE load_RetE ret_RetE)
  note j = updateData_joins [OF ud refl]
  from resetCluster_spec [OF rs j(2)] j(1,3) \<open>conf = Some conf'\<close> show ?thesis by auto
qed

lemma clusterJoin_cases:
  assumes "clusterJoin cc (Some a) s = (Ret u, s')"
    and "callProvider cc (Some a) CallExport snd ExportKubeConfig s = (Ret (conf, e), s1)"
  shows "s' = s1 \<or> (e = None \<and> (\<exists>cfg err s2 clusterConf.
     (\<forall>kc. clusterConf = Some kc \<longrightarrow> exported_server (conf, e) = Some (kc_Server kc)) \<and>
     createClusterSecrets cc (Some a) cfg s1 = (Ret err, s2) \<and>
     (if err = None then finishJoin cc (Some a) clusterConf else ret ()) s2 = (Ret (), s')))"
proof -
  from assms have run: "(case (e, conf) of
         (None, Some conf) \<Rightarrow>
           (case cfg_Clusters conf of
              None \<Rightarrow> ret ()
            | Some clusters \<Rightarrow>
                bnd (deref (case map_get (cfg_Contexts conf) (cfg_CurrentContext conf) of
                       None \<Rightarrow> None | Some cx \<Rightarrow> cx)) (\<lambda>context.
                case map_of clusters (cx_Cluster context) of
                  None \<Rightarrow> ret ()
                | Some clusterConf \<Rightarrow>
                    bnd (createClusterSecrets cc (Some a) conf) (\<lambda>err.
                      if err = None then finishJoin cc (Some a) clusterConf else ret ())))
       | _ \<Rightarrow> ret ()) s1 = (Ret u, s')"
    unfolding clusterJoin_def Let_def by (simp add: bnd_def [of "callProvider _ _ _ _ _"])
  show ?thesis
  proof (cases "\<exists>cfg clusters. e = None \<and> conf = Some cfg \<and> cfg_Clusters cfg = Some clusters")
    case False
    with run have "s' = s1" by (auto simp: ret_def split: option.splits)
    then show ?thesis by simp
  next
    case True
    then obtain cfg clusters where c: "e = None" "conf = Some cfg" "cfg_Clusters cfg = Some clusters" by blast
    with run obtain cx where cx: "map_get (cfg_Contexts cfg) (cfg_CurrentContext cfg) = Some (Some cx)" and
      rest: "(case map_of clusters (cx_Cluster cx) of None \<Rightarrow> ret ()
        | Some clusterConf \<Rightarrow> bnd (createClusterSecrets cc (Some a) cfg) (\<lambda>err.
            if err = None then finishJoin cc (Some a) clusterConf else ret ())) s1 = (Ret u, s')"
      by (auto elim!: bnd_RetE deref_RetE split: option.splits)
    show ?thesis
    proof (cases "map_of clusters (cx_Cluster cx)")
      case None
      with rest show ?thesis by (simp add: ret_def)
    next
      case (Some clusterConf)
      with c cx have adr: "\<forall>kc. clusterConf = Some kc \<longrightarrow> exported_server (conf, e) = Some (kc_Server kc)"
        by (simp add: exported_server_def)
      from rest Some obtain err s2 where "createClusterSecrets cc (Some a) cfg s1 = (Ret err, s2)"
        "(if err = None then finishJoin cc (Some a) clusterConf else ret ()) s2 = (Ret (), s')" by (auto elim!: bnd_RetE)
      with adr c(1) show ?thesis by blast
    qed
  qed
qed

lemma clusterJoin_spec:
  assumes run: "clusterJoin cc (Some a) s = (Ret u, s')"
  shows "\<exists>P r w1 evs. getProvider cc (heap s ! a) = Some P \<and> ExportKubeConfig P (heap s ! a) (world s) = (Ret r, w1) \<and>
    trace s' = trace s @ evs \<and> join_spec (exported_server r) (heap s ! a) evs"
proof -
  from run obtain conf e s1 where
    call: "callProvider cc (Some a) CallExport snd ExportKubeConfig s = (Ret (conf, e), s1)"
    unfolding clusterJoin_def by (auto elim!: bnd_RetE)
  then obtain P w1 where P: "getProvider cc (heap s ! a) = Some P" "ExportKubeConfig P (heap s ! a) (world s) = (Ret (conf, e), w1)"
    and s1: "trace s1 = trace s @ [EvProvider CallExport (heap s ! a) e]" "heap s1 = heap s"
    by (auto elim!: callProvider_RetE)
  have "\<exists>evs. trace s' = trace s @ evs \<and> join_spec (exported_server (conf, e)) (heap s ! a) evs"
    using clusterJoin_cases [OF run call]
  proof (elim disjE conjE exE)
    assume "s' = s1"
    with s1 show ?thesis by (auto intro: join_spec.no_config)
  next
    fix cfg err s2 clusterConf
    assume e: "e = None" and sec: "createClusterSecrets cc (Some a) cfg s1 = (Ret err, s2)"
      and adr: "\<forall>kc. clusterConf = Some kc \<longrightarrow> exported_server (conf, e) = Some (kc_Server kc)"
      and rest: "(if err = None then finishJoin cc (Some a) clusterConf else ret ()) s2 = (Ret (), s')"
    from sec show ?thesis
    proof (cases rule: createClusterSecrets_RetE)
      case 1
      with rest s1 e show ?thesis by (auto simp: ret_def intro: join_spec.no_config)
    next
      case 2
      show ?thesis
      proof (cases err)
        case (Some x)
        with rest 2 s1 e show ?thesis by (auto simp: ret_def intro: join_spec.no_secret)
      next
        case None
        with rest finishJoin_spec [of cc a clusterConf s2 "()" s'] obtain kc c' err' evs where
          j: "clusterConf = Some kc" "joins (kc_Server kc) (heap s ! a) c'" "reset_spec c' err' evs" "trace s' = trace s2 @ evs"
          using 2 s1(2) by auto
        from join_spec.joined [OF _ j(2,3), of "exported_server (conf, e)"] adr j(1,4) 2 s1 e None show ?thesis by auto
      qed
    qed
  qed
  with P show ?thesis by blast
qed

text \<open>
  What is created again: the object that joined when the first deletion succeeded, and otherwise
  the object that was fetched after the last one that failed.
\<close>

lemma deleted_object:
  assumes "delete_protocol n ob e0 evs None (Some b)" "0 < n \<or> e0 \<noteq> None"
  shows "ob = Some b \<and> evs = [EvDelete (Name b) None] \<or>
    (\<exists>xs y e x g. evs = xs @ [EvGet x (Some b) g, EvDelete (Name b) None] \<and> EvDelete y (Some e) \<in> set xs)"
  using assms
proof (induction n ob e0 evs "None :: error option" "Some b" rule: delete_protocol.induct)
  case (del_retry n ob' e evs b' e0 ge)
  then have IH: "ob' = Some b \<and> evs = [EvDelete (Name b) None] \<or>
    (\<exists>xs y e x g. evs = xs @ [EvGet x (Some b) g, EvDelete (Name b) None] \<and> EvDelete y (Some e) \<in> set xs)" by simp
  then show ?case
  proof (elim disjE conjE exE)
    assume "ob' = Some b" "evs = [EvDelete (Name b) None]"
    then show ?thesis by (intro disjI2 exI [of _ "[EvDelete (Name b') (Some e)]"]) auto
  next
    fix xs y e1 x g assume "evs = xs @ [EvGet x (Some b) g, EvDelete (Name b) None]" "EvDelete y (Some e1) \<in> set xs"
    then show ?thesis
      by (intro disjI2 exI [of _ "EvDelete (Name b') (Some e) # EvGet (Name b') ob' ge # xs"]) auto
  qed
qed auto

lemma delete_no_create: "delete_protocol n ob e0 evs r ob' \<Longrightarrow> EvCreate b e \<notin> set evs"
  by (induction rule: delete_protocol.induct) auto

lemma split_behind:
  assumes "xs @ ys = as @ z # bs" "z \<notin> set xs"
  obtains zs where "as = xs @ zs" "ys = zs @ z # bs"
  using assms by (auto simp: append_eq_append_conv2 append_eq_Cons_conv)

lemma map_create_split:
  "map (EvCreate c) xs = as @ EvCreate b e # bs \<Longrightarrow> b = c \<and> (\<forall>ev \<in> set as. \<exists>e'. ev = EvCreate c e')"
  by (auto simp: map_eq_append_conv map_eq_Cons_conv)

definition created_again :: "string option \<Rightarrow> cluster \<Rightarrow> event list \<Rightarrow> cluster \<Rightarrow> bool" where
  "created_again address c as b \<longleftrightarrow> EvSecretCreate (Name c) None \<in> set as \<and> ResourceVersion b = '''' \<and>
     (if \<exists>y e. EvDelete y (Some e) \<in> set as
      then \<exists>x b' g. EvGet x (Some b') g \<in> set as \<and> b = b'\<lparr>ResourceVersion := ''''\<rparr>
      else \<exists>server. address = Some server \<and> joins server c (b\<lparr>ResourceVersion := ResourceVersion c\<rparr>))"

lemma join_recreated:
  assumes "join_spec address c evs" "evs = as @ EvCreate b e # bs"
  shows "created_again address c as b"
  using assms(1)
proof (cases rule: join_spec.cases)
  case (joined server c' err rs)
  let ?pre = "[EvProvider CallExport c None, EvSecretCreate (Name c) None]"
  from joined(4) show ?thesis
  proof (cases rule: reset_spec.cases)
    case (not_deleted e1 ob)
    have "EvCreate b e \<in> set (?pre @ rs)" using joined(1) assms(2) by (metis in_set_conv_decomp)
    with delete_no_create [OF not_deleted(2), of b e] show ?thesis by simp
  next
    case (recreated ds b1 cs)
    let ?b = "b1\<lparr>ResourceVersion := []\<rparr>"
    from recreated(3) obtain es where cs: "cs = map (EvCreate ?b) es" unfolding recreates_def by blast
    have "evs = (?pre @ ds) @ map (EvCreate ?b) es" using joined(1) recreated(1) cs by simp
    moreover have "EvCreate b e \<notin> set (?pre @ ds)" using delete_no_create [OF recreated(2), of b e] by simp
    ultimately obtain xs where xs: "as = (?pre @ ds) @ xs" "map (EvCreate ?b) es = xs @ EvCreate b e # bs"
      using assms(2) split_behind by metis
    from map_create_split [OF xs(2)] have b: "b = ?b" "\<forall>ev \<in> set xs. \<exists>e'. ev = EvCreate ?b e'" by auto
    have set: "EvDelete y (Some e') \<in> set as \<longleftrightarrow> EvDelete y (Some e') \<in> set ds" for y e' using xs(1) b(2) by auto
    have "0 < MaxRetryCount" by (simp add: MaxRetryCount_def)
    from deleted_object [OF recreated(2) disjI1 [OF this]] show ?thesis
    proof (elim disjE conjE exE)
      assume "Some c' = Some b1" "ds = [EvDelete (Name b1) None]"
      then have "b1 = c'" "\<not> (\<exists>y e'. EvDelete y (Some e') \<in> set as)" using set by auto
      moreover have "(?b\<lparr>ResourceVersion := ResourceVersion c\<rparr>) = c'" if "b1 = c'"
        using joined(3) that by (simp add: joins_def)
      ultimately show ?thesis unfolding created_again_def using joined(2,3) b(1) xs(1) by auto
    next
      fix zs y e1 x g assume "ds = zs @ [EvGet x (Some b1) g, EvDelete (Name b1) None]" "EvDelete y (Some e1) \<in> set zs"
      then have "EvGet x (Some b1) g \<in> set as" "EvDelete y (Some e1) \<in> set as" using xs(1) by auto
      then show ?thesis unfolding created_again_def using b(1) xs(1) by auto
    qed
  qed
qed (use arg_cong [OF assms(2), of set] in auto)

section \<open>Validation\<close>

definition validated_state :: "string \<Rightarrow> string" where
  "validated_state st = (if st = NavarkosClusterStateProvisioning
     then NavarkosClusterStateJoining else NavarkosClusterStateReady)"

inductive validate_spec :: "string \<Rightarrow> cluster \<Rightarrow> event list \<Rightarrow> bool" for st c where
  valid: "update_protocol (moves_to (validated_state st) {ClusterManagerClusterOKEWorkItemKey})
      (Name c) MaxRetryCount (Some c) None us e \<Longrightarrow>
    validate_spec st c (EvProvider CallValidate c None # us)"
| still_working: "validate_spec st c [EvProvider CallValidate c (Some e)]"
| work_item_gone: "update_protocol (keeps_state {ClusterManagerClusterOKEWorkItemKey})
      (Name c) MaxRetryCount (Some c) None us e' \<Longrightarrow>
    validate_spec st c (EvProvider CallValidate c (Some e) # us)"

lemma wf_patch_None: "ca_Annotations x = None \<Longrightarrow> wf_patch x"
  by (simp add: wf_patch_def)

lemma patched_validate_patch:
  assumes "patched (copyAnnotation x (newClusterUpdater p)) b c"
    and "ca_Annotations x = None" "set (ca_DeleteAnnotations x) \<subseteq> {k}"
  shows "keeps_state {k} b c"
proof -
  have "wf_patch x" using assms(2) by (simp add: wf_patch_def)
  then have "annotation c = patch_effect x (annotation b)"
    using patched_annotation [OF assms(1)] copyAnnotation_patch(2) by simp
  with patched_same [OF assms(1)] assms(2,3) show ?thesis
    by (auto simp: keeps_state_def patch_effect_def)
qed

lemma patched_validate_state:
  assumes "patched (setAnnotation NavarkosClusterStateKey st (copyAnnotation x (newClusterUpdater p))) b c"
    and "ca_Annotations x = None" "set (ca_DeleteAnnotations x) \<subseteq> {k}" "k \<noteq> NavarkosClusterStateKey"
  shows "moves_to st {k} b c"
proof -
  have "wf_patch x" using assms(2) by (simp add: wf_patch_def)
  then have "set (ca_DeleteAnnotations (clusterAnnotation (copyAnnotation x (newClusterUpdater p)))) \<subseteq> {k}"
    using copyAnnotation_patch(3) [of x "newClusterUpdater p"] assms(3) by simp
  moreover have "ca_Annotations (clusterAnnotation (copyAnnotation x (newClusterUpdater p))) = None"
    using assms(2) by (simp add: copyAnnotation_def Let_def)
  ultimately show ?thesis
    using patched_same [OF assms(1)] patched_annotation [OF assms(1)] assms(4)
    by (auto simp: moves_to_def state_of_def patch_effect_def)
qed

definition fresh_updater :: "ptr \<Rightarrow> ClusterAnnotation option \<Rightarrow> clusterUpdater" where
  "fresh_updater p ann = (case ann of None \<Rightarrow> newClusterUpdater p | Some x \<Rightarrow> copyAnnotation x (newClusterUpdater p))"

lemma validateCluster_alt:
  "validateCluster cc p st = bnd (callProvider cc p CallValidate snd ValidateKubeCluster) (\<lambda>(ann, verr).
     if verr = None then clusterUpdate cc (setAnnotation NavarkosClusterStateKey (validated_state st) (fresh_updater p ann))
     else if ann = None then ret () else clusterUpdate cc (fresh_updater p ann))"
  unfolding validateCluster_def Let_def fresh_updater_def validated_state_def
  by (rule arg_cong [where f = "bnd _"]) (auto simp: fun_eq_iff split: option.split)

section \<open>One round of the worker\<close>

inductive work_spec :: "string \<Rightarrow> event list \<Rightarrow> bool" for name where
  fetch_failed: "work_spec name [EvGet name oc (Some e)]"
| nothing_to_do: "state_of c = None \<or> the (state_of c) \<notin> getActionableStates \<Longrightarrow>
    work_spec name [EvGet name (Some c) None]"
| create: "state_of c = Some NavarkosClusterStatePending \<Longrightarrow> create_spec c err evs \<Longrightarrow>
    work_spec name (EvGet name (Some c) None # evs)"
| shutdown: "state_of c = Some NavarkosClusterStatePendingShutdown \<Longrightarrow> shutdown_spec c err evs \<Longrightarrow>
    work_spec name (EvGet name (Some c) None # evs)"
| scale_up: "state_of c = Some NavarkosClusterStatePendingScaleUp \<Longrightarrow> scale_spec True c err evs \<Longrightarrow>
    work_spec name (EvGet name (Some c) None # evs)"
| scale_down: "state_of c = Some NavarkosClusterStatePendingScaleDown \<Longrightarrow> scale_spec False c err evs \<Longrightarrow>
    work_spec name (EvGet name (Some c) None # evs)"

context contract_controller
begin

lemma validate_spec_run:
  assumes "validateCluster cc (Some a) st s = (Ret u, s')"
  shows "\<exists>evs. trace s' = trace s @ evs \<and> validate_spec st (heap s ! a) evs"
proof -
  let ?fresh = "fresh_updater (Some a)"
  from assms obtain ann verr s1 where
    call: "callProvider cc (Some a) CallValidate snd ValidateKubeCluster s = (Ret (ann, verr), s1)" and
    rest: "(if verr = None then clusterUpdate cc (setAnnotation NavarkosClusterStateKey (validated_state st) (?fresh ann))
      else if ann = None then ret () else clusterUpdate cc (?fresh ann)) s1 = (Ret (), s')"
    unfolding validateCluster_alt by (auto elim!: bnd_RetE)
  from call obtain P w where a: "a < length (heap s)" and P: "getProvider cc (heap s ! a) = Some P"
    "ValidateKubeCluster P (heap s ! a) (world s) = (Ret (ann, verr), w)" and
    s1: "heap s1 = heap s" "trace s1 = trace s @ [EvProvider CallValidate (heap s ! a) verr]"
    by (auto elim!: callProvider_RetE)
  note law = provider_contract.validate_law [OF getProvider_ok [OF P(1)] P(2)]
  have ok: "wf_patch (clusterAnnotation (?fresh ann))" "cu_cc (?fresh ann)" "\<not> needsResync (?fresh ann)"
    "cu_cluster (?fresh ann) = Some a"
    using law by (auto simp: fresh_updater_def copyAnnotation_patch wf_patch_None split: option.split)
  let ?K = "{ClusterManagerClusterOKEWorkItemKey}"
  show ?thesis
  proof (cases verr)
    case None
    let ?cu = "setAnnotation NavarkosClusterStateKey (validated_state st) (?fresh ann)"
    have mv: "moves_to (validated_state st) ?K b c" if "patched ?cu b c" for b c
    proof (cases ann)
      case None
      with that moves_to_setAnnotation [of "validated_state st" "Some a" b c] show ?thesis
        by (simp add: fresh_updater_def moves_to_def)
    next
      case (Some x)
      with that law keys_distinct show ?thesis by (auto simp: fresh_updater_def intro: patched_validate_state)
    qed
    from rest None have "clusterUpdate cc ?cu s1 = (Ret (), s')" by simp
    from last_update [OF this, of a "moves_to (validated_state st) ?K"] mv ok s1 obtain us e where "trace s' = trace s @ EvProvider CallValidate (heap s ! a) None # us"
      "update_protocol (moves_to (validated_state st) ?K) (Name (heap s ! a)) MaxRetryCount (Some (heap s ! a)) None us e"
      using None by auto
    then show ?thesis by (auto intro: validate_spec.valid)
  next
    case (Some e)
    show ?thesis
    proof (cases "ann = None \<or> \<not> isDirty (?fresh ann)")
      case True
      with rest Some ok have "s' = s1" by (auto simp: clusterUpdate_def cu_update_clean go_simps split: if_splits)
      with s1 Some show ?thesis by (auto intro: validate_spec.still_working)
    next
      case False
      with rest Some have "clusterUpdate cc (?fresh ann) s1 = (Ret (), s')" by auto
      moreover have "keeps_state ?K b c" if "patched (?fresh ann) b c" for b c
        using that False law by (auto simp: fresh_updater_def intro: patched_validate_patch)
      ultimately obtain us e' where "trace s' = trace s1 @ us"
        "update_protocol (keeps_state ?K) (Name (heap s ! a)) MaxRetryCount (Some (heap s ! a)) None us e'"
        using last_update [of cc "?fresh ann" s1 "()" s' a "keeps_state ?K"] ok False s1 by auto
      with s1 Some show ?thesis by (auto intro: validate_spec.work_item_gone)
    qed
  qed
qed

lemma work_spec_run:
  assumes "processItem cc (Some i) s = (Ret u, s')" "i < length (heap s)"
  shows "\<exists>evs. trace s' = trace s @ evs \<and> work_spec (Name (heap s ! i)) evs"
proof -
  let ?name = "Name (heap s ! i)"
  from assms obtain p err s1 where get: "getCluster cc ?name s = (Ret (p, err), s1)" and
    rest: "(if err \<noteq> None then ret () else bnd (load p) (\<lambda>c. case annotation c NavarkosClusterStateKey of
        None \<Rightarrow> ret () | Some st \<Rightarrow> bnd (handleState cc p st) (\<lambda>err. ret ()))) s1 = (Ret (), s')"
    unfolding processItem_def by (auto elim!: bnd_RetE load_RetE)
  note g = getCluster_obj [OF get]
  show ?thesis
  proof (cases err)
    case (Some e)
    with rest g show ?thesis by (auto simp: ret_def intro: work_spec.fetch_failed)
  next
    case None
    with rest obtain a where a: "p = Some a" and
      body: "(case state_of (heap s1 ! a) of None \<Rightarrow> ret () | Some st \<Rightarrow> bnd (handleState cc p st) (\<lambda>err. ret ())) s1 = (Ret (), s')"
      by (auto simp: state_of_def elim!: bnd_RetE load_RetE)
    let ?c = "heap s1 ! a"
    have t1: "trace s1 = trace s @ [EvGet ?name (Some ?c) None]" using g a None by (simp add: obj_def)
    have "\<exists>evs. trace s' = trace s1 @ evs \<and> work_spec ?name (EvGet ?name (Some ?c) None # evs)"
    proof (cases "state_of ?c")
      case None
      with body show ?thesis by (auto simp: ret_def intro: work_spec.nothing_to_do)
    next
      case (Some st)
      with body obtain err where run: "handleState cc p st s1 = (Ret err, s')" by (auto elim!: bnd_RetE ret_RetE)
      consider "st = NavarkosClusterStatePending" | "st = NavarkosClusterStatePendingShutdown"
        | "st = NavarkosClusterStatePendingScaleUp" | "st = NavarkosClusterStatePendingScaleDown"
        | "st \<notin> getActionableStates" by (auto simp: getActionableStates_def)
      then show ?thesis
      proof cases
        case 1
        with run create_spec_run [of p s1 err s'] a Some show ?thesis
          by (auto simp: handleState_def intro: work_spec.create)
      next
        case 2
        with run shutdownCluster_spec [of cc p s1 err s'] a Some show ?thesis
          by (auto simp: handleState_def state_defs intro: work_spec.shutdown [unfolded state_defs])
      next
        case 3
        with run scale_spec_run [of p True s1 err s'] a Some show ?thesis
          by (auto simp: handleState_def state_defs intro: work_spec.scale_up [unfolded state_defs])
      next
        case 4
        with run scale_spec_run [of p False s1 err s'] a Some show ?thesis
          by (auto simp: handleState_def state_defs intro: work_spec.scale_down [unfolded state_defs])
      next
        case 5
        with run Some show ?thesis
          by (auto simp: handleState_def getActionableStates_def ret_def intro!: work_spec.nothing_to_do)
      qed
    qed
    with t1 show ?thesis by auto
  qed
qed

end

end
