(* ===== verification/Lifecycle.thy ===== *)
theory Lifecycle
  imports JoinFacts
begin

text \<open>
  Consequences of the specifications of the handlers, for whole rounds of the worker: which
  calls come before which, how often the provider is called, and which lifecycle states a
  round may write.
\<close>

section \<open>Kinds of calls\<close>

fun is_provider_call :: "event \<Rightarrow> bool" where
  "is_provider_call (EvProvider _ _ _) = True"
| "is_provider_call _ = False"

lemma protocol_no_provider:
  "update_protocol Q name n ob e0 evs r \<Longrightarrow> \<forall>ev \<in> set evs. \<not> is_provider_call ev"
  by (auto dest: protocol_kinds)

lemma protocol_provider_free:
  "update_protocol Q name n ob e0 evs r \<Longrightarrow> EvProvider k c e \<notin> set evs"
  by (auto dest: protocol_kinds)

lemma split_unique:
  assumes "xs @ x # ys = as @ z # bs" "P z" "\<forall>y \<in> set xs. \<not> P y" "\<forall>y \<in> set ys. \<not> P y"
  shows "as = xs \<and> z = x \<and> bs = ys"
  using assms
proof (induction xs arbitrary: as)
  case Nil
  then show ?case by (cases as) auto
next
  case (Cons a xs)
  then show ?case by (cases as) auto
qed

text \<open>A successful update ends with an accepted object, of which \<open>Q\<close> holds.\<close>

lemma protocol_last_accepted:
  assumes "update_protocol Q name MaxRetryCount ob None evs None"
  obtains pre b c where "evs = pre @ [EvUpdate c None]" "Q b c"
proof -
  from protocol_success [OF assms] obtain b c where "last evs = EvUpdate c None" "evs \<noteq> []" "Q b c"
    by (auto simp: MaxRetryCount_def)
  then show ?thesis using that [of "butlast evs" c b] by (metis append_butlast_last_id)
qed

section \<open>Order of calls in a shutdown\<close>

lemma shutdown_marked_before_delete:
  assumes "shutdown_spec c err evs" "evs = as @ EvProvider k c1 e # bs"
  shows "k = CallDelete \<and> (\<exists>pre c'. as = pre @ [EvUpdate c' None] \<and>
     state_of c' = Some NavarkosClusterStateShuttingDown)"
  using assms
proof (cases rule: shutdown_spec.cases)
  case (not_marked e')
  with assms(2) show ?thesis by (auto dest: protocol_provider_free)
next
  case (not_deleted us c2 e')
  then have "as = us \<and> EvProvider k c1 e = EvProvider CallDelete c2 (Some e') \<and> bs = []"
    using assms(2) protocol_no_provider [OF not_deleted(3)]
    by (intro split_unique [where P = is_provider_call]) auto
  with not_deleted(3) show ?thesis
    by (auto elim!: protocol_last_accepted simp: moves_to_def)
next
  case (deleted us c2 b sec us' e')
  then have "as = us \<and> EvProvider k c1 e = EvProvider CallDelete c2 None \<and> bs = sec @ us'"
    using assms(2) protocol_no_provider [OF deleted(2)] protocol_no_provider [OF deleted(6)]
    by (intro split_unique [where P = is_provider_call]) auto
  with deleted(2) show ?thesis
    by (auto elim!: protocol_last_accepted simp: moves_to_def)
qed

lemma shutdown_offline_after_delete:
  assumes "shutdown_spec c err evs" "evs = as @ EvUpdate c' e # bs" "state_of c' = Some NavarkosClusterStateOffline"
  shows "\<exists>c1. EvProvider CallDelete c1 None \<in> set as"
  using assms(1)
proof (cases rule: shutdown_spec.cases)
  case (not_marked e')
  with assms(2,3) show ?thesis by (auto dest!: protocol_submissions [where c = c'] simp: moves_to_def state_defs)
next
  case (not_deleted us c2 e')
  have "EvUpdate c' e \<in> set evs" using assms(2) by simp
  then have "EvUpdate c' e \<in> set us" using not_deleted(2) by simp
  with not_deleted(3) assms(3) show ?thesis
    by (auto dest!: protocol_submissions [where c = c'] simp: moves_to_def state_defs)
next
  case (deleted us c2 b sec us' e')
  then have "EvUpdate c' e \<notin> set us"
    using assms(3) by (auto dest!: protocol_submissions [where c = c'] simp: moves_to_def state_defs)
  with assms(2) deleted(1) show ?thesis
    by (auto simp: append_eq_append_conv2 append_eq_Cons_conv Cons_eq_append_conv)
qed

section \<open>Order of calls in a scaling\<close>

lemma scale_marked_before_call:
  assumes "scale_spec up c err evs" "evs = as @ EvProvider k c1 e # bs"
  shows "k = CallScale (scaleSizeOf c up) \<and> e = err \<and> (\<forall>ev \<in> set bs. \<not> is_provider_call ev) \<and>
     (\<exists>pre c'. as = pre @ [EvUpdate c' None] \<and> state_of c' = Some (scaling_state up))"
  using assms(1)
proof (cases rule: scale_spec.cases)
  case (scale_not_marked e')
  with assms(2) show ?thesis by (auto dest: protocol_provider_free)
next
  case (scale_failed us c2 b us' e' e2)
  then have "as = us \<and> EvProvider k c1 e = EvProvider (CallScale (scaleSizeOf c up)) c2 (Some e2) \<and> bs = us'"
    using assms(2) protocol_no_provider [OF scale_failed(3)] protocol_no_provider [OF scale_failed(6)]
    by (intro split_unique [where P = is_provider_call]) auto
  with scale_failed protocol_no_provider [OF scale_failed(6)] show ?thesis
    by (auto elim!: protocol_last_accepted simp: moves_to_def)
next
  case (scaled us c2 b us' e')
  have np: "\<forall>ev \<in> set us'. \<not> is_provider_call ev"
    using scaled(6) by (auto dest: protocol_no_provider)
  with scaled have "as = us \<and> EvProvider k c1 e = EvProvider (CallScale (scaleSizeOf c up)) c2 None \<and> bs = us'"
    using assms(2) protocol_no_provider [OF scaled(3)]
    by (intro split_unique [where P = is_provider_call]) auto
  with scaled np show ?thesis
    by (auto elim!: protocol_last_accepted simp: moves_to_def)
qed

section \<open>The states a round may write\<close>

definition worker_transition :: "string \<Rightarrow> string \<Rightarrow> bool" where
  "worker_transition st st' \<longleftrightarrow>
     st = NavarkosClusterStatePending \<and>
       st' \<in> {NavarkosClusterStateProvisioning, NavarkosClusterStateFailedProvision} \<or>
     st = NavarkosClusterStatePendingShutdown \<and>
       st' \<in> {NavarkosClusterStateShuttingDown, NavarkosClusterStateOffline} \<or>
     st = NavarkosClusterStatePendingScaleUp \<and>
       st' \<in> {NavarkosClusterStateScalingUp, NavarkosClusterStateFailedScaleUp, NavarkosClusterStateReady} \<or>
     st = NavarkosClusterStatePendingScaleDown \<and>
       st' \<in> {NavarkosClusterStateScalingDown, NavarkosClusterStateFailedScaleDown, NavarkosClusterStateReady}"

text \<open>
  An object submitted in a round carries a state of the table, or the state of an object that
  was fetched again after a conflict (a scaling that succeeded leaves the state alone).
\<close>

definition state_justified :: "cluster \<Rightarrow> event list \<Rightarrow> cluster \<Rightarrow> bool" where
  "state_justified c evs c' \<longleftrightarrow>
     (\<exists>st st'. state_of c = Some st \<and> state_of c' = Some st' \<and> worker_transition st st') \<or>
     (\<exists>name b. EvGet name (Some b) None \<in> set evs \<and> state_of c' = state_of b)"

lemma create_states:
  assumes "create_spec c err evs" "EvUpdate c' e \<in> set evs" "state_of c = Some NavarkosClusterStatePending"
  shows "state_justified c evs c'"
  using assms
  by (auto simp: create_spec_def state_justified_def worker_transition_def moves_to_def
      dest!: protocol_submissions [where c = c'])

lemma shutdown_states:
  assumes "shutdown_spec c err evs" "EvUpdate c' e \<in> set evs" "state_of c = Some NavarkosClusterStatePendingShutdown"
  shows "state_justified c evs c'"
  using assms
  by (cases rule: shutdown_spec.cases)
    (auto simp: state_justified_def worker_transition_def moves_to_def goes_offline_def
      dest!: protocol_submissions [where c = c'])

lemma keeps_state_state: "keeps_state scale_keys b c \<Longrightarrow> state_of c = state_of b"
  by (simp add: keeps_state_def scale_keys_def state_of_def keys_simps)

lemma scale_states:
  assumes "scale_spec up c err evs" "EvUpdate c' e \<in> set evs"
    and "state_of c = Some (if up then NavarkosClusterStatePendingScaleUp else NavarkosClusterStatePendingScaleDown)"
  shows "state_justified c evs c'"
proof -
  have tr: "state_justified c evs c''" if "state_of c'' = Some st"
    "st \<in> {scaling_state up, failed_scale_state up, NavarkosClusterStateReady}" for c'' st
    using that assms(3)
    by (cases up) (auto simp: state_justified_def worker_transition_def scaling_state_def failed_scale_state_def)
  have mv: "state_justified c evs c''" if "update_protocol (moves_to st {}) name n ob e0 us r" "EvUpdate c'' e1 \<in> set us"
    "st \<in> {scaling_state up, failed_scale_state up, NavarkosClusterStateReady}" for name n ob e0 us r c'' e1 st
    using protocol_submissions [OF that(1,2)] that(3) tr by (auto simp: moves_to_def)
  from assms(1) show ?thesis
  proof (cases rule: scale_spec.cases)
    case (scale_not_marked e')
    with assms(2) mv show ?thesis by auto
  next
    case (scale_failed us c2 b us' e' e2)
    with assms(2) mv [OF scale_failed(3)] mv [OF scale_failed(6)] show ?thesis by auto
  next
    case (scaled us c2 b us' e')
    from scaled(3) have b: "state_of b = Some (scaling_state up)"
      using scaled(5) by (auto elim!: protocol_last_accepted simp: moves_to_def)
    have "state_justified c evs c'" if keep: "update_protocol (keeps_state scale_keys) (Name b) MaxRetryCount (Some b) None us' e'"
      and up: "EvUpdate c' e \<in> set us'"
    proof -
      from protocol_submissions [OF keep up] obtain b' where
        "state_of c' = state_of b'" "b' = b \<or> EvGet (Name b) (Some b') None \<in> set us'"
        by (auto dest: keeps_state_state)
      then consider "state_of c' = Some (scaling_state up)" | "EvGet (Name b) (Some b') None \<in> set us'"
        using b by auto
      then show ?thesis
      proof cases
        case 1
        then show ?thesis using tr [of c' "scaling_state up"] by simp
      next
        case 2
        with \<open>state_of c' = state_of b'\<close> scaled(2) show ?thesis by (auto simp: state_justified_def)
      qed
    qed
    with assms(2) scaled(2,6) mv [OF scaled(3)] mv show ?thesis by auto
  qed
qed

lemma state_justified_Cons: "state_justified c evs c' \<Longrightarrow> state_justified c (ev # evs) c'"
  by (auto simp: state_justified_def)

lemma work_states:
  assumes "work_spec name evs" "EvUpdate c' e \<in> set evs"
  shows "\<exists>c evs'. evs = EvGet name (Some c) None # evs' \<and> state_justified c evs' c'"
  using assms
proof (cases rule: work_spec.cases)
  case (scale_up c err es)
  with assms(2) scale_states [of True c err es c' e] show ?thesis by auto
next
  case (scale_down c err es)
  with assms(2) scale_states [of False c err es c' e] show ?thesis by auto
qed (use assms(2) in \<open>auto dest: create_states shutdown_states\<close>)

section \<open>One provider call in a round\<close>

text \<open>The calls \<open>as\<close> that went before a call of the provider announce it.\<close>

definition call_announced :: "string \<Rightarrow> event list \<Rightarrow> providerCall \<Rightarrow> cluster \<Rightarrow> bool" where
  "call_announced name as k c1 \<longleftrightarrow>
     (as = [EvGet name (Some c1) None] \<and> k = CallCreate \<and> state_of c1 = Some NavarkosClusterStatePending) \<or>
     (\<exists>pre c'. as = pre @ [EvUpdate c' None] \<and>
        (k = CallDelete \<and> state_of c' = Some NavarkosClusterStateShuttingDown \<or>
         (\<exists>n up. k = CallScale n \<and> state_of c' = Some (scaling_state up))))"

lemma work_provider_call:
  assumes "work_spec name evs" "evs = as @ EvProvider k c1 e # bs"
  shows "call_announced name as k c1"
  using assms(1)
proof (cases rule: work_spec.cases)
  case (create c err es)
  then obtain us e' where es: "es = EvProvider CallCreate c err # us"
    "update_protocol (moves_to (if err = None then NavarkosClusterStateProvisioning
         else NavarkosClusterStateFailedProvision) create_keys) (Name c) MaxRetryCount (Some c) None us e'"
    by (auto simp: create_spec_def)
  have "as = [EvGet name (Some c) None] \<and> EvProvider k c1 e = EvProvider CallCreate c err \<and> bs = us"
    using assms(2) create es protocol_no_provider [OF es(2)]
    by (intro split_unique [where P = is_provider_call]) auto
  with create(2) show ?thesis by (auto simp: call_announced_def)
next
  case (shutdown c err es)
  then obtain as' where "as = EvGet name (Some c) None # as'" "es = as' @ EvProvider k c1 e # bs"
    using assms(2) by (cases as) auto
  with shutdown_marked_before_delete [OF shutdown(3)] show ?thesis
    unfolding call_announced_def by (metis append_Cons)
next
  case (scale_up c err es)
  then obtain as' where "as = EvGet name (Some c) None # as'" "es = as' @ EvProvider k c1 e # bs"
    using assms(2) by (cases as) auto
  with scale_marked_before_call [OF scale_up(3)] show ?thesis
    unfolding call_announced_def by (metis append_Cons)
next
  case (scale_down c err es)
  then obtain as' where "as = EvGet name (Some c) None # as'" "es = as' @ EvProvider k c1 e # bs"
    using assms(2) by (cases as) auto
  with scale_marked_before_call [OF scale_down(3)] show ?thesis
    unfolding call_announced_def by (metis append_Cons)
qed (use assms(2) in \<open>cases as; simp\<close>)+

end
