(* ===== verification/WorkerFacts.thy ===== *)
theory WorkerFacts
  imports JoinFacts
begin

text \<open>
  What every run of a handler keeps, however it ends, and what follows for the work queue.

  \<^item> \<open>quiet\<close>: the calls below \<open>clusterUpdate\<close> touch neither the work queue nor the retrier,
    only add to the history of calls and only allocate objects.
  \<^item> \<open>handler_frame\<close>: the handlers add to the update channel of the retrier as well, but only
    updaters that can be retried (\<open>retry_ok\<close>): the object they name is there, they have
    changes to make, and they fetch the object again before they submit it.
  \<^item> The locale \<open>run_frame\<close> has the rules that push such a relation through a computation;
    \<open>state_frame\<close> extends it by what the calls below \<open>clusterUpdate\<close> need. Both relations
    interpret it.
  \<^item> Submitting a cluster is ignored unless its class has a provider and its state is
    actionable; otherwise it adds a fresh copy at the end of the queue, or nil when the copy
    failed, unless the queue is shutting down.
  \<^item> After the queue is shut down the worker runs at most one round per item and one more.
\<close>

section \<open>The frame of the handlers\<close>

definition quiet :: "'w state \<Rightarrow> 'w state \<Rightarrow> bool" where
  "quiet s s' \<longleftrightarrow> workQueue s' = workQueue s \<and> updateRetrier s' = updateRetrier s \<and>
     (\<exists>evs. trace s' = trace s @ evs) \<and> length (heap s) \<le> length (heap s')"

definition retry_ok :: "nat \<Rightarrow> clusterUpdater \<Rightarrow> bool" where
  "retry_ok n cu \<longleftrightarrow> cu_cc cu \<and> isDirty cu \<and> needsResync cu \<and> wf_patch (clusterAnnotation cu) \<and>
     backoff_ok (backoff cu) \<and> (\<exists>a. cu_cluster cu = Some a \<and> a < n)"

definition handler_frame :: "'w state \<Rightarrow> 'w state \<Rightarrow> bool" where
  "handler_frame s s' \<longleftrightarrow> workQueue s' = workQueue s \<and>
     (\<exists>evs. trace s' = trace s @ evs) \<and> length (heap s) \<le> length (heap s') \<and>
     (\<exists>items. updateRetrier s' = (updateRetrier s)\<lparr>updateChannel := updateChannel (updateRetrier s) @ items\<rparr> \<and>
        list_all (\<lambda>item. retry_ok (length (heap s')) (item_value item)) items)"

locale state_frame = run_frame R for R :: "'w state \<Rightarrow> 'w state \<Rightarrow> bool" +
  assumes frame_quiet: "quiet s s' \<Longrightarrow> R s s'"
begin

lemma keeps_quiet: "keeps quiet m \<Longrightarrow> keeps R m"
  by (rule keepsI) (auto dest: keepsD intro: frame_quiet)

end

lemma quiet_refl: "quiet s s"
  by (simp add: quiet_def)

lemma quiet_trans: "quiet s t \<Longrightarrow> quiet t u \<Longrightarrow> quiet s u"
  by (auto simp: quiet_def)

interpretation calls: state_frame quiet
proof
  show "reflp quiet" by (simp add: reflp_def quiet_refl)
  show "transp quiet" by (rule transpI) (rule quiet_trans)
qed

lemma retry_ok_mono: "retry_ok n cu \<Longrightarrow> n \<le> m \<Longrightarrow> retry_ok m cu"
  by (auto simp: retry_ok_def)

lemma handler_frame_trans:
  assumes st: "handler_frame s t" and tu: "handler_frame t u"
  shows "handler_frame s u"
proof -
  from st obtain i where i: "updateRetrier t = (updateRetrier s)\<lparr>updateChannel := updateChannel (updateRetrier s) @ i\<rparr>"
    "list_all (\<lambda>item. retry_ok (length (heap t)) (item_value item)) i" by (auto simp: handler_frame_def)
  from tu obtain j where j: "updateRetrier u = (updateRetrier t)\<lparr>updateChannel := updateChannel (updateRetrier t) @ j\<rparr>"
    "list_all (\<lambda>item. retry_ok (length (heap u)) (item_value item)) j" by (auto simp: handler_frame_def)
  have le: "length (heap t) \<le> length (heap u)" using tu by (simp add: handler_frame_def)
  have "updateRetrier u = (updateRetrier s)\<lparr>updateChannel := updateChannel (updateRetrier s) @ (i @ j)\<rparr>"
    using i j by simp
  moreover have "list_all (\<lambda>item. retry_ok (length (heap u)) (item_value item)) (i @ j)"
    using i(2) j(2) retry_ok_mono [OF _ le] by (auto simp: list_all_iff)
  moreover have "workQueue u = workQueue s \<and> (\<exists>evs. trace u = trace s @ evs) \<and> length (heap s) \<le> length (heap u)"
    using st tu by (auto simp: handler_frame_def)
  ultimately show ?thesis unfolding handler_frame_def by blast
qed

lemma quiet_frame: "quiet s s' \<Longrightarrow> handler_frame s s'"
  unfolding quiet_def handler_frame_def by (auto intro: exI [of _ "[]"])

interpretation handlers: state_frame handler_frame
proof
  show "reflp handler_frame" by (simp add: reflp_def quiet_frame quiet_refl)
  show "transp handler_frame" by (rule transpI) (rule handler_frame_trans)
qed (rule quiet_frame)

subsection \<open>The calls below \<open>clusterUpdate\<close>\<close>

named_theorems quiet_calls \<open>computations that leave the queue and the retrier alone\<close>

lemma quiet_alloc [quiet_calls]: "keeps quiet (alloc c)"
  by (rule keepsI) (auto simp: alloc_def quiet_def)

lemma quiet_load [quiet_calls]: "keeps quiet (load p)"
  by (rule keepsI) (auto simp: load_def quiet_refl split: option.splits if_splits)

lemma quiet_store [quiet_calls]: "keeps quiet (store p c)"
  by (rule keepsI) (auto simp: store_def quiet_def split: option.splits if_splits)

lemma quiet_outside [quiet_calls]: "keeps quiet (outside m)"
  by (rule keepsI) (auto simp: outside_def zoom_def quiet_def split: prod.splits)

lemma quiet_log [quiet_calls]: "keeps quiet (log_event e)"
  by (rule keepsI) (auto simp: log_event_def modify_def quiet_def)

lemma quiet_logged [quiet_calls]: "keeps quiet (logged ev m)"
  unfolding logged_def by (intro calls.rules quiet_calls)

lemma quiet_alloc_result [quiet_calls]: "keeps quiet (alloc_result oc)"
  unfolding alloc_result_def by (intro calls.rules quiet_calls)

lemma quiet_api [quiet_calls]:
  "keeps quiet (getCluster cc name)" "keeps quiet (updateCluster cc p)" "keeps quiet (listClusters cc)"
  "keeps quiet (deleteCluster cc name)" "keeps quiet (recreateCluster cc p)"
  unfolding getCluster_def updateCluster_def listClusters_def deleteCluster_def recreateCluster_def
  by (intro calls.rules quiet_calls)+

lemma quiet_Apply [quiet_calls]: "keeps quiet (ApplyAnnotation ca m)"
  unfolding ApplyAnnotation_def by (intro calls.rules quiet_calls)

lemma quiet_address [quiet_calls]: "keeps quiet (set_server_address a c)"
  unfolding set_server_address_def
  by (cases a; cases "ServerAddressByClientCIDRs c") (auto intro: calls.rules)

lemma quiet_updateData [quiet_calls]: "keeps quiet (updateData cu)"
  unfolding updateData_def by (intro calls.rules quiet_calls)

lemma quiet_resync [quiet_calls]: "keeps quiet (resync cc n cu)"
  unfolding resync_def Let_def by (intro calls.rules quiet_calls)

lemma quiet_loop [quiet_calls]: "keeps quiet (update_loop cc name n e cu)"
  by (induction n arbitrary: e cu) (auto simp: Let_def intro!: calls.rules quiet_calls)

lemma quiet_cu_update [quiet_calls]: "keeps quiet (cu_update cc cu)"
  unfolding cu_update_def by (intro calls.rules quiet_calls)

lemma quiet_clock [quiet_calls]: "keeps quiet (now cc)" "keeps quiet (hasExpiredNow cc b)"
  unfolding hasExpiredNow_def now_def by (intro calls.rules quiet_calls)+

lemma quiet_callProvider [quiet_calls]: "keeps quiet (callProvider cc p k f m)"
  unfolding callProvider_def by (intro calls.rules quiet_calls)

lemma quiet_secrets [quiet_calls]:
  "keeps quiet (createSecret cc a b c d e f)" "keeps quiet (createClusterSecrets cc p k)" "keeps quiet (deleteSecret cc n)"
  unfolding createClusterSecrets_def createSecret_def deleteSecret_def by (intro calls.rules quiet_calls)+

lemma quiet_reset_delete [quiet_calls]: "keeps quiet (reset_delete cc n e p)"
  by (induction n arbitrary: e p) (auto intro!: calls.rules quiet_calls)

lemma quiet_reset_create [quiet_calls]: "keeps quiet (reset_create cc n e p)"
  by (induction n arbitrary: e) (auto intro!: calls.rules quiet_calls)

lemma quiet_join [quiet_calls]:
  "keeps quiet (resetCluster cc p)" "keeps quiet (finishJoin cc p c)" "keeps quiet (clusterJoin cc p)"
  unfolding clusterJoin_def finishJoin_def resetCluster_def Let_def by (intro calls.rules quiet_calls)+

subsection \<open>Updates that may be retried\<close>

text \<open>An updater made by the handlers, and what an update returns it as.\<close>

definition sound :: "clusterUpdater \<Rightarrow> bool" where
  "sound cu \<longleftrightarrow> cu_cc cu \<and> wf_patch (clusterAnnotation cu) \<and> backoff_ok (backoff cu)"

named_theorems sound_intros \<open>building an updater\<close>

lemma sound_new [sound_intros]: "sound (newClusterUpdater p)"
  by (simp add: sound_def backoff_ok_new)

lemma sound_reset [sound_intros]: "sound cu \<Longrightarrow> sound (reset cu)"
  by (simp add: sound_def backoff_ok_def backoff_const_defs)

lemma sound_set [sound_intros]: "sound cu \<Longrightarrow> sound (setAnnotation k v cu)"
  by (simp add: sound_def)

lemma sound_address [sound_intros]: "sound cu \<Longrightarrow> sound (setServerAddress a cu)"
  by (simp add: sound_def)

lemma sound_deletes [sound_intros]: "sound cu \<Longrightarrow> sound (fold deleteAnnotation ks cu)"
  by (induction ks arbitrary: cu) (auto simp: sound_def)

lemma wf_patch_deletes: "wf_patch (p\<lparr>ca_DeleteAnnotations := ks\<rparr>) = wf_patch p"
  by (simp add: wf_patch_def)

lemma sound_copy [sound_intros]: "sound cu \<Longrightarrow> sound (copyAnnotation a cu)"
  by (auto simp: sound_def copyAnnotation_def Let_def wf_patch_fold wf_patch_deletes split: option.splits)

lemma sound_option [sound_intros]: "sound cu \<Longrightarrow> sound (case ann of None \<Rightarrow> cu | Some a \<Rightarrow> copyAnnotation a cu)"
  by (cases ann) (simp_all add: sound_copy)

lemma sound_if [sound_intros]: "sound a \<Longrightarrow> sound b \<Longrightarrow> sound (if c then a else b)"
  by simp

lemma sound_updated:
  assumes "sound cu" "cu_update cc cu s = (Ret (err, cu'), s')"
  shows "sound cu' \<and> (err \<noteq> None \<longrightarrow> isDirty cu' \<and> needsResync cu')"
proof (cases "isDirty cu")
  case True
  have "wf_patch (clusterAnnotation cu)" "cu_cc cu" using assms(1) by (simp_all add: sound_def)
  with assms(2) True obtain p where "cu' = cu\<lparr>cu_cluster := p, needsResync := (err \<noteq> None)\<rparr>"
    by (metis cu_update_protocol)
  with assms(1) True show ?thesis by (simp add: sound_def)
next
  case False
  with assms show ?thesis by (auto simp: sound_def cu_update_clean)
qed

text \<open>Handing an updater over, from a state in which its object is there.\<close>

lemma retry_frame:
  fixes s :: "'w state"
  assumes run: "retryClusterUpdate cc cu s = (r, s')" and ok: "retry_ok (length (heap s)) cu"
  shows "handler_frame s s'"
proof -
  from ok obtain a where a: "cu_cluster cu = Some a" "a < length (heap s)" by (auto simp: retry_ok_def)
  let ?R = "\<lambda>(s :: 'w state) s'. a < length (heap s) \<longrightarrow> handler_frame s s'"
  have fr: "state_frame ?R"
  proof
    show "reflp ?R" using handlers.frame_refl by (auto simp: reflp_def)
    show "transp ?R"
    proof (intro transpI impI)
      fix x y z :: "'w state"
      assume "?R x y" "?R y z" "a < length (heap x)"
      then have "handler_frame x y" "handler_frame y z" by (auto simp: handler_frame_def)
      then show "handler_frame x z" by (rule handler_frame_trans)
    qed
  qed (simp add: quiet_frame)
  note rf = state_frame.axioms(1) [OF fr]
  note rules = run_frame.rules [OF rf] quiet_calls [THEN state_frame.keeps_quiet [OF fr]]
  have send: "keeps ?R (on_retrier (deliverAfter t (cu\<lparr>backoff := b\<rparr>) d))" if "backoff_ok b" for t b d
    using ok a(1) that
    by (intro keepsI) (auto simp: on_retrier_def zoom_def deliverAfter_def send_update_def handler_frame_def retry_ok_def
        intro: exI [of _ "[]"] split: prod.splits if_splits)
  have rest: "keeps ?R (bnd (hasExpiredNow cc (backoff u)) (\<lambda>expired. if \<not> expired
      then let (delay, b) = next_backoff (backoff u); updater = u\<lparr>backoff := b\<rparr> in
         bnd (now cc) (\<lambda>t. on_retrier (deliverAfter t updater delay)) else ret ()))"
    if u: "\<exists>b. backoff_ok b \<and> u = cu\<lparr>backoff := b\<rparr>" for u
  proof -
    from u obtain b where b: "backoff_ok b" "u = cu\<lparr>backoff := b\<rparr>" by blast
    obtain d b' where nb: "next_backoff b = (d, b')" by (cases "next_backoff b")
    note send [OF next_backoff_exact(4) [OF b(1) nb]]
    with b(2) nb show ?thesis by (auto intro!: rules)
  qed
  have "keeps ?R (retryClusterUpdate cc cu)"
    unfolding retryClusterUpdate_def
  proof (rule keeps_bnd_result [OF run_frame.frame_trans [OF rf]])
    show "keeps ?R (if IsZero (startTime (backoff cu))
          then bnd (now cc) (\<lambda>t. ret (cu\<lparr>backoff := (backoff cu)\<lparr>startTime := t\<rparr>\<rparr>)) else ret cu)"
      by (intro rules)
    fix t u t' assume "(if IsZero (startTime (backoff cu))
          then bnd (now cc) (\<lambda>t. ret (cu\<lparr>backoff := (backoff cu)\<lparr>startTime := t\<rparr>\<rparr>)) else ret cu) t = (Ret u, t')"
    then have "\<exists>st. u = cu\<lparr>backoff := (backoff cu)\<lparr>startTime := st\<rparr>\<rparr>"
      by (auto elim!: bnd_RetE ret_RetE split: if_splits intro: exI [of _ "startTime (backoff cu)"])
    moreover have "backoff_ok ((backoff cu)\<lparr>startTime := st\<rparr>)" for st using ok by (simp add: retry_ok_def backoff_ok_def)
    ultimately have "\<exists>b. backoff_ok b \<and> u = cu\<lparr>backoff := b\<rparr>" by blast
    then show "keeps ?R (bnd (hasExpiredNow cc (backoff u)) (\<lambda>expired. if \<not> expired
      then let (delay, b) = next_backoff (backoff u); updater = u\<lparr>backoff := b\<rparr> in
         bnd (now cc) (\<lambda>t. on_retrier (deliverAfter t updater delay)) else ret ()))" by (rule rest)
  qed
  from keepsD [OF this run] a(2) show ?thesis by simp
qed

named_theorems handler_calls \<open>computations that keep the frame of the handlers\<close>

lemma frame_clusterUpdate [handler_calls]:
  assumes "sound cu"
  shows "keeps handler_frame (clusterUpdate cc cu)"
  unfolding clusterUpdate_def
proof (rule keeps_bnd_result [OF handlers.frame_trans handlers.keeps_quiet [OF quiet_cu_update]])
  fix s x s1 assume upd: "cu_update cc cu s = (Ret x, s1)"
  obtain err cu' where x: "x = (err, cu')" by (cases x)
  note u = sound_updated [OF assms upd [unfolded x]]
  have "keeps handler_frame (bnd (load (cu_cluster cu')) (\<lambda>_. retryClusterUpdate cc cu'))" if "err \<noteq> None"
  proof (rule keepsI)
    fix s r s' assume "bnd (load (cu_cluster cu')) (\<lambda>_. retryClusterUpdate cc cu') s = (r, s')"
    then consider "s' = s" | a where "cu_cluster cu' = Some a" "a < length (heap s)" "retryClusterUpdate cc cu' s = (r, s')"
      by (auto simp: bnd_def load_def split: option.splits if_splits)
    then show "handler_frame s s'"
    proof cases
      case 2
      with u that have "retry_ok (length (heap s)) cu'" by (simp add: retry_ok_def sound_def)
      with 2(3) show ?thesis by (rule retry_frame)
    qed (simp add: quiet_frame quiet_refl)
  qed
  then show "keeps handler_frame (case x of (err, updater) \<Rightarrow>
      if err \<noteq> None then bnd (load (cu_cluster updater)) (\<lambda>_. retryClusterUpdate cc updater) else ret ())"
    unfolding x by (auto intro: handlers.rules)
qed

lemmas handler_rules = handlers.rules quiet_calls [THEN handlers.keeps_quiet] sound_intros

lemma frame_after_update:
  assumes "sound cu" "\<And>err cu'. sound cu' \<Longrightarrow> keeps handler_frame (f (err, cu'))"
  shows "keeps handler_frame (bnd (cu_update cc cu) f)"
  by (rule keeps_bnd_result [OF handlers.frame_trans handlers.keeps_quiet [OF quiet_cu_update]])
    (metis assms sound_updated surj_pair)

lemma frame_validate [handler_calls]: "keeps handler_frame (validateCluster cc p st)"
  unfolding validateCluster_alt fresh_updater_def by (intro handler_rules handler_calls)

lemma frame_create [handler_calls]: "keeps handler_frame (createCluster cc p)"
  unfolding createCluster_def Let_def by (intro handler_rules handler_calls)

lemma frame_shutdown [handler_calls]: "keeps handler_frame (shutdownCluster cc p)"
  unfolding shutdownCluster_def Let_def
  by (rule frame_after_update) (intro sound_intros, auto intro!: handler_rules handler_calls)

lemma frame_scale [handler_calls]: "keeps handler_frame (scaleCluster cc p up)"
  unfolding scaleCluster_def Let_def
  by (rule frame_after_update) (intro sound_intros, auto intro!: handler_rules handler_calls)

lemma frame_processItem [handler_calls]: "keeps handler_frame (processItem cc p)"
  unfolding processItem_def handleState_def by (intro handler_rules handler_calls)

lemma frame_retryHandler: "sound (item_value item) \<Longrightarrow> keeps handler_frame (retryHandler cc item)"
  unfolding retryHandler_def Let_def by (intro handler_rules handler_calls)

lemma frame_reconcile: "keeps handler_frame (reconcileWhenReady cc)"
  unfolding reconcileWhenReady_def reconcileOne_def by (intro handler_rules handler_calls)

section \<open>Submitting\<close>

definition eligible :: "'w ClusterController \<Rightarrow> cluster \<Rightarrow> bool" where
  "eligible cc c \<longleftrightarrow> (\<exists>cls st. annotation c ClusterManagerClusterClassKey = Some cls \<and>
     map_of (clusterProviders cc) cls \<noteq> None \<and>
     annotation c NavarkosClusterStateKey = Some st \<and> st \<in> actionableStates cc)"

text \<open>The pointers the queue knows are nil or allocated.\<close>

definition queue_ptrs_ok :: "'w state \<Rightarrow> bool" where
  "queue_ptrs_ok s \<longleftrightarrow> (\<forall>p \<in> set (queue (workQueue s)) \<union> dirty (workQueue s) \<union> processing (workQueue s). valid_ptr p s)"

lemma submit_ignored:
  "\<not> eligible cc c \<Longrightarrow> SubmitClusterForProvisioning cc c s = (Ret (), s)"
  by (auto simp: SubmitClusterForProvisioning_def eligible_def ret_def split: option.splits)

text \<open>The queue after \<open>Add\<close>.\<close>

definition added :: "ptr \<Rightarrow> ptr workQueue \<Rightarrow> ptr workQueue" where
  "added p q = (if shuttingDown q \<or> p \<in> dirty q then q
     else q\<lparr>dirty := insert p (dirty q), queue := queue q @ (if p \<in> processing q then [] else [p])\<rparr>)"

lemma Add_added: "on_queue (Add p) s = (Ret (), s\<lparr>workQueue := added p (workQueue s)\<rparr>)"
  by (simp add: on_queue_def zoom_def Add_def added_def modify_def Let_def)

lemma added_ok: "queue_ptrs_ok s \<Longrightarrow> valid_ptr p s \<Longrightarrow> queue_ptrs_ok (s\<lparr>workQueue := added p (workQueue s)\<rparr>)"
  by (auto simp: queue_ptrs_ok_def added_def valid_ptr_def)

text \<open>An eligible cluster: a copy of it, or nil when there is none.\<close>

lemma submit_copied:
  assumes "eligible cc c" "DeepCopy (packages cc) c = Inr c'"
  shows "SubmitClusterForProvisioning cc c s =
    (Ret (), s\<lparr>heap := heap s @ [c'], workQueue := added (Some (length (heap s))) (workQueue s)\<rparr>)"
  using assms by (auto simp: SubmitClusterForProvisioning_def eligible_def bnd_run alloc_def Add_added)

lemma submit_nil:
  assumes "eligible cc c" "DeepCopy (packages cc) c = Inl e"
  shows "SubmitClusterForProvisioning cc c s = (Ret (), s\<lparr>workQueue := added None (workQueue s)\<rparr>)"
  using assms by (auto simp: SubmitClusterForProvisioning_def eligible_def Add_added)

lemma submit_result:
  assumes "queue_ptrs_ok s"
  shows "\<exists>s'. SubmitClusterForProvisioning cc c s = (Ret (), s') \<and> queue_ptrs_ok s' \<and>
    (if \<not> eligible cc c then s' = s
     else case DeepCopy (packages cc) c of
       Inr c' \<Rightarrow> heap s' = heap s @ [c'] \<and> queue (workQueue s') = queue (workQueue s) @
         (if shuttingDown (workQueue s) then [] else [Some (length (heap s))])
     | Inl e \<Rightarrow> heap s' = heap s \<and> queue (workQueue s') = queue (workQueue s) @
         (if shuttingDown (workQueue s) \<or> None \<in> dirty (workQueue s) \<union> processing (workQueue s) then [] else [None]))"
proof (cases "eligible cc c")
  case True
  show ?thesis
  proof (cases "DeepCopy (packages cc) c")
    case (Inl e)
    have "queue_ptrs_ok (s\<lparr>workQueue := added None (workQueue s)\<rparr>)" by (rule added_ok [OF assms]) (simp add: valid_ptr_def)
    then show ?thesis using submit_nil [OF True Inl, of s] True Inl by (auto simp: added_def)
  next
    case (Inr c')
    let ?p = "Some (length (heap s))" and ?s1 = "s\<lparr>heap := heap s @ [c']\<rparr>"
    have fresh: "?p \<notin> dirty (workQueue s)" "?p \<notin> processing (workQueue s)"
      using assms by (auto simp: queue_ptrs_ok_def valid_ptr_def)
    have "queue_ptrs_ok ?s1" using assms by (auto simp: queue_ptrs_ok_def valid_ptr_def less_Suc_eq)
    from added_ok [OF this, of ?p] have "queue_ptrs_ok (s\<lparr>heap := heap s @ [c'], workQueue := added ?p (workQueue s)\<rparr>)"
      by (simp add: valid_ptr_def)
    with submit_copied [OF True Inr, of s] True Inr fresh show ?thesis by (auto simp: added_def)
  qed
next
  case False
  with submit_ignored [OF False] assms show ?thesis by simp
qed

text \<open>The worker cannot take nil for a cluster.\<close>

lemma nil_item_crashes: "processItem cc None s = (Crash TypeAssertion, s)"
  by (simp add: processItem_def bnd_def crash_def)

section \<open>Rounds of the worker\<close>

text \<open>A round that returns: the queue was shut down and empty, or its first item was processed.\<close>

lemma workerFunction_RetE:
  assumes "workerFunction cc s = (Ret quit, s')" "wq_ok (workQueue s)"
  obtains (quit) "quit" "queue (workQueue s) = []" "shuttingDown (workQueue s)" "s' = s"
  | (round) p rest s1 s2 where "\<not> quit" "queue (workQueue s) = p # rest"
      "s1 = s\<lparr>workQueue := (workQueue s)\<lparr>queue := rest, processing := insert p (processing (workQueue s)),
         dirty := dirty (workQueue s) - {p}\<rparr>\<rparr>"
      "processItem cc p s1 = (Ret (), s2)" "handler_frame s1 s2"
      "s' = s2\<lparr>workQueue := (workQueue s)\<lparr>queue := rest, dirty := dirty (workQueue s) - {p}\<rparr>\<rparr>"
proof (cases "queue (workQueue s)")
  case Nil
  with assms(1) have "quit" "shuttingDown (workQueue s)" "s' = s"
    by (auto simp: workerFunction_def go_simps on_queue_def zoom_def Get_def split: if_splits)
  with Nil show ?thesis by (intro that(1))
next
  case (Cons p rest)
  let ?q = "(workQueue s)\<lparr>queue := rest, processing := insert p (processing (workQueue s)), dirty := dirty (workQueue s) - {p}\<rparr>"
  have "workerFunction cc s = deferring (on_queue (Done p)) (bnd (processItem cc p) (\<lambda>_. ret False)) (s\<lparr>workQueue := ?q\<rparr>)"
    using Cons by (simp add: workerFunction_def go_simps on_queue_def zoom_def Get_def)
  with assms(1) obtain s2 where q: "\<not> quit" and body: "processItem cc p (s\<lparr>workQueue := ?q\<rparr>) = (Ret (), s2)"
    and s': "s' = snd (on_queue (Done p) s2)"
    by (auto simp: deferring_def bnd_def ret_def split: outcome.splits prod.splits)
  from keepsD [OF frame_processItem body] have fr: "handler_frame (s\<lparr>workQueue := ?q\<rparr>) s2" .
  then have "workQueue s2 = ?q" by (simp add: handler_frame_def)
  moreover have "p \<notin> processing (workQueue s)" using assms(2) Cons by (auto simp: wq_ok_def)
  ultimately have "s' = s2\<lparr>workQueue := (workQueue s)\<lparr>queue := rest, dirty := dirty (workQueue s) - {p}\<rparr>\<rparr>"
    using s' by (simp add: on_queue_def zoom_def Done_def modify_def Let_def)
  from that(2) [OF q Cons refl body fr this] show ?thesis .
qed

lemma workerFunction_shut:
  assumes "wq_ok (workQueue s)" "shuttingDown (workQueue s)" "workerFunction cc s = (Ret q, s')"
  shows "wq_ok (workQueue s') \<and> shuttingDown (workQueue s') \<and>
     (if q then queue (workQueue s') = [] else queue (workQueue s') = tl (queue (workQueue s)) \<and> queue (workQueue s) \<noteq> [])"
  using assms(3,1)
proof (cases rule: workerFunction_RetE)
  case (round p rest s1 s2)
  with assms(1,2) show ?thesis by (auto simp: wq_ok_def)
qed (use assms in simp)

lemma worker_shut:
  assumes "wq_ok (workQueue s)" "shuttingDown (workQueue s)" "length (queue (workQueue s)) < n"
    and "worker cc n s = (Ret q, s')"
  shows "q \<and> queue (workQueue s') = []"
  using assms
proof (induction n arbitrary: s)
  case (Suc n)
  from Suc.prems(4) obtain q1 s1 where w: "workerFunction cc s = (Ret q1, s1)"
    and rest: "(if q1 then ret True else worker cc n) s1 = (Ret q, s')" by (auto elim!: bnd_RetE)
  note f = workerFunction_shut [OF Suc.prems(1,2) w]
  show ?case
  proof (cases q1)
    case True
    with rest f show ?thesis by (auto simp: ret_def)
  next
    case False
    with f Suc.prems(3) have "length (queue (workQueue s1)) < n" by (cases "queue (workQueue s)") auto
    with False rest f show ?thesis by (intro Suc.IH [of s1]) auto
  qed
qed simp

end
