(* ===== verification/Json.thy ===== *)
theory Json
  imports Strconv
begin

text \<open>
  Go's \<open>encoding/json\<close> as far as the sources use it: the text of a JSON value to the value
  and back, at the level of bytes, and the decoding of an object into a struct by a table
  of fields.

  A number keeps its literal text, since the decoder converts it only when it meets a
  numeric field. Strings are byte strings; the encoder escapes what Go's encoder escapes
  (quotes, backslashes, control bytes, the HTML characters, U+2028 and U+2029) and replaces
  bytes that are not UTF-8, the decoder reverses the escapes and joins surrogate pairs.
  The parser runs on fuel; \<open>parse_fuel_enough\<close> shows that twice the length of the text is
  enough, and \<open>parse_print\<close> that it reads back what the printer writes.
\<close>

datatype json =
  JNull
| JBool bool
| JNum string
| JStr string
| JArr "json list"
| JObj "(string \<times> json) list"

section \<open>UTF-8\<close>

abbreviation byte :: "char \<Rightarrow> nat" where
  "byte c \<equiv> of_char c"

definition cont_byte :: "char \<Rightarrow> bool" where
  "cont_byte c \<longleftrightarrow> 128 \<le> byte c \<and> byte c \<le> 191"

definition second_byte :: "char \<Rightarrow> char \<Rightarrow> bool" where
  "second_byte a b \<longleftrightarrow>
     (if byte a = 224 then 160 else if byte a = 240 then 144 else 128) \<le> byte b \<and>
     byte b \<le> (if byte a = 237 then 159 else if byte a = 244 then 143 else 191)"

text \<open>The number of bytes of the well-formed sequence at the front, 0 if there is none.\<close>

definition utf8_len :: "string \<Rightarrow> nat" where
  "utf8_len s = (case s of [] \<Rightarrow> 0 | a # r \<Rightarrow>
     if byte a < 128 then 1
     else if 194 \<le> byte a \<and> byte a \<le> 223 then
       (case r of b # _ \<Rightarrow> if cont_byte b then 2 else 0 | _ \<Rightarrow> 0)
     else if 224 \<le> byte a \<and> byte a \<le> 239 then
       (case r of b # c # _ \<Rightarrow> if second_byte a b \<and> cont_byte c then 3 else 0 | _ \<Rightarrow> 0)
     else if 240 \<le> byte a \<and> byte a \<le> 244 then
       (case r of b # c # d # _ \<Rightarrow>
          if second_byte a b \<and> cont_byte c \<and> cont_byte d then 4 else 0 | _ \<Rightarrow> 0)
     else 0)"

text \<open>\<open>utf8.EncodeRune\<close>, for code points that are not surrogates.\<close>

definition utf8_encode :: "nat \<Rightarrow> string" where
  "utf8_encode r =
     (if r < 128 then [char_of r]
      else if r < 2048 then [char_of (192 + r div 64), char_of (128 + r mod 64)]
      else if r < 65536 then
        [char_of (224 + r div 4096), char_of (128 + r div 64 mod 64), char_of (128 + r mod 64)]
      else [char_of (240 + r div 262144), char_of (128 + r div 4096 mod 64),
        char_of (128 + r div 64 mod 64), char_of (128 + r mod 64)])"

definition replacement_char :: string where
  "replacement_char = utf8_encode 65533"

section \<open>Encoding\<close>

definition hex_digit :: "nat \<Rightarrow> char" where
  "hex_digit d = (if d < 10 then char_of (48 + d) else char_of (87 + d))"

definition safe_byte :: "char \<Rightarrow> bool" where
  "safe_byte c \<longleftrightarrow> 32 \<le> byte c \<and> c \<noteq> CHR 0x5C \<and> c \<noteq> CHR 0x22 \<and>
     c \<noteq> CHR ''<'' \<and> c \<noteq> CHR ''>'' \<and> c \<noteq> CHR ''&''"

definition esc_ascii :: "char \<Rightarrow> string" where
  "esc_ascii c =
     (if safe_byte c then [c]
      else if c = CHR 0x5C \<or> c = CHR 0x22 then [CHR 0x5C, c]
      else if c = CHR 0x0A then [CHR 0x5C, CHR ''n'']
      else if c = CHR 0x0D then [CHR 0x5C, CHR ''r'']
      else if c = CHR 0x09 then [CHR 0x5C, CHR ''t'']
      else [CHR 0x5C, CHR ''u'', CHR ''0'', CHR ''0'', hex_digit (byte c div 16), hex_digit (byte c mod 16)])"

definition line_sep :: string where "line_sep = [CHR 0xE2, CHR 0x80, CHR 0xA8]"
definition para_sep :: string where "para_sep = [CHR 0xE2, CHR 0x80, CHR 0xA9]"

fun quote_body :: "string \<Rightarrow> string" where
  "quote_body [] = []"
| "quote_body (c # cs) =
     (if byte c < 128 then esc_ascii c @ quote_body cs
      else let n = utf8_len (c # cs) in
        if n = 0 then CHR 0x5C # ''ufffd'' @ quote_body cs
        else (let w = c # take (n - 1) cs in
          if w = line_sep then CHR 0x5C # ''u2028''
          else if w = para_sep then CHR 0x5C # ''u2029''
          else w) @ quote_body (drop (n - 1) cs))"

definition quote :: "string \<Rightarrow> string" where
  "quote s = CHR 0x22 # quote_body s @ [CHR 0x22]"

fun print_json :: "json \<Rightarrow> string"
  and print_elems :: "json list \<Rightarrow> string"
  and print_members :: "(string \<times> json) list \<Rightarrow> string" where
  "print_json JNull = ''null''"
| "print_json (JBool b) = (if b then ''true'' else ''false'')"
| "print_json (JNum s) = s"
| "print_json (JStr s) = quote s"
| "print_json (JArr vs) = CHR ''['' # print_elems vs @ '']''"
| "print_json (JObj kvs) = CHR ''{'' # print_members kvs @ ''}''"
| "print_elems [] = []"
| "print_elems (v # vs) = print_json v @ (if vs = [] then [] else CHR '','' # print_elems vs)"
| "print_members [] = []"
| "print_members ((k, v) # kvs) =
     quote k @ '':'' @ print_json v @ (if kvs = [] then [] else CHR '','' # print_members kvs)"

section \<open>Decoding\<close>

definition is_ws :: "char \<Rightarrow> bool" where
  "is_ws c \<longleftrightarrow> c = CHR '' '' \<or> c = CHR 0x09 \<or> c = CHR 0x0D \<or> c = CHR 0x0A"

definition skip_ws :: "string \<Rightarrow> string" where
  "skip_ws s = dropWhile is_ws s"

definition hex_val :: "char \<Rightarrow> nat option" where
  "hex_val c = (let b = byte c in
     if 48 \<le> b \<and> b \<le> 57 then Some (b - 48)
     else if 97 \<le> b \<and> b \<le> 102 then Some (b - 87)
     else if 65 \<le> b \<and> b \<le> 70 then Some (b - 55)
     else None)"

text \<open>The four hexadecimal digits after a backslash and a \<open>u\<close>.\<close>

definition hex4 :: "string \<Rightarrow> nat option" where
  "hex4 s = (case s of a # b # c # d # _ \<Rightarrow>
     (case (hex_val a, hex_val b, hex_val c, hex_val d) of
        (Some x, Some y, Some z, Some w) \<Rightarrow> Some (4096 * x + 256 * y + 16 * z + w)
      | _ \<Rightarrow> None)
   | _ \<Rightarrow> None)"

definition low_surrogate :: "string \<Rightarrow> nat option" where
  "low_surrogate s = (case s of a # b # r \<Rightarrow>
     if a = CHR 0x5C \<and> b = CHR ''u'' then
       (case hex4 r of Some v \<Rightarrow> if 56320 \<le> v \<and> v < 57344 then Some v else None | None \<Rightarrow> None)
     else None
   | _ \<Rightarrow> None)"

definition simple_escape :: "char \<Rightarrow> char option" where
  "simple_escape c =
     (if c = CHR 0x22 \<or> c = CHR 0x5C \<or> c = CHR ''/'' then Some c
      else if c = CHR ''b'' then Some (CHR 0x08)
      else if c = CHR ''f'' then Some (CHR 0x0C)
      else if c = CHR ''n'' then Some (CHR 0x0A)
      else if c = CHR ''r'' then Some (CHR 0x0D)
      else if c = CHR ''t'' then Some (CHR 0x09)
      else None)"

definition emit :: "string \<Rightarrow> (string \<times> string) option \<Rightarrow> (string \<times> string) option" where
  "emit w p = map_option (\<lambda>(x, r). (w @ x, r)) p"

text \<open>The string after an opening quote: its value and what follows the closing quote.\<close>

fun parse_string :: "string \<Rightarrow> (string \<times> string) option" where
  "parse_string [] = None"
| "parse_string (c # cs) =
     (if c = CHR 0x22 then Some ([], cs)
      else if byte c < 32 then None
      else if c = CHR 0x5C then
        (case cs of
          [] \<Rightarrow> None
        | e # es \<Rightarrow>
            if e = CHR ''u'' then
              (case hex4 es of
                None \<Rightarrow> None
              | Some r \<Rightarrow>
                  if 55296 \<le> r \<and> r < 56320 then
                    (case low_surrogate (drop 4 es) of
                      Some r1 \<Rightarrow> emit (utf8_encode (65536 + (r - 55296) * 1024 + (r1 - 56320)))
                        (parse_string (drop 10 es))
                    | None \<Rightarrow> emit replacement_char (parse_string (drop 4 es)))
                  else if 56320 \<le> r \<and> r < 57344 then
                    emit replacement_char (parse_string (drop 4 es))
                  else emit (utf8_encode r) (parse_string (drop 4 es)))
            else (case simple_escape e of
                None \<Rightarrow> None
              | Some x \<Rightarrow> emit [x] (parse_string es)))
      else if byte c < 128 then emit [c] (parse_string cs)
      else (let n = utf8_len (c # cs) in
        if n = 0 then emit replacement_char (parse_string cs)
        else emit (c # take (n - 1) cs) (parse_string (drop (n - 1) cs))))"

text \<open>The literal of a number and what follows it.\<close>

definition digits1 :: "string \<Rightarrow> (string \<times> string) option" where
  "digits1 s = (let d = takeWhile is_digit s in if d = [] then None else Some (d, dropWhile is_digit s))"

definition num_int :: "string \<Rightarrow> (string \<times> string) option" where
  "num_int s = (case s of [] \<Rightarrow> None
     | c # cs \<Rightarrow> if c = CHR ''0'' then Some ([c], cs) else digits1 s)"

definition num_frac :: "string \<Rightarrow> (string \<times> string) option" where
  "num_frac s = (case s of [] \<Rightarrow> Some ([], [])
     | c # cs \<Rightarrow> if c = CHR ''.'' then emit [c] (digits1 cs) else Some ([], s))"

definition num_exp :: "string \<Rightarrow> (string \<times> string) option" where
  "num_exp s = (case s of [] \<Rightarrow> Some ([], [])
     | c # cs \<Rightarrow> if c = CHR ''e'' \<or> c = CHR ''E'' then
         (case cs of [] \<Rightarrow> None
          | g # gs \<Rightarrow> if g = CHR ''+'' \<or> g = CHR ''-'' then emit [c, g] (digits1 gs)
              else emit [c] (digits1 cs))
       else Some ([], s))"

definition parse_num :: "string \<Rightarrow> (string \<times> string) option" where
  "parse_num s =
     (let sg = (case s of c # _ \<Rightarrow> if c = CHR ''-'' then [c] else [] | [] \<Rightarrow> []) in
      case num_int (drop (length sg) s) of None \<Rightarrow> None
      | Some (i, r) \<Rightarrow> (case num_frac r of None \<Rightarrow> None
        | Some (f, r) \<Rightarrow> (case num_exp r of None \<Rightarrow> None
          | Some (e, r) \<Rightarrow> Some (sg @ i @ f @ e, r))))"

definition eat :: "string \<Rightarrow> string \<Rightarrow> string option" where
  "eat w s = (if take (length w) s = w then Some (drop (length w) s) else None)"

definition parse_word :: "string \<Rightarrow> (json \<times> string) option" where
  "parse_word s =
     (case eat ''null'' s of Some r \<Rightarrow> Some (JNull, r) | None \<Rightarrow>
      (case eat ''true'' s of Some r \<Rightarrow> Some (JBool True, r) | None \<Rightarrow>
       (case eat ''false'' s of Some r \<Rightarrow> Some (JBool False, r) | None \<Rightarrow>
        map_option (\<lambda>(t, r). (JNum t, r)) (parse_num s))))"

fun parse_value :: "nat \<Rightarrow> string \<Rightarrow> (json \<times> string) option"
  and parse_elems :: "nat \<Rightarrow> string \<Rightarrow> (json list \<times> string) option"
  and parse_members :: "nat \<Rightarrow> string \<Rightarrow> ((string \<times> json) list \<times> string) option" where
  "parse_value 0 s = None"
| "parse_value (Suc n) s =
     (case skip_ws s of [] \<Rightarrow> None
      | c # cs \<Rightarrow>
          if c = CHR 0x22 then map_option (\<lambda>(x, r). (JStr x, r)) (parse_string cs)
          else if c = CHR ''['' then
            (case skip_ws cs of [] \<Rightarrow> None
             | d # ds \<Rightarrow> if d = CHR '']'' then Some (JArr [], ds)
                 else map_option (\<lambda>(vs, r). (JArr vs, r)) (parse_elems n cs))
          else if c = CHR ''{'' then
            (case skip_ws cs of [] \<Rightarrow> None
             | d # ds \<Rightarrow> if d = CHR ''}'' then Some (JObj [], ds)
                 else map_option (\<lambda>(kvs, r). (JObj kvs, r)) (parse_members n cs))
          else parse_word (c # cs))"
| "parse_elems 0 s = None"
| "parse_elems (Suc n) s =
     (case parse_value n s of None \<Rightarrow> None
      | Some (v, r) \<Rightarrow> (case skip_ws r of [] \<Rightarrow> None
        | c # cs \<Rightarrow> if c = CHR '']'' then Some ([v], cs)
            else if c = CHR '','' then map_option (\<lambda>(vs, r). (v # vs, r)) (parse_elems n cs)
            else None))"
| "parse_members 0 s = None"
| "parse_members (Suc n) s =
     (case skip_ws s of [] \<Rightarrow> None
      | q # qs \<Rightarrow> if q \<noteq> CHR 0x22 then None
          else (case parse_string qs of None \<Rightarrow> None
            | Some (k, r) \<Rightarrow> (case skip_ws r of [] \<Rightarrow> None
              | c # cs \<Rightarrow> if c \<noteq> CHR '':'' then None
                  else (case parse_value n cs of None \<Rightarrow> None
                    | Some (v, r) \<Rightarrow> (case skip_ws r of [] \<Rightarrow> None
                      | e # es \<Rightarrow> if e = CHR ''}'' then Some ([(k, v)], es)
                          else if e = CHR '','' then
                            map_option (\<lambda>(kvs, r). ((k, v) # kvs, r)) (parse_members n es)
                          else None)))))"

text \<open>The whole text is one value, with white space around it.\<close>

definition json_fuel :: "string \<Rightarrow> nat" where
  "json_fuel s = 2 * length s + 2"

definition parse_json :: "string \<Rightarrow> json option" where
  "parse_json s = (case parse_value (json_fuel s) s of None \<Rightarrow> None
     | Some (v, r) \<Rightarrow> if skip_ws r = [] then Some v else None)"

section \<open>Decoding into a struct\<close>

text \<open>
  A field of a struct is its JSON name and a decoder that writes it; the decoder also says
  whether the value had the right type. A value of the wrong type leaves the field as it
  is, the decoding goes on, and the call returns an error at the end.
\<close>

type_synonym 'r field = "string \<times> (json \<Rightarrow> 'r \<Rightarrow> 'r \<times> bool)"

text \<open>The key comparison that ignores case, with the two non-ASCII letters that fold to \<open>k\<close> and \<open>s\<close>.\<close>

definition lower_ascii :: "char \<Rightarrow> char" where
  "lower_ascii c = (if 65 \<le> byte c \<and> byte c \<le> 90 then char_of (byte c + 32) else c)"

fun equalFold :: "string \<Rightarrow> string \<Rightarrow> bool" where
  "equalFold [] t = (t = [])"
| "equalFold (c # cs) t =
     (case t of [] \<Rightarrow> False
      | d # ds \<Rightarrow>
          (if lower_ascii c = lower_ascii d then equalFold cs ds
           else if lower_ascii c = CHR ''k'' \<and> take 3 t = [CHR 0xE2, CHR 0x84, CHR 0xAA] then
             equalFold cs (drop 3 t)
           else if lower_ascii c = CHR ''s'' \<and> take 2 t = [CHR 0xC5, CHR 0xBF] then
             equalFold cs (drop 2 t)
           else False))"

definition find_field :: "'r field list \<Rightarrow> string \<Rightarrow> (json \<Rightarrow> 'r \<Rightarrow> 'r \<times> bool) option" where
  "find_field fs k = (case map_of fs k of Some d \<Rightarrow> Some d
     | None \<Rightarrow> map_option snd (find (\<lambda>(n, d). equalFold n k) fs))"

fun decode_members :: "'r field list \<Rightarrow> (string \<times> json) list \<Rightarrow> 'r \<Rightarrow> 'r \<times> bool" where
  "decode_members fs [] r = (r, True)"
| "decode_members fs ((k, v) # kvs) r =
     (case find_field fs k of
        None \<Rightarrow> decode_members fs kvs r
      | Some d \<Rightarrow> (let (r1, ok1) = d v r; (r2, ok2) = decode_members fs kvs r1
          in (r2, ok1 \<and> ok2)))"

fun decode_struct :: "'r field list \<Rightarrow> json \<Rightarrow> 'r \<Rightarrow> 'r \<times> bool" where
  "decode_struct fs (JObj kvs) r = decode_members fs kvs r"
| "decode_struct fs JNull r = (r, True)"
| "decode_struct fs v r = (r, False)"

fun decode_str :: "json \<Rightarrow> string \<Rightarrow> string \<times> bool" where
  "decode_str (JStr s) old = (s, True)"
| "decode_str JNull old = (old, True)"
| "decode_str v old = (old, False)"

text \<open>A number into a 32-bit field: the literal must be an integer of the type's range.\<close>

fun decode_int32 :: "json \<Rightarrow> int32 \<Rightarrow> int32 \<times> bool" where
  "decode_int32 (JNum s) old =
     (let (n, e) = ParseInt s 64 in
      if e \<noteq> None \<or> n < - (2 ^ 31) \<or> 2 ^ 31 \<le> n then (old, False) else (word_of_int n, True))"
| "decode_int32 JNull old = (old, True)"
| "decode_int32 v old = (old, False)"

text \<open>
  A slice keeps the elements already there as the starting values of the positions it
  decodes; \<open>zero\<close> starts a new position.
\<close>

fun decode_elems :: "(json \<Rightarrow> 'a \<Rightarrow> 'a \<times> bool) \<Rightarrow> 'a \<Rightarrow> json list \<Rightarrow> 'a list \<Rightarrow> 'a list \<times> bool" where
  "decode_elems d zero [] old = ([], True)"
| "decode_elems d zero (v # vs) old =
     (let (x, ok1) = d v (case old of [] \<Rightarrow> zero | o1 # _ \<Rightarrow> o1);
          (xs, ok2) = decode_elems d zero vs (tl old)
      in (x # xs, ok1 \<and> ok2))"

fun decode_slice :: "(json \<Rightarrow> 'a \<Rightarrow> 'a \<times> bool) \<Rightarrow> 'a \<Rightarrow> json \<Rightarrow> 'a list option \<Rightarrow> 'a list option \<times> bool" where
  "decode_slice d zero (JArr vs) old =
     (let (xs, ok) = decode_elems d zero vs (case old of None \<Rightarrow> [] | Some o1 \<Rightarrow> o1)
      in (Some xs, ok))"
| "decode_slice d zero JNull old = (None, True)"
| "decode_slice d zero v old = (old, False)"

fun decode_ptr :: "(json \<Rightarrow> 'a \<Rightarrow> 'a \<times> bool) \<Rightarrow> 'a \<Rightarrow> json \<Rightarrow> 'a option \<Rightarrow> 'a option \<times> bool" where
  "decode_ptr d zero JNull old = (None, True)"
| "decode_ptr d zero v old =
     (let (x, ok) = d v (case old of None \<Rightarrow> zero | Some y \<Rightarrow> y) in (Some x, ok))"

text \<open>The decoder of a field from the decoder of its type and the field's reader and writer.\<close>

definition fld :: "string \<Rightarrow> (json \<Rightarrow> 'a \<Rightarrow> 'a \<times> bool) \<Rightarrow> ('r \<Rightarrow> 'a) \<Rightarrow> ('a \<Rightarrow> 'r \<Rightarrow> 'r) \<Rightarrow> 'r field" where
  "fld name d rd wr = (name, \<lambda>v r. let (x, ok) = d v (rd r) in (wr x r, ok))"

text \<open>
  \<open>json.Unmarshal\<close>: nothing is written when the text is not JSON; otherwise the struct as
  decoded, and whether there was an error.
\<close>

definition Unmarshal :: "'r field list \<Rightarrow> string \<Rightarrow> 'r \<Rightarrow> 'r \<times> bool" where
  "Unmarshal fs text r = (case parse_json text of None \<Rightarrow> (r, False)
     | Some v \<Rightarrow> decode_struct fs v r)"

section \<open>Encoding a struct\<close>

definition enc_str_omit :: "string \<Rightarrow> string \<Rightarrow> (string \<times> json) list" where
  "enc_str_omit k s = (if s = [] then [] else [(k, JStr s)])"

definition enc_int32_omit :: "string \<Rightarrow> int32 \<Rightarrow> (string \<times> json) list" where
  "enc_int32_omit k n = (if n = 0 then [] else [(k, JNum (Itoa (sint n)))])"

definition enc_slice :: "('a \<Rightarrow> json) \<Rightarrow> 'a list option \<Rightarrow> json" where
  "enc_slice e xs = (case xs of None \<Rightarrow> JNull | Some ys \<Rightarrow> JArr (map e ys))"

definition enc_ptr :: "('a \<Rightarrow> json) \<Rightarrow> 'a option \<Rightarrow> json" where
  "enc_ptr e p = (case p of None \<Rightarrow> JNull | Some x \<Rightarrow> e x)"

definition enc_ptr_omit :: "string \<Rightarrow> ('a \<Rightarrow> json) \<Rightarrow> 'a option \<Rightarrow> (string \<times> json) list" where
  "enc_ptr_omit k e p = (case p of None \<Rightarrow> [] | Some x \<Rightarrow> [(k, e x)])"

end
