(* ===== verification/JsonFacts.thy ===== *)
theory JsonFacts
  imports Json
begin

text \<open>
  Facts about the JSON model: every parser consumes what it returns past, the fuel of
  \<open>parse_json\<close> is enough for every text, strings in UTF-8 survive quoting, and a printed
  value is read back.
\<close>

section \<open>Consumption and fuel\<close>

lemma replacement_char_code [code]: "replacement_char = [CHR 0xEF, CHR 0xBF, CHR 0xBD]"
  by (simp add: replacement_char_def utf8_encode_def char_of_def bit_iff_odd)

lemma length_skip_ws: "length (skip_ws s) \<le> length s"
  by (simp add: skip_ws_def length_dropWhile_le)

lemma skip_ws_shorter: "skip_ws s = c # cs \<Longrightarrow> length cs < length s"
  using length_skip_ws [of s] by simp

lemma emit_Some: "emit w p = Some (x, r) \<longleftrightarrow> (\<exists>y. p = Some (y, r) \<and> x = w @ y)"
  by (cases p) (auto simp: emit_def)

lemma parse_string_shorter: "parse_string s = Some (x, r) \<Longrightarrow> length r < length s"
proof (induction s arbitrary: x r rule: length_induct)
  case (1 s)
  show ?case
  proof (cases s)
    case Nil
    with "1.prems" show ?thesis by simp
  next
    case (Cons c cs)
    have IH: "length r \<le> length cs" if "parse_string t = Some (y, r)" "length t \<le> length cs" for t y
    proof -
      from that(2) Cons have "length t < length s" by simp
      with "1.IH" that(1) have "length r < length t" by blast
      with that(2) show ?thesis by simp
    qed
    have *: "length (drop k es) \<le> Suc (length es)" "length (drop k es) \<le> length es"
      for k and es :: string
      by simp_all
    from "1.prems" Cons have "length r \<le> length cs"
      by (auto simp: emit_Some Let_def split: if_splits list.splits option.splits
          dest!: IH simp del: length_drop intro: *)
    with Cons show ?thesis by simp
  qed
qed

lemma digits1_length: "digits1 s = Some (d, r) \<Longrightarrow> length r < length s"
  by (cases s) (auto simp: digits1_def Let_def length_dropWhile_le less_Suc_eq_le split: if_splits)

lemma num_parts_length:
  "num_int s = Some (d, r) \<Longrightarrow> length r < length s"
  "num_frac s = Some (d, r) \<Longrightarrow> length r \<le> length s"
  "num_exp s = Some (d, r) \<Longrightarrow> length r \<le> length s"
  by (auto simp: num_int_def num_frac_def num_exp_def emit_Some
      dest!: digits1_length split: list.splits if_splits)

lemma parse_num_shorter: "parse_num s = Some (t, r) \<Longrightarrow> length r < length s"
  by (auto simp: parse_num_def Let_def dest!: num_parts_length
      split: option.splits prod.splits list.splits if_splits)

lemma eat_length: "eat w s = Some r \<Longrightarrow> w \<noteq> [] \<Longrightarrow> length r < length s"
proof -
  assume *: "eat w s = Some r" "w \<noteq> []"
  then have "r = drop (length w) s" "take (length w) s = w"
    by (simp_all add: eat_def split: if_splits)
  moreover from this *(2) have "s \<noteq> []" by auto
  ultimately show ?thesis using *(2) by (simp add: length_greater_0_conv)
qed

lemma parse_word_shorter: "parse_word s = Some (v, r) \<Longrightarrow> length r < length s"
  by (auto simp: parse_word_def dest!: eat_length parse_num_shorter split: option.splits)

lemma parse_shorter:
  "parse_value n s = Some (v, r) \<Longrightarrow> length r < length s"
  "parse_elems n s = Some (vs, r) \<Longrightarrow> length r < length s"
  "parse_members n s = Some (kvs, r) \<Longrightarrow> length r < length s"
proof (induction n arbitrary: s v vs kvs r)
  case 0
  { case 1 then show ?case by simp }
  { case 2 then show ?case by simp }
  { case 3 then show ?case by simp }
next
  case (Suc n)
  { case 1
    obtain c cs where c: "skip_ws s = c # cs" using 1 by (auto split: list.splits)
    with 1 have "length r < length (c # cs)"
      by (auto dest!: parse_string_shorter parse_word_shorter skip_ws_shorter Suc.IH
          split: if_splits list.splits)
    with c length_skip_ws [of s] show ?case by simp }
  { case 2
    then show ?case
      by (auto dest!: Suc.IH skip_ws_shorter split: if_splits list.splits option.splits) }
  { case 3
    then show ?case
      by (auto dest!: Suc.IH skip_ws_shorter parse_string_shorter
          split: if_splits list.splits option.splits) }
qed

text \<open>Beyond twice the length, more fuel changes nothing.\<close>

lemma parse_fuel_same:
  "2 * length s + 1 \<le> n \<Longrightarrow> 2 * length s + 1 \<le> m \<Longrightarrow> parse_value n s = parse_value m s"
  "2 * length s + 2 \<le> n \<Longrightarrow> 2 * length s + 2 \<le> m \<Longrightarrow> parse_elems n s = parse_elems m s"
  "2 * length s + 2 \<le> n \<Longrightarrow> 2 * length s + 2 \<le> m \<Longrightarrow> parse_members n s = parse_members m s"
proof (induction n arbitrary: s m)
  case 0
  { case 1 then show ?case by simp }
  { case 2 then show ?case by simp }
  { case 3 then show ?case by simp }
next
  case (Suc n)
  { case 1
    then obtain m' where m: "m = Suc m'" by (cases m) auto
    have "parse_elems n cs = parse_elems m' cs" "parse_members n cs = parse_members m' cs"
      if "skip_ws s = c # cs" for c cs
      using 1 m skip_ws_shorter [OF that] by (auto intro!: Suc.IH)
    then show ?case by (simp add: m split: list.split) }
  { case 2
    then obtain m' where m: "m = Suc m'" by (cases m) auto
    have v: "parse_value n s = parse_value m' s"
      using 2 m by (intro Suc.IH) auto
    have "parse_elems n cs = parse_elems m' cs"
      if "parse_value m' s = Some (x, r)" "skip_ws r = c # cs" for x r c cs
      using 2 m skip_ws_shorter [OF that(2)] parse_shorter(1) [OF that(1)]
      by (intro Suc.IH) auto
    then show ?case by (simp add: m v split: option.split list.split) }
  { case 3
    then obtain m' where m: "m = Suc m'" by (cases m) auto
    have v: "parse_value n cs = parse_value m' cs"
      if "skip_ws s = q # qs" "parse_string qs = Some (k, r)" "skip_ws r = c # cs" for q qs k r c cs
      using 3 m skip_ws_shorter [OF that(1)] parse_string_shorter [OF that(2)] skip_ws_shorter [OF that(3)]
      by (intro Suc.IH) auto
    have "parse_members n es = parse_members m' es"
      if "skip_ws s = q # qs" "parse_string qs = Some (k, r)" "skip_ws r = c # cs"
        "parse_value m' cs = Some (x, r')" "skip_ws r' = e # es" for q qs k r c cs x r' e es
      using 3 m skip_ws_shorter [OF that(1)] parse_string_shorter [OF that(2)] skip_ws_shorter [OF that(3)]
        parse_shorter(1) [OF that(4)] skip_ws_shorter [OF that(5)]
      by (intro Suc.IH) auto
    with v show ?case by (simp add: m split: option.split list.split) }
qed

lemma parse_fuel_enough:
  assumes "json_fuel s \<le> n"
  shows "parse_value n s = parse_value (json_fuel s) s"
  using assms by (intro parse_fuel_same) (simp_all add: json_fuel_def)

section \<open>Strings survive quoting\<close>

fun valid_utf8 :: "string \<Rightarrow> bool" where
  "valid_utf8 [] = True"
| "valid_utf8 (c # cs) =
     (let n = utf8_len (c # cs) in n \<noteq> 0 \<and> valid_utf8 (drop (n - 1) cs))"

lemma utf8_len_ascii: "byte c < 128 \<Longrightarrow> utf8_len (c # cs) = 1"
  by (simp add: utf8_len_def)

lemma valid_utf8_ascii: "\<forall>c \<in> set s. byte c < 128 \<Longrightarrow> valid_utf8 s"
  by (induction s) (auto simp: Let_def utf8_len_ascii)

lemma hex_val_hex_digit: "d < 16 \<Longrightarrow> hex_val (hex_digit d) = Some d"
  by (auto simp: hex_val_def hex_digit_def Let_def)

lemma hex4_esc:
  "byte c < 128 \<Longrightarrow>
   hex4 (CHR ''0'' # CHR ''0'' # hex_digit (byte c div 16) # hex_digit (byte c mod 16) # t) = Some (byte c)"
proof -
  assume "byte c < 128"
  then have "byte c div 16 < 16" "byte c mod 16 < 16" by simp_all
  moreover have "hex_val (CHR ''0'') = Some 0" by (simp add: hex_val_def)
  ultimately show ?thesis by (simp add: hex4_def hex_val_hex_digit)
qed

lemma parse_string_esc_ascii:
  assumes "byte c < 128"
  shows "parse_string (esc_ascii c @ t) = emit [c] (parse_string t)"
proof (cases "safe_byte c")
  case True
  with assms show ?thesis by (auto simp: esc_ascii_def safe_byte_def)
next
  case False
  consider "c = CHR 0x5C \<or> c = CHR 0x22" | "c = CHR 0x0A" | "c = CHR 0x0D" | "c = CHR 0x09"
    | "c \<noteq> CHR 0x5C" "c \<noteq> CHR 0x22" "c \<noteq> CHR 0x0A" "c \<noteq> CHR 0x0D" "c \<noteq> CHR 0x09"
    by blast
  then show ?thesis
  proof cases
    case 5
    with False have e: "esc_ascii c = [CHR 0x5C, CHR ''u'', CHR ''0'', CHR ''0'',
        hex_digit (byte c div 16), hex_digit (byte c mod 16)]"
      by (simp add: esc_ascii_def)
    have enc: "utf8_encode (byte c) = [c]" using assms by (simp add: utf8_encode_def)
    show ?thesis
      using assms by (simp add: e hex4_esc enc)
  qed (auto simp: esc_ascii_def safe_byte_def simple_escape_def)
qed

lemma utf8_len_cases: "utf8_len s = 0 \<or> utf8_len s = 1 \<or> utf8_len s = 2 \<or> utf8_len s = 3 \<or> utf8_len s = 4"
  by (auto simp: utf8_len_def split: list.split)

lemma utf8_len_bound: "utf8_len s \<le> length s"
  by (auto simp: utf8_len_def split: list.split)

lemma utf8_len_prefix: "utf8_len s \<noteq> 0 \<Longrightarrow> utf8_len (take (utf8_len s) s @ t) = utf8_len s"
  by (cases s; cases "tl s"; cases "tl (tl s)"; cases "tl (tl (tl s))")
    (simp_all add: utf8_len_def split: if_splits)

lemma parse_string_multibyte:
  assumes c: "128 \<le> byte c" and n: "utf8_len (c # cs) = n" "n \<noteq> 0"
  shows "parse_string ((c # take (n - 1) cs) @ t) = emit (c # take (n - 1) cs) (parse_string t)"
proof -
  define u where "u = take (n - 1) cs"
  have len: "length u = n - 1"
    using utf8_len_bound [of "c # cs"] n by (cases n) (auto simp: u_def)
  have "utf8_len (c # u @ t) = n"
    using utf8_len_prefix [of "c # cs" t] n by (cases n) (auto simp: u_def)
  moreover have "drop (n - 1) (u @ t) = t" "take (n - 1) (u @ t) = u"
    using len by simp_all
  moreover from c have "c \<noteq> CHR 0x22" "c \<noteq> CHR 0x5C" by auto
  ultimately show ?thesis
    using c n(2) unfolding u_def [symmetric] by (simp add: Let_def)
qed

lemma parse_string_seps:
  "parse_string (CHR 0x5C # ''u2028'' @ t) = emit line_sep (parse_string t)"
  "parse_string (CHR 0x5C # ''u2029'' @ t) = emit para_sep (parse_string t)"
  by (simp_all add: hex4_def hex_val_def line_sep_def para_sep_def utf8_encode_def char_of_def bit_0)

lemma emit_push: "emit v (emit w p) = emit (v @ w) p"
  by (cases p) (auto simp: emit_def)

theorem parse_string_quote_body:
  "valid_utf8 s \<Longrightarrow> parse_string (quote_body s @ CHR 0x22 # rest) = Some (s, rest)"
proof (induction s rule: quote_body.induct)
  case 1
  then show ?case by simp
next
  case (2 c cs)
  show ?case
  proof (cases "byte c < 128")
    case True
    with 2 show ?thesis
      by (simp add: parse_string_esc_ascii utf8_len_ascii Let_def emit_def)
  next
    case False
    define n where "n = utf8_len (c # cs)"
    define w where "w = c # take (n - 1) cs"
    from 2 have n: "n \<noteq> 0" "valid_utf8 (drop (n - 1) cs)"
      by (simp_all add: n_def Let_def)
    have IH: "parse_string (quote_body (drop (n - 1) cs) @ CHR 0x22 # rest) = Some (drop (n - 1) cs, rest)"
      using "2.IH"(3) [OF False n_def n(1) n(2)] .
    have w: "w @ drop (n - 1) cs = c # cs" by (simp add: w_def)
    define q where "q = (if w = line_sep then CHR 0x5C # ''u2028''
        else if w = para_sep then CHR 0x5C # ''u2029'' else w)"
    have quote: "quote_body (c # cs) = q @ quote_body (drop (n - 1) cs)"
      using False n(1) unfolding q_def n_def w_def by (simp only: quote_body.simps Let_def if_False)
    have "parse_string (w @ t) = emit w (parse_string t)" for t
      using False parse_string_multibyte [of c cs n t] n(1) n_def unfolding w_def by simp
    then have "parse_string (q @ t) = emit w (parse_string t)" for t
      using parse_string_seps [of t] unfolding q_def by (simp del: parse_string.simps)
    with quote have "parse_string (quote_body (c # cs) @ CHR 0x22 # rest) =
        emit w (parse_string (quote_body (drop (n - 1) cs) @ CHR 0x22 # rest))"
      by simp
    with IH w show ?thesis by (simp add: emit_def)
  qed
qed

section \<open>Values survive printing\<close>

text \<open>The values the encoders build: numbers are printed integers, strings are UTF-8.\<close>

fun wf_json :: "json \<Rightarrow> bool" where
  "wf_json (JNum s) = (\<exists>i. s = Itoa i)"
| "wf_json (JStr s) = valid_utf8 s"
| "wf_json (JArr vs) = (\<forall>v \<in> set vs. wf_json v)"
| "wf_json (JObj kvs) = (\<forall>(k, v) \<in> set kvs. valid_utf8 k \<and> wf_json v)"
| "wf_json _ = True"

definition delim :: "string \<Rightarrow> bool" where
  "delim s \<longleftrightarrow> s = [] \<or> hd s \<in> {CHR '','', CHR '']'', CHR ''}''}"

lemma delim_simps [simp]: "delim []" "delim (CHR '','' # s)" "delim (CHR '']'' # s)" "delim (CHR ''}'' # s)"
  by (simp_all add: delim_def)

lemma delim_tail: "delim s \<Longrightarrow> num_frac s = Some ([], s) \<and> num_exp s = Some ([], s)"
  by (cases s) (auto simp: delim_def num_frac_def num_exp_def)

lemma takeWhile_digits_delim:
  assumes "delim s" and "\<And>c. c \<in> set d \<Longrightarrow> is_digit c"
  shows "takeWhile is_digit (d @ s) = d" "dropWhile is_digit (d @ s) = s"
proof -
  have "takeWhile is_digit s = [] \<and> dropWhile is_digit s = s"
    using assms(1) by (cases s) (auto simp: delim_def is_digit_def)
  then show "takeWhile is_digit (d @ s) = d" "dropWhile is_digit (d @ s) = s"
    using assms(2) by (simp_all add: takeWhile_append2 dropWhile_append2)
qed

lemma hd_nat_digits_zero: "hd (nat_digits n) = CHR ''0'' \<Longrightarrow> n = 0"
proof (induction n rule: nat_digits.induct)
  case (1 n)
  show ?case
  proof (cases "n < 10")
    case True
    with "1.prems" have "digit_char n = CHR ''0''" by (subst (asm) nat_digits.simps) simp
    then have "of_char (digit_char n) = (48 :: nat)" by simp
    with True show ?thesis by (simp add: digit_char_def)
  next
    case False
    with "1.prems" have "hd (nat_digits (n div 10)) = CHR ''0''"
      by (subst (asm) nat_digits.simps) simp
    with False "1.IH" show ?thesis by simp
  qed
qed

lemma num_int_nat_digits:
  assumes "delim s"
  shows "num_int (nat_digits n @ s) = Some (nat_digits n, s)"
proof (cases "n = 0")
  case True
  then have "nat_digits n = ''0''"
    by (subst nat_digits.simps) (simp add: digit_char_def char_of_def bit_0)
  then show ?thesis by (simp add: num_int_def)
next
  case False
  obtain c cs where c: "nat_digits n = c # cs" by (cases "nat_digits n") auto
  with False hd_nat_digits_zero [of n] have "c \<noteq> CHR ''0''" by auto
  moreover have "\<And>c. c \<in> set (nat_digits n) \<Longrightarrow> is_digit c" by (rule nat_digits_all_digits)
  from takeWhile_digits_delim [OF assms this]
  have "digits1 (nat_digits n @ s) = Some (nat_digits n, s)"
    by (simp add: digits1_def)
  ultimately show ?thesis by (simp add: num_int_def c)
qed

lemma parse_num_Itoa: "delim s \<Longrightarrow> parse_num (Itoa i @ s) = Some (Itoa i, s)"
proof -
  assume s: "delim s"
  have sg: "(case nat_digits n @ s of [] \<Rightarrow> [] | c # _ \<Rightarrow> if c = CHR ''-'' then [c] else []) = []" for n
    using hd_nat_digits_not_sign(2) [of n] by (cases "nat_digits n") auto
  show ?thesis
    using s delim_tail [OF s]
    by (simp add: Itoa_def parse_num_def num_int_nat_digits sg Let_def)
qed

lemma eat_other: "s = c # cs \<Longrightarrow> w = d # ds \<Longrightarrow> c \<noteq> d \<Longrightarrow> eat w s = None"
  by (simp add: eat_def)

lemma hd_Itoa: "hd (Itoa i) = CHR ''-'' \<or> is_digit (hd (Itoa i))"
  using nat_digits_all_digits [of "hd (nat_digits (nat i))" "nat i"] by (auto simp: Itoa_def)

lemma Itoa_nonempty [simp]: "Itoa i \<noteq> []"
  by (simp add: Itoa_def)

text \<open>The first byte of a printed value: no white space, no closing bracket.\<close>

definition starter :: "char \<Rightarrow> bool" where
  "starter c \<longleftrightarrow> \<not> is_ws c \<and> c \<noteq> CHR '']'' \<and> c \<noteq> CHR ''}''"

lemma print_json_starts:
  assumes "wf_json v"
  obtains c cs where "print_json v = c # cs" "starter c"
proof -
  have "print_json v \<noteq> [] \<and> starter (hd (print_json v))"
  proof (cases v)
    case (JNum s)
    with assms obtain i where "s = Itoa i" by auto
    with JNum show ?thesis using hd_Itoa [of i] by (auto simp: starter_def is_ws_def is_digit_def)
  qed (auto simp: quote_def starter_def is_ws_def)
  then show ?thesis using that by (cases "print_json v") auto
qed

lemma skip_ws_starter: "starter c \<Longrightarrow> skip_ws (c # cs) = c # cs"
  by (simp add: skip_ws_def starter_def)

lemma skip_ws_delims [simp]:
  "skip_ws (CHR '','' # s) = CHR '','' # s" "skip_ws (CHR '']'' # s) = CHR '']'' # s"
  "skip_ws (CHR ''}'' # s) = CHR ''}'' # s" "skip_ws (CHR 0x22 # s) = CHR 0x22 # s"
  "skip_ws (CHR '':'' # s) = CHR '':'' # s" "skip_ws (CHR ''['' # s) = CHR ''['' # s"
  "skip_ws (CHR ''{'' # s) = CHR ''{'' # s" "skip_ws [] = []"
  by (simp_all add: skip_ws_def is_ws_def)

lemma parse_value_Itoa:
  assumes "delim s"
  shows "parse_value (Suc n) (Itoa i @ s) = Some (JNum (Itoa i), s)"
proof -
  obtain c cs where c: "Itoa i @ s = c # cs" "c = CHR ''-'' \<or> is_digit c"
    using hd_Itoa [of i] by (cases "Itoa i") auto
  then have *: "starter c" "c \<noteq> CHR 0x22" "c \<noteq> CHR ''[''" "c \<noteq> CHR ''{''"
    "c \<noteq> CHR ''n''" "c \<noteq> CHR ''t''" "c \<noteq> CHR ''f''"
    by (auto simp: starter_def is_ws_def is_digit_def)
  have "parse_word (Itoa i @ s) = Some (JNum (Itoa i), s)"
    using * by (simp add: parse_word_def parse_num_Itoa [OF assms] eat_other [OF c(1)])
  with * show ?thesis by (simp add: c(1) skip_ws_starter)
qed

theorem parse_print_steps:
  "wf_json v \<Longrightarrow> delim rest \<Longrightarrow> 2 * length (print_json v @ rest) + 1 \<le> n \<Longrightarrow>
     parse_value n (print_json v @ rest) = Some (v, rest)"
  "vs \<noteq> [] \<Longrightarrow> \<forall>v \<in> set vs. wf_json v \<Longrightarrow> 2 * length (print_elems vs @ CHR '']'' # rest) + 2 \<le> n \<Longrightarrow>
     parse_elems n (print_elems vs @ CHR '']'' # rest) = Some (vs, rest)"
  "kvs \<noteq> [] \<Longrightarrow> \<forall>(k, v) \<in> set kvs. valid_utf8 k \<and> wf_json v \<Longrightarrow>
     2 * length (print_members kvs @ CHR ''}'' # rest) + 2 \<le> n \<Longrightarrow>
     parse_members n (print_members kvs @ CHR ''}'' # rest) = Some (kvs, rest)"
proof (induction v and vs and kvs arbitrary: rest n and rest n and rest n
    rule: print_json_print_elems_print_members.induct)
  case 1
  then show ?case by (cases n) (auto simp: skip_ws_def is_ws_def parse_word_def eat_def)
next
  case (2 b)
  then show ?case by (cases n) (auto simp: skip_ws_def is_ws_def parse_word_def eat_def)
next
  case (3 s)
  then show ?case by (cases n) (auto simp: parse_value_Itoa simp del: parse_value.simps(2))
next
  case (4 s)
  then show ?case by (cases n) (auto simp: quote_def parse_string_quote_body)
next
  case (5 vs)
  obtain n' where n: "n = Suc n'" using "5.prems" by (cases n) auto
  show ?case
  proof (cases vs)
    case Nil
    then show ?thesis by (simp add: n)
  next
    case (Cons v ws)
    with "5.prems"(1) obtain c cs where "print_json v = c # cs" "starter c"
      by (auto elim: print_json_starts)
    then have "skip_ws (print_elems vs @ CHR '']'' # rest) = print_elems vs @ CHR '']'' # rest"
      "\<exists>c cs. print_elems vs @ CHR '']'' # rest = c # cs \<and> c \<noteq> CHR '']''"
      by (auto simp: Cons skip_ws_starter starter_def)
    moreover have "parse_elems n' (print_elems vs @ CHR '']'' # rest) = Some (vs, rest)"
      using "5.prems" n Cons by (intro "5.IH") auto
    ultimately show ?thesis by (auto simp: n)
  qed
next
  case (6 kvs)
  obtain n' where n: "n = Suc n'" using "6.prems" by (cases n) auto
  show ?case
  proof (cases kvs)
    case Nil
    then show ?thesis by (simp add: n)
  next
    case (Cons kv ws)
    then have "skip_ws (print_members kvs @ CHR ''}'' # rest) = print_members kvs @ CHR ''}'' # rest"
      "\<exists>c cs. print_members kvs @ CHR ''}'' # rest = c # cs \<and> c \<noteq> CHR ''}''"
      by (cases kv; auto simp: quote_def)+
    moreover have "parse_members n' (print_members kvs @ CHR ''}'' # rest) = Some (kvs, rest)"
      using "6.prems" n Cons by (intro "6.IH") auto
    ultimately show ?thesis by (auto simp: n)
  qed
next
  case 7
  then show ?case by simp
next
  case (8 v vs)
  obtain n' where n: "n = Suc n'" using "8.prems" by (cases n) auto
  let ?rest = "(if vs = [] then [] else CHR '','' # print_elems vs) @ CHR '']'' # rest"
  have "parse_value n' (print_json v @ ?rest) = Some (v, ?rest)"
    using "8.prems" n by (intro "8.IH"(1)) (auto split: if_splits)
  moreover have "vs \<noteq> [] \<Longrightarrow> parse_elems n' (print_elems vs @ CHR '']'' # rest) = Some (vs, rest)"
    using "8.prems" n by (intro "8.IH"(2)) (auto split: if_splits)
  ultimately show ?case by (auto simp: n split: if_splits)
next
  case 9
  then show ?case by simp
next
  case (10 k v kvs)
  obtain n' where n: "n = Suc n'" using "10.prems" by (cases n) auto
  let ?rest = "(if kvs = [] then [] else CHR '','' # print_members kvs) @ CHR ''}'' # rest"
  have "parse_value n' (print_json v @ ?rest) = Some (v, ?rest)"
    using "10.prems" n by (intro "10.IH"(1)) (auto split: if_splits)
  moreover have "kvs \<noteq> [] \<Longrightarrow> parse_members n' (print_members kvs @ CHR ''}'' # rest) = Some (kvs, rest)"
    using "10.prems" n by (intro "10.IH"(2)) (auto split: if_splits)
  moreover have "parse_string (quote_body k @ CHR 0x22 # CHR '':'' # print_json v @ ?rest) =
      Some (k, CHR '':'' # print_json v @ ?rest)"
    using "10.prems" by (simp add: parse_string_quote_body)
  ultimately show ?case by (auto simp: n quote_def split: if_splits)
qed

theorem parse_print: "wf_json v \<Longrightarrow> parse_json (print_json v) = Some v"
  using parse_print_steps(1) [of v "[]" "json_fuel (print_json v)"]
  by (simp add: parse_json_def json_fuel_def)

end
