(* ===== verification/GoTime.thy ===== *)
theory GoTime
  imports Strconv
begin

text \<open>
  Times as the models carry them: a \<open>time.Time\<close> that is written and read in the format
  RFC 3339 (\<open>MarshalJSON\<close> and \<open>UnmarshalJSON\<close> of Go's \<open>time\<close> package, as of the versions the
  vendored code was written for). A time is what it shows: its date and time of day, the
  nanoseconds, and the offset of its zone in minutes. What is written is read back.

  The reader has the quirks of \<open>time.Parse\<close>: an hour may have one digit, a fraction may have any
  number of digits as long as their value is below one second of nanoseconds, and the numbers
  of a zone may carry signs of their own and are not bounded.
\<close>

record goTime =
  tm_year :: int
  tm_month :: int
  tm_day :: int
  tm_hour :: int
  tm_minute :: int
  tm_second :: int
  tm_nsec :: int
  tm_offset :: int

text \<open>The zero time, midnight of the first of January of the year one.\<close>

definition zeroTime :: goTime where
  "zeroTime = \<lparr>tm_year = 1, tm_month = 1, tm_day = 1, tm_hour = 0, tm_minute = 0, tm_second = 0, tm_nsec = 0, tm_offset = 0\<rparr>"

definition isLeap :: "int \<Rightarrow> bool" where
  "isLeap y \<longleftrightarrow> y mod 4 = 0 \<and> (y mod 100 \<noteq> 0 \<or> y mod 400 = 0)"

definition daysIn :: "int \<Rightarrow> int \<Rightarrow> int" where
  "daysIn m y = (if m = 2 then (if isLeap y then 29 else 28) else if m \<in> {4, 6, 9, 11} then 30 else 31)"

section \<open>Writing\<close>

definition appendInt :: "int \<Rightarrow> nat \<Rightarrow> string" where
  "appendInt x width =
     (let digits = Itoa \<bar>x\<bar> in (if x < 0 then [CHR ''-''] else []) @ replicate (width - length digits) CHR ''0'' @ digits)"

text \<open>The fraction of a second without the zeros at its end, and without the point when it is zero.\<close>

definition formatNano :: "int \<Rightarrow> string" where
  "formatNano nsec =
     (let digits = rev (dropWhile (\<lambda>c. c = CHR ''0'') (rev (appendInt nsec 9))) in
      if digits = [] then [] else CHR ''.'' # digits)"

definition formatZone :: "int \<Rightarrow> string" where
  "formatZone offset =
     (if offset = 0 then ''Z''
      else (if offset < 0 then CHR ''-'' else CHR ''+'') #
        appendInt (\<bar>offset\<bar> div 60) 2 @ [CHR '':''] @ appendInt (\<bar>offset\<bar> mod 60) 2)"

definition formatTime :: "goTime \<Rightarrow> string" where
  "formatTime t =
     appendInt (tm_year t) 4 @ [CHR ''-''] @ appendInt (tm_month t) 2 @ [CHR ''-''] @ appendInt (tm_day t) 2 @ [CHR ''T''] @
     appendInt (tm_hour t) 2 @ [CHR '':''] @ appendInt (tm_minute t) 2 @ [CHR '':''] @ appendInt (tm_second t) 2 @
     formatNano (tm_nsec t) @ formatZone (tm_offset t)"

text \<open>\<open>MarshalJSON\<close> refuses a year that has not four digits.\<close>

definition time_marshals :: "goTime \<Rightarrow> bool" where
  "time_marshals t \<longleftrightarrow> 0 \<le> tm_year t \<and> tm_year t < 10000"

section \<open>Reading\<close>

definition digits_value :: "string \<Rightarrow> int" where
  "digits_value s = foldl (\<lambda>v c. v * 10 + int (digit_val c)) 0 s"

definition getnum :: "bool \<Rightarrow> string \<Rightarrow> (int \<times> string) option" where
  "getnum fixed s = (case s of
      [] \<Rightarrow> None
    | a # r \<Rightarrow>
        if \<not> is_digit a then None
        else (case r of
            b # r' \<Rightarrow> if is_digit b then Some (digits_value [a, b], r') else if fixed then None else Some (digits_value [a], r)
          | [] \<Rightarrow> if fixed then None else Some (digits_value [a], r)))"

definition skip_char :: "char \<Rightarrow> string \<Rightarrow> string option" where
  "skip_char c s = (case s of [] \<Rightarrow> None | d # r \<Rightarrow> if d = c then Some r else None)"

definition parse_year :: "string \<Rightarrow> (int \<times> string) option" where
  "parse_year s = (if 4 \<le> length s \<and> list_all is_digit (take 4 s) then Some (digits_value (take 4 s), drop 4 s) else None)"

definition parse_nanos :: "string \<Rightarrow> (int \<times> string) option" where
  "parse_nanos s = (case s of
      point # b # r \<Rightarrow>
        if point = CHR ''.'' \<and> is_digit b then
          let digits = takeWhile is_digit (b # r); v = digits_value digits in
          if v < 10 ^ 9 then Some (v * 10 ^ (9 - length digits), dropWhile is_digit (b # r)) else None
        else Some (0, s)
    | _ \<Rightarrow> Some (0, s))"

text \<open>The package's own \<open>atoi\<close>, which takes a sign and reads no digits as zero.\<close>

definition time_atoi :: "string \<Rightarrow> int option" where
  "time_atoi s =
     (let neg = (s \<noteq> [] \<and> hd s = CHR ''-'');
          digits = (if s \<noteq> [] \<and> (hd s = CHR ''-'' \<or> hd s = CHR ''+'') then tl s else s) in
      if list_all is_digit digits then Some (if neg then - digits_value digits else digits_value digits) else None)"

definition parse_zone :: "string \<Rightarrow> (int \<times> string) option" where
  "parse_zone s = (case s of
      [] \<Rightarrow> None
    | sign # r \<Rightarrow>
        if sign = CHR ''Z'' then Some (0, r)
        else if length s < 6 \<or> s ! 3 \<noteq> CHR '':'' then None
        else (case (time_atoi (take 2 r), time_atoi (take 2 (drop 4 s))) of
            (Some h, Some m) \<Rightarrow>
              if sign = CHR ''+'' then Some (h * 60 + m, drop 6 s)
              else if sign = CHR ''-'' then Some (- (h * 60 + m), drop 6 s)
              else None
          | _ \<Rightarrow> None))"

definition parse_date :: "string \<Rightarrow> (int \<times> int \<times> int \<times> string) option" where
  "parse_date s =
     Option.bind (parse_year s) (\<lambda>(year, s).
     Option.bind (Option.bind (skip_char CHR ''-'' s) (getnum True)) (\<lambda>(month, s).
     if month < 1 \<or> 12 < month then None
     else Option.bind (Option.bind (skip_char CHR ''-'' s) (getnum True)) (\<lambda>(day, s).
       if day < 1 \<or> daysIn month year < day then None else Some (year, month, day, s))))"

definition parse_clock :: "string \<Rightarrow> (int \<times> int \<times> int \<times> string) option" where
  "parse_clock s =
     Option.bind (getnum False s) (\<lambda>(hour, s).
     if 24 \<le> hour then None
     else Option.bind (Option.bind (skip_char CHR '':'' s) (getnum True)) (\<lambda>(minute, s).
       if 60 \<le> minute then None
       else Option.bind (Option.bind (skip_char CHR '':'' s) (getnum True)) (\<lambda>(second, s).
         if 60 \<le> second then None else Some (hour, minute, second, s))))"

definition parseTime :: "string \<Rightarrow> goTime option" where
  "parseTime s =
     Option.bind (parse_date s) (\<lambda>(year, month, day, s).
     Option.bind (Option.bind (skip_char CHR ''T'' s) parse_clock) (\<lambda>(hour, minute, second, s).
     Option.bind (parse_nanos s) (\<lambda>(nsec, s).
     Option.bind (parse_zone s) (\<lambda>(offset, s).
       if s \<noteq> [] then None
       else Some \<lparr>tm_year = year, tm_month = month, tm_day = day, tm_hour = hour, tm_minute = minute,
         tm_second = second, tm_nsec = nsec, tm_offset = offset\<rparr>))))"

section \<open>What is written is read back\<close>

text \<open>The times the reader gives for a zone of less than a hundred hours.\<close>

definition time_ok :: "goTime \<Rightarrow> bool" where
  "time_ok t \<longleftrightarrow> time_marshals t \<and> 1 \<le> tm_month t \<and> tm_month t \<le> 12 \<and> 1 \<le> tm_day t \<and> tm_day t \<le> daysIn (tm_month t) (tm_year t) \<and>
     0 \<le> tm_hour t \<and> tm_hour t < 24 \<and> 0 \<le> tm_minute t \<and> tm_minute t < 60 \<and> 0 \<le> tm_second t \<and> tm_second t < 60 \<and>
     0 \<le> tm_nsec t \<and> tm_nsec t < 10 ^ 9 \<and> \<bar>tm_offset t\<bar> < 100 * 60"

lemma digits_value_append: "digits_value (xs @ ys) = digits_value xs * 10 ^ length ys + digits_value ys"
proof (induction ys rule: rev_induct)
  case (snoc y ys)
  then show ?case by (simp add: digits_value_def algebra_simps)
qed (simp add: digits_value_def)

lemma digits_value_simps [simp]:
  "digits_value [] = 0" "digits_value [c] = int (digit_val c)"
  "digits_value (replicate k CHR ''0'') = 0"
proof -
  show "digits_value [] = 0" "digits_value [c] = int (digit_val c)" by (simp_all add: digits_value_def)
  show "digits_value (replicate k CHR ''0'') = 0"
    by (induction k) (simp_all add: digits_value_def digit_val_def)
qed

lemma digits_value_nonneg: "0 \<le> digits_value s"
  by (induction s rule: rev_induct) (simp_all add: digits_value_append)

lemma digits_value_nat_digits: "digits_value (nat_digits n) = int n"
proof (induction n rule: nat_digits.induct)
  case (1 n)
  show ?case
  proof (cases "n < 10")
    case True
    then show ?thesis by (subst nat_digits.simps) simp
  next
    case False
    with 1 have "digits_value (nat_digits (n div 10)) = int (n div 10)" by simp
    moreover have "int (n div 10) * 10 + int (n mod 10) = int n"
      by (metis div_mult_mod_eq of_nat_add of_nat_mult of_nat_numeral)
    ultimately show ?thesis using False by (subst nat_digits.simps) (simp add: digits_value_append)
  qed
qed

lemma nat_digits_length: "n < 10 ^ w \<Longrightarrow> 0 < w \<Longrightarrow> length (nat_digits n) \<le> w"
proof (induction n arbitrary: w rule: nat_digits.induct)
  case (1 n)
  show ?case
  proof (cases "n < 10")
    case True
    with 1 show ?thesis by (subst nat_digits.simps) simp
  next
    case False
    with 1 obtain v where v: "w = Suc v" "0 < v" by (cases w; cases "w - 1") auto
    with 1(2) have "n div 10 < 10 ^ v" by (simp add: less_mult_imp_div_less mult.commute)
    from 1(1) [OF False this v(2)] False v(1) show ?thesis by (subst nat_digits.simps) simp
  qed
qed

lemma zero_is_digit [simp]: "is_digit CHR ''0''"
  by (simp add: is_digit_def)

lemma appendInt_digits:
  assumes "0 \<le> x" "x < 10 ^ w" "0 < w"
  shows "length (appendInt x w) = w" "list_all is_digit (appendInt x w)" "digits_value (appendInt x w) = x"
proof -
  obtain n where n: "x = int n" using assms(1) nonneg_int_cases by blast
  then have "int n < int (10 ^ w)" using assms(2) by simp
  then have "n < 10 ^ w" by (simp only: of_nat_less_iff)
  from nat_digits_length [OF this assms(3)] have l: "length (nat_digits n) \<le> w" .
  have a: "appendInt x w = replicate (w - length (nat_digits n)) CHR ''0'' @ nat_digits n"
    by (simp add: appendInt_def Itoa_def Let_def n)
  from l a show "length (appendInt x w) = w" by simp
  show "list_all is_digit (appendInt x w)" using nat_digits_all_digits by (auto simp: a list_all_iff)
  show "digits_value (appendInt x w) = x"
    unfolding a by (simp add: digits_value_append digits_value_nat_digits n)
qed

lemma appendInt_two:
  assumes "0 \<le> x" "x < 100"
  obtains a b where "appendInt x 2 = [a, b]" "is_digit a" "is_digit b" "digits_value [a, b] = x"
proof -
  have "x < 10 ^ 2" using assms(2) by simp
  note d = appendInt_digits [OF assms(1) this]
  then obtain a b where "appendInt x 2 = [a, b]" by (auto simp: numeral_2_eq_2 length_Suc_conv)
  with d show ?thesis by (intro that) auto
qed

lemma getnum_appendInt: "0 \<le> x \<Longrightarrow> x < 100 \<Longrightarrow> getnum fixed (appendInt x 2 @ r) = Some (x, r)"
  by (erule (1) appendInt_two) (simp add: getnum_def)

lemma parse_year_appendInt: "0 \<le> x \<Longrightarrow> x < 10000 \<Longrightarrow> parse_year (appendInt x 4 @ r) = Some (x, r)"
  using appendInt_digits [of x 4] by (simp add: parse_year_def)

lemma skip_char_same [simp]: "skip_char c (c # r) = Some r"
  by (simp add: skip_char_def)

text \<open>The digits of a fraction and the zeros cut off behind them.\<close>

lemma fraction_digits:
  assumes "0 \<le> x" "x < 10 ^ 9" "ds = rev (dropWhile (\<lambda>c. c = CHR ''0'') (rev (appendInt x 9)))"
  shows "length ds \<le> 9" "list_all is_digit ds" "digits_value ds * 10 ^ (9 - length ds) = x"
proof -
  define zs where "zs = takeWhile (\<lambda>c. c = CHR ''0'') (rev (appendInt x 9))"
  note d = appendInt_digits [OF assms(1,2)]
  have z: "replicate (length zs) CHR ''0'' = zs"
    unfolding zs_def by (rule replicate_length_same) (auto dest: set_takeWhileD)
  have "rev (appendInt x 9) = zs @ rev ds" by (simp add: assms(3) zs_def)
  then have split: "appendInt x 9 = ds @ rev zs" by (metis rev_append rev_rev_ident)
  then have len: "length ds + length zs = 9" using d(1) by simp
  from split d(2) show "list_all is_digit ds" by simp
  from len show "length ds \<le> 9" by simp
  have "digits_value (rev zs) = 0" by (subst z [symmetric]) (simp only: rev_replicate digits_value_simps)
  moreover have "9 - length ds = length zs" using len by simp
  ultimately show "digits_value ds * 10 ^ (9 - length ds) = x"
    using d(3) by (simp add: split digits_value_append)
qed

lemma parse_nanos_format:
  assumes "0 \<le> x" "x < 10 ^ 9" "r \<noteq> []" "\<not> is_digit (hd r)" "hd r \<noteq> CHR ''.''"
  shows "parse_nanos (formatNano x @ r) = Some (x, r)"
proof -
  obtain c r' where r: "r = c # r'" "\<not> is_digit c" "c \<noteq> CHR ''.''" using assms(3-5) by (cases r) auto
  define ds where "ds = rev (dropWhile (\<lambda>c. c = CHR ''0'') (rev (appendInt x 9)))"
  note d = fraction_digits [OF assms(1,2) ds_def]
  have f: "formatNano x = (if ds = [] then [] else CHR ''.'' # ds)" by (simp add: formatNano_def Let_def ds_def)
  show ?thesis
  proof (cases ds)
    case Nil
    then have "formatNano x = []" by (simp add: f)
    moreover have "x = 0" using Nil d(3) by simp
    moreover have "parse_nanos r = Some (0, r)" using r by (cases r') (simp_all add: parse_nanos_def)
    ultimately show ?thesis by simp
  next
    case (Cons b bs)
    have tw: "takeWhile is_digit (ds @ r) = ds" "dropWhile is_digit (ds @ r) = r"
      using d(2) r by (simp_all add: list_all_iff)
    have "digits_value ds * 1 \<le> digits_value ds * 10 ^ (9 - length ds)"
      by (rule mult_left_mono) (simp_all add: digits_value_nonneg)
    with d(3) assms(2) have "digits_value ds < 10 ^ 9" by linarith
    moreover have "parse_nanos (CHR ''.'' # ds @ r) =
        (if digits_value ds < 10 ^ 9 then Some (digits_value ds * 10 ^ (9 - length ds), r) else None)"
      using tw Cons d(2) by (simp add: parse_nanos_def Let_def)
    ultimately show ?thesis using Cons d(3) by (simp add: f)
  qed
qed

lemma time_atoi_digits: "is_digit a \<Longrightarrow> is_digit b \<Longrightarrow> time_atoi [a, b] = Some (digits_value [a, b])"
  by (auto simp: time_atoi_def dest: is_digit_not_sign)

lemma parse_zone_format:
  assumes "\<bar>x\<bar> < 100 * 60"
  shows "parse_zone (formatZone x) = Some (x, [])"
proof (cases "x = 0")
  case False
  have "0 \<le> \<bar>x\<bar> div 60" "\<bar>x\<bar> div 60 < 100" "0 \<le> \<bar>x\<bar> mod 60" "\<bar>x\<bar> mod 60 < 100" using assms by auto
  then obtain a b c d where
    h: "appendInt (\<bar>x\<bar> div 60) 2 = [a, b]" "is_digit a" "is_digit b" "digits_value [a, b] = \<bar>x\<bar> div 60" and
    m: "appendInt (\<bar>x\<bar> mod 60) 2 = [c, d]" "is_digit c" "is_digit d" "digits_value [c, d] = \<bar>x\<bar> mod 60"
    by (metis appendInt_two)
  have "\<bar>x\<bar> div 60 * 60 + \<bar>x\<bar> mod 60 = \<bar>x\<bar>" by simp
  with False h m show ?thesis
    by (auto simp: formatZone_def parse_zone_def time_atoi_digits abs_if split: if_splits)
qed (simp add: formatZone_def parse_zone_def)

lemma formatZone_hd: "formatZone x \<noteq> [] \<and> \<not> is_digit (hd (formatZone x)) \<and> hd (formatZone x) \<noteq> CHR ''.''"
  by (auto simp: formatZone_def is_digit_def)

lemma daysIn_bound: "daysIn m y \<le> 31"
  by (simp add: daysIn_def)

lemma parse_format:
  assumes "time_ok t"
  shows "parseTime (formatTime t) = Some t"
proof -
  note ok = assms [unfolded time_ok_def time_marshals_def]
  have "tm_day t < 100" using ok daysIn_bound [of "tm_month t" "tm_year t"] by linarith
  with ok show ?thesis
    by (simp add: formatTime_def parseTime_def parse_date_def parse_clock_def parse_year_appendInt getnum_appendInt
        parse_nanos_format parse_zone_format formatZone_hd)
qed

lemma formatTime_ascii: "c \<in> set (formatTime t) \<Longrightarrow> (of_char c :: nat) < 128"
proof -
  have d: "is_digit x \<Longrightarrow> (of_char x :: nat) < 128" for x by (simp add: is_digit_def)
  have a: "x \<in> set (appendInt i w) \<Longrightarrow> (of_char x :: nat) < 128" for x i w
    using nat_digits_all_digits d by (auto simp: appendInt_def Itoa_def Let_def split: if_splits)
  have n: "x \<in> set (formatNano i) \<Longrightarrow> (of_char x :: nat) < 128" for x i
    using a by (auto simp: formatNano_def Let_def dest!: set_dropWhileD split: if_splits)
  have z: "x \<in> set (formatZone i) \<Longrightarrow> (of_char x :: nat) < 128" for x i
    using a by (auto simp: formatZone_def split: if_splits)
  assume "c \<in> set (formatTime t)"
  with a n z show ?thesis by (auto simp: formatTime_def)
qed

end
