(* ===== verification/Codec.thy ===== *)
theory Codec
  imports JsonFacts GoTime "HOL-Library.List_Lexorder" "HOL-Library.Char_ord"
begin

text \<open>
  Structs and their JSON form (the \<open>encoding/json\<close> package as the models use it, and the
  methods \<open>MarshalBinary\<close> and \<open>UnmarshalBinary\<close> of the models).

  \<^item> A \<open>codec\<close> says how the values of one Go type are written and read under the options of
    a tag; a \<open>member\<close> is a field of a struct with its name and codec; a struct is the list
    of its members. Reading and writing a struct go through that list.
  \<^item> The locale \<open>json_struct\<close> states what makes such a list the fields of a struct: the names
    differ, and copying the fields in their order copies the value. Inside it: what a struct
    writes, it reads back, also through the text and as part of another struct.
\<close>

section \<open>Codecs\<close>

record 'a codec =
  cd_write :: "'a \<Rightarrow> json option"
  cd_read :: "json \<Rightarrow> 'a \<Rightarrow> 'a \<times> bool"
  cd_zero :: 'a
  cd_ok :: "'a \<Rightarrow> bool"

text \<open>
  A value that is not written is the zero value; a value that is written is read back from
  there. \<open>cd_ok\<close> asks for strings in UTF-8, as the encoder replaces other bytes.
\<close>

definition codec_law :: "'a codec \<Rightarrow> bool" where
  "codec_law c \<longleftrightarrow> (\<forall>x. cd_ok c x \<longrightarrow>
     (case cd_write c x of None \<Rightarrow> x = cd_zero c | Some v \<Rightarrow> wf_json v \<and> cd_read c v (cd_zero c) = (x, True)))"

definition string_omit :: "string codec" where
  "string_omit = \<lparr>cd_write = (\<lambda>s. if s = [] then None else Some (JStr s)), cd_read = decode_str,
     cd_zero = [], cd_ok = valid_utf8\<rparr>"

definition string_always :: "string codec" where
  "string_always = \<lparr>cd_write = (\<lambda>s. Some (JStr s)), cd_read = decode_str, cd_zero = [], cd_ok = valid_utf8\<rparr>"

definition int32_omit :: "int32 codec" where
  "int32_omit = \<lparr>cd_write = (\<lambda>n. if n = 0 then None else Some (JNum (Itoa (sint n)))), cd_read = decode_int32,
     cd_zero = 0, cd_ok = (\<lambda>_. True)\<rparr>"

definition int32_ptr :: "int32 option codec" where
  "int32_ptr = \<lparr>cd_write = (\<lambda>p. Some (enc_ptr (\<lambda>n. JNum (Itoa (sint n))) p)), cd_read = decode_ptr decode_int32 0,
     cd_zero = None, cd_ok = (\<lambda>_. True)\<rparr>"

definition int32_ptr_omit :: "int32 option codec" where
  "int32_ptr_omit = \<lparr>cd_write = map_option (\<lambda>n. JNum (Itoa (sint n))), cd_read = decode_ptr decode_int32 0,
     cd_zero = None, cd_ok = (\<lambda>_. True)\<rparr>"

definition string_ptr :: "string option codec" where
  "string_ptr = \<lparr>cd_write = (\<lambda>p. Some (enc_ptr JStr p)), cd_read = decode_ptr decode_str [],
     cd_zero = None, cd_ok = pred_option valid_utf8\<rparr>"

definition string_slice :: "string list option codec" where
  "string_slice = \<lparr>cd_write = (\<lambda>xs. Some (enc_slice JStr xs)), cd_read = decode_slice decode_str [],
     cd_zero = None, cd_ok = pred_option (list_all valid_utf8)\<rparr>"

subsection \<open>Times\<close>

text \<open>
  \<open>UnmarshalJSON\<close> of a time sees the token of the input; the model sees the string it stands
  for, so it also reads a time that was written with escapes, which Go refuses.
\<close>

fun decode_time :: "json \<Rightarrow> goTime \<Rightarrow> goTime \<times> bool" where
  "decode_time (JStr s) old = (case parseTime s of None \<Rightarrow> (zeroTime, False) | Some t \<Rightarrow> (t, True))"
| "decode_time JNull old = (old, True)"
| "decode_time v old = (zeroTime, False)"

definition time_always :: "goTime codec" where
  "time_always = \<lparr>cd_write = (\<lambda>t. Some (JStr (formatTime t))), cd_read = decode_time, cd_zero = zeroTime, cd_ok = time_ok\<rparr>"

subsection \<open>Maps\<close>

fun decode_map_entries ::
  "(json \<Rightarrow> 'a \<Rightarrow> 'a \<times> bool) \<Rightarrow> 'a \<Rightarrow> (string \<times> json) list \<Rightarrow> 'a gomap \<Rightarrow> 'a gomap \<times> bool" where
  "decode_map_entries d zero [] m = (m, True)"
| "decode_map_entries d zero ((k, v) # kvs) m =
     (let (x, ok1) = d v zero; (m', ok2) = decode_map_entries d zero kvs (AList.update k x m)
      in (m', ok1 \<and> ok2))"

fun decode_map :: "(json \<Rightarrow> 'a \<Rightarrow> 'a \<times> bool) \<Rightarrow> 'a \<Rightarrow> json \<Rightarrow> 'a gomap option \<Rightarrow> 'a gomap option \<times> bool" where
  "decode_map d zero (JObj kvs) old =
     (let (m, ok) = decode_map_entries d zero kvs (case old of None \<Rightarrow> [] | Some m \<Rightarrow> m)
      in (Some m, ok))"
| "decode_map d zero JNull old = (None, True)"
| "decode_map d zero v old = (old, False)"

text \<open>
  A map has no order: the model keeps its entries in the order of the keys, in which the
  encoder writes them.
\<close>

definition decode_string_map :: "json \<Rightarrow> string gomap option \<Rightarrow> string gomap option \<times> bool" where
  "decode_string_map v old = apfst (map_option (sort_key fst)) (decode_map decode_str [] v old)"

definition string_map :: "string gomap option codec" where
  "string_map = \<lparr>cd_write = (\<lambda>m. Some (case m of None \<Rightarrow> JNull | Some kvs \<Rightarrow> JObj (map (apsnd JStr) (sort_key fst kvs)))),
     cd_read = decode_string_map, cd_zero = None,
     cd_ok = pred_option (\<lambda>kvs. sorted (map fst kvs) \<and> distinct (map fst kvs) \<and> list_all (\<lambda>(k, v). valid_utf8 k \<and> valid_utf8 v) kvs)\<rparr>"

section \<open>Members and structs\<close>

text \<open>
  The last two parts of a member serve the proofs: whether the field still has its zero
  value, and copying the field from one value to another.
\<close>

record 'r member =
  mb_name :: string
  mb_write :: "'r \<Rightarrow> (string \<times> json) list"
  mb_read :: "json \<Rightarrow> 'r \<Rightarrow> 'r \<times> bool"
  mb_ok :: "'r \<Rightarrow> bool"
  mb_fresh :: "'r \<Rightarrow> bool"
  mb_copy :: "'r \<Rightarrow> 'r \<Rightarrow> 'r"

definition member :: "string \<Rightarrow> 'a codec \<Rightarrow> ('r \<Rightarrow> 'a) \<Rightarrow> (('a \<Rightarrow> 'a) \<Rightarrow> 'r \<Rightarrow> 'r) \<Rightarrow> 'r member" where
  "member name c rd upd = \<lparr>
     mb_name = name,
     mb_write = (\<lambda>r. case cd_write c (rd r) of None \<Rightarrow> [] | Some v \<Rightarrow> [(name, v)]),
     mb_read = (\<lambda>v r. let (x, ok) = cd_read c v (rd r) in (upd (\<lambda>_. x) r, ok)),
     mb_ok = (\<lambda>r. cd_ok c (rd r)),
     mb_fresh = (\<lambda>r. rd r = cd_zero c \<and> upd (\<lambda>_. rd r) r = r),
     mb_copy = (\<lambda>m. upd (\<lambda>_. rd m))\<rparr>"

definition struct_fields :: "'r member list \<Rightarrow> 'r field list" where
  "struct_fields mbs = map (\<lambda>mb. (mb_name mb, mb_read mb)) mbs"

definition struct_json :: "'r member list \<Rightarrow> 'r \<Rightarrow> json" where
  "struct_json mbs m = JObj (concat (map (\<lambda>mb. mb_write mb m) mbs))"

definition struct_ok :: "'r member list \<Rightarrow> 'r \<Rightarrow> bool" where
  "struct_ok mbs m \<longleftrightarrow> list_all (\<lambda>mb. mb_ok mb m) mbs"

text \<open>A pointer to a struct, and a slice of such pointers.\<close>

definition struct_ptr_omit :: "'r member list \<Rightarrow> 'r \<Rightarrow> 'r option codec" where
  "struct_ptr_omit mbs zero = \<lparr>cd_write = map_option (struct_json mbs),
     cd_read = decode_ptr (decode_struct (struct_fields mbs)) zero, cd_zero = None, cd_ok = pred_option (struct_ok mbs)\<rparr>"

definition struct_slice :: "'r member list \<Rightarrow> 'r \<Rightarrow> 'r option list option codec" where
  "struct_slice mbs zero = \<lparr>cd_write = (\<lambda>xs. Some (enc_slice (enc_ptr (struct_json mbs)) xs)),
     cd_read = decode_slice (decode_ptr (decode_struct (struct_fields mbs)) zero) None, cd_zero = None,
     cd_ok = pred_option (list_all (pred_option (struct_ok mbs)))\<rparr>"

text \<open>A slice of structs.\<close>

definition struct_values :: "'r member list \<Rightarrow> 'r \<Rightarrow> 'r list option codec" where
  "struct_values mbs zero = \<lparr>cd_write = (\<lambda>xs. Some (enc_slice (struct_json mbs) xs)),
     cd_read = decode_slice (decode_struct (struct_fields mbs)) zero, cd_zero = None,
     cd_ok = pred_option (list_all (struct_ok mbs))\<rparr>"

section \<open>The methods of the models\<close>

definition json_error :: error where
  "json_error = Errorf ''json: cannot unmarshal''"

text \<open>The error of a time that cannot be written.\<close>

definition year_error :: error where
  "year_error = Errorf ''json: error calling MarshalJSON for type time.Time: Time.MarshalJSON: year outside of range [0,9999]''"

definition MarshalBinary :: "('a \<Rightarrow> json) \<Rightarrow> 'a option \<Rightarrow> string \<times> error option" where
  "MarshalBinary enc m = (case m of None \<Rightarrow> ([], None) | Some x \<Rightarrow> (print_json (enc x), None))"

definition UnmarshalBinary :: "'a field list \<Rightarrow> 'a \<Rightarrow> string \<Rightarrow> 'a \<Rightarrow> 'a \<times> error option" where
  "UnmarshalBinary fs zero b m =
     (let (res, ok) = Unmarshal fs b zero in if \<not> ok then (m, Some json_error) else (res, None))"

section \<open>What is written is read back\<close>

declare valid_utf8.simps(2) [simp del]

lemma key_utf8: "list_all (\<lambda>c. byte c < 128) k \<Longrightarrow> valid_utf8 k"
  by (rule valid_utf8_ascii) (simp add: list_all_iff)

lemma codec_lawI:
  assumes "\<And>x. cd_ok c x \<Longrightarrow> cd_write c x = None \<Longrightarrow> x = cd_zero c"
    and "\<And>x v. cd_ok c x \<Longrightarrow> cd_write c x = Some v \<Longrightarrow> wf_json v \<and> cd_read c v (cd_zero c) = (x, True)"
  shows "codec_law c"
  unfolding codec_law_def by (auto intro: assms(1) dest: assms(2) split: option.split)

lemma decode_int32_Itoa: "decode_int32 (JNum (Itoa (sint n))) old = (n, True)"
proof -
  have b: "- (2 ^ 31) \<le> sint n" "sint n < 2 ^ 31" for n :: int32
    using sint_greater_eq [of n] sint_less [of n] by simp_all
  have "ParseInt (Itoa (sint n)) 64 = (sint n, None)"
    using b [of n] by (intro ParseInt_Itoa) auto
  with b [of n] show ?thesis by simp
qed

lemma decode_elems_map:
  assumes "\<And>x. x \<in> set xs \<Longrightarrow> d (e x) zero = (x, True)"
  shows "decode_elems d zero (map e xs) [] = (xs, True)"
  using assms by (induction xs) simp_all

lemma decode_map_entries_map:
  assumes "distinct (map fst (old @ kvs))" "\<And>x. d (e x) zero = (x, True)"
  shows "decode_map_entries d zero (map (apsnd e) kvs) old = (old @ kvs, True)"
  using assms(1)
proof (induction kvs arbitrary: old)
  case (Cons kv kvs)
  obtain k v where kv: "kv = (k, v)" by (cases kv)
  have "AList.update k v old = old @ [kv]"
    using Cons.prems kv by (induction old) auto
  with Cons kv show ?case by (simp add: assms(2))
qed simp

named_theorems codec_laws \<open>codecs that read back what they write\<close>

lemma scalar_codecs [codec_laws]:
  "codec_law string_omit" "codec_law string_always" "codec_law int32_omit" "codec_law int32_ptr" "codec_law int32_ptr_omit"
  "codec_law string_ptr"
  by (rule codec_lawI; auto simp: string_omit_def string_always_def int32_omit_def int32_ptr_def int32_ptr_omit_def string_ptr_def
      enc_ptr_def decode_int32_Itoa simp del: decode_int32.simps split: if_splits option.splits)+

lemma time_always_law [codec_laws]: "codec_law time_always"
proof (rule codec_lawI)
  fix t v assume "cd_ok time_always t" "cd_write time_always t = Some v"
  then have "time_ok t" "v = JStr (formatTime t)" by (simp_all add: time_always_def)
  moreover have "valid_utf8 (formatTime t)" by (rule valid_utf8_ascii) (simp add: formatTime_ascii)
  ultimately show "wf_json v \<and> cd_read time_always v (cd_zero time_always) = (t, True)"
    by (simp add: time_always_def parse_format)
qed (simp add: time_always_def)

lemma string_slice_law [codec_laws]: "codec_law string_slice"
proof (rule codec_lawI)
  fix xs v assume *: "cd_ok string_slice xs" "cd_write string_slice xs = Some v"
  then show "wf_json v \<and> cd_read string_slice v (cd_zero string_slice) = (xs, True)"
    by (cases xs) (auto simp: string_slice_def enc_slice_def list_all_iff decode_elems_map [where e = JStr])
qed (simp add: string_slice_def)

lemma string_map_law [codec_laws]: "codec_law string_map"
proof (rule codec_lawI)
  fix m v assume *: "cd_ok string_map m" "cd_write string_map m = Some v"
  show "wf_json v \<and> cd_read string_map v (cd_zero string_map) = (m, True)"
  proof (cases m)
    case (Some kvs)
    with *(1) have "sort_key fst kvs = kvs" "distinct (map fst kvs)"
      by (simp_all add: string_map_def sort_key_id_if_sorted)
    with Some * show ?thesis
      by (fastforce simp: string_map_def decode_string_map_def list_all_iff decode_map_entries_map [where e = JStr and old = "[]"])
  qed (use * in \<open>auto simp: string_map_def decode_string_map_def\<close>)
qed (simp add: string_map_def)

definition member_law :: "'r member \<Rightarrow> bool" where
  "member_law mb \<longleftrightarrow> (\<forall>m r. mb_ok mb m \<longrightarrow> mb_fresh mb r \<longrightarrow>
     mb_write mb m = [] \<and> mb_copy mb m r = r \<or>
     (\<exists>v. mb_write mb m = [(mb_name mb, v)] \<and> wf_json v \<and> mb_read mb v r = (mb_copy mb m r, True)))"

lemma member_lawI [codec_laws]: "codec_law c \<Longrightarrow> member_law (member name c rd upd)"
  unfolding member_law_def member_def codec_law_def
  by (auto split: option.splits)

text \<open>Copying the members one after the other, each finding its field untouched, copies the value.\<close>

fun copies :: "'r member list \<Rightarrow> 'r \<Rightarrow> 'r \<Rightarrow> bool" where
  "copies [] m r \<longleftrightarrow> r = m"
| "copies (mb # mbs) m r \<longleftrightarrow> mb_fresh mb r \<and> copies mbs m (mb_copy mb m r)"

lemma member_parts [simp]:
  "mb_name (member n c rd upd) = n"
  "mb_fresh (member n c rd upd) r \<longleftrightarrow> rd r = cd_zero c \<and> upd (\<lambda>_. rd r) r = r"
  "mb_copy (member n c rd upd) m = upd (\<lambda>_. rd m)"
  "mb_ok (member n c rd upd) m = cd_ok c (rd m)"
  by (simp_all add: member_def)

lemma codec_zeros [simp]:
  "cd_zero string_omit = []" "cd_zero string_always = []" "cd_zero int32_omit = 0" "cd_zero int32_ptr = None"
  "cd_zero string_ptr = None" "cd_zero string_slice = None" "cd_zero string_map = None"
  "cd_zero (struct_ptr_omit mbs z) = None" "cd_zero (struct_slice mbs z) = None"
  "cd_zero (struct_values mbs z) = None" "cd_zero int32_ptr_omit = None" "cd_zero time_always = zeroTime"
  by (simp_all add: string_omit_def string_always_def int32_omit_def int32_ptr_def string_ptr_def string_slice_def
      string_map_def struct_ptr_omit_def struct_slice_def struct_values_def int32_ptr_omit_def time_always_def)

lemma codec_oks [simp]:
  "cd_ok string_omit = valid_utf8" "cd_ok string_always = valid_utf8" "cd_ok int32_omit n" "cd_ok int32_ptr p"
  "cd_ok (struct_ptr_omit mbs z) = pred_option (struct_ok mbs)"
  "cd_ok (struct_slice mbs z) = pred_option (list_all (pred_option (struct_ok mbs)))"
  "cd_ok (struct_values mbs z) = pred_option (list_all (struct_ok mbs))" "cd_ok int32_ptr_omit p" "cd_ok time_always = time_ok"
  by (simp_all add: string_omit_def string_always_def int32_omit_def int32_ptr_def struct_ptr_omit_def struct_slice_def
      struct_values_def int32_ptr_omit_def time_always_def)

locale json_struct =
  fixes mbs :: "'r member list" and zero :: 'r
  assumes names: "distinct (map mb_name mbs)" "mb \<in> set mbs \<Longrightarrow> list_all (\<lambda>c. byte c < 128) (mb_name mb)"
    and laws: "mb \<in> set mbs \<Longrightarrow> member_law mb"
    and copied: "copies mbs m zero"
begin

lemma read_members:
  assumes "copies ns m r" "set ns \<subseteq> set mbs" "list_all (\<lambda>mb. mb_ok mb m) ns"
  shows "decode_members (struct_fields mbs) (concat (map (\<lambda>mb. mb_write mb m) ns)) r = (m, True)"
  using assms
proof (induction ns arbitrary: r)
  case (Cons mb ns)
  then have mb: "mb \<in> set mbs" "mb_ok mb m" "mb_fresh mb r" by simp_all
  have "map_of (struct_fields mbs) (mb_name mb) = Some (mb_read mb)"
    using mb(1) names(1) by (intro map_of_is_SomeI) (auto simp: struct_fields_def comp_def)
  then have f: "find_field (struct_fields mbs) (mb_name mb) = Some (mb_read mb)" by (simp add: find_field_def)
  from laws [OF mb(1)] mb(2,3) consider
    "mb_write mb m = []" "mb_copy mb m r = r" |
    v where "mb_write mb m = [(mb_name mb, v)]" "mb_read mb v r = (mb_copy mb m r, True)"
    unfolding member_law_def by blast
  then show ?case using Cons f by cases simp_all
qed simp

lemma read_back: "struct_ok mbs m \<Longrightarrow> decode_struct (struct_fields mbs) (struct_json mbs m) zero = (m, True)"
  unfolding struct_json_def decode_struct.simps struct_ok_def by (rule read_members) (simp_all add: copied)

lemma copies_fresh: "copies ns m r \<Longrightarrow> mb \<in> set ns \<Longrightarrow> \<exists>r. mb_fresh mb r"
  by (induction ns arbitrary: r) auto

lemma wf_struct: assumes "struct_ok mbs m" shows "wf_json (struct_json mbs m)"
proof -
  have "valid_utf8 k \<and> wf_json v" if mb: "mb \<in> set mbs" and kv: "(k, v) \<in> set (mb_write mb m)" for mb k v
  proof -
    from copies_fresh [OF copied mb] obtain r where "mb_fresh mb r" ..
    with laws [OF mb] assms mb kv have "k = mb_name mb" "wf_json v"
      unfolding member_law_def struct_ok_def list_all_iff by fastforce+
    with names(2) [OF mb] show ?thesis by (simp add: key_utf8)
  qed
  then show ?thesis by (auto simp: struct_json_def)
qed

lemma text_read_back:
  "struct_ok mbs m \<Longrightarrow>
   UnmarshalBinary (struct_fields mbs) zero (fst (MarshalBinary (struct_json mbs) (Some m))) m0 = (m, None)"
  by (simp add: UnmarshalBinary_def MarshalBinary_def Unmarshal_def parse_print [OF wf_struct] read_back)

lemma ptr_read_back:
  assumes "pred_option (struct_ok mbs) p"
  shows "wf_json (enc_ptr (struct_json mbs) p) \<and>
    decode_ptr (decode_struct (struct_fields mbs)) zero (enc_ptr (struct_json mbs) p) None = (p, True)"
proof (cases p)
  case (Some m)
  then have m: "struct_ok mbs m" using assms by simp
  have "\<exists>kvs. struct_json mbs m = JObj kvs" by (simp add: struct_json_def)
  with read_back [OF m] wf_struct [OF m] Some show ?thesis by (auto simp: enc_ptr_def)
qed (simp add: enc_ptr_def)

lemma ptr_law: "codec_law (struct_ptr_omit mbs zero)"
proof (rule codec_lawI)
  fix p v assume "cd_ok (struct_ptr_omit mbs zero) p" "cd_write (struct_ptr_omit mbs zero) p = Some v"
  then show "wf_json v \<and> cd_read (struct_ptr_omit mbs zero) v (cd_zero (struct_ptr_omit mbs zero)) = (p, True)"
    using ptr_read_back [of p] by (cases p) (simp_all add: struct_ptr_omit_def enc_ptr_def)
qed (simp add: struct_ptr_omit_def)

lemma slice_law: "codec_law (struct_slice mbs zero)"
proof (rule codec_lawI)
  fix xs v assume *: "cd_ok (struct_slice mbs zero) xs" "cd_write (struct_slice mbs zero) xs = Some v"
  show "wf_json v \<and> cd_read (struct_slice mbs zero) v (cd_zero (struct_slice mbs zero)) = (xs, True)"
  proof (cases xs)
    case (Some ps)
    then have ps: "p \<in> set ps \<Longrightarrow> pred_option (struct_ok mbs) p" for p
      using *(1) by (simp add: struct_slice_def list_all_iff)
    have "v = JArr (map (enc_ptr (struct_json mbs)) ps)" using *(2) Some by (auto simp: struct_slice_def enc_slice_def)
    with Some ps ptr_read_back show ?thesis
      by (auto simp: struct_slice_def decode_elems_map [where e = "enc_ptr (struct_json mbs)"])
  qed (use *(2) in \<open>auto simp: struct_slice_def enc_slice_def\<close>)
qed (simp add: struct_slice_def)

lemma values_law: "codec_law (struct_values mbs zero)"
proof (rule codec_lawI)
  fix xs v assume *: "cd_ok (struct_values mbs zero) xs" "cd_write (struct_values mbs zero) xs = Some v"
  show "wf_json v \<and> cd_read (struct_values mbs zero) v (cd_zero (struct_values mbs zero)) = (xs, True)"
  proof (cases xs)
    case (Some ms)
    then have ms: "m \<in> set ms \<Longrightarrow> struct_ok mbs m" for m
      using *(1) by (simp add: struct_values_def list_all_iff)
    have "v = JArr (map (struct_json mbs) ms)" using *(2) Some by (auto simp: struct_values_def enc_slice_def)
    with Some ms read_back wf_struct show ?thesis
      by (auto simp: struct_values_def decode_elems_map [where e = "struct_json mbs"])
  qed (use *(2) in \<open>auto simp: struct_values_def enc_slice_def\<close>)
qed (simp add: struct_values_def)

end

end
