(* ===== verification/CodecTypes.thy ===== *)
theory CodecTypes
  imports Codec
begin

text \<open>
  What the decoder lets in: whatever bytes a message consists of, the strings it is decoded
  into are UTF-8, as the decoder replaces what is not. A codec is typed when reading keeps
  the values it can write back; the locale \<open>typed_struct\<close> gives that for a struct, and with
  it that everything read is read back after it is written.
\<close>

section \<open>Strings\<close>

lemma valid_utf8_step:
  "utf8_len s \<noteq> 0 \<Longrightarrow> valid_utf8 s \<longleftrightarrow> valid_utf8 (drop (utf8_len s) s)"
  by (cases s) (auto simp: utf8_len_def Let_def valid_utf8.simps drop_Cons' split: if_splits)

lemma utf8_len_append: "utf8_len s \<noteq> 0 \<Longrightarrow> utf8_len (s @ t) = utf8_len s"
  using utf8_len_prefix [of s "drop (utf8_len s) s @ t"] by (simp flip: append_assoc)

lemma valid_utf8_append: "valid_utf8 s \<Longrightarrow> valid_utf8 t \<Longrightarrow> valid_utf8 (s @ t)"
proof (induction s rule: valid_utf8.induct)
  case (2 c cs)
  let ?n = "utf8_len (c # cs)"
  from 2(2) have n: "?n \<noteq> 0" "valid_utf8 (drop (?n - 1) cs)" by (simp_all add: valid_utf8.simps Let_def)
  have "?n - 1 \<le> length cs" using utf8_len_bound [of "c # cs"] by simp
  with 2(1) [OF refl n(2) 2(3)] n(1) utf8_len_append [OF n(1), of t] show ?case
    by (simp add: valid_utf8.simps Let_def)
qed simp

lemma valid_utf8_prefix: "utf8_len s \<noteq> 0 \<Longrightarrow> valid_utf8 (take (utf8_len s) s)"
proof -
  assume n: "utf8_len s \<noteq> 0"
  have "utf8_len (take (utf8_len s) s) = utf8_len s" using utf8_len_prefix [OF n, of "[]"] by simp
  with n show ?thesis by (subst valid_utf8_step) simp_all
qed

lemma byte_char [simp]: "n < 256 \<Longrightarrow> byte (char_of n) = n"
  by (simp add: of_char_of take_bit_eq_mod)

lemma utf8_encode_three:
  assumes "2048 \<le> r" "r < 65536" "\<not> (55296 \<le> r \<and> r < 57344)"
  shows "utf8_len (utf8_encode r) = 3"
proof -
  define a b c where p: "a = r div 4096" "b = r div 64 mod 64" "c = r mod 64"
  have "r div 4096 = r div 64 div 64" by (simp flip: div_mult2_eq)
  then have r: "r = 4096 * a + 64 * b + c"
    using div_mult_mod_eq [of r 64] div_mult_mod_eq [of "r div 64" 64] unfolding p by linarith
  have bc: "b < 64" "c < 64" unfolding p by simp_all
  have "a < 16" "a = 0 \<longrightarrow> 32 \<le> b" "a = 13 \<longrightarrow> b \<le> 31" using assms bc r by linarith+
  moreover have "utf8_encode r = [char_of (224 + a), char_of (128 + b), char_of (128 + c)]"
    using assms by (simp add: utf8_encode_def p)
  ultimately show ?thesis using bc by (simp add: utf8_len_def cont_byte_def second_byte_def)
qed

lemma utf8_encode_four:
  assumes "65536 \<le> r" "r < 1114112"
  shows "utf8_len (utf8_encode r) = 4"
proof -
  define a b c d where p: "a = r div 262144" "b = r div 4096 mod 64" "c = r div 64 mod 64" "d = r mod 64"
  have "r div 4096 = r div 64 div 64" "r div 262144 = r div 64 div 64 div 64" by (simp_all flip: div_mult2_eq)
  then have "r = 64 * (r div 64) + d" "r div 64 = 64 * (r div 4096) + c" "r div 4096 = 64 * a + b"
    unfolding p by (simp_all only: mult_div_mod_eq)
  then have r: "r = 262144 * a + 4096 * b + 64 * c + d" by algebra
  have bc: "b < 64" "c < 64" "d < 64" unfolding p by simp_all
  have "a \<le> 4" using assms(2) by (simp add: p less_Suc_eq_le [symmetric] less_mult_imp_div_less)
  moreover have "16 \<le> b" if "a = 0" using that assms(1) bc r by simp
  moreover have "b \<le> 15" if "a = 4" using that assms(2) bc r by simp
  moreover have "utf8_encode r = [char_of (240 + a), char_of (128 + b), char_of (128 + c), char_of (128 + d)]"
    using assms by (simp add: utf8_encode_def p)
  ultimately show ?thesis using bc by (simp add: utf8_len_def cont_byte_def second_byte_def)
qed

lemma valid_utf8_encode:
  assumes "r < 1114112" "\<not> (55296 \<le> r \<and> r < 57344)"
  shows "valid_utf8 (utf8_encode r)"
proof -
  have two: "utf8_len (utf8_encode r) = 2" if "128 \<le> r" "r < 2048"
  proof -
    from that have "r div 64 < 32" "2 \<le> r div 64" by (simp_all add: less_mult_imp_div_less div_le_mono [of 128 r 64, simplified])
    with that show ?thesis by (simp add: utf8_encode_def utf8_len_def cont_byte_def)
  qed
  have one: "utf8_len (utf8_encode r) = 1" if "r < 128"
    using that by (simp add: utf8_encode_def utf8_len_def)
  have "utf8_len (utf8_encode r) = length (utf8_encode r)"
  proof -
    consider "r < 128" | "128 \<le> r" "r < 2048" | "2048 \<le> r" "r < 65536" | "65536 \<le> r" by linarith
    then show ?thesis
      by cases (use one two utf8_encode_three utf8_encode_four assms in \<open>simp_all add: utf8_encode_def\<close>)
  qed
  moreover have "utf8_encode r \<noteq> []" by (simp add: utf8_encode_def)
  ultimately show ?thesis using valid_utf8_step [of "utf8_encode r"] by simp
qed

lemma hex4_bound: "hex4 s = Some r \<Longrightarrow> r < 65536"
proof -
  have h: "hex_val c = Some x \<Longrightarrow> x < 16" for c x by (auto simp: hex_val_def Let_def split: if_splits)
  assume "hex4 s = Some r"
  then obtain x y z w where "x < 16" "y < 16" "z < 16" "w < 16" "r = 4096 * x + 256 * y + 16 * z + w"
    by (auto simp: hex4_def dest!: h split: list.splits option.splits)
  then show ?thesis by linarith
qed

lemma valid_pieces:
  "byte c < 128 \<Longrightarrow> valid_utf8 [c]" "simple_escape c = Some d \<Longrightarrow> valid_utf8 [d]" "valid_utf8 replacement_char"
  "hex4 s = Some r \<Longrightarrow> \<not> (55296 \<le> r \<and> r < 57344) \<Longrightarrow> valid_utf8 (utf8_encode r)"
  "55296 \<le> r \<Longrightarrow> r < 56320 \<Longrightarrow> low_surrogate s = Some r1 \<Longrightarrow> valid_utf8 (utf8_encode (65536 + (r - 55296) * 1024 + (r1 - 56320)))"
  "utf8_len (c # cs) \<noteq> 0 \<Longrightarrow> valid_utf8 (c # take (utf8_len (c # cs) - 1) cs)"
proof -
  show one: "byte c < 128 \<Longrightarrow> valid_utf8 [c]" for c by (rule valid_utf8_ascii) simp
  show "valid_utf8 [d]" if "simple_escape c = Some d"
  proof -
    from that have "byte d < 128" by (auto simp: simple_escape_def split: if_splits)
    then show ?thesis by (rule one)
  qed
  show "valid_utf8 replacement_char" unfolding replacement_char_def by (rule valid_utf8_encode) simp_all
  show "valid_utf8 (utf8_encode r)" if "hex4 s = Some r" "\<not> (55296 \<le> r \<and> r < 57344)"
    using hex4_bound [OF that(1)] that(2) by (intro valid_utf8_encode) simp_all
  show "valid_utf8 (utf8_encode (65536 + (r - 55296) * 1024 + (r1 - 56320)))"
    if "55296 \<le> r" "r < 56320" "low_surrogate s = Some r1"
  proof (rule valid_utf8_encode)
    from that(3) have "r1 < 57344" by (auto simp: low_surrogate_def split: list.splits if_splits option.splits)
    with that(1,2) show "65536 + (r - 55296) * 1024 + (r1 - 56320) < 1114112" by linarith
  qed simp
  show "valid_utf8 (c # take (utf8_len (c # cs) - 1) cs)" if "utf8_len (c # cs) \<noteq> 0"
    using valid_utf8_prefix [OF that] that by (simp add: take_Cons')
qed

lemma parse_string_utf8: "parse_string s = Some (x, r) \<Longrightarrow> valid_utf8 x"
proof (induction s arbitrary: x r rule: length_induct)
  case (1 s)
  show ?case
  proof (cases s)
    case Nil
    with "1.prems" show ?thesis by simp
  next
    case (Cons c cs)
    have IH: "valid_utf8 x" if "emit w (parse_string t) = Some (x, r)" "valid_utf8 w" "length t \<le> length cs" for w t
    proof -
      from that(1) obtain y where y: "parse_string t = Some (y, r)" "x = w @ y" by (auto simp: emit_Some)
      from that(3) Cons have "length t < length s" by simp
      with "1.IH" y(1) have "valid_utf8 y" by blast
      with y(2) that(2) show ?thesis by (simp add: valid_utf8_append)
    qed
    have "emit w (parse_string (drop k es)) = Some (x, r) \<Longrightarrow> valid_utf8 w \<Longrightarrow> length es \<le> length cs \<Longrightarrow> valid_utf8 x" for w k es
      using IH [of w "drop k es"] by simp
    note IHs = IH this
    from "1.prems" Cons show ?thesis
      by (auto simp: Let_def split: if_splits list.splits option.splits intro: IHs valid_pieces valid_pieces(6) [simplified])
  qed
qed

section \<open>Values\<close>

fun utf8_json :: "json \<Rightarrow> bool" where
  "utf8_json (JStr s) = valid_utf8 s"
| "utf8_json (JArr vs) = (\<forall>v \<in> set vs. utf8_json v)"
| "utf8_json (JObj kvs) = (\<forall>(k, v) \<in> set kvs. valid_utf8 k \<and> utf8_json v)"
| "utf8_json _ = True"

lemma parse_word_utf8: "parse_word s = Some (v, r) \<Longrightarrow> utf8_json v"
  by (auto simp: parse_word_def split: option.splits)

lemma parse_utf8_steps:
  "parse_value n s = Some (v, r) \<Longrightarrow> utf8_json v"
  "parse_elems n s = Some (vs, r) \<Longrightarrow> utf8_json (JArr vs)"
  "parse_members n s = Some (kvs, r) \<Longrightarrow> utf8_json (JObj kvs)"
proof (induction n arbitrary: s v vs kvs r)
  case 0
  { case 1 then show ?case by simp }
  { case 2 then show ?case by simp }
  { case 3 then show ?case by simp }
next
  case (Suc n)
  { case 1
    then show ?case
      by (auto dest!: parse_string_utf8 parse_word_utf8 Suc.IH split: if_splits list.splits) }
  { case 2
    then show ?case by (auto dest!: Suc.IH split: if_splits list.splits option.splits) }
  { case 3
    then show ?case
      by (fastforce dest!: Suc.IH parse_string_utf8 split: if_splits list.splits option.splits) }
qed

lemma parse_utf8: "parse_json s = Some v \<Longrightarrow> utf8_json v"
  by (auto simp: parse_json_def dest: parse_utf8_steps split: option.splits if_splits)

section \<open>Typed codecs\<close>

definition decoder_typed :: "('a \<Rightarrow> bool) \<Rightarrow> (json \<Rightarrow> 'a \<Rightarrow> 'a \<times> bool) \<Rightarrow> bool" where
  "decoder_typed ok d \<longleftrightarrow> (\<forall>v x. utf8_json v \<longrightarrow> ok x \<longrightarrow> ok (fst (d v x)))"

definition codec_typed :: "'a codec \<Rightarrow> bool" where
  "codec_typed c \<longleftrightarrow> decoder_typed (cd_ok c) (cd_read c)"

named_theorems codec_types \<open>codecs that read what they can write\<close>

lemma decoder_typedI: "(\<And>v x. utf8_json v \<Longrightarrow> ok x \<Longrightarrow> ok (fst (d v x))) \<Longrightarrow> decoder_typed ok d"
  by (simp add: decoder_typed_def)

lemma decoder_typedD: "decoder_typed ok d \<Longrightarrow> utf8_json v \<Longrightarrow> ok x \<Longrightarrow> ok (fst (d v x))"
  by (simp add: decoder_typed_def)

lemma codec_typedD: "codec_typed c \<Longrightarrow> utf8_json v \<Longrightarrow> cd_ok c x \<Longrightarrow> cd_ok c (fst (cd_read c v x))"
  unfolding codec_typed_def by (rule decoder_typedD)

lemma decode_str_typed: "decoder_typed valid_utf8 decode_str"
  by (rule decoder_typedI, erule utf8_json.elims) simp_all

lemma decode_ptr_typed:
  assumes "decoder_typed ok d" "ok zero"
  shows "decoder_typed (pred_option ok) (decode_ptr d zero)"
proof (rule decoder_typedI)
  fix v p assume v: "utf8_json v" and p: "pred_option ok p"
  have "ok (fst (d v (case p of None \<Rightarrow> zero | Some y \<Rightarrow> y)))"
    by (rule decoder_typedD [OF assms(1) v]) (use assms(2) p in \<open>auto split: option.split\<close>)
  then show "pred_option ok (fst (decode_ptr d zero v p))" by (cases v) (auto split: prod.splits)
qed

lemma decode_elems_typed:
  assumes "decoder_typed ok d" "ok zero"
  shows "\<forall>v \<in> set vs. utf8_json v \<Longrightarrow> list_all ok old \<Longrightarrow> list_all ok (fst (decode_elems d zero vs old))"
proof (induction vs arbitrary: old)
  case (Cons v vs)
  have "ok (fst (d v (case old of [] \<Rightarrow> zero | x # _ \<Rightarrow> x)))"
    by (rule decoder_typedD [OF assms(1)]) (use Cons.prems assms(2) in \<open>auto split: list.split\<close>)
  moreover have "list_all ok (fst (decode_elems d zero vs (tl old)))"
    by (rule Cons.IH) (use Cons.prems in \<open>simp_all add: list_all_iff list.set_sel(2)\<close>, cases old, simp_all)
  ultimately show ?case by (auto split: prod.splits)
qed simp

lemma decode_slice_typed:
  assumes "decoder_typed ok d" "ok zero"
  shows "decoder_typed (pred_option (list_all ok)) (decode_slice d zero)"
proof (rule decoder_typedI)
  fix v xs assume v: "utf8_json v" and xs: "pred_option (list_all ok) xs"
  show "pred_option (list_all ok) (fst (decode_slice d zero v xs))"
  proof (cases v)
    case (JArr vs)
    have "list_all ok (fst (decode_elems d zero vs (case xs of None \<Rightarrow> [] | Some ys \<Rightarrow> ys)))"
      by (rule decode_elems_typed [OF assms]) (use v xs JArr in \<open>auto split: option.split\<close>)
    then show ?thesis by (auto simp: JArr split: prod.splits)
  qed (use xs in simp_all)
qed

definition entries_ok :: "string gomap \<Rightarrow> bool" where
  "entries_ok m \<longleftrightarrow> distinct (map fst m) \<and> list_all (\<lambda>(k, v). valid_utf8 k \<and> valid_utf8 v) m"

lemma entries_ok_update: "entries_ok m \<Longrightarrow> valid_utf8 k \<Longrightarrow> valid_utf8 x \<Longrightarrow> entries_ok (AList.update k x m)"
  unfolding entries_ok_def
  by (auto simp: distinct_update) (induction m, auto split: if_splits)

lemma decode_map_entries_ok:
  "\<forall>(k, v) \<in> set kvs. valid_utf8 k \<and> utf8_json v \<Longrightarrow> entries_ok m \<Longrightarrow>
   entries_ok (fst (decode_map_entries decode_str [] kvs m))"
proof (induction kvs arbitrary: m)
  case (Cons kv kvs)
  obtain k v where kv: "kv = (k, v)" by (cases kv)
  have "valid_utf8 (fst (decode_str v []))"
    by (rule decoder_typedD [OF decode_str_typed]) (use Cons.prems kv in simp_all)
  then have "entries_ok (AList.update k (fst (decode_str v [])) m)"
    using Cons.prems kv by (simp add: entries_ok_update)
  with Cons.prems have "entries_ok (fst (decode_map_entries decode_str [] kvs (AList.update k (fst (decode_str v [])) m)))"
    by (intro Cons.IH) simp_all
  then show ?case by (auto simp: kv split: prod.splits)
qed simp

lemma string_map_typed: "codec_typed string_map"
  unfolding codec_typed_def
proof (rule decoder_typedI)
  fix v m assume v: "utf8_json v" and m: "cd_ok string_map m"
  have ok: "cd_ok string_map (map_option (sort_key fst) n)" if "pred_option entries_ok n" for n
    using that by (cases n) (auto simp: string_map_def entries_ok_def list_all_iff distinct_map)
  have "pred_option entries_ok (fst (decode_map decode_str [] v m))"
  proof (cases v)
    case (JObj kvs)
    have "entries_ok (fst (decode_map_entries decode_str [] kvs (case m of None \<Rightarrow> [] | Some n \<Rightarrow> n)))"
      by (rule decode_map_entries_ok) (use v m JObj in \<open>auto simp: string_map_def entries_ok_def split: option.split\<close>)
    then show ?thesis by (auto simp: JObj split: prod.splits)
  qed (use m in \<open>cases m; simp add: string_map_def entries_ok_def\<close>)+
  from ok [OF this] show "cd_ok string_map (fst (cd_read string_map v m))"
    by (simp add: string_map_def decode_string_map_def)
qed

lemma scalar_types [codec_types]:
  "codec_typed string_omit" "codec_typed string_always" "codec_typed int32_omit" "codec_typed int32_ptr"
  "codec_typed int32_ptr_omit" "codec_typed string_ptr" "codec_typed string_slice" "codec_typed string_map"
  using decode_str_typed decode_ptr_typed [OF decode_str_typed, of "[]"] decode_slice_typed [OF decode_str_typed, of "[]"]
    string_map_typed
  by (simp_all add: codec_typed_def string_omit_def string_always_def string_ptr_def string_slice_def
      decoder_typed_def int32_omit_def int32_ptr_def int32_ptr_omit_def)

section \<open>Typed structs\<close>

lemma member_read [simp]: "fst (mb_read (member n c rd upd) v r) = upd (\<lambda>_. fst (cd_read c v (rd r))) r"
  by (simp add: member_def case_prod_beta Let_def)

lemma zeros_ok:
  "cd_ok string_omit []" "cd_ok string_always []" "cd_ok int32_omit 0" "cd_ok int32_ptr None" "cd_ok int32_ptr_omit None"
  "cd_ok string_ptr None" "cd_ok string_slice None" "cd_ok string_map None" "cd_ok (struct_ptr_omit mbs z) None"
  "cd_ok (struct_slice mbs z) None"
  by (simp_all add: string_ptr_def string_slice_def string_map_def)

lemmas struct_typing = struct_ok_def zeros_ok codec_typedD

locale typed_struct = json_struct +
  assumes zero_ok: "struct_ok mbs zero"
    and reads_ok: "mb \<in> set mbs \<Longrightarrow> utf8_json v \<Longrightarrow> struct_ok mbs r \<Longrightarrow> struct_ok mbs (fst (mb_read mb v r))"
begin

lemma members_ok:
  "\<forall>(k, v) \<in> set kvs. valid_utf8 k \<and> utf8_json v \<Longrightarrow> struct_ok mbs r \<Longrightarrow>
   struct_ok mbs (fst (decode_members (struct_fields mbs) kvs r))"
proof (induction kvs arbitrary: r)
  case (Cons kv kvs)
  obtain k v where kv: "kv = (k, v)" by (cases kv)
  show ?case
  proof (cases "find_field (struct_fields mbs) k")
    case (Some d)
    then have "\<exists>n. (n, d) \<in> set (struct_fields mbs)"
      by (auto simp: find_field_def find_Some_iff dest!: map_of_SomeD split: option.splits) (metis nth_mem)
    then obtain mb where mb: "mb \<in> set mbs" "d = mb_read mb" by (auto simp: struct_fields_def)
    have "struct_ok mbs (fst (d v r))" unfolding mb(2) by (rule reads_ok [OF mb(1)]) (use Cons.prems kv in simp_all)
    with Cons.prems have "struct_ok mbs (fst (decode_members (struct_fields mbs) kvs (fst (d v r))))"
      by (intro Cons.IH) simp_all
    then show ?thesis by (auto simp: kv Some split: prod.splits)
  qed (use Cons kv in simp)
qed simp

lemma struct_typed: "decoder_typed (struct_ok mbs) (decode_struct (struct_fields mbs))"
proof (rule decoder_typedI)
  fix v r assume "utf8_json v" "struct_ok mbs r"
  then show "struct_ok mbs (fst (decode_struct (struct_fields mbs) v r))" by (cases v) (simp_all add: members_ok)
qed

lemma ptr_typed: "codec_typed (struct_ptr_omit mbs zero)"
  using decode_ptr_typed [OF struct_typed zero_ok] by (simp add: codec_typed_def struct_ptr_omit_def)

lemma slice_typed: "codec_typed (struct_slice mbs zero)"
  using decode_slice_typed [OF decode_ptr_typed [OF struct_typed zero_ok], of None]
  by (simp add: codec_typed_def struct_slice_def)

text \<open>Everything that was read is in order, and survives being written and read again.\<close>

lemma text_typed:
  assumes "UnmarshalBinary (struct_fields mbs) zero b m0 = (m, None)"
  shows "struct_ok mbs m"
proof -
  from assms obtain v where v: "parse_json b = Some v" "fst (decode_struct (struct_fields mbs) v zero) = m"
    by (auto simp: UnmarshalBinary_def Unmarshal_def split: option.splits prod.splits if_splits)
  from decoder_typedD [OF struct_typed parse_utf8 [OF v(1)] zero_ok] v(2) show ?thesis by simp
qed

lemma text_again:
  assumes "UnmarshalBinary (struct_fields mbs) zero b m0 = (m, None)"
  shows "UnmarshalBinary (struct_fields mbs) zero (fst (MarshalBinary (struct_json mbs) (Some m))) m1 = (m, None)"
  by (rule text_read_back [OF text_typed [OF assms]])

end

end
