(* ===== verification/OkeModels.thy ===== *)
theory OkeModels
  imports CodecTypes Annotations
begin

text \<open>
  The request and response bodies of the OKE service (\<open>provider/oke/models\<close>): those the OKE
  provider sends or reads, with everything nested in them. Every struct has its record, its
  zero value, the list of its JSON members and its methods \<open>MarshalBinary\<close> and
  \<open>UnmarshalBinary\<close>.

  The messages of decoding and encoding errors are not modelled (no code looks at them). The
  interpretations at the end give for every struct that what is written is read back and, for
  those without times, that everything read is well-formed and survives being written again.
\<close>

section \<open>Pools and the create request\<close>

record AdDetails =
  ad_ID :: string
  ad_Subnet :: string

definition zeroAdDetails :: AdDetails where
  "zeroAdDetails = \<lparr>ad_ID = '''', ad_Subnet = ''''\<rparr>"

definition AdDetails_struct :: "AdDetails member list" where
  "AdDetails_struct = [
     member ''id'' string_omit ad_ID ad_ID_update,
     member ''subnet'' string_omit ad_Subnet ad_Subnet_update]"

definition AdDetails_MarshalBinary :: "AdDetails option \<Rightarrow> string \<times> error option" where
  "AdDetails_MarshalBinary = MarshalBinary (struct_json AdDetails_struct)"

definition AdDetails_UnmarshalBinary :: "string \<Rightarrow> AdDetails \<Rightarrow> AdDetails \<times> error option" where
  "AdDetails_UnmarshalBinary = UnmarshalBinary (struct_fields AdDetails_struct) zeroAdDetails"

record Pool =
  pool_Ads :: "AdDetails option list option"
  pool_ImageId :: string
  pool_ImageName :: string
  pool_K8Version :: string
  pool_Name :: string
  pool_Shape :: string
  pool_WorkersPerAD :: int32

definition zeroPool :: Pool where
    "zeroPool = \<lparr>pool_Ads = None, pool_ImageId = '''', pool_ImageName = '''', pool_K8Version = '''',
     pool_Name = '''', pool_Shape = '''', pool_WorkersPerAD = 0\<rparr>"

definition Pool_struct :: "Pool member list" where
  "Pool_struct = [
     member ''ads'' (struct_slice AdDetails_struct zeroAdDetails) pool_Ads pool_Ads_update,
     member ''imageId'' string_omit pool_ImageId pool_ImageId_update,
     member ''imageName'' string_omit pool_ImageName pool_ImageName_update,
     member ''k8Version'' string_omit pool_K8Version pool_K8Version_update,
     member ''name'' string_omit pool_Name pool_Name_update,
     member ''shape'' string_omit pool_Shape pool_Shape_update,
     member ''workersPerAD'' int32_omit pool_WorkersPerAD pool_WorkersPerAD_update]"

definition Pool_MarshalBinary :: "Pool option \<Rightarrow> string \<times> error option" where
  "Pool_MarshalBinary = MarshalBinary (struct_json Pool_struct)"

definition Pool_UnmarshalBinary :: "string \<Rightarrow> Pool \<Rightarrow> Pool \<times> error option" where
  "Pool_UnmarshalBinary = UnmarshalBinary (struct_fields Pool_struct) zeroPool"

record BMCClusterConfig =
  bmc_Compartment :: string
  bmc_Pools :: "Pool option list option"
  bmc_Region :: string
  bmc_SSHPrivateKey :: string
  bmc_SSHPublicKey :: string
  bmc_VcnID :: string

definition zeroBMCClusterConfig :: BMCClusterConfig where
    "zeroBMCClusterConfig = \<lparr>bmc_Compartment = '''', bmc_Pools = None, bmc_Region = '''', bmc_SSHPrivateKey =
     '''', bmc_SSHPublicKey = '''', bmc_VcnID = ''''\<rparr>"

definition BMCClusterConfig_struct :: "BMCClusterConfig member list" where
  "BMCClusterConfig_struct = [
     member ''compartment'' string_omit bmc_Compartment bmc_Compartment_update,
     member ''pools'' (struct_slice Pool_struct zeroPool) bmc_Pools bmc_Pools_update,
     member ''region'' string_omit bmc_Region bmc_Region_update,
     member ''sshPrivateKey'' string_omit bmc_SSHPrivateKey bmc_SSHPrivateKey_update,
     member ''sshPublicKey'' string_omit bmc_SSHPublicKey bmc_SSHPublicKey_update,
     member ''vcnId'' string_omit bmc_VcnID bmc_VcnID_update]"

definition BMCClusterConfig_MarshalBinary :: "BMCClusterConfig option \<Rightarrow> string \<times> error option" where
  "BMCClusterConfig_MarshalBinary = MarshalBinary (struct_json BMCClusterConfig_struct)"

definition BMCClusterConfig_UnmarshalBinary :: "string \<Rightarrow> BMCClusterConfig \<Rightarrow> BMCClusterConfig \<times> error option" where
  "BMCClusterConfig_UnmarshalBinary = UnmarshalBinary (struct_fields BMCClusterConfig_struct) zeroBMCClusterConfig"

record ClusterCreateRequest =
  ccr_BmcClusterConfig :: "BMCClusterConfig option"
  ccr_CloudAuthID :: string
  ccr_CloudType :: string
  ccr_K8Version :: string
  ccr_LbType :: string
  ccr_Name :: string
  ccr_TenantID :: string
  ccr_WerckerID :: string
  ccr_LinuxVersion :: string

definition zeroClusterCreateRequest :: ClusterCreateRequest where
    "zeroClusterCreateRequest = \<lparr>ccr_BmcClusterConfig = None, ccr_CloudAuthID = '''', ccr_CloudType = '''',
     ccr_K8Version = '''', ccr_LbType = '''', ccr_Name = '''', ccr_TenantID = '''', ccr_WerckerID = '''',
     ccr_LinuxVersion = ''''\<rparr>"

text \<open>
  The tag of \<open>LinuxVersion\<close> has a blank before its option, so the option is not recognised
  and the field is always written.
\<close>

definition ClusterCreateRequest_struct :: "ClusterCreateRequest member list" where
  "ClusterCreateRequest_struct = [
     member ''bmcClusterConfig'' (struct_ptr_omit BMCClusterConfig_struct zeroBMCClusterConfig) ccr_BmcClusterConfig ccr_BmcClusterConfig_update,
     member ''cloudAuthId'' string_omit ccr_CloudAuthID ccr_CloudAuthID_update,
     member ''cloudType'' string_omit ccr_CloudType ccr_CloudType_update,
     member ''k8Version'' string_omit ccr_K8Version ccr_K8Version_update,
     member ''lbType'' string_omit ccr_LbType ccr_LbType_update,
     member ''name'' string_omit ccr_Name ccr_Name_update,
     member ''tenantId'' string_omit ccr_TenantID ccr_TenantID_update,
     member ''werckerId'' string_omit ccr_WerckerID ccr_WerckerID_update,
     member ''linuxVersion'' string_always ccr_LinuxVersion ccr_LinuxVersion_update]"

definition ClusterCreateRequest_MarshalBinary :: "ClusterCreateRequest option \<Rightarrow> string \<times> error option" where
  "ClusterCreateRequest_MarshalBinary = MarshalBinary (struct_json ClusterCreateRequest_struct)"

definition ClusterCreateRequest_UnmarshalBinary :: "string \<Rightarrow> ClusterCreateRequest \<Rightarrow> ClusterCreateRequest \<times> error option" where
  "ClusterCreateRequest_UnmarshalBinary = UnmarshalBinary (struct_fields ClusterCreateRequest_struct) zeroClusterCreateRequest"

record ClusterWorkItemResponse =
  cwi_ClusterID :: string
  cwi_WorkItemID :: string

definition zeroClusterWorkItemResponse :: ClusterWorkItemResponse where
  "zeroClusterWorkItemResponse = \<lparr>cwi_ClusterID = '''', cwi_WorkItemID = ''''\<rparr>"

definition ClusterWorkItemResponse_struct :: "ClusterWorkItemResponse member list" where
  "ClusterWorkItemResponse_struct = [
     member ''clusterId'' string_omit cwi_ClusterID cwi_ClusterID_update,
     member ''workItemId'' string_omit cwi_WorkItemID cwi_WorkItemID_update]"

definition ClusterWorkItemResponse_MarshalBinary :: "ClusterWorkItemResponse option \<Rightarrow> string \<times> error option" where
  "ClusterWorkItemResponse_MarshalBinary = MarshalBinary (struct_json ClusterWorkItemResponse_struct)"

definition ClusterWorkItemResponse_UnmarshalBinary :: "string \<Rightarrow> ClusterWorkItemResponse \<Rightarrow> ClusterWorkItemResponse \<times> error option" where
  "ClusterWorkItemResponse_UnmarshalBinary = UnmarshalBinary (struct_fields ClusterWorkItemResponse_struct) zeroClusterWorkItemResponse"

record ClusterPools =
  cp_ClusterID :: string
  cp_Pools :: "Pool option list option"

definition zeroClusterPools :: ClusterPools where
  "zeroClusterPools = \<lparr>cp_ClusterID = '''', cp_Pools = None\<rparr>"

definition ClusterPools_struct :: "ClusterPools member list" where
  "ClusterPools_struct = [
     member ''clusterId'' string_omit cp_ClusterID cp_ClusterID_update,
     member ''pools'' (struct_slice Pool_struct zeroPool) cp_Pools cp_Pools_update]"

definition ClusterPools_MarshalBinary :: "ClusterPools option \<Rightarrow> string \<times> error option" where
  "ClusterPools_MarshalBinary = MarshalBinary (struct_json ClusterPools_struct)"

definition ClusterPools_UnmarshalBinary :: "string \<Rightarrow> ClusterPools \<Rightarrow> ClusterPools \<times> error option" where
  "ClusterPools_UnmarshalBinary = UnmarshalBinary (struct_fields ClusterPools_struct) zeroClusterPools"

record ClusterPoolsResponse =
  cpr_Pools :: "Pool option list option"
  cpr_ResourceOwnerID :: string

definition zeroClusterPoolsResponse :: ClusterPoolsResponse where
  "zeroClusterPoolsResponse = \<lparr>cpr_Pools = None, cpr_ResourceOwnerID = ''''\<rparr>"

definition ClusterPoolsResponse_struct :: "ClusterPoolsResponse member list" where
  "ClusterPoolsResponse_struct = [
     member ''pools'' (struct_slice Pool_struct zeroPool) cpr_Pools cpr_Pools_update,
     member ''resourceOwnerId'' string_omit cpr_ResourceOwnerID cpr_ResourceOwnerID_update]"

definition ClusterPoolsResponse_MarshalBinary :: "ClusterPoolsResponse option \<Rightarrow> string \<times> error option" where
  "ClusterPoolsResponse_MarshalBinary = MarshalBinary (struct_json ClusterPoolsResponse_struct)"

definition ClusterPoolsResponse_UnmarshalBinary :: "string \<Rightarrow> ClusterPoolsResponse \<Rightarrow> ClusterPoolsResponse \<times> error option" where
  "ClusterPoolsResponse_UnmarshalBinary = UnmarshalBinary (struct_fields ClusterPoolsResponse_struct) zeroClusterPoolsResponse"

section \<open>Work items\<close>

record Activity =
  act_CreatedAt :: goTime
  act_Message :: string

definition zeroActivity :: Activity where
  "zeroActivity = \<lparr>act_CreatedAt = zeroTime, act_Message = ''''\<rparr>"

definition Activity_struct :: "Activity member list" where
  "Activity_struct = [
     member ''createdAt'' time_always act_CreatedAt act_CreatedAt_update,
     member ''message'' string_always act_Message act_Message_update]"

record WorkItem =
  wi_Activity :: "Activity list option"
  wi_ClosedAt :: string
  wi_ClusterID :: string
  wi_CreatedAt :: string
  wi_ID :: string
  wi_LockedUntil :: string
  wi_ResourceOwnerID :: string
  wi_ResponseError :: string
  wi_StartedAt :: string
  wi_Status :: "int32 option"
  wi_StatusString :: string
  wi_TenantID :: string
  wi_TmID :: string
  wi_Type :: "int32 option"

definition zeroWorkItem :: WorkItem where
  "zeroWorkItem = \<lparr>wi_Activity = None, wi_ClosedAt = '''', wi_ClusterID = '''', wi_CreatedAt = '''',
     wi_ID = '''', wi_LockedUntil = '''', wi_ResourceOwnerID = '''', wi_ResponseError = '''',
     wi_StartedAt = '''', wi_Status = None, wi_StatusString = '''', wi_TenantID = '''',
     wi_TmID = '''', wi_Type = None\<rparr>"

definition WorkItem_struct :: "WorkItem member list" where
  "WorkItem_struct = [
     member ''activity'' (struct_values Activity_struct zeroActivity) wi_Activity wi_Activity_update,
     member ''closedAt'' string_omit wi_ClosedAt wi_ClosedAt_update,
     member ''clusterId'' string_omit wi_ClusterID wi_ClusterID_update,
     member ''createdAt'' string_omit wi_CreatedAt wi_CreatedAt_update,
     member ''id'' string_omit wi_ID wi_ID_update,
     member ''lockedUntil'' string_omit wi_LockedUntil wi_LockedUntil_update,
     member ''resourceOwnerId'' string_omit wi_ResourceOwnerID wi_ResourceOwnerID_update,
     member ''responseError'' string_omit wi_ResponseError wi_ResponseError_update,
     member ''startedAt'' string_omit wi_StartedAt wi_StartedAt_update,
     member ''status'' int32_ptr_omit wi_Status wi_Status_update,
     member ''statusString'' string_omit wi_StatusString wi_StatusString_update,
     member ''tenantId'' string_omit wi_TenantID wi_TenantID_update,
     member ''tmId'' string_omit wi_TmID wi_TmID_update,
     member ''type'' int32_ptr_omit wi_Type wi_Type_update]"

text \<open>A work item is written unless the year of one of its activities has not four digits.\<close>

definition WorkItem_marshals :: "WorkItem \<Rightarrow> bool" where
  "WorkItem_marshals m \<longleftrightarrow> pred_option (list_all (\<lambda>a. time_marshals (act_CreatedAt a))) (wi_Activity m)"

definition WorkItem_MarshalBinary :: "WorkItem option \<Rightarrow> string \<times> error option" where
  "WorkItem_MarshalBinary m =
     (if pred_option WorkItem_marshals m then MarshalBinary (struct_json WorkItem_struct) m else ([], Some year_error))"

definition WorkItem_UnmarshalBinary :: "string \<Rightarrow> WorkItem \<Rightarrow> WorkItem \<times> error option" where
  "WorkItem_UnmarshalBinary = UnmarshalBinary (struct_fields WorkItem_struct) zeroWorkItem"

section \<open>What is written is read back\<close>

interpretation AdDetails_codec: typed_struct AdDetails_struct zeroAdDetails
  by unfold_locales (auto simp: struct_typing codec_types AdDetails_struct_def zeroAdDetails_def simp del: codec_oks
    intro: codec_laws)

declare AdDetails_codec.ptr_law [codec_laws] AdDetails_codec.slice_law [codec_laws]
  AdDetails_codec.ptr_typed [codec_types] AdDetails_codec.slice_typed [codec_types]

interpretation Pool_codec: typed_struct Pool_struct zeroPool
  by unfold_locales (auto simp: struct_typing codec_types Pool_struct_def zeroPool_def simp del: codec_oks
    intro: codec_laws)

declare Pool_codec.ptr_law [codec_laws] Pool_codec.slice_law [codec_laws]
  Pool_codec.ptr_typed [codec_types] Pool_codec.slice_typed [codec_types]

interpretation BMCClusterConfig_codec: typed_struct BMCClusterConfig_struct zeroBMCClusterConfig
  by unfold_locales (auto simp: struct_typing codec_types BMCClusterConfig_struct_def zeroBMCClusterConfig_def simp del: codec_oks
    intro: codec_laws)

declare BMCClusterConfig_codec.ptr_law [codec_laws] BMCClusterConfig_codec.slice_law [codec_laws]
  BMCClusterConfig_codec.ptr_typed [codec_types] BMCClusterConfig_codec.slice_typed [codec_types]

interpretation ClusterCreateRequest_codec: typed_struct ClusterCreateRequest_struct zeroClusterCreateRequest
  by unfold_locales (auto simp: struct_typing codec_types ClusterCreateRequest_struct_def zeroClusterCreateRequest_def simp del: codec_oks
    intro: codec_laws)

declare ClusterCreateRequest_codec.ptr_law [codec_laws] ClusterCreateRequest_codec.slice_law [codec_laws]
  ClusterCreateRequest_codec.ptr_typed [codec_types] ClusterCreateRequest_codec.slice_typed [codec_types]

interpretation ClusterWorkItemResponse_codec: typed_struct ClusterWorkItemResponse_struct zeroClusterWorkItemResponse
  by unfold_locales (auto simp: struct_typing codec_types ClusterWorkItemResponse_struct_def zeroClusterWorkItemResponse_def simp del: codec_oks
    intro: codec_laws)

declare ClusterWorkItemResponse_codec.ptr_law [codec_laws] ClusterWorkItemResponse_codec.slice_law [codec_laws]
  ClusterWorkItemResponse_codec.ptr_typed [codec_types] ClusterWorkItemResponse_codec.slice_typed [codec_types]

interpretation ClusterPools_codec: typed_struct ClusterPools_struct zeroClusterPools
  by unfold_locales (auto simp: struct_typing codec_types ClusterPools_struct_def zeroClusterPools_def simp del: codec_oks
    intro: codec_laws)

declare ClusterPools_codec.ptr_law [codec_laws] ClusterPools_codec.slice_law [codec_laws]
  ClusterPools_codec.ptr_typed [codec_types] ClusterPools_codec.slice_typed [codec_types]

interpretation ClusterPoolsResponse_codec: typed_struct ClusterPoolsResponse_struct zeroClusterPoolsResponse
  by unfold_locales (auto simp: struct_typing codec_types ClusterPoolsResponse_struct_def zeroClusterPoolsResponse_def simp del: codec_oks
    intro: codec_laws)

declare ClusterPoolsResponse_codec.ptr_law [codec_laws] ClusterPoolsResponse_codec.slice_law [codec_laws]
  ClusterPoolsResponse_codec.ptr_typed [codec_types] ClusterPoolsResponse_codec.slice_typed [codec_types]

interpretation Activity_codec: json_struct Activity_struct zeroActivity
  by unfold_locales (auto simp: Activity_struct_def zeroActivity_def intro: codec_laws)

declare Activity_codec.values_law [codec_laws]

interpretation WorkItem_codec: json_struct WorkItem_struct zeroWorkItem
  by unfold_locales (auto simp: WorkItem_struct_def zeroWorkItem_def intro: codec_laws)

declare WorkItem_codec.slice_law [codec_laws]

lemma WorkItem_ok_marshals: "struct_ok WorkItem_struct m \<Longrightarrow> WorkItem_marshals m"
  by (cases "wi_Activity m")
    (auto simp: WorkItem_marshals_def struct_ok_def WorkItem_struct_def Activity_struct_def list_all_iff time_ok_def)

lemma WorkItem_read_back:
  "struct_ok WorkItem_struct m \<Longrightarrow> WorkItem_UnmarshalBinary (fst (WorkItem_MarshalBinary (Some m))) m0 = (m, None)"
  using WorkItem_codec.text_read_back
  by (simp add: WorkItem_MarshalBinary_def WorkItem_UnmarshalBinary_def WorkItem_ok_marshals)

lemma WorkItem_not_written:
  "a \<in> set (the_list (wi_Activity m)) \<and> \<not> (0 \<le> tm_year (act_CreatedAt a) \<and> tm_year (act_CreatedAt a) < 10000) \<Longrightarrow>
   WorkItem_MarshalBinary (Some m) = ([], Some year_error)"
  by (cases "wi_Activity m")
    (auto simp: WorkItem_MarshalBinary_def WorkItem_marshals_def time_marshals_def the_list_def list_all_iff)

end
