(* ===== verification/OkeDetails.thy ===== *)
theory OkeDetails
  imports OkeModels
begin

text \<open>
  The cluster details the OKE service reports (\<open>models/cluster_details.go\<close>) and everything
  nested in them: the cluster with its states (\<open>models/cluster.go\<close>), its cloud and state
  details, its metadata and its workers. The provider only reads the states of the masters
  and of the nodes, but a field of the wrong type anywhere makes the response unreadable,
  so all of them are decoded.
\<close>

record CloudDetailsBmc =
  cdb_LbShape :: string
  cdb_LbType :: string
  cdb_NodeID :: string

definition zeroCloudDetailsBmc :: CloudDetailsBmc where
  "zeroCloudDetailsBmc = \<lparr>cdb_LbShape = '''', cdb_LbType = '''', cdb_NodeID = ''''\<rparr>"

definition CloudDetailsBmc_struct :: "CloudDetailsBmc member list" where
  "CloudDetailsBmc_struct = [
     member ''lbShape'' string_omit cdb_LbShape cdb_LbShape_update,
     member ''lbType'' string_omit cdb_LbType cdb_LbType_update,
     member ''nodeId'' string_omit cdb_NodeID cdb_NodeID_update]"

definition CloudDetailsBmc_MarshalBinary :: "CloudDetailsBmc option \<Rightarrow> string \<times> error option" where
  "CloudDetailsBmc_MarshalBinary = MarshalBinary (struct_json CloudDetailsBmc_struct)"

definition CloudDetailsBmc_UnmarshalBinary :: "string \<Rightarrow> CloudDetailsBmc \<Rightarrow> CloudDetailsBmc \<times> error option" where
  "CloudDetailsBmc_UnmarshalBinary = UnmarshalBinary (struct_fields CloudDetailsBmc_struct) zeroCloudDetailsBmc"

record CloudDetails =
  cd_Bmc :: "CloudDetailsBmc option"

definition zeroCloudDetails :: CloudDetails where
  "zeroCloudDetails = \<lparr>cd_Bmc = None\<rparr>"

definition CloudDetails_struct :: "CloudDetails member list" where
  "CloudDetails_struct = [
     member ''bmc'' (struct_ptr_omit CloudDetailsBmc_struct zeroCloudDetailsBmc) cd_Bmc cd_Bmc_update]"

definition CloudDetails_MarshalBinary :: "CloudDetails option \<Rightarrow> string \<times> error option" where
  "CloudDetails_MarshalBinary = MarshalBinary (struct_json CloudDetails_struct)"

definition CloudDetails_UnmarshalBinary :: "string \<Rightarrow> CloudDetails \<Rightarrow> CloudDetails \<times> error option" where
  "CloudDetails_UnmarshalBinary = UnmarshalBinary (struct_fields CloudDetails_struct) zeroCloudDetails"

record ClusterMetadata =
  cm_CreatedAt :: string
  cm_CreatedBy :: string
  cm_CreatedByWorkItem :: string
  cm_DeletedAt :: string
  cm_DeletedBy :: string
  cm_DeletedByWorkItem :: string

definition zeroClusterMetadata :: ClusterMetadata where
    "zeroClusterMetadata = \<lparr>cm_CreatedAt = '''', cm_CreatedBy = '''', cm_CreatedByWorkItem = '''',
     cm_DeletedAt = '''', cm_DeletedBy = '''', cm_DeletedByWorkItem = ''''\<rparr>"

definition ClusterMetadata_struct :: "ClusterMetadata member list" where
  "ClusterMetadata_struct = [
     member ''createdAt'' string_omit cm_CreatedAt cm_CreatedAt_update,
     member ''createdBy'' string_omit cm_CreatedBy cm_CreatedBy_update,
     member ''createdByWorkItem'' string_omit cm_CreatedByWorkItem cm_CreatedByWorkItem_update,
     member ''deletedAt'' string_omit cm_DeletedAt cm_DeletedAt_update,
     member ''deletedBy'' string_omit cm_DeletedBy cm_DeletedBy_update,
     member ''deletedByWorkItem'' string_omit cm_DeletedByWorkItem cm_DeletedByWorkItem_update]"

definition ClusterMetadata_MarshalBinary :: "ClusterMetadata option \<Rightarrow> string \<times> error option" where
  "ClusterMetadata_MarshalBinary = MarshalBinary (struct_json ClusterMetadata_struct)"

definition ClusterMetadata_UnmarshalBinary :: "string \<Rightarrow> ClusterMetadata \<Rightarrow> ClusterMetadata \<times> error option" where
  "ClusterMetadata_UnmarshalBinary = UnmarshalBinary (struct_fields ClusterMetadata_struct) zeroClusterMetadata"

record StateDetailsNodesRollup =
  sdn_PROVISIONING :: int32

definition zeroStateDetailsNodesRollup :: StateDetailsNodesRollup where
  "zeroStateDetailsNodesRollup = \<lparr>sdn_PROVISIONING = 0\<rparr>"

definition StateDetailsNodesRollup_struct :: "StateDetailsNodesRollup member list" where
  "StateDetailsNodesRollup_struct = [
     member ''PROVISIONING'' int32_omit sdn_PROVISIONING sdn_PROVISIONING_update]"

definition StateDetailsNodesRollup_MarshalBinary :: "StateDetailsNodesRollup option \<Rightarrow> string \<times> error option" where
  "StateDetailsNodesRollup_MarshalBinary = MarshalBinary (struct_json StateDetailsNodesRollup_struct)"

definition StateDetailsNodesRollup_UnmarshalBinary :: "string \<Rightarrow> StateDetailsNodesRollup \<Rightarrow> StateDetailsNodesRollup \<times> error option" where
  "StateDetailsNodesRollup_UnmarshalBinary = UnmarshalBinary (struct_fields StateDetailsNodesRollup_struct) zeroStateDetailsNodesRollup"

record StateDetailsTkwRollup =
  sdt_PROVISIONING :: int32

definition zeroStateDetailsTkwRollup :: StateDetailsTkwRollup where
  "zeroStateDetailsTkwRollup = \<lparr>sdt_PROVISIONING = 0\<rparr>"

definition StateDetailsTkwRollup_struct :: "StateDetailsTkwRollup member list" where
  "StateDetailsTkwRollup_struct = [
     member ''PROVISIONING'' int32_omit sdt_PROVISIONING sdt_PROVISIONING_update]"

definition StateDetailsTkwRollup_MarshalBinary :: "StateDetailsTkwRollup option \<Rightarrow> string \<times> error option" where
  "StateDetailsTkwRollup_MarshalBinary = MarshalBinary (struct_json StateDetailsTkwRollup_struct)"

definition StateDetailsTkwRollup_UnmarshalBinary :: "string \<Rightarrow> StateDetailsTkwRollup \<Rightarrow> StateDetailsTkwRollup \<times> error option" where
  "StateDetailsTkwRollup_UnmarshalBinary = UnmarshalBinary (struct_fields StateDetailsTkwRollup_struct) zeroStateDetailsTkwRollup"

record StateDetails =
  sd_NodesRollup :: "StateDetailsNodesRollup option"
  sd_TkwRollup :: "StateDetailsTkwRollup option"

definition zeroStateDetails :: StateDetails where
  "zeroStateDetails = \<lparr>sd_NodesRollup = None, sd_TkwRollup = None\<rparr>"

definition StateDetails_struct :: "StateDetails member list" where
  "StateDetails_struct = [
     member ''nodesRollup'' (struct_ptr_omit StateDetailsNodesRollup_struct zeroStateDetailsNodesRollup) sd_NodesRollup sd_NodesRollup_update,
     member ''tkwRollup'' (struct_ptr_omit StateDetailsTkwRollup_struct zeroStateDetailsTkwRollup) sd_TkwRollup sd_TkwRollup_update]"

definition StateDetails_MarshalBinary :: "StateDetails option \<Rightarrow> string \<times> error option" where
  "StateDetails_MarshalBinary = MarshalBinary (struct_json StateDetails_struct)"

definition StateDetails_UnmarshalBinary :: "string \<Rightarrow> StateDetails \<Rightarrow> StateDetails \<times> error option" where
  "StateDetails_UnmarshalBinary = UnmarshalBinary (struct_fields StateDetails_struct) zeroStateDetails"

record OkeClusterState =
  okc_AuthConfigID :: string
  okc_BmcClusterConfig :: "BMCClusterConfig option"
  okc_CloudDetails :: "CloudDetails option"
  okc_CloudType :: string
  okc_DesiredState :: string
  okc_Endpoints :: "string gomap option"
  okc_ID :: string
  okc_K8Version :: string
  okc_MastersState :: string
  okc_Metadata :: "ClusterMetadata option"
  okc_Name :: string
  okc_NodesState :: string
  okc_ResourceOwnerID :: string
  okc_State :: string
  okc_StateDetails :: "StateDetails option"
  okc_TenantID :: string
  okc_TkmState :: string
  okc_TkwState :: string

definition zeroOkeClusterState :: OkeClusterState where
    "zeroOkeClusterState = \<lparr>okc_AuthConfigID = '''', okc_BmcClusterConfig = None, okc_CloudDetails = None,
     okc_CloudType = '''', okc_DesiredState = '''', okc_Endpoints = None, okc_ID = '''', okc_K8Version = '''',
     okc_MastersState = '''', okc_Metadata = None, okc_Name = '''', okc_NodesState = '''', okc_ResourceOwnerID =
     '''', okc_State = '''', okc_StateDetails = None, okc_TenantID = '''', okc_TkmState = '''', okc_TkwState =
     ''''\<rparr>"

definition OkeClusterState_struct :: "OkeClusterState member list" where
  "OkeClusterState_struct = [
     member ''authConfigId'' string_omit okc_AuthConfigID okc_AuthConfigID_update,
     member ''bmcClusterConfig'' (struct_ptr_omit BMCClusterConfig_struct zeroBMCClusterConfig) okc_BmcClusterConfig okc_BmcClusterConfig_update,
     member ''cloudDetails'' (struct_ptr_omit CloudDetails_struct zeroCloudDetails) okc_CloudDetails okc_CloudDetails_update,
     member ''cloudType'' string_omit okc_CloudType okc_CloudType_update,
     member ''desiredState'' string_omit okc_DesiredState okc_DesiredState_update,
     member ''endpoints'' string_map okc_Endpoints okc_Endpoints_update,
     member ''id'' string_omit okc_ID okc_ID_update,
     member ''k8Version'' string_omit okc_K8Version okc_K8Version_update,
     member ''mastersState'' string_omit okc_MastersState okc_MastersState_update,
     member ''metadata'' (struct_ptr_omit ClusterMetadata_struct zeroClusterMetadata) okc_Metadata okc_Metadata_update,
     member ''name'' string_omit okc_Name okc_Name_update,
     member ''nodesState'' string_omit okc_NodesState okc_NodesState_update,
     member ''resourceOwnerId'' string_omit okc_ResourceOwnerID okc_ResourceOwnerID_update,
     member ''state'' string_omit okc_State okc_State_update,
     member ''stateDetails'' (struct_ptr_omit StateDetails_struct zeroStateDetails) okc_StateDetails okc_StateDetails_update,
     member ''tenantId'' string_omit okc_TenantID okc_TenantID_update,
     member ''tkmState'' string_omit okc_TkmState okc_TkmState_update,
     member ''tkwState'' string_omit okc_TkwState okc_TkwState_update]"

definition Cluster_MarshalBinary :: "OkeClusterState option \<Rightarrow> string \<times> error option" where
  "Cluster_MarshalBinary = MarshalBinary (struct_json OkeClusterState_struct)"

definition Cluster_UnmarshalBinary :: "string \<Rightarrow> OkeClusterState \<Rightarrow> OkeClusterState \<times> error option" where
  "Cluster_UnmarshalBinary = UnmarshalBinary (struct_fields OkeClusterState_struct) zeroOkeClusterState"

record WorkerErrors =
  we_Message :: string

definition zeroWorkerErrors :: WorkerErrors where
  "zeroWorkerErrors = \<lparr>we_Message = ''''\<rparr>"

definition WorkerErrors_struct :: "WorkerErrors member list" where
  "WorkerErrors_struct = [
     member ''message'' string_omit we_Message we_Message_update]"

definition WorkerErrors_MarshalBinary :: "WorkerErrors option \<Rightarrow> string \<times> error option" where
  "WorkerErrors_MarshalBinary = MarshalBinary (struct_json WorkerErrors_struct)"

definition WorkerErrors_UnmarshalBinary :: "string \<Rightarrow> WorkerErrors \<Rightarrow> WorkerErrors \<times> error option" where
  "WorkerErrors_UnmarshalBinary = UnmarshalBinary (struct_fields WorkerErrors_struct) zeroWorkerErrors"

record WorkerDetails =
  wd_AvailabilityDomain :: string
  wd_BmcLifecycleState :: string
  wd_CompartmentID :: string
  wd_Error :: "WorkerErrors option"
  wd_ID :: string
  wd_ImageID :: string
  wd_K8Version :: string
  wd_Name :: string
  wd_Pool :: string
  wd_PublicIP :: string
  wd_Region :: string
  wd_Shape :: string
  wd_Slot :: int32
  wd_SubnetID :: string
  wd_WorkerStatus :: string

definition zeroWorkerDetails :: WorkerDetails where
    "zeroWorkerDetails = \<lparr>wd_AvailabilityDomain = '''', wd_BmcLifecycleState = '''', wd_CompartmentID = '''',
     wd_Error = None, wd_ID = '''', wd_ImageID = '''', wd_K8Version = '''', wd_Name = '''', wd_Pool = '''',
     wd_PublicIP = '''', wd_Region = '''', wd_Shape = '''', wd_Slot = 0, wd_SubnetID = '''', wd_WorkerStatus =
     ''''\<rparr>"

definition WorkerDetails_struct :: "WorkerDetails member list" where
  "WorkerDetails_struct = [
     member ''availabilityDomain'' string_omit wd_AvailabilityDomain wd_AvailabilityDomain_update,
     member ''bmcLifecycleState'' string_omit wd_BmcLifecycleState wd_BmcLifecycleState_update,
     member ''compartmentId'' string_omit wd_CompartmentID wd_CompartmentID_update,
     member ''error'' (struct_ptr_omit WorkerErrors_struct zeroWorkerErrors) wd_Error wd_Error_update,
     member ''id'' string_omit wd_ID wd_ID_update,
     member ''imageId'' string_omit wd_ImageID wd_ImageID_update,
     member ''k8Version'' string_omit wd_K8Version wd_K8Version_update,
     member ''name'' string_omit wd_Name wd_Name_update,
     member ''pool'' string_omit wd_Pool wd_Pool_update,
     member ''publicIp'' string_omit wd_PublicIP wd_PublicIP_update,
     member ''region'' string_omit wd_Region wd_Region_update,
     member ''shape'' string_omit wd_Shape wd_Shape_update,
     member ''slot'' int32_omit wd_Slot wd_Slot_update,
     member ''subnetId'' string_omit wd_SubnetID wd_SubnetID_update,
     member ''workerStatus'' string_omit wd_WorkerStatus wd_WorkerStatus_update]"

definition WorkerDetails_MarshalBinary :: "WorkerDetails option \<Rightarrow> string \<times> error option" where
  "WorkerDetails_MarshalBinary = MarshalBinary (struct_json WorkerDetails_struct)"

definition WorkerDetails_UnmarshalBinary :: "string \<Rightarrow> WorkerDetails \<Rightarrow> WorkerDetails \<times> error option" where
  "WorkerDetails_UnmarshalBinary = UnmarshalBinary (struct_fields WorkerDetails_struct) zeroWorkerDetails"

record ClusterDetails =
  cds_K8 :: "OkeClusterState option"
  cds_Workers :: "WorkerDetails option list option"

definition zeroClusterDetails :: ClusterDetails where
  "zeroClusterDetails = \<lparr>cds_K8 = None, cds_Workers = None\<rparr>"

definition ClusterDetails_struct :: "ClusterDetails member list" where
  "ClusterDetails_struct = [
     member ''k8'' (struct_ptr_omit OkeClusterState_struct zeroOkeClusterState) cds_K8 cds_K8_update,
     member ''workers'' (struct_slice WorkerDetails_struct zeroWorkerDetails) cds_Workers cds_Workers_update]"

definition ClusterDetails_MarshalBinary :: "ClusterDetails option \<Rightarrow> string \<times> error option" where
  "ClusterDetails_MarshalBinary = MarshalBinary (struct_json ClusterDetails_struct)"

definition ClusterDetails_UnmarshalBinary :: "string \<Rightarrow> ClusterDetails \<Rightarrow> ClusterDetails \<times> error option" where
  "ClusterDetails_UnmarshalBinary = UnmarshalBinary (struct_fields ClusterDetails_struct) zeroClusterDetails"

section \<open>What is written is read back\<close>

interpretation CloudDetailsBmc_codec: typed_struct CloudDetailsBmc_struct zeroCloudDetailsBmc
  by unfold_locales (auto simp: struct_typing codec_types CloudDetailsBmc_struct_def zeroCloudDetailsBmc_def simp del: codec_oks
    intro: codec_laws)

declare CloudDetailsBmc_codec.ptr_law [codec_laws] CloudDetailsBmc_codec.slice_law [codec_laws]
  CloudDetailsBmc_codec.ptr_typed [codec_types] CloudDetailsBmc_codec.slice_typed [codec_types]

interpretation CloudDetails_codec: typed_struct CloudDetails_struct zeroCloudDetails
  by unfold_locales (auto simp: struct_typing codec_types CloudDetails_struct_def zeroCloudDetails_def simp del: codec_oks
    intro: codec_laws)

declare CloudDetails_codec.ptr_law [codec_laws] CloudDetails_codec.slice_law [codec_laws]
  CloudDetails_codec.ptr_typed [codec_types] CloudDetails_codec.slice_typed [codec_types]

interpretation ClusterMetadata_codec: typed_struct ClusterMetadata_struct zeroClusterMetadata
  by unfold_locales (auto simp: struct_typing codec_types ClusterMetadata_struct_def zeroClusterMetadata_def simp del: codec_oks
    intro: codec_laws)

declare ClusterMetadata_codec.ptr_law [codec_laws] ClusterMetadata_codec.slice_law [codec_laws]
  ClusterMetadata_codec.ptr_typed [codec_types] ClusterMetadata_codec.slice_typed [codec_types]

interpretation StateDetailsNodesRollup_codec: typed_struct StateDetailsNodesRollup_struct zeroStateDetailsNodesRollup
  by unfold_locales (auto simp: struct_typing codec_types StateDetailsNodesRollup_struct_def zeroStateDetailsNodesRollup_def simp del: codec_oks
    intro: codec_laws)

declare StateDetailsNodesRollup_codec.ptr_law [codec_laws] StateDetailsNodesRollup_codec.slice_law [codec_laws]
  StateDetailsNodesRollup_codec.ptr_typed [codec_types] StateDetailsNodesRollup_codec.slice_typed [codec_types]

interpretation StateDetailsTkwRollup_codec: typed_struct StateDetailsTkwRollup_struct zeroStateDetailsTkwRollup
  by unfold_locales (auto simp: struct_typing codec_types StateDetailsTkwRollup_struct_def zeroStateDetailsTkwRollup_def simp del: codec_oks
    intro: codec_laws)

declare StateDetailsTkwRollup_codec.ptr_law [codec_laws] StateDetailsTkwRollup_codec.slice_law [codec_laws]
  StateDetailsTkwRollup_codec.ptr_typed [codec_types] StateDetailsTkwRollup_codec.slice_typed [codec_types]

interpretation StateDetails_codec: typed_struct StateDetails_struct zeroStateDetails
  by unfold_locales (auto simp: struct_typing codec_types StateDetails_struct_def zeroStateDetails_def simp del: codec_oks
    intro: codec_laws)

declare StateDetails_codec.ptr_law [codec_laws] StateDetails_codec.slice_law [codec_laws]
  StateDetails_codec.ptr_typed [codec_types] StateDetails_codec.slice_typed [codec_types]

interpretation OkeClusterState_codec: typed_struct OkeClusterState_struct zeroOkeClusterState
  by unfold_locales (auto simp: struct_typing codec_types OkeClusterState_struct_def zeroOkeClusterState_def simp del: codec_oks
    intro: codec_laws)

declare OkeClusterState_codec.ptr_law [codec_laws] OkeClusterState_codec.slice_law [codec_laws]
  OkeClusterState_codec.ptr_typed [codec_types] OkeClusterState_codec.slice_typed [codec_types]

interpretation WorkerErrors_codec: typed_struct WorkerErrors_struct zeroWorkerErrors
  by unfold_locales (auto simp: struct_typing codec_types WorkerErrors_struct_def zeroWorkerErrors_def simp del: codec_oks
    intro: codec_laws)

declare WorkerErrors_codec.ptr_law [codec_laws] WorkerErrors_codec.slice_law [codec_laws]
  WorkerErrors_codec.ptr_typed [codec_types] WorkerErrors_codec.slice_typed [codec_types]

interpretation WorkerDetails_codec: typed_struct WorkerDetails_struct zeroWorkerDetails
  by unfold_locales (auto simp: struct_typing codec_types WorkerDetails_struct_def zeroWorkerDetails_def simp del: codec_oks
    intro: codec_laws)

declare WorkerDetails_codec.ptr_law [codec_laws] WorkerDetails_codec.slice_law [codec_laws]
  WorkerDetails_codec.ptr_typed [codec_types] WorkerDetails_codec.slice_typed [codec_types]

interpretation ClusterDetails_codec: typed_struct ClusterDetails_struct zeroClusterDetails
  by unfold_locales (auto simp: struct_typing codec_types ClusterDetails_struct_def zeroClusterDetails_def simp del: codec_oks
    intro: codec_laws)

declare ClusterDetails_codec.ptr_law [codec_laws] ClusterDetails_codec.slice_law [codec_laws]
  ClusterDetails_codec.ptr_typed [codec_types] ClusterDetails_codec.slice_typed [codec_types]

end
