(* ===== verification/OkeCatalog.thy ===== *)
theory OkeCatalog
  imports OkeDetails
begin

text \<open>
  The structs of the OKE service (\<open>provider/oke/models\<close>) that the provider does not use
  yet: credentials, networks, compartments, the lists and the error of the service. They
  have the same shape as those of the two theories before and the same guarantee.
\<close>

record ADstruct =
  ads_CompartmentID :: string
  ads_Name :: string

definition zeroADstruct :: ADstruct where
  "zeroADstruct = \<lparr>ads_CompartmentID = '''', ads_Name = ''''\<rparr>"

definition ADstruct_struct :: "ADstruct member list" where
  "ADstruct_struct = [
     member ''compartmentId'' string_omit ads_CompartmentID ads_CompartmentID_update,
     member ''name'' string_omit ads_Name ads_Name_update]"

definition ADstruct_MarshalBinary :: "ADstruct option \<Rightarrow> string \<times> error option" where
  "ADstruct_MarshalBinary = MarshalBinary (struct_json ADstruct_struct)"

definition ADstruct_UnmarshalBinary :: "string \<Rightarrow> ADstruct \<Rightarrow> ADstruct \<times> error option" where
  "ADstruct_UnmarshalBinary = UnmarshalBinary (struct_fields ADstruct_struct) zeroADstruct"

record AWSauthConfig =
  aws_AccessKeyID :: string
  aws_SecretAccessKey :: string

definition zeroAWSauthConfig :: AWSauthConfig where
  "zeroAWSauthConfig = \<lparr>aws_AccessKeyID = '''', aws_SecretAccessKey = ''''\<rparr>"

definition AWSauthConfig_struct :: "AWSauthConfig member list" where
  "AWSauthConfig_struct = [
     member ''accessKeyId'' string_omit aws_AccessKeyID aws_AccessKeyID_update,
     member ''secretAccessKey'' string_omit aws_SecretAccessKey aws_SecretAccessKey_update]"

definition AWSauthConfig_MarshalBinary :: "AWSauthConfig option \<Rightarrow> string \<times> error option" where
  "AWSauthConfig_MarshalBinary = MarshalBinary (struct_json AWSauthConfig_struct)"

definition AWSauthConfig_UnmarshalBinary :: "string \<Rightarrow> AWSauthConfig \<Rightarrow> AWSauthConfig \<times> error option" where
  "AWSauthConfig_UnmarshalBinary = UnmarshalBinary (struct_fields AWSauthConfig_struct) zeroAWSauthConfig"

record BMCauthConfig =
  bma_Fingerprint :: string
  bma_PrivateKey :: string
  bma_Region :: string
  bma_Tenancy :: string
  bma_User :: string

definition zeroBMCauthConfig :: BMCauthConfig where
    "zeroBMCauthConfig = \<lparr>bma_Fingerprint = '''', bma_PrivateKey = '''', bma_Region = '''', bma_Tenancy =
     '''', bma_User = ''''\<rparr>"

definition BMCauthConfig_struct :: "BMCauthConfig member list" where
  "BMCauthConfig_struct = [
     member ''fingerprint'' string_omit bma_Fingerprint bma_Fingerprint_update,
     member ''privateKey'' string_omit bma_PrivateKey bma_PrivateKey_update,
     member ''region'' string_omit bma_Region bma_Region_update,
     member ''tenancy'' string_omit bma_Tenancy bma_Tenancy_update,
     member ''user'' string_omit bma_User bma_User_update]"

definition BMCauthConfig_MarshalBinary :: "BMCauthConfig option \<Rightarrow> string \<times> error option" where
  "BMCauthConfig_MarshalBinary = MarshalBinary (struct_json BMCauthConfig_struct)"

definition BMCauthConfig_UnmarshalBinary :: "string \<Rightarrow> BMCauthConfig \<Rightarrow> BMCauthConfig \<times> error option" where
  "BMCauthConfig_UnmarshalBinary = UnmarshalBinary (struct_fields BMCauthConfig_struct) zeroBMCauthConfig"

record AuthConfig =
  auc_Aws :: "AWSauthConfig option"
  auc_Bmc :: "BMCauthConfig option"
  auc_Name :: string

definition zeroAuthConfig :: AuthConfig where
  "zeroAuthConfig = \<lparr>auc_Aws = None, auc_Bmc = None, auc_Name = ''''\<rparr>"

definition AuthConfig_struct :: "AuthConfig member list" where
  "AuthConfig_struct = [
     member ''aws'' (struct_ptr_omit AWSauthConfig_struct zeroAWSauthConfig) auc_Aws auc_Aws_update,
     member ''bmc'' (struct_ptr_omit BMCauthConfig_struct zeroBMCauthConfig) auc_Bmc auc_Bmc_update,
     member ''name'' string_omit auc_Name auc_Name_update]"

definition AuthConfig_MarshalBinary :: "AuthConfig option \<Rightarrow> string \<times> error option" where
  "AuthConfig_MarshalBinary = MarshalBinary (struct_json AuthConfig_struct)"

definition AuthConfig_UnmarshalBinary :: "string \<Rightarrow> AuthConfig \<Rightarrow> AuthConfig \<times> error option" where
  "AuthConfig_UnmarshalBinary = UnmarshalBinary (struct_fields AuthConfig_struct) zeroAuthConfig"

record AuthConfigSecure =
  acs_CloudType :: string
  acs_ID :: string
  acs_Name :: string
  acs_ResourceOwnerID :: string
  acs_TenantID :: string

definition zeroAuthConfigSecure :: AuthConfigSecure where
    "zeroAuthConfigSecure = \<lparr>acs_CloudType = '''', acs_ID = '''', acs_Name = '''', acs_ResourceOwnerID =
     '''', acs_TenantID = ''''\<rparr>"

definition AuthConfigSecure_struct :: "AuthConfigSecure member list" where
  "AuthConfigSecure_struct = [
     member ''cloudType'' string_omit acs_CloudType acs_CloudType_update,
     member ''id'' string_omit acs_ID acs_ID_update,
     member ''name'' string_omit acs_Name acs_Name_update,
     member ''resourceOwnerId'' string_omit acs_ResourceOwnerID acs_ResourceOwnerID_update,
     member ''tenantId'' string_omit acs_TenantID acs_TenantID_update]"

definition AuthConfigSecure_MarshalBinary :: "AuthConfigSecure option \<Rightarrow> string \<times> error option" where
  "AuthConfigSecure_MarshalBinary = MarshalBinary (struct_json AuthConfigSecure_struct)"

definition AuthConfigSecure_UnmarshalBinary :: "string \<Rightarrow> AuthConfigSecure \<Rightarrow> AuthConfigSecure \<times> error option" where
  "AuthConfigSecure_UnmarshalBinary = UnmarshalBinary (struct_fields AuthConfigSecure_struct) zeroAuthConfigSecure"

record AuthConfigWithID =
  aci_Aws :: "AWSauthConfig option"
  aci_Bmc :: "BMCauthConfig option"
  aci_ID :: string
  aci_Name :: string
  aci_TenantID :: string

definition zeroAuthConfigWithID :: AuthConfigWithID where
    "zeroAuthConfigWithID = \<lparr>aci_Aws = None, aci_Bmc = None, aci_ID = '''', aci_Name = '''', aci_TenantID =
     ''''\<rparr>"

definition AuthConfigWithID_struct :: "AuthConfigWithID member list" where
  "AuthConfigWithID_struct = [
     member ''aws'' (struct_ptr_omit AWSauthConfig_struct zeroAWSauthConfig) aci_Aws aci_Aws_update,
     member ''bmc'' (struct_ptr_omit BMCauthConfig_struct zeroBMCauthConfig) aci_Bmc aci_Bmc_update,
     member ''id'' string_omit aci_ID aci_ID_update,
     member ''name'' string_omit aci_Name aci_Name_update,
     member ''tenantId'' string_omit aci_TenantID aci_TenantID_update]"

definition AuthConfigWithID_MarshalBinary :: "AuthConfigWithID option \<Rightarrow> string \<times> error option" where
  "AuthConfigWithID_MarshalBinary = MarshalBinary (struct_json AuthConfigWithID_struct)"

definition AuthConfigWithID_UnmarshalBinary :: "string \<Rightarrow> AuthConfigWithID \<Rightarrow> AuthConfigWithID \<times> error option" where
  "AuthConfigWithID_UnmarshalBinary = UnmarshalBinary (struct_fields AuthConfigWithID_struct) zeroAuthConfigWithID"

record AuthConfigsListResponse =
  acl_AuthConfigs :: "AuthConfigSecure option list option"

definition zeroAuthConfigsListResponse :: AuthConfigsListResponse where
  "zeroAuthConfigsListResponse = \<lparr>acl_AuthConfigs = None\<rparr>"

definition AuthConfigsListResponse_struct :: "AuthConfigsListResponse member list" where
  "AuthConfigsListResponse_struct = [
     member ''authConfigs'' (struct_slice AuthConfigSecure_struct zeroAuthConfigSecure) acl_AuthConfigs acl_AuthConfigs_update]"

definition AuthConfigsListResponse_MarshalBinary :: "AuthConfigsListResponse option \<Rightarrow> string \<times> error option" where
  "AuthConfigsListResponse_MarshalBinary = MarshalBinary (struct_json AuthConfigsListResponse_struct)"

definition AuthConfigsListResponse_UnmarshalBinary :: "string \<Rightarrow> AuthConfigsListResponse \<Rightarrow> AuthConfigsListResponse \<times> error option" where
  "AuthConfigsListResponse_UnmarshalBinary = UnmarshalBinary (struct_fields AuthConfigsListResponse_struct) zeroAuthConfigsListResponse"

record ClusterEndpoint =
  cep_Name :: string
  cep_Value :: string

definition zeroClusterEndpoint :: ClusterEndpoint where
  "zeroClusterEndpoint = \<lparr>cep_Name = '''', cep_Value = ''''\<rparr>"

definition ClusterEndpoint_struct :: "ClusterEndpoint member list" where
  "ClusterEndpoint_struct = [
     member ''name'' string_omit cep_Name cep_Name_update,
     member ''value'' string_omit cep_Value cep_Value_update]"

definition ClusterEndpoint_MarshalBinary :: "ClusterEndpoint option \<Rightarrow> string \<times> error option" where
  "ClusterEndpoint_MarshalBinary = MarshalBinary (struct_json ClusterEndpoint_struct)"

definition ClusterEndpoint_UnmarshalBinary :: "string \<Rightarrow> ClusterEndpoint \<Rightarrow> ClusterEndpoint \<times> error option" where
  "ClusterEndpoint_UnmarshalBinary = UnmarshalBinary (struct_fields ClusterEndpoint_struct) zeroClusterEndpoint"

record ClustersListResponse =
  clr_Clusters :: "OkeClusterState option list option"

definition zeroClustersListResponse :: ClustersListResponse where
  "zeroClustersListResponse = \<lparr>clr_Clusters = None\<rparr>"

definition ClustersListResponse_struct :: "ClustersListResponse member list" where
  "ClustersListResponse_struct = [
     member ''clusters'' (struct_slice OkeClusterState_struct zeroOkeClusterState) clr_Clusters clr_Clusters_update]"

definition ClustersListResponse_MarshalBinary :: "ClustersListResponse option \<Rightarrow> string \<times> error option" where
  "ClustersListResponse_MarshalBinary = MarshalBinary (struct_json ClustersListResponse_struct)"

definition ClustersListResponse_UnmarshalBinary :: "string \<Rightarrow> ClustersListResponse \<Rightarrow> ClustersListResponse \<times> error option" where
  "ClustersListResponse_UnmarshalBinary = UnmarshalBinary (struct_fields ClustersListResponse_struct) zeroClustersListResponse"

record Compartmentstruct =
  cmp_ETag :: string
  cmp_CompartmentID :: string
  cmp_Description :: string
  cmp_ID :: string
  cmp_InactiveStatus :: int32
  cmp_LifecycleState :: string
  cmp_Name :: string
  cmp_TimeCreated :: string

definition zeroCompartmentstruct :: Compartmentstruct where
    "zeroCompartmentstruct = \<lparr>cmp_ETag = '''', cmp_CompartmentID = '''', cmp_Description = '''', cmp_ID =
     '''', cmp_InactiveStatus = 0, cmp_LifecycleState = '''', cmp_Name = '''', cmp_TimeCreated = ''''\<rparr>"

definition Compartmentstruct_struct :: "Compartmentstruct member list" where
  "Compartmentstruct_struct = [
     member ''ETag'' string_omit cmp_ETag cmp_ETag_update,
     member ''compartmentId'' string_omit cmp_CompartmentID cmp_CompartmentID_update,
     member ''description'' string_omit cmp_Description cmp_Description_update,
     member ''id'' string_omit cmp_ID cmp_ID_update,
     member ''inactiveStatus'' int32_omit cmp_InactiveStatus cmp_InactiveStatus_update,
     member ''lifecycleState'' string_omit cmp_LifecycleState cmp_LifecycleState_update,
     member ''name'' string_omit cmp_Name cmp_Name_update,
     member ''timeCreated'' string_omit cmp_TimeCreated cmp_TimeCreated_update]"

definition Compartmentstruct_MarshalBinary :: "Compartmentstruct option \<Rightarrow> string \<times> error option" where
  "Compartmentstruct_MarshalBinary = MarshalBinary (struct_json Compartmentstruct_struct)"

definition Compartmentstruct_UnmarshalBinary :: "string \<Rightarrow> Compartmentstruct \<Rightarrow> Compartmentstruct \<times> error option" where
  "Compartmentstruct_UnmarshalBinary = UnmarshalBinary (struct_fields Compartmentstruct_struct) zeroCompartmentstruct"

record OkeError =
  oer_Code :: "int32 option"
  oer_Message :: "string option"

definition zeroOkeError :: OkeError where
  "zeroOkeError = \<lparr>oer_Code = None, oer_Message = None\<rparr>"

definition OkeError_struct :: "OkeError member list" where
  "OkeError_struct = [
     member ''code'' int32_ptr oer_Code oer_Code_update,
     member ''message'' string_ptr oer_Message oer_Message_update]"

definition Error_MarshalBinary :: "OkeError option \<Rightarrow> string \<times> error option" where
  "Error_MarshalBinary = MarshalBinary (struct_json OkeError_struct)"

definition Error_UnmarshalBinary :: "string \<Rightarrow> OkeError \<Rightarrow> OkeError \<times> error option" where
  "Error_UnmarshalBinary = UnmarshalBinary (struct_fields OkeError_struct) zeroOkeError"

record GetADsRequest =
  gaq_CloudAuthID :: string
  gaq_CompartmentOcid :: string

definition zeroGetADsRequest :: GetADsRequest where
  "zeroGetADsRequest = \<lparr>gaq_CloudAuthID = '''', gaq_CompartmentOcid = ''''\<rparr>"

definition GetADsRequest_struct :: "GetADsRequest member list" where
  "GetADsRequest_struct = [
     member ''cloudAuthId'' string_omit gaq_CloudAuthID gaq_CloudAuthID_update,
     member ''compartmentOcid'' string_omit gaq_CompartmentOcid gaq_CompartmentOcid_update]"

definition GetADsRequest_MarshalBinary :: "GetADsRequest option \<Rightarrow> string \<times> error option" where
  "GetADsRequest_MarshalBinary = MarshalBinary (struct_json GetADsRequest_struct)"

definition GetADsRequest_UnmarshalBinary :: "string \<Rightarrow> GetADsRequest \<Rightarrow> GetADsRequest \<times> error option" where
  "GetADsRequest_UnmarshalBinary = UnmarshalBinary (struct_fields GetADsRequest_struct) zeroGetADsRequest"

record GetADsResponse =
  gar_Ads :: "ADstruct option list option"

definition zeroGetADsResponse :: GetADsResponse where
  "zeroGetADsResponse = \<lparr>gar_Ads = None\<rparr>"

definition GetADsResponse_struct :: "GetADsResponse member list" where
  "GetADsResponse_struct = [
     member ''ads'' (struct_slice ADstruct_struct zeroADstruct) gar_Ads gar_Ads_update]"

definition GetADsResponse_MarshalBinary :: "GetADsResponse option \<Rightarrow> string \<times> error option" where
  "GetADsResponse_MarshalBinary = MarshalBinary (struct_json GetADsResponse_struct)"

definition GetADsResponse_UnmarshalBinary :: "string \<Rightarrow> GetADsResponse \<Rightarrow> GetADsResponse \<times> error option" where
  "GetADsResponse_UnmarshalBinary = UnmarshalBinary (struct_fields GetADsResponse_struct) zeroGetADsResponse"

record GetCompartmentsRequest =
  gcq_CloudAuthID :: string

definition zeroGetCompartmentsRequest :: GetCompartmentsRequest where
  "zeroGetCompartmentsRequest = \<lparr>gcq_CloudAuthID = ''''\<rparr>"

definition GetCompartmentsRequest_struct :: "GetCompartmentsRequest member list" where
  "GetCompartmentsRequest_struct = [
     member ''cloudAuthId'' string_omit gcq_CloudAuthID gcq_CloudAuthID_update]"

definition GetCompartmentsRequest_MarshalBinary :: "GetCompartmentsRequest option \<Rightarrow> string \<times> error option" where
  "GetCompartmentsRequest_MarshalBinary = MarshalBinary (struct_json GetCompartmentsRequest_struct)"

definition GetCompartmentsRequest_UnmarshalBinary :: "string \<Rightarrow> GetCompartmentsRequest \<Rightarrow> GetCompartmentsRequest \<times> error option" where
  "GetCompartmentsRequest_UnmarshalBinary = UnmarshalBinary (struct_fields GetCompartmentsRequest_struct) zeroGetCompartmentsRequest"

record GetCompartmentsResponse =
  gcr_Compartments :: "Compartmentstruct option list option"

definition zeroGetCompartmentsResponse :: GetCompartmentsResponse where
  "zeroGetCompartmentsResponse = \<lparr>gcr_Compartments = None\<rparr>"

definition GetCompartmentsResponse_struct :: "GetCompartmentsResponse member list" where
  "GetCompartmentsResponse_struct = [
     member ''compartments'' (struct_slice Compartmentstruct_struct zeroCompartmentstruct) gcr_Compartments gcr_Compartments_update]"

definition GetCompartmentsResponse_MarshalBinary :: "GetCompartmentsResponse option \<Rightarrow> string \<times> error option" where
  "GetCompartmentsResponse_MarshalBinary = MarshalBinary (struct_json GetCompartmentsResponse_struct)"

definition GetCompartmentsResponse_UnmarshalBinary :: "string \<Rightarrow> GetCompartmentsResponse \<Rightarrow> GetCompartmentsResponse \<times> error option" where
  "GetCompartmentsResponse_UnmarshalBinary = UnmarshalBinary (struct_fields GetCompartmentsResponse_struct) zeroGetCompartmentsResponse"

record GetSubnetsRequest =
  gsq_CloudAuthID :: string
  gsq_CompartmentOcid :: string
  gsq_VcnOcid :: string

definition zeroGetSubnetsRequest :: GetSubnetsRequest where
  "zeroGetSubnetsRequest = \<lparr>gsq_CloudAuthID = '''', gsq_CompartmentOcid = '''', gsq_VcnOcid = ''''\<rparr>"

definition GetSubnetsRequest_struct :: "GetSubnetsRequest member list" where
  "GetSubnetsRequest_struct = [
     member ''cloudAuthId'' string_omit gsq_CloudAuthID gsq_CloudAuthID_update,
     member ''compartmentOcid'' string_omit gsq_CompartmentOcid gsq_CompartmentOcid_update,
     member ''vcnOcid'' string_omit gsq_VcnOcid gsq_VcnOcid_update]"

definition GetSubnetsRequest_MarshalBinary :: "GetSubnetsRequest option \<Rightarrow> string \<times> error option" where
  "GetSubnetsRequest_MarshalBinary = MarshalBinary (struct_json GetSubnetsRequest_struct)"

definition GetSubnetsRequest_UnmarshalBinary :: "string \<Rightarrow> GetSubnetsRequest \<Rightarrow> GetSubnetsRequest \<times> error option" where
  "GetSubnetsRequest_UnmarshalBinary = UnmarshalBinary (struct_fields GetSubnetsRequest_struct) zeroGetSubnetsRequest"

record Subnetstruct =
  sub_ETag :: string
  sub_AvailabilityDomain :: string
  sub_CidrBlock :: string
  sub_CompartmentID :: string
  sub_DhcpOptionsID :: string
  sub_DisplayName :: string
  sub_DNSLabel :: string
  sub_ID :: string
  sub_LifecycleState :: string
  sub_RouteTableID :: string
  sub_SecurityListIds :: "string list option"
  sub_SubnetDomainName :: string
  sub_TimeCreated :: string
  sub_VcnID :: string
  sub_VirtualRouterIP :: string
  sub_VirtualRouterMac :: string

definition zeroSubnetstruct :: Subnetstruct where
    "zeroSubnetstruct = \<lparr>sub_ETag = '''', sub_AvailabilityDomain = '''', sub_CidrBlock = '''',
     sub_CompartmentID = '''', sub_DhcpOptionsID = '''', sub_DisplayName = '''', sub_DNSLabel = '''', sub_ID = '''',
     sub_LifecycleState = '''', sub_RouteTableID = '''', sub_SecurityListIds = None, sub_SubnetDomainName = '''',
     sub_TimeCreated = '''', sub_VcnID = '''', sub_VirtualRouterIP = '''', sub_VirtualRouterMac = ''''\<rparr>"

definition Subnetstruct_struct :: "Subnetstruct member list" where
  "Subnetstruct_struct = [
     member ''ETag'' string_omit sub_ETag sub_ETag_update,
     member ''availabilityDomain'' string_omit sub_AvailabilityDomain sub_AvailabilityDomain_update,
     member ''cidrBlock'' string_omit sub_CidrBlock sub_CidrBlock_update,
     member ''compartmentId'' string_omit sub_CompartmentID sub_CompartmentID_update,
     member ''dhcpOptionsId'' string_omit sub_DhcpOptionsID sub_DhcpOptionsID_update,
     member ''displayName'' string_omit sub_DisplayName sub_DisplayName_update,
     member ''dnsLabel'' string_omit sub_DNSLabel sub_DNSLabel_update,
     member ''id'' string_omit sub_ID sub_ID_update,
     member ''lifecycleState'' string_omit sub_LifecycleState sub_LifecycleState_update,
     member ''routeTableId'' string_omit sub_RouteTableID sub_RouteTableID_update,
     member ''securityListIds'' string_slice sub_SecurityListIds sub_SecurityListIds_update,
     member ''subnetDomainName'' string_omit sub_SubnetDomainName sub_SubnetDomainName_update,
     member ''timeCreated'' string_omit sub_TimeCreated sub_TimeCreated_update,
     member ''vcnId'' string_omit sub_VcnID sub_VcnID_update,
     member ''virtualRouterIp'' string_omit sub_VirtualRouterIP sub_VirtualRouterIP_update,
     member ''virtualRouterMac'' string_omit sub_VirtualRouterMac sub_VirtualRouterMac_update]"

definition Subnetstruct_MarshalBinary :: "Subnetstruct option \<Rightarrow> string \<times> error option" where
  "Subnetstruct_MarshalBinary = MarshalBinary (struct_json Subnetstruct_struct)"

definition Subnetstruct_UnmarshalBinary :: "string \<Rightarrow> Subnetstruct \<Rightarrow> Subnetstruct \<times> error option" where
  "Subnetstruct_UnmarshalBinary = UnmarshalBinary (struct_fields Subnetstruct_struct) zeroSubnetstruct"

record GetSubnetsResponse =
  gsr_Compartments :: "Subnetstruct option list option"

definition zeroGetSubnetsResponse :: GetSubnetsResponse where
  "zeroGetSubnetsResponse = \<lparr>gsr_Compartments = None\<rparr>"

definition GetSubnetsResponse_struct :: "GetSubnetsResponse member list" where
  "GetSubnetsResponse_struct = [
     member ''compartments'' (struct_slice Subnetstruct_struct zeroSubnetstruct) gsr_Compartments gsr_Compartments_update]"

definition GetSubnetsResponse_MarshalBinary :: "GetSubnetsResponse option \<Rightarrow> string \<times> error option" where
  "GetSubnetsResponse_MarshalBinary = MarshalBinary (struct_json GetSubnetsResponse_struct)"

definition GetSubnetsResponse_UnmarshalBinary :: "string \<Rightarrow> GetSubnetsResponse \<Rightarrow> GetSubnetsResponse \<times> error option" where
  "GetSubnetsResponse_UnmarshalBinary = UnmarshalBinary (struct_fields GetSubnetsResponse_struct) zeroGetSubnetsResponse"

record GetVCNsRequest =
  gvq_CloudAuthID :: string
  gvq_CompartmentOcid :: string

definition zeroGetVCNsRequest :: GetVCNsRequest where
  "zeroGetVCNsRequest = \<lparr>gvq_CloudAuthID = '''', gvq_CompartmentOcid = ''''\<rparr>"

definition GetVCNsRequest_struct :: "GetVCNsRequest member list" where
  "GetVCNsRequest_struct = [
     member ''cloudAuthId'' string_omit gvq_CloudAuthID gvq_CloudAuthID_update,
     member ''compartmentOcid'' string_omit gvq_CompartmentOcid gvq_CompartmentOcid_update]"

definition GetVCNsRequest_MarshalBinary :: "GetVCNsRequest option \<Rightarrow> string \<times> error option" where
  "GetVCNsRequest_MarshalBinary = MarshalBinary (struct_json GetVCNsRequest_struct)"

definition GetVCNsRequest_UnmarshalBinary :: "string \<Rightarrow> GetVCNsRequest \<Rightarrow> GetVCNsRequest \<times> error option" where
  "GetVCNsRequest_UnmarshalBinary = UnmarshalBinary (struct_fields GetVCNsRequest_struct) zeroGetVCNsRequest"

record VCNstruct =
  vcn_ETag :: string
  vcn_CidrBlock :: string
  vcn_CompartmentID :: string
  vcn_DefaultDhcpOptionsID :: string
  vcn_DefaultRouteTableID :: string
  vcn_DefaultSecurityListID :: string
  vcn_DisplayName :: string
  vcn_DNSLabel :: string
  vcn_ID :: string
  vcn_LifecycleState :: string
  vcn_TimeCreated :: string
  vcn_VcnDomainName :: string

definition zeroVCNstruct :: VCNstruct where
    "zeroVCNstruct = \<lparr>vcn_ETag = '''', vcn_CidrBlock = '''', vcn_CompartmentID = '''',
     vcn_DefaultDhcpOptionsID = '''', vcn_DefaultRouteTableID = '''', vcn_DefaultSecurityListID = '''',
     vcn_DisplayName = '''', vcn_DNSLabel = '''', vcn_ID = '''', vcn_LifecycleState = '''', vcn_TimeCreated = '''',
     vcn_VcnDomainName = ''''\<rparr>"

definition VCNstruct_struct :: "VCNstruct member list" where
  "VCNstruct_struct = [
     member ''ETag'' string_omit vcn_ETag vcn_ETag_update,
     member ''cidrBlock'' string_omit vcn_CidrBlock vcn_CidrBlock_update,
     member ''compartmentId'' string_omit vcn_CompartmentID vcn_CompartmentID_update,
     member ''defaultDhcpOptionsId'' string_omit vcn_DefaultDhcpOptionsID vcn_DefaultDhcpOptionsID_update,
     member ''defaultRouteTableId'' string_omit vcn_DefaultRouteTableID vcn_DefaultRouteTableID_update,
     member ''defaultSecurityListId'' string_omit vcn_DefaultSecurityListID vcn_DefaultSecurityListID_update,
     member ''displayName'' string_omit vcn_DisplayName vcn_DisplayName_update,
     member ''dnsLabel'' string_omit vcn_DNSLabel vcn_DNSLabel_update,
     member ''id'' string_omit vcn_ID vcn_ID_update,
     member ''lifecycleState'' string_omit vcn_LifecycleState vcn_LifecycleState_update,
     member ''timeCreated'' string_omit vcn_TimeCreated vcn_TimeCreated_update,
     member ''vcnDomainName'' string_omit vcn_VcnDomainName vcn_VcnDomainName_update]"

definition VCNstruct_MarshalBinary :: "VCNstruct option \<Rightarrow> string \<times> error option" where
  "VCNstruct_MarshalBinary = MarshalBinary (struct_json VCNstruct_struct)"

definition VCNstruct_UnmarshalBinary :: "string \<Rightarrow> VCNstruct \<Rightarrow> VCNstruct \<times> error option" where
  "VCNstruct_UnmarshalBinary = UnmarshalBinary (struct_fields VCNstruct_struct) zeroVCNstruct"

record GetVCNsResponse =
  gvr_Ads :: "VCNstruct option list option"

definition zeroGetVCNsResponse :: GetVCNsResponse where
  "zeroGetVCNsResponse = \<lparr>gvr_Ads = None\<rparr>"

definition GetVCNsResponse_struct :: "GetVCNsResponse member list" where
  "GetVCNsResponse_struct = [
     member ''ads'' (struct_slice VCNstruct_struct zeroVCNstruct) gvr_Ads gvr_Ads_update]"

definition GetVCNsResponse_MarshalBinary :: "GetVCNsResponse option \<Rightarrow> string \<times> error option" where
  "GetVCNsResponse_MarshalBinary = MarshalBinary (struct_json GetVCNsResponse_struct)"

definition GetVCNsResponse_UnmarshalBinary :: "string \<Rightarrow> GetVCNsResponse \<Rightarrow> GetVCNsResponse \<times> error option" where
  "GetVCNsResponse_UnmarshalBinary = UnmarshalBinary (struct_fields GetVCNsResponse_struct) zeroGetVCNsResponse"

record WorkItemsListResponse =
  wil_WorkItems :: "WorkItem option list option"

definition zeroWorkItemsListResponse :: WorkItemsListResponse where
  "zeroWorkItemsListResponse = \<lparr>wil_WorkItems = None\<rparr>"

definition WorkItemsListResponse_struct :: "WorkItemsListResponse member list" where
  "WorkItemsListResponse_struct = [
     member ''workItems'' (struct_slice WorkItem_struct zeroWorkItem) wil_WorkItems wil_WorkItems_update]"

definition WorkItemsListResponse_MarshalBinary :: "WorkItemsListResponse option \<Rightarrow> string \<times> error option" where
  "WorkItemsListResponse_MarshalBinary m =
     (if pred_option (\<lambda>l. list_all (pred_option WorkItem_marshals) (the_list (wil_WorkItems l))) m
      then MarshalBinary (struct_json WorkItemsListResponse_struct) m else ([], Some year_error))"

definition WorkItemsListResponse_UnmarshalBinary ::
  "string \<Rightarrow> WorkItemsListResponse \<Rightarrow> WorkItemsListResponse \<times> error option" where
  "WorkItemsListResponse_UnmarshalBinary = UnmarshalBinary (struct_fields WorkItemsListResponse_struct) zeroWorkItemsListResponse"

section \<open>What is written is read back\<close>

interpretation ADstruct_codec: typed_struct ADstruct_struct zeroADstruct
  by unfold_locales (auto simp: struct_typing codec_types ADstruct_struct_def zeroADstruct_def simp del: codec_oks
    intro: codec_laws)

declare ADstruct_codec.ptr_law [codec_laws] ADstruct_codec.slice_law [codec_laws]
  ADstruct_codec.ptr_typed [codec_types] ADstruct_codec.slice_typed [codec_types]

interpretation AWSauthConfig_codec: typed_struct AWSauthConfig_struct zeroAWSauthConfig
  by unfold_locales (auto simp: struct_typing codec_types AWSauthConfig_struct_def zeroAWSauthConfig_def simp del: codec_oks
    intro: codec_laws)

declare AWSauthConfig_codec.ptr_law [codec_laws] AWSauthConfig_codec.slice_law [codec_laws]
  AWSauthConfig_codec.ptr_typed [codec_types] AWSauthConfig_codec.slice_typed [codec_types]

interpretation BMCauthConfig_codec: typed_struct BMCauthConfig_struct zeroBMCauthConfig
  by unfold_locales (auto simp: struct_typing codec_types BMCauthConfig_struct_def zeroBMCauthConfig_def simp del: codec_oks
    intro: codec_laws)

declare BMCauthConfig_codec.ptr_law [codec_laws] BMCauthConfig_codec.slice_law [codec_laws]
  BMCauthConfig_codec.ptr_typed [codec_types] BMCauthConfig_codec.slice_typed [codec_types]

interpretation AuthConfig_codec: typed_struct AuthConfig_struct zeroAuthConfig
  by unfold_locales (auto simp: struct_typing codec_types AuthConfig_struct_def zeroAuthConfig_def simp del: codec_oks
    intro: codec_laws)

declare AuthConfig_codec.ptr_law [codec_laws] AuthConfig_codec.slice_law [codec_laws]
  AuthConfig_codec.ptr_typed [codec_types] AuthConfig_codec.slice_typed [codec_types]

interpretation AuthConfigSecure_codec: typed_struct AuthConfigSecure_struct zeroAuthConfigSecure
  by unfold_locales (auto simp: struct_typing codec_types AuthConfigSecure_struct_def zeroAuthConfigSecure_def simp del: codec_oks
    intro: codec_laws)

declare AuthConfigSecure_codec.ptr_law [codec_laws] AuthConfigSecure_codec.slice_law [codec_laws]
  AuthConfigSecure_codec.ptr_typed [codec_types] AuthConfigSecure_codec.slice_typed [codec_types]

interpretation AuthConfigWithID_codec: typed_struct AuthConfigWithID_struct zeroAuthConfigWithID
  by unfold_locales (auto simp: struct_typing codec_types AuthConfigWithID_struct_def zeroAuthConfigWithID_def simp del: codec_oks
    intro: codec_laws)

declare AuthConfigWithID_codec.ptr_law [codec_laws] AuthConfigWithID_codec.slice_law [codec_laws]
  AuthConfigWithID_codec.ptr_typed [codec_types] AuthConfigWithID_codec.slice_typed [codec_types]

interpretation AuthConfigsListResponse_codec: typed_struct AuthConfigsListResponse_struct zeroAuthConfigsListResponse
  by unfold_locales (auto simp: struct_typing codec_types AuthConfigsListResponse_struct_def zeroAuthConfigsListResponse_def simp del: codec_oks
    intro: codec_laws)

declare AuthConfigsListResponse_codec.ptr_law [codec_laws] AuthConfigsListResponse_codec.slice_law [codec_laws]
  AuthConfigsListResponse_codec.ptr_typed [codec_types] AuthConfigsListResponse_codec.slice_typed [codec_types]

interpretation ClusterEndpoint_codec: typed_struct ClusterEndpoint_struct zeroClusterEndpoint
  by unfold_locales (auto simp: struct_typing codec_types ClusterEndpoint_struct_def zeroClusterEndpoint_def simp del: codec_oks
    intro: codec_laws)

declare ClusterEndpoint_codec.ptr_law [codec_laws] ClusterEndpoint_codec.slice_law [codec_laws]
  ClusterEndpoint_codec.ptr_typed [codec_types] ClusterEndpoint_codec.slice_typed [codec_types]

interpretation ClustersListResponse_codec: typed_struct ClustersListResponse_struct zeroClustersListResponse
  by unfold_locales (auto simp: struct_typing codec_types ClustersListResponse_struct_def zeroClustersListResponse_def simp del: codec_oks
    intro: codec_laws)

declare ClustersListResponse_codec.ptr_law [codec_laws] ClustersListResponse_codec.slice_law [codec_laws]
  ClustersListResponse_codec.ptr_typed [codec_types] ClustersListResponse_codec.slice_typed [codec_types]

interpretation Compartmentstruct_codec: typed_struct Compartmentstruct_struct zeroCompartmentstruct
  by unfold_locales (auto simp: struct_typing codec_types Compartmentstruct_struct_def zeroCompartmentstruct_def simp del: codec_oks
    intro: codec_laws)

declare Compartmentstruct_codec.ptr_law [codec_laws] Compartmentstruct_codec.slice_law [codec_laws]
  Compartmentstruct_codec.ptr_typed [codec_types] Compartmentstruct_codec.slice_typed [codec_types]

interpretation OkeError_codec: typed_struct OkeError_struct zeroOkeError
  by unfold_locales (auto simp: struct_typing codec_types OkeError_struct_def zeroOkeError_def simp del: codec_oks
    intro: codec_laws)

declare OkeError_codec.ptr_law [codec_laws] OkeError_codec.slice_law [codec_laws]
  OkeError_codec.ptr_typed [codec_types] OkeError_codec.slice_typed [codec_types]

interpretation GetADsRequest_codec: typed_struct GetADsRequest_struct zeroGetADsRequest
  by unfold_locales (auto simp: struct_typing codec_types GetADsRequest_struct_def zeroGetADsRequest_def simp del: codec_oks
    intro: codec_laws)

declare GetADsRequest_codec.ptr_law [codec_laws] GetADsRequest_codec.slice_law [codec_laws]
  GetADsRequest_codec.ptr_typed [codec_types] GetADsRequest_codec.slice_typed [codec_types]

interpretation GetADsResponse_codec: typed_struct GetADsResponse_struct zeroGetADsResponse
  by unfold_locales (auto simp: struct_typing codec_types GetADsResponse_struct_def zeroGetADsResponse_def simp del: codec_oks
    intro: codec_laws)

declare GetADsResponse_codec.ptr_law [codec_laws] GetADsResponse_codec.slice_law [codec_laws]
  GetADsResponse_codec.ptr_typed [codec_types] GetADsResponse_codec.slice_typed [codec_types]

interpretation GetCompartmentsRequest_codec: typed_struct GetCompartmentsRequest_struct zeroGetCompartmentsRequest
  by unfold_locales (auto simp: struct_typing codec_types GetCompartmentsRequest_struct_def zeroGetCompartmentsRequest_def simp del: codec_oks
    intro: codec_laws)

declare GetCompartmentsRequest_codec.ptr_law [codec_laws] GetCompartmentsRequest_codec.slice_law [codec_laws]
  GetCompartmentsRequest_codec.ptr_typed [codec_types] GetCompartmentsRequest_codec.slice_typed [codec_types]

interpretation GetCompartmentsResponse_codec: typed_struct GetCompartmentsResponse_struct zeroGetCompartmentsResponse
  by unfold_locales (auto simp: struct_typing codec_types GetCompartmentsResponse_struct_def zeroGetCompartmentsResponse_def simp del: codec_oks
    intro: codec_laws)

declare GetCompartmentsResponse_codec.ptr_law [codec_laws] GetCompartmentsResponse_codec.slice_law [codec_laws]
  GetCompartmentsResponse_codec.ptr_typed [codec_types] GetCompartmentsResponse_codec.slice_typed [codec_types]

interpretation GetSubnetsRequest_codec: typed_struct GetSubnetsRequest_struct zeroGetSubnetsRequest
  by unfold_locales (auto simp: struct_typing codec_types GetSubnetsRequest_struct_def zeroGetSubnetsRequest_def simp del: codec_oks
    intro: codec_laws)

declare GetSubnetsRequest_codec.ptr_law [codec_laws] GetSubnetsRequest_codec.slice_law [codec_laws]
  GetSubnetsRequest_codec.ptr_typed [codec_types] GetSubnetsRequest_codec.slice_typed [codec_types]

interpretation Subnetstruct_codec: typed_struct Subnetstruct_struct zeroSubnetstruct
  by unfold_locales (auto simp: struct_typing codec_types Subnetstruct_struct_def zeroSubnetstruct_def simp del: codec_oks
    intro: codec_laws)

declare Subnetstruct_codec.ptr_law [codec_laws] Subnetstruct_codec.slice_law [codec_laws]
  Subnetstruct_codec.ptr_typed [codec_types] Subnetstruct_codec.slice_typed [codec_types]

interpretation GetSubnetsResponse_codec: typed_struct GetSubnetsResponse_struct zeroGetSubnetsResponse
  by unfold_locales (auto simp: struct_typing codec_types GetSubnetsResponse_struct_def zeroGetSubnetsResponse_def simp del: codec_oks
    intro: codec_laws)

declare GetSubnetsResponse_codec.ptr_law [codec_laws] GetSubnetsResponse_codec.slice_law [codec_laws]
  GetSubnetsResponse_codec.ptr_typed [codec_types] GetSubnetsResponse_codec.slice_typed [codec_types]

interpretation GetVCNsRequest_codec: typed_struct GetVCNsRequest_struct zeroGetVCNsRequest
  by unfold_locales (auto simp: struct_typing codec_types GetVCNsRequest_struct_def zeroGetVCNsRequest_def simp del: codec_oks
    intro: codec_laws)

declare GetVCNsRequest_codec.ptr_law [codec_laws] GetVCNsRequest_codec.slice_law [codec_laws]
  GetVCNsRequest_codec.ptr_typed [codec_types] GetVCNsRequest_codec.slice_typed [codec_types]

interpretation VCNstruct_codec: typed_struct VCNstruct_struct zeroVCNstruct
  by unfold_locales (auto simp: struct_typing codec_types VCNstruct_struct_def zeroVCNstruct_def simp del: codec_oks
    intro: codec_laws)

declare VCNstruct_codec.ptr_law [codec_laws] VCNstruct_codec.slice_law [codec_laws]
  VCNstruct_codec.ptr_typed [codec_types] VCNstruct_codec.slice_typed [codec_types]

interpretation GetVCNsResponse_codec: typed_struct GetVCNsResponse_struct zeroGetVCNsResponse
  by unfold_locales (auto simp: struct_typing codec_types GetVCNsResponse_struct_def zeroGetVCNsResponse_def simp del: codec_oks
    intro: codec_laws)

declare GetVCNsResponse_codec.ptr_law [codec_laws] GetVCNsResponse_codec.slice_law [codec_laws]
  GetVCNsResponse_codec.ptr_typed [codec_types] GetVCNsResponse_codec.slice_typed [codec_types]

interpretation WorkItemsListResponse_codec: json_struct WorkItemsListResponse_struct zeroWorkItemsListResponse
  by unfold_locales (auto simp: WorkItemsListResponse_struct_def zeroWorkItemsListResponse_def intro: codec_laws)

lemma WorkItemsListResponse_read_back:
  assumes "struct_ok WorkItemsListResponse_struct m"
  shows "WorkItemsListResponse_UnmarshalBinary (fst (WorkItemsListResponse_MarshalBinary (Some m))) m0 = (m, None)"
proof -
  from assms have "list_all (pred_option WorkItem_marshals) (the_list (wil_WorkItems m))"
    by (cases "wil_WorkItems m")
      (auto simp: struct_ok_def WorkItemsListResponse_struct_def list_all_iff the_list_def WorkItem_ok_marshals
        split: option.split elim!: option.pred_mono_strong)
  with assms WorkItemsListResponse_codec.text_read_back show ?thesis
    by (simp add: WorkItemsListResponse_MarshalBinary_def WorkItemsListResponse_UnmarshalBinary_def)
qed

text \<open>The messages a caller of the service sends or receives as a whole.\<close>

lemmas message_methods =
  ClusterPools_MarshalBinary_def ClusterPools_UnmarshalBinary_def
  ClusterCreateRequest_MarshalBinary_def ClusterCreateRequest_UnmarshalBinary_def
  ClusterWorkItemResponse_MarshalBinary_def ClusterWorkItemResponse_UnmarshalBinary_def
  ClusterPoolsResponse_MarshalBinary_def ClusterPoolsResponse_UnmarshalBinary_def
  Cluster_MarshalBinary_def Cluster_UnmarshalBinary_def
  ClusterDetails_MarshalBinary_def ClusterDetails_UnmarshalBinary_def
  ClustersListResponse_MarshalBinary_def ClustersListResponse_UnmarshalBinary_def
  AuthConfigsListResponse_MarshalBinary_def AuthConfigsListResponse_UnmarshalBinary_def
  GetSubnetsResponse_MarshalBinary_def GetSubnetsResponse_UnmarshalBinary_def
  Error_MarshalBinary_def Error_UnmarshalBinary_def

lemmas messages_read_back =
  ClusterPools_codec.text_read_back
  ClusterCreateRequest_codec.text_read_back
  ClusterWorkItemResponse_codec.text_read_back
  ClusterPoolsResponse_codec.text_read_back
  OkeClusterState_codec.text_read_back
  ClusterDetails_codec.text_read_back
  ClustersListResponse_codec.text_read_back
  AuthConfigsListResponse_codec.text_read_back
  GetSubnetsResponse_codec.text_read_back
  OkeError_codec.text_read_back
  WorkItem_read_back
  WorkItemsListResponse_read_back

lemmas messages_ok =
  ClusterPools_codec.text_typed
  ClusterCreateRequest_codec.text_typed
  ClusterWorkItemResponse_codec.text_typed
  ClusterPoolsResponse_codec.text_typed
  OkeClusterState_codec.text_typed
  ClusterDetails_codec.text_typed
  ClustersListResponse_codec.text_typed
  AuthConfigsListResponse_codec.text_typed
  GetSubnetsResponse_codec.text_typed
  OkeError_codec.text_typed

lemmas messages_again =
  ClusterPools_codec.text_again
  ClusterCreateRequest_codec.text_again
  ClusterWorkItemResponse_codec.text_again
  ClusterPoolsResponse_codec.text_again
  OkeClusterState_codec.text_again
  ClusterDetails_codec.text_again
  ClustersListResponse_codec.text_again
  AuthConfigsListResponse_codec.text_again
  GetSubnetsResponse_codec.text_again
  OkeError_codec.text_again

end
