(* ===== verification/Validators.thy ===== *)
theory Validators
  imports Codec
begin

text \<open>
  The validation the generated models call: the errors of the \<open>go-openapi/errors\<close> package,
  the checks of \<open>go-openapi/validate\<close> and the three shapes of a \<open>Validate\<close> method, which
  checks a nested struct, a slice of them, or collects the errors of its fields.

  The locale \<open>composite_validator\<close> is what a validator of a nested struct promises, that its
  errors are collections. From it: the branch of the callers that names a single error never
  runs, and a slice is valid exactly when all its elements are.
\<close>

section \<open>Errors\<close>

text \<open>The offending value kept in an error, which no code reads, is left out.\<close>

record validation =
  val_code :: int
  val_Name :: string
  val_In :: string
  val_message :: string

datatype verror = Validation validation | CompositeError "verror list"

definition RequiredFailCode :: int where "RequiredFailCode = 602"
definition EnumFailCode :: int where "EnumFailCode = 606"
definition MaxFailCode :: int where "MaxFailCode = 608"
definition MinFailCode :: int where "MinFailCode = 609"

definition fail_message :: "string \<Rightarrow> string \<Rightarrow> string \<Rightarrow> string" where
  "fail_message name location what = (if location = [] then name @ '' '' @ what else name @ '' in '' @ location @ '' '' @ what)"

definition Required_error :: "string \<Rightarrow> string \<Rightarrow> validation" where
  "Required_error name location = \<lparr>val_code = RequiredFailCode, val_Name = name, val_In = location,
     val_message = fail_message name location ''is required''\<rparr>"

definition EnumFail :: "string \<Rightarrow> string \<Rightarrow> string list \<Rightarrow> validation" where
  "EnumFail name location values = \<lparr>val_code = EnumFailCode, val_Name = name, val_In = location,
     val_message = fail_message name location (''should be one of ['' @ Join values '' '' @ '']'')\<rparr>"

definition ExceedsMaximumInt :: "string \<Rightarrow> string \<Rightarrow> int \<Rightarrow> bool \<Rightarrow> validation" where
  "ExceedsMaximumInt name location mx exclusive = \<lparr>val_code = MaxFailCode, val_Name = name, val_In = location,
     val_message = fail_message name location ((if exclusive then ''should be less than '' else ''should be less than or equal to '') @ Itoa mx)\<rparr>"

definition ExceedsMinimumInt :: "string \<Rightarrow> string \<Rightarrow> int \<Rightarrow> bool \<Rightarrow> validation" where
  "ExceedsMinimumInt name location mn exclusive = \<lparr>val_code = MinFailCode, val_Name = name, val_In = location,
     val_message = fail_message name location ((if exclusive then ''should be greater than '' else ''should be greater than or equal to '') @ Itoa mn)\<rparr>"

definition ValidateName :: "string \<Rightarrow> validation \<Rightarrow> validation" where
  "ValidateName name e =
     (if val_Name e = [] \<and> name \<noteq> [] then e\<lparr>val_Name := name, val_message := name @ val_message e\<rparr> else e)"

section \<open>Checks\<close>

definition Enum :: "string \<Rightarrow> string \<Rightarrow> string \<Rightarrow> string list \<Rightarrow> verror option" where
  "Enum path location data enum = (if data \<in> set enum then None else Some (Validation (EnumFail path location enum)))"

definition Required :: "string \<Rightarrow> string \<Rightarrow> 'a option \<Rightarrow> verror option" where
  "Required path location data = (if data = None then Some (Validation (Required_error path location)) else None)"

definition MinimumInt :: "string \<Rightarrow> string \<Rightarrow> int \<Rightarrow> int \<Rightarrow> bool \<Rightarrow> verror option" where
  "MinimumInt path location data mn exclusive =
     (if (\<not> exclusive \<and> data < mn) \<or> (exclusive \<and> data \<le> mn) then Some (Validation (ExceedsMinimumInt path location mn exclusive))
      else None)"

definition MaximumInt :: "string \<Rightarrow> string \<Rightarrow> int \<Rightarrow> int \<Rightarrow> bool \<Rightarrow> verror option" where
  "MaximumInt path location data mx exclusive =
     (if (\<not> exclusive \<and> data > mx) \<or> (exclusive \<and> data \<ge> mx) then Some (Validation (ExceedsMaximumInt path location mx exclusive))
      else None)"

section \<open>The shapes of a validator\<close>

text \<open>The error of a nested value: a single error gets the name of the field.\<close>

definition named_error :: "string \<Rightarrow> verror \<Rightarrow> verror" where
  "named_error name err = (case err of Validation ve \<Rightarrow> Validation (ValidateName name ve) | CompositeError es \<Rightarrow> err)"

definition validate_ptr :: "string \<Rightarrow> ('m \<Rightarrow> verror option) \<Rightarrow> 'm option \<Rightarrow> verror option" where
  "validate_ptr name V p = (case p of None \<Rightarrow> None | Some m \<Rightarrow> map_option (named_error name) (V m))"

fun validate_elems :: "string \<Rightarrow> ('m \<Rightarrow> verror option) \<Rightarrow> nat \<Rightarrow> 'm option list \<Rightarrow> verror option" where
  "validate_elems name V i [] = None"
| "validate_elems name V i (p # ps) =
     (case validate_ptr (name @ ''.'' @ Itoa (int i)) V p of
        Some err \<Rightarrow> Some err
      | None \<Rightarrow> validate_elems name V (Suc i) ps)"

definition validate_slice :: "string \<Rightarrow> ('m \<Rightarrow> verror option) \<Rightarrow> 'm option list option \<Rightarrow> verror option" where
  "validate_slice name V xs = (case xs of None \<Rightarrow> None | Some ps \<Rightarrow> validate_elems name V 0 ps)"

text \<open>A field with a set of values, which may be empty.\<close>

definition validate_enum :: "(string \<Rightarrow> string \<Rightarrow> string \<Rightarrow> verror option) \<Rightarrow> string \<Rightarrow> string \<Rightarrow> verror option" where
  "validate_enum check name val = (if val = [] then None else check name ''body'' val)"

definition validate_range :: "string \<Rightarrow> int \<Rightarrow> int \<Rightarrow> int32 option \<Rightarrow> verror option" where
  "validate_range name mn mx p = (case p of
      None \<Rightarrow> None
    | Some n \<Rightarrow> (case MinimumInt name ''body'' (sint n) mn False of
          Some err \<Rightarrow> Some err
        | None \<Rightarrow> MaximumInt name ''body'' (sint n) mx False))"

definition collect :: "verror option list \<Rightarrow> verror option" where
  "collect checks = (let res = concat (map (\<lambda>r. case r of None \<Rightarrow> [] | Some err \<Rightarrow> [err]) checks) in
     if length res > 0 then Some (CompositeError res) else None)"

section \<open>Facts\<close>

lemma validate_enum_None: "validate_enum (\<lambda>p l v. Enum p l v vs) name x = None \<longleftrightarrow> x = [] \<or> x \<in> set vs"
  by (simp add: validate_enum_def Enum_def)

lemma validate_range_None: "validate_range name mn mx p = None \<longleftrightarrow> pred_option (\<lambda>n. mn \<le> sint n \<and> sint n \<le> mx) p"
  by (auto simp: validate_range_def MinimumInt_def MaximumInt_def split: option.splits)

lemma Required_None: "Required path location p = None \<longleftrightarrow> p \<noteq> None"
  by (simp add: Required_def)

lemma collect_None: "collect rs = None \<longleftrightarrow> (\<forall>r \<in> set rs. r = None)"
  by (auto simp: collect_def Let_def split: option.splits)

text \<open>The errors are those of the fields, in the order of the checks.\<close>

lemma collect_Some: "collect rs = Some err \<Longrightarrow> err = CompositeError (map the (filter (\<lambda>r. r \<noteq> None) rs)) \<and> (\<exists>r \<in> set rs. r \<noteq> None)"
proof -
  have "concat (map (\<lambda>r. case r of None \<Rightarrow> [] | Some err \<Rightarrow> [err]) rs) = map the (filter (\<lambda>r. r \<noteq> None) rs)"
    by (induction rs) (auto split: option.split)
  then show "collect rs = Some err \<Longrightarrow> ?thesis"
    by (auto simp: collect_def Let_def filter_empty_conv split: if_splits)
qed

lemma collect_composite: "collect rs = Some err \<Longrightarrow> \<exists>es. es \<noteq> [] \<and> err = CompositeError es"
  using collect_Some [of rs err] by (auto simp: filter_empty_conv)

lemmas validate_None = validate_enum_None validate_range_None Required_None collect_None

locale composite_validator =
  fixes V :: "'m \<Rightarrow> verror option"
  assumes composite: "V m = Some err \<Longrightarrow> \<exists>es. es \<noteq> [] \<and> err = CompositeError es"
begin

lemma ptr_unnamed: "validate_ptr name V p = Option.bind p V"
  by (cases p; cases "V (the p)") (auto simp: validate_ptr_def named_error_def dest!: composite)

lemma elems_unnamed: "validate_elems name V i ps = Option.bind (find (\<lambda>p. Option.bind p V \<noteq> None) ps) (\<lambda>p. Option.bind p V)"
  by (induction ps arbitrary: i) (auto simp: ptr_unnamed split: option.split)

lemma slice_unnamed:
  "validate_slice name V xs = Option.bind (find (\<lambda>p. Option.bind p V \<noteq> None) (the_list xs)) (\<lambda>p. Option.bind p V)"
  by (cases xs) (simp_all add: validate_slice_def elems_unnamed the_list_def)

lemma ptr_None: "validate_ptr name V p = None \<longleftrightarrow> pred_option (\<lambda>m. V m = None) p"
  by (cases p) (simp_all add: ptr_unnamed)

lemma slice_None: "validate_slice name V xs = None \<longleftrightarrow> (\<forall>m. Some m \<in> set (the_list xs) \<longrightarrow> V m = None)"
proof -
  have "find (\<lambda>p. Option.bind p V \<noteq> None) (the_list xs) = Some p \<Longrightarrow> Option.bind p V \<noteq> None" for p
    by (auto simp: find_Some_iff)
  then have "validate_slice name V xs = None \<longleftrightarrow> find (\<lambda>p. Option.bind p V \<noteq> None) (the_list xs) = None"
    unfolding slice_unnamed by (cases "find (\<lambda>p. Option.bind p V \<noteq> None) (the_list xs)") auto
  also have "\<dots> \<longleftrightarrow> (\<forall>m. Some m \<in> set (the_list xs) \<longrightarrow> V m = None)"
    by (auto simp: find_None_iff bind_eq_Some_conv)
  finally show ?thesis .
qed

end

end
