(* ===== verification/OkeValidate.thy ===== *)
theory OkeValidate
  imports OkeCatalog Validators
begin

text \<open>
  The \<open>Validate\<close> methods of the OKE models, with the sets of values they check against and
  the constants declared beside them. The methods ignore the registry of string formats
  they are given. Nothing in the program calls them: the provider takes what it decodes.

  The facts say exactly which values are valid.
\<close>

definition AdDetails_Validate :: "AdDetails \<Rightarrow> verror option" where
  "AdDetails_Validate m = collect []"

definition Pool_validateAds :: "Pool \<Rightarrow> verror option" where
  "Pool_validateAds m = validate_slice ''ads'' AdDetails_Validate (pool_Ads m)"

definition Pool_Validate :: "Pool \<Rightarrow> verror option" where
  "Pool_Validate m = collect [Pool_validateAds m]"

definition BMCClusterConfig_validatePools :: "BMCClusterConfig \<Rightarrow> verror option" where
  "BMCClusterConfig_validatePools m = validate_slice ''pools'' Pool_Validate (bmc_Pools m)"

definition BMCClusterConfig_Validate :: "BMCClusterConfig \<Rightarrow> verror option" where
  "BMCClusterConfig_Validate m = collect [BMCClusterConfig_validatePools m]"

definition clusterCreateRequestTypeLbTypePropEnum :: "string list" where
  "clusterCreateRequestTypeLbTypePropEnum = [''node-port'', ''external'']"

definition ClusterCreateRequestLbTypeNodePort :: string where "ClusterCreateRequestLbTypeNodePort = ''node-port''"
definition ClusterCreateRequestLbTypeExternal :: string where "ClusterCreateRequestLbTypeExternal = ''external''"

definition ClusterCreateRequestLbType_constants :: "string list" where
  "ClusterCreateRequestLbType_constants = [ClusterCreateRequestLbTypeNodePort, ClusterCreateRequestLbTypeExternal]"

definition ClusterCreateRequest_validateLbTypeEnum :: "string \<Rightarrow> string \<Rightarrow> string \<Rightarrow> verror option" where
    "ClusterCreateRequest_validateLbTypeEnum path location val = Enum path location val
     clusterCreateRequestTypeLbTypePropEnum"

definition ClusterCreateRequest_validateBmcClusterConfig :: "ClusterCreateRequest \<Rightarrow> verror option" where
    "ClusterCreateRequest_validateBmcClusterConfig m = validate_ptr ''bmcClusterConfig'' BMCClusterConfig_Validate
     (ccr_BmcClusterConfig m)"

definition ClusterCreateRequest_validateLbType :: "ClusterCreateRequest \<Rightarrow> verror option" where
    "ClusterCreateRequest_validateLbType m = validate_enum ClusterCreateRequest_validateLbTypeEnum ''lbType''
     (ccr_LbType m)"

definition ClusterCreateRequest_Validate :: "ClusterCreateRequest \<Rightarrow> verror option" where
    "ClusterCreateRequest_Validate m = collect [ClusterCreateRequest_validateBmcClusterConfig m,
     ClusterCreateRequest_validateLbType m]"

definition ClusterWorkItemResponse_Validate :: "ClusterWorkItemResponse \<Rightarrow> verror option" where
  "ClusterWorkItemResponse_Validate m = collect []"

definition ClusterPools_validatePools :: "ClusterPools \<Rightarrow> verror option" where
  "ClusterPools_validatePools m = validate_slice ''pools'' Pool_Validate (cp_Pools m)"

definition ClusterPools_Validate :: "ClusterPools \<Rightarrow> verror option" where
  "ClusterPools_Validate m = collect [ClusterPools_validatePools m]"

definition ClusterPoolsResponse_validatePools :: "ClusterPoolsResponse \<Rightarrow> verror option" where
  "ClusterPoolsResponse_validatePools m = validate_slice ''pools'' Pool_Validate (cpr_Pools m)"

definition ClusterPoolsResponse_Validate :: "ClusterPoolsResponse \<Rightarrow> verror option" where
  "ClusterPoolsResponse_Validate m = collect [ClusterPoolsResponse_validatePools m]"

definition workItemTypeStatusStringPropEnum :: "string list" where
  "workItemTypeStatusStringPropEnum = [''New'', ''Running'', ''Complete'', ''Failed'']"

definition WorkItemStatusStringNew :: string where "WorkItemStatusStringNew = ''New''"
definition WorkItemStatusStringRunning :: string where "WorkItemStatusStringRunning = ''Running''"
definition WorkItemStatusStringComplete :: string where "WorkItemStatusStringComplete = ''Complete''"
definition WorkItemStatusStringFailed :: string where "WorkItemStatusStringFailed = ''Failed''"

definition WorkItemStatusString_constants :: "string list" where
    "WorkItemStatusString_constants = [WorkItemStatusStringNew, WorkItemStatusStringRunning,
     WorkItemStatusStringComplete, WorkItemStatusStringFailed]"

definition WorkItem_validateStatusStringEnum :: "string \<Rightarrow> string \<Rightarrow> string \<Rightarrow> verror option" where
  "WorkItem_validateStatusStringEnum path location val = Enum path location val workItemTypeStatusStringPropEnum"

definition WorkItem_validateStatus :: "WorkItem \<Rightarrow> verror option" where
  "WorkItem_validateStatus m = validate_range ''status'' 0 3 (wi_Status m)"

definition WorkItem_validateStatusString :: "WorkItem \<Rightarrow> verror option" where
    "WorkItem_validateStatusString m = validate_enum WorkItem_validateStatusStringEnum ''statusString''
     (wi_StatusString m)"

definition WorkItem_validateType :: "WorkItem \<Rightarrow> verror option" where
  "WorkItem_validateType m = validate_range ''type'' 0 2 (wi_Type m)"

definition WorkItem_Validate :: "WorkItem \<Rightarrow> verror option" where
    "WorkItem_Validate m = collect [WorkItem_validateStatus m, WorkItem_validateStatusString m,
     WorkItem_validateType m]"

text \<open>The list of activities has nothing to check.\<close>

definition Actarray_Validate :: "Activity list \<Rightarrow> verror option" where
  "Actarray_Validate m = collect []"

definition cloudDetailsBmcTypeLbTypePropEnum :: "string list" where
  "cloudDetailsBmcTypeLbTypePropEnum = [''node-port'', ''external'']"

definition CloudDetailsBmcLbTypeNodePort :: string where "CloudDetailsBmcLbTypeNodePort = ''node-port''"
definition CloudDetailsBmcLbTypeExternal :: string where "CloudDetailsBmcLbTypeExternal = ''external''"

definition CloudDetailsBmcLbType_constants :: "string list" where
  "CloudDetailsBmcLbType_constants = [CloudDetailsBmcLbTypeNodePort, CloudDetailsBmcLbTypeExternal]"

definition CloudDetailsBmc_validateLbTypeEnum :: "string \<Rightarrow> string \<Rightarrow> string \<Rightarrow> verror option" where
  "CloudDetailsBmc_validateLbTypeEnum path location val = Enum path location val cloudDetailsBmcTypeLbTypePropEnum"

definition CloudDetailsBmc_validateLbType :: "CloudDetailsBmc \<Rightarrow> verror option" where
  "CloudDetailsBmc_validateLbType m = validate_enum CloudDetailsBmc_validateLbTypeEnum ''bmc.lbType'' (cdb_LbType m)"

definition CloudDetailsBmc_Validate :: "CloudDetailsBmc \<Rightarrow> verror option" where
  "CloudDetailsBmc_Validate m = collect [CloudDetailsBmc_validateLbType m]"

definition CloudDetails_validateBmc :: "CloudDetails \<Rightarrow> verror option" where
  "CloudDetails_validateBmc m = validate_ptr ''bmc'' CloudDetailsBmc_Validate (cd_Bmc m)"

definition CloudDetails_Validate :: "CloudDetails \<Rightarrow> verror option" where
  "CloudDetails_Validate m = collect [CloudDetails_validateBmc m]"

definition ClusterMetadata_Validate :: "ClusterMetadata \<Rightarrow> verror option" where
  "ClusterMetadata_Validate m = collect []"

definition StateDetailsNodesRollup_Validate :: "StateDetailsNodesRollup \<Rightarrow> verror option" where
  "StateDetailsNodesRollup_Validate m = collect []"

definition StateDetailsTkwRollup_Validate :: "StateDetailsTkwRollup \<Rightarrow> verror option" where
  "StateDetailsTkwRollup_Validate m = collect []"

definition StateDetails_validateNodesRollup :: "StateDetails \<Rightarrow> verror option" where
    "StateDetails_validateNodesRollup m = validate_ptr ''nodesRollup'' StateDetailsNodesRollup_Validate
     (sd_NodesRollup m)"

definition StateDetails_validateTkwRollup :: "StateDetails \<Rightarrow> verror option" where
  "StateDetails_validateTkwRollup m = validate_ptr ''tkwRollup'' StateDetailsTkwRollup_Validate (sd_TkwRollup m)"

definition StateDetails_Validate :: "StateDetails \<Rightarrow> verror option" where
  "StateDetails_Validate m = collect [StateDetails_validateNodesRollup m, StateDetails_validateTkwRollup m]"

definition clusterTypeMastersStatePropEnum :: "string list" where
    "clusterTypeMastersStatePropEnum = [''PendingState'', ''Running'', ''Succeeded'', ''Failed'', ''Unknown'',
     ''Terminating'', ''Terminated'']"

definition ClusterMastersStatePENDINGSTATE :: string where "ClusterMastersStatePENDINGSTATE = ''PENDINGSTATE''"
definition ClusterMastersStateRUNNING :: string where "ClusterMastersStateRUNNING = ''RUNNING''"
definition ClusterMastersStateSUCCEEDED :: string where "ClusterMastersStateSUCCEEDED = ''SUCCEEDED''"
definition ClusterMastersStateFAILED :: string where "ClusterMastersStateFAILED = ''FAILED''"
definition ClusterMastersStateUNKNOWN :: string where "ClusterMastersStateUNKNOWN = ''UNKNOWN''"
definition ClusterMastersStateTERMINATING :: string where "ClusterMastersStateTERMINATING = ''TERMINATING''"
definition ClusterMastersStateTERMINATED :: string where "ClusterMastersStateTERMINATED = ''TERMINATED''"

definition ClusterMastersState_constants :: "string list" where
    "ClusterMastersState_constants = [ClusterMastersStatePENDINGSTATE, ClusterMastersStateRUNNING,
     ClusterMastersStateSUCCEEDED, ClusterMastersStateFAILED, ClusterMastersStateUNKNOWN,
     ClusterMastersStateTERMINATING, ClusterMastersStateTERMINATED]"

definition Cluster_validateMastersStateEnum :: "string \<Rightarrow> string \<Rightarrow> string \<Rightarrow> verror option" where
  "Cluster_validateMastersStateEnum path location val = Enum path location val clusterTypeMastersStatePropEnum"

definition clusterTypeNodesStatePropEnum :: "string list" where
    "clusterTypeNodesStatePropEnum = [''INITIALIZING'', ''PROVISIONING'', ''RUNNING'', ''TERMINATING'',
     ''TERMINATED'', ''FAILING'']"

definition ClusterNodesStateINITIALIZING :: string where "ClusterNodesStateINITIALIZING = ''INITIALIZING''"
definition ClusterNodesStatePROVISIONING :: string where "ClusterNodesStatePROVISIONING = ''PROVISIONING''"
definition ClusterNodesStateRUNNING :: string where "ClusterNodesStateRUNNING = ''RUNNING''"
definition ClusterNodesStateTERMINATING :: string where "ClusterNodesStateTERMINATING = ''TERMINATING''"
definition ClusterNodesStateTERMINATED :: string where "ClusterNodesStateTERMINATED = ''TERMINATED''"
definition ClusterNodesStateFAILING :: string where "ClusterNodesStateFAILING = ''FAILING''"

definition ClusterNodesState_constants :: "string list" where
    "ClusterNodesState_constants = [ClusterNodesStateINITIALIZING, ClusterNodesStatePROVISIONING,
     ClusterNodesStateRUNNING, ClusterNodesStateTERMINATING, ClusterNodesStateTERMINATED, ClusterNodesStateFAILING]"

definition Cluster_validateNodesStateEnum :: "string \<Rightarrow> string \<Rightarrow> string \<Rightarrow> verror option" where
  "Cluster_validateNodesStateEnum path location val = Enum path location val clusterTypeNodesStatePropEnum"

definition clusterTypeStatePropEnum :: "string list" where
    "clusterTypeStatePropEnum = [''INITIALIZING'', ''PROVISIONING'', ''RUNNING'', ''TERMINATING'', ''TERMINATED'',
     ''FAILING'']"

definition ClusterStateINITIALIZING :: string where "ClusterStateINITIALIZING = ''INITIALIZING''"
definition ClusterStatePROVISIONING :: string where "ClusterStatePROVISIONING = ''PROVISIONING''"
definition ClusterStateRUNNING :: string where "ClusterStateRUNNING = ''RUNNING''"
definition ClusterStateTERMINATING :: string where "ClusterStateTERMINATING = ''TERMINATING''"
definition ClusterStateTERMINATED :: string where "ClusterStateTERMINATED = ''TERMINATED''"
definition ClusterStateFAILING :: string where "ClusterStateFAILING = ''FAILING''"

definition ClusterState_constants :: "string list" where
    "ClusterState_constants = [ClusterStateINITIALIZING, ClusterStatePROVISIONING, ClusterStateRUNNING,
     ClusterStateTERMINATING, ClusterStateTERMINATED, ClusterStateFAILING]"

definition Cluster_validateStateEnum :: "string \<Rightarrow> string \<Rightarrow> string \<Rightarrow> verror option" where
  "Cluster_validateStateEnum path location val = Enum path location val clusterTypeStatePropEnum"

definition clusterTypeTkmStatePropEnum :: "string list" where
    "clusterTypeTkmStatePropEnum = [''PendingState'', ''Running'', ''Succeeded'', ''Failed'', ''Unknown'',
     ''Terminating'', ''Terminated'']"

definition ClusterTkmStatePendingState :: string where "ClusterTkmStatePendingState = ''PendingState''"
definition ClusterTkmStateRunning :: string where "ClusterTkmStateRunning = ''Running''"
definition ClusterTkmStateSucceeded :: string where "ClusterTkmStateSucceeded = ''Succeeded''"
definition ClusterTkmStateFailed :: string where "ClusterTkmStateFailed = ''Failed''"
definition ClusterTkmStateUnknown :: string where "ClusterTkmStateUnknown = ''Unknown''"
definition ClusterTkmStateTerminating :: string where "ClusterTkmStateTerminating = ''Terminating''"
definition ClusterTkmStateTerminated :: string where "ClusterTkmStateTerminated = ''Terminated''"

definition ClusterTkmState_constants :: "string list" where
    "ClusterTkmState_constants = [ClusterTkmStatePendingState, ClusterTkmStateRunning, ClusterTkmStateSucceeded,
     ClusterTkmStateFailed, ClusterTkmStateUnknown, ClusterTkmStateTerminating, ClusterTkmStateTerminated]"

definition Cluster_validateTkmStateEnum :: "string \<Rightarrow> string \<Rightarrow> string \<Rightarrow> verror option" where
  "Cluster_validateTkmStateEnum path location val = Enum path location val clusterTypeTkmStatePropEnum"

definition clusterTypeTkwStatePropEnum :: "string list" where
    "clusterTypeTkwStatePropEnum = [''INITIALIZING'', ''PROVISIONING'', ''RUNNING'', ''TERMINATING'',
     ''TERMINATED'', ''FAILING'']"

definition ClusterTkwStateINITIALIZING :: string where "ClusterTkwStateINITIALIZING = ''INITIALIZING''"
definition ClusterTkwStatePROVISIONING :: string where "ClusterTkwStatePROVISIONING = ''PROVISIONING''"
definition ClusterTkwStateRUNNING :: string where "ClusterTkwStateRUNNING = ''RUNNING''"
definition ClusterTkwStateTERMINATING :: string where "ClusterTkwStateTERMINATING = ''TERMINATING''"
definition ClusterTkwStateTERMINATED :: string where "ClusterTkwStateTERMINATED = ''TERMINATED''"
definition ClusterTkwStateFAILING :: string where "ClusterTkwStateFAILING = ''FAILING''"

definition ClusterTkwState_constants :: "string list" where
    "ClusterTkwState_constants = [ClusterTkwStateINITIALIZING, ClusterTkwStatePROVISIONING, ClusterTkwStateRUNNING,
     ClusterTkwStateTERMINATING, ClusterTkwStateTERMINATED, ClusterTkwStateFAILING]"

definition Cluster_validateTkwStateEnum :: "string \<Rightarrow> string \<Rightarrow> string \<Rightarrow> verror option" where
  "Cluster_validateTkwStateEnum path location val = Enum path location val clusterTypeTkwStatePropEnum"

definition Cluster_validateBmcClusterConfig :: "OkeClusterState \<Rightarrow> verror option" where
    "Cluster_validateBmcClusterConfig m = validate_ptr ''bmcClusterConfig'' BMCClusterConfig_Validate
     (okc_BmcClusterConfig m)"

definition Cluster_validateCloudDetails :: "OkeClusterState \<Rightarrow> verror option" where
  "Cluster_validateCloudDetails m = validate_ptr ''cloudDetails'' CloudDetails_Validate (okc_CloudDetails m)"

definition Cluster_validateEndpoints :: "OkeClusterState \<Rightarrow> verror option" where
  "Cluster_validateEndpoints m = None"

definition Cluster_validateMastersState :: "OkeClusterState \<Rightarrow> verror option" where
    "Cluster_validateMastersState m = validate_enum Cluster_validateMastersStateEnum ''mastersState''
     (okc_MastersState m)"

definition Cluster_validateMetadata :: "OkeClusterState \<Rightarrow> verror option" where
  "Cluster_validateMetadata m = validate_ptr ''metadata'' ClusterMetadata_Validate (okc_Metadata m)"

definition Cluster_validateNodesState :: "OkeClusterState \<Rightarrow> verror option" where
  "Cluster_validateNodesState m = validate_enum Cluster_validateNodesStateEnum ''nodesState'' (okc_NodesState m)"

definition Cluster_validateState :: "OkeClusterState \<Rightarrow> verror option" where
  "Cluster_validateState m = validate_enum Cluster_validateStateEnum ''state'' (okc_State m)"

definition Cluster_validateStateDetails :: "OkeClusterState \<Rightarrow> verror option" where
  "Cluster_validateStateDetails m = validate_ptr ''stateDetails'' StateDetails_Validate (okc_StateDetails m)"

definition Cluster_validateTkmState :: "OkeClusterState \<Rightarrow> verror option" where
  "Cluster_validateTkmState m = validate_enum Cluster_validateTkmStateEnum ''tkmState'' (okc_TkmState m)"

definition Cluster_validateTkwState :: "OkeClusterState \<Rightarrow> verror option" where
  "Cluster_validateTkwState m = validate_enum Cluster_validateTkwStateEnum ''tkwState'' (okc_TkwState m)"

definition Cluster_Validate :: "OkeClusterState \<Rightarrow> verror option" where
    "Cluster_Validate m = collect [Cluster_validateBmcClusterConfig m, Cluster_validateCloudDetails m,
     Cluster_validateEndpoints m, Cluster_validateMastersState m, Cluster_validateMetadata m,
     Cluster_validateNodesState m, Cluster_validateState m, Cluster_validateStateDetails m, Cluster_validateTkmState
     m, Cluster_validateTkwState m]"

definition WorkerErrors_Validate :: "WorkerErrors \<Rightarrow> verror option" where
  "WorkerErrors_Validate m = collect []"

definition workerDetailsTypeBmcLifecycleStatePropEnum :: "string list" where
    "workerDetailsTypeBmcLifecycleStatePropEnum = [''PROVISIONING'', ''RUNNING'', ''TERMINATING'', ''TERMINATED'',
     ''DELETED'']"

definition WorkerDetailsBmcLifecycleStatePROVISIONING :: string where "WorkerDetailsBmcLifecycleStatePROVISIONING = ''PROVISIONING''"
definition WorkerDetailsBmcLifecycleStateRUNNING :: string where "WorkerDetailsBmcLifecycleStateRUNNING = ''RUNNING''"
definition WorkerDetailsBmcLifecycleStateTERMINATING :: string where "WorkerDetailsBmcLifecycleStateTERMINATING = ''TERMINATING''"
definition WorkerDetailsBmcLifecycleStateTERMINATED :: string where "WorkerDetailsBmcLifecycleStateTERMINATED = ''TERMINATED''"
definition WorkerDetailsBmcLifecycleStateDELETED :: string where "WorkerDetailsBmcLifecycleStateDELETED = ''DELETED''"

definition WorkerDetailsBmcLifecycleState_constants :: "string list" where
    "WorkerDetailsBmcLifecycleState_constants = [WorkerDetailsBmcLifecycleStatePROVISIONING,
     WorkerDetailsBmcLifecycleStateRUNNING, WorkerDetailsBmcLifecycleStateTERMINATING,
     WorkerDetailsBmcLifecycleStateTERMINATED, WorkerDetailsBmcLifecycleStateDELETED]"

definition WorkerDetails_validateBmcLifecycleStateEnum :: "string \<Rightarrow> string \<Rightarrow> string \<Rightarrow> verror option" where
    "WorkerDetails_validateBmcLifecycleStateEnum path location val = Enum path location val
     workerDetailsTypeBmcLifecycleStatePropEnum"

definition WorkerDetails_validateBmcLifecycleState :: "WorkerDetails \<Rightarrow> verror option" where
    "WorkerDetails_validateBmcLifecycleState m = validate_enum WorkerDetails_validateBmcLifecycleStateEnum
     ''bmcLifecycleState'' (wd_BmcLifecycleState m)"

definition WorkerDetails_validateError :: "WorkerDetails \<Rightarrow> verror option" where
  "WorkerDetails_validateError m = validate_ptr ''error'' WorkerErrors_Validate (wd_Error m)"

definition WorkerDetails_Validate :: "WorkerDetails \<Rightarrow> verror option" where
  "WorkerDetails_Validate m = collect [WorkerDetails_validateBmcLifecycleState m, WorkerDetails_validateError m]"

definition ClusterDetails_validateK8 :: "ClusterDetails \<Rightarrow> verror option" where
  "ClusterDetails_validateK8 m = validate_ptr ''k8'' Cluster_Validate (cds_K8 m)"

definition ClusterDetails_validateWorkers :: "ClusterDetails \<Rightarrow> verror option" where
  "ClusterDetails_validateWorkers m = validate_slice ''workers'' WorkerDetails_Validate (cds_Workers m)"

definition ClusterDetails_Validate :: "ClusterDetails \<Rightarrow> verror option" where
  "ClusterDetails_Validate m = collect [ClusterDetails_validateK8 m, ClusterDetails_validateWorkers m]"

definition ADstruct_Validate :: "ADstruct \<Rightarrow> verror option" where
  "ADstruct_Validate m = collect []"

definition AWSauthConfig_Validate :: "AWSauthConfig \<Rightarrow> verror option" where
  "AWSauthConfig_Validate m = collect []"

definition BMCauthConfig_Validate :: "BMCauthConfig \<Rightarrow> verror option" where
  "BMCauthConfig_Validate m = collect []"

definition AuthConfig_validateAws :: "AuthConfig \<Rightarrow> verror option" where
  "AuthConfig_validateAws m = validate_ptr ''aws'' AWSauthConfig_Validate (auc_Aws m)"

definition AuthConfig_validateBmc :: "AuthConfig \<Rightarrow> verror option" where
  "AuthConfig_validateBmc m = validate_ptr ''bmc'' BMCauthConfig_Validate (auc_Bmc m)"

definition AuthConfig_Validate :: "AuthConfig \<Rightarrow> verror option" where
  "AuthConfig_Validate m = collect [AuthConfig_validateAws m, AuthConfig_validateBmc m]"

definition AuthConfigSecure_Validate :: "AuthConfigSecure \<Rightarrow> verror option" where
  "AuthConfigSecure_Validate m = collect []"

definition AuthConfigWithID_validateAws :: "AuthConfigWithID \<Rightarrow> verror option" where
  "AuthConfigWithID_validateAws m = validate_ptr ''aws'' AWSauthConfig_Validate (aci_Aws m)"

definition AuthConfigWithID_validateBmc :: "AuthConfigWithID \<Rightarrow> verror option" where
  "AuthConfigWithID_validateBmc m = validate_ptr ''bmc'' BMCauthConfig_Validate (aci_Bmc m)"

definition AuthConfigWithID_Validate :: "AuthConfigWithID \<Rightarrow> verror option" where
  "AuthConfigWithID_Validate m = collect [AuthConfigWithID_validateAws m, AuthConfigWithID_validateBmc m]"

definition AuthConfigsListResponse_validateAuthConfigs :: "AuthConfigsListResponse \<Rightarrow> verror option" where
    "AuthConfigsListResponse_validateAuthConfigs m = validate_slice ''authConfigs'' AuthConfigSecure_Validate
     (acl_AuthConfigs m)"

definition AuthConfigsListResponse_Validate :: "AuthConfigsListResponse \<Rightarrow> verror option" where
  "AuthConfigsListResponse_Validate m = collect [AuthConfigsListResponse_validateAuthConfigs m]"

definition ClusterEndpoint_Validate :: "ClusterEndpoint \<Rightarrow> verror option" where
  "ClusterEndpoint_Validate m = collect []"

definition ClustersListResponse_validateClusters :: "ClustersListResponse \<Rightarrow> verror option" where
  "ClustersListResponse_validateClusters m = validate_slice ''clusters'' Cluster_Validate (clr_Clusters m)"

definition ClustersListResponse_Validate :: "ClustersListResponse \<Rightarrow> verror option" where
  "ClustersListResponse_Validate m = collect [ClustersListResponse_validateClusters m]"

definition Compartmentstruct_Validate :: "Compartmentstruct \<Rightarrow> verror option" where
  "Compartmentstruct_Validate m = collect []"

definition Error_validateCode :: "OkeError \<Rightarrow> verror option" where
  "Error_validateCode m = Required ''code'' ''body'' (oer_Code m)"

definition Error_validateMessage :: "OkeError \<Rightarrow> verror option" where
  "Error_validateMessage m = Required ''message'' ''body'' (oer_Message m)"

definition Error_Validate :: "OkeError \<Rightarrow> verror option" where
  "Error_Validate m = collect [Error_validateCode m, Error_validateMessage m]"

definition GetADsRequest_Validate :: "GetADsRequest \<Rightarrow> verror option" where
  "GetADsRequest_Validate m = collect []"

definition GetADsResponse_validateAds :: "GetADsResponse \<Rightarrow> verror option" where
  "GetADsResponse_validateAds m = validate_slice ''ads'' ADstruct_Validate (gar_Ads m)"

definition GetADsResponse_Validate :: "GetADsResponse \<Rightarrow> verror option" where
  "GetADsResponse_Validate m = collect [GetADsResponse_validateAds m]"

definition GetCompartmentsRequest_Validate :: "GetCompartmentsRequest \<Rightarrow> verror option" where
  "GetCompartmentsRequest_Validate m = collect []"

definition GetCompartmentsResponse_validateCompartments :: "GetCompartmentsResponse \<Rightarrow> verror option" where
    "GetCompartmentsResponse_validateCompartments m = validate_slice ''compartments'' Compartmentstruct_Validate
     (gcr_Compartments m)"

definition GetCompartmentsResponse_Validate :: "GetCompartmentsResponse \<Rightarrow> verror option" where
  "GetCompartmentsResponse_Validate m = collect [GetCompartmentsResponse_validateCompartments m]"

definition GetSubnetsRequest_Validate :: "GetSubnetsRequest \<Rightarrow> verror option" where
  "GetSubnetsRequest_Validate m = collect []"

definition Subnetstruct_validateSecurityListIds :: "Subnetstruct \<Rightarrow> verror option" where
  "Subnetstruct_validateSecurityListIds m = None"

definition Subnetstruct_Validate :: "Subnetstruct \<Rightarrow> verror option" where
  "Subnetstruct_Validate m = collect [Subnetstruct_validateSecurityListIds m]"

definition GetSubnetsResponse_validateCompartments :: "GetSubnetsResponse \<Rightarrow> verror option" where
    "GetSubnetsResponse_validateCompartments m = validate_slice ''compartments'' Subnetstruct_Validate
     (gsr_Compartments m)"

definition GetSubnetsResponse_Validate :: "GetSubnetsResponse \<Rightarrow> verror option" where
  "GetSubnetsResponse_Validate m = collect [GetSubnetsResponse_validateCompartments m]"

definition GetVCNsRequest_Validate :: "GetVCNsRequest \<Rightarrow> verror option" where
  "GetVCNsRequest_Validate m = collect []"

definition VCNstruct_Validate :: "VCNstruct \<Rightarrow> verror option" where
  "VCNstruct_Validate m = collect []"

definition GetVCNsResponse_validateAds :: "GetVCNsResponse \<Rightarrow> verror option" where
  "GetVCNsResponse_validateAds m = validate_slice ''ads'' VCNstruct_Validate (gvr_Ads m)"

definition GetVCNsResponse_Validate :: "GetVCNsResponse \<Rightarrow> verror option" where
  "GetVCNsResponse_Validate m = collect [GetVCNsResponse_validateAds m]"

definition WorkItemsListResponse_validateWorkItems :: "WorkItemsListResponse \<Rightarrow> verror option" where
  "WorkItemsListResponse_validateWorkItems m = validate_slice ''workItems'' WorkItem_Validate (wil_WorkItems m)"

definition WorkItemsListResponse_Validate :: "WorkItemsListResponse \<Rightarrow> verror option" where
  "WorkItemsListResponse_Validate m = collect [WorkItemsListResponse_validateWorkItems m]"

section \<open>The interface\<close>

interpretation AdDetails_validator: composite_validator AdDetails_Validate
  by unfold_locales (auto simp: AdDetails_Validate_def dest: collect_composite)

interpretation Pool_validator: composite_validator Pool_Validate
  by unfold_locales (auto simp: Pool_Validate_def dest: collect_composite)

interpretation BMCClusterConfig_validator: composite_validator BMCClusterConfig_Validate
  by unfold_locales (auto simp: BMCClusterConfig_Validate_def dest: collect_composite)

interpretation ClusterCreateRequest_validator: composite_validator ClusterCreateRequest_Validate
  by unfold_locales (auto simp: ClusterCreateRequest_Validate_def dest: collect_composite)

interpretation ClusterWorkItemResponse_validator: composite_validator ClusterWorkItemResponse_Validate
  by unfold_locales (auto simp: ClusterWorkItemResponse_Validate_def dest: collect_composite)

interpretation ClusterPools_validator: composite_validator ClusterPools_Validate
  by unfold_locales (auto simp: ClusterPools_Validate_def dest: collect_composite)

interpretation ClusterPoolsResponse_validator: composite_validator ClusterPoolsResponse_Validate
  by unfold_locales (auto simp: ClusterPoolsResponse_Validate_def dest: collect_composite)

interpretation WorkItem_validator: composite_validator WorkItem_Validate
  by unfold_locales (auto simp: WorkItem_Validate_def dest: collect_composite)

interpretation CloudDetailsBmc_validator: composite_validator CloudDetailsBmc_Validate
  by unfold_locales (auto simp: CloudDetailsBmc_Validate_def dest: collect_composite)

interpretation CloudDetails_validator: composite_validator CloudDetails_Validate
  by unfold_locales (auto simp: CloudDetails_Validate_def dest: collect_composite)

interpretation ClusterMetadata_validator: composite_validator ClusterMetadata_Validate
  by unfold_locales (auto simp: ClusterMetadata_Validate_def dest: collect_composite)

interpretation StateDetailsNodesRollup_validator: composite_validator StateDetailsNodesRollup_Validate
  by unfold_locales (auto simp: StateDetailsNodesRollup_Validate_def dest: collect_composite)

interpretation StateDetailsTkwRollup_validator: composite_validator StateDetailsTkwRollup_Validate
  by unfold_locales (auto simp: StateDetailsTkwRollup_Validate_def dest: collect_composite)

interpretation StateDetails_validator: composite_validator StateDetails_Validate
  by unfold_locales (auto simp: StateDetails_Validate_def dest: collect_composite)

interpretation OkeClusterState_validator: composite_validator Cluster_Validate
  by unfold_locales (auto simp: Cluster_Validate_def dest: collect_composite)

interpretation WorkerErrors_validator: composite_validator WorkerErrors_Validate
  by unfold_locales (auto simp: WorkerErrors_Validate_def dest: collect_composite)

interpretation WorkerDetails_validator: composite_validator WorkerDetails_Validate
  by unfold_locales (auto simp: WorkerDetails_Validate_def dest: collect_composite)

interpretation ClusterDetails_validator: composite_validator ClusterDetails_Validate
  by unfold_locales (auto simp: ClusterDetails_Validate_def dest: collect_composite)

interpretation ADstruct_validator: composite_validator ADstruct_Validate
  by unfold_locales (auto simp: ADstruct_Validate_def dest: collect_composite)

interpretation AWSauthConfig_validator: composite_validator AWSauthConfig_Validate
  by unfold_locales (auto simp: AWSauthConfig_Validate_def dest: collect_composite)

interpretation BMCauthConfig_validator: composite_validator BMCauthConfig_Validate
  by unfold_locales (auto simp: BMCauthConfig_Validate_def dest: collect_composite)

interpretation AuthConfig_validator: composite_validator AuthConfig_Validate
  by unfold_locales (auto simp: AuthConfig_Validate_def dest: collect_composite)

interpretation AuthConfigSecure_validator: composite_validator AuthConfigSecure_Validate
  by unfold_locales (auto simp: AuthConfigSecure_Validate_def dest: collect_composite)

interpretation AuthConfigWithID_validator: composite_validator AuthConfigWithID_Validate
  by unfold_locales (auto simp: AuthConfigWithID_Validate_def dest: collect_composite)

interpretation AuthConfigsListResponse_validator: composite_validator AuthConfigsListResponse_Validate
  by unfold_locales (auto simp: AuthConfigsListResponse_Validate_def dest: collect_composite)

interpretation ClusterEndpoint_validator: composite_validator ClusterEndpoint_Validate
  by unfold_locales (auto simp: ClusterEndpoint_Validate_def dest: collect_composite)

interpretation ClustersListResponse_validator: composite_validator ClustersListResponse_Validate
  by unfold_locales (auto simp: ClustersListResponse_Validate_def dest: collect_composite)

interpretation Compartmentstruct_validator: composite_validator Compartmentstruct_Validate
  by unfold_locales (auto simp: Compartmentstruct_Validate_def dest: collect_composite)

interpretation OkeError_validator: composite_validator Error_Validate
  by unfold_locales (auto simp: Error_Validate_def dest: collect_composite)

interpretation GetADsRequest_validator: composite_validator GetADsRequest_Validate
  by unfold_locales (auto simp: GetADsRequest_Validate_def dest: collect_composite)

interpretation GetADsResponse_validator: composite_validator GetADsResponse_Validate
  by unfold_locales (auto simp: GetADsResponse_Validate_def dest: collect_composite)

interpretation GetCompartmentsRequest_validator: composite_validator GetCompartmentsRequest_Validate
  by unfold_locales (auto simp: GetCompartmentsRequest_Validate_def dest: collect_composite)

interpretation GetCompartmentsResponse_validator: composite_validator GetCompartmentsResponse_Validate
  by unfold_locales (auto simp: GetCompartmentsResponse_Validate_def dest: collect_composite)

interpretation GetSubnetsRequest_validator: composite_validator GetSubnetsRequest_Validate
  by unfold_locales (auto simp: GetSubnetsRequest_Validate_def dest: collect_composite)

interpretation Subnetstruct_validator: composite_validator Subnetstruct_Validate
  by unfold_locales (auto simp: Subnetstruct_Validate_def dest: collect_composite)

interpretation GetSubnetsResponse_validator: composite_validator GetSubnetsResponse_Validate
  by unfold_locales (auto simp: GetSubnetsResponse_Validate_def dest: collect_composite)

interpretation GetVCNsRequest_validator: composite_validator GetVCNsRequest_Validate
  by unfold_locales (auto simp: GetVCNsRequest_Validate_def dest: collect_composite)

interpretation VCNstruct_validator: composite_validator VCNstruct_Validate
  by unfold_locales (auto simp: VCNstruct_Validate_def dest: collect_composite)

interpretation GetVCNsResponse_validator: composite_validator GetVCNsResponse_Validate
  by unfold_locales (auto simp: GetVCNsResponse_Validate_def dest: collect_composite)

interpretation WorkItemsListResponse_validator: composite_validator WorkItemsListResponse_Validate
  by unfold_locales (auto simp: WorkItemsListResponse_Validate_def dest: collect_composite)

section \<open>What is valid\<close>

lemma collect_Nil [simp]: "collect [] = None"
  by (simp add: collect_def)

lemma pred_option_always [simp]: "pred_option (\<lambda>_. True) p"
  by (cases p) simp_all

text \<open>Structs without a check anywhere.\<close>

lemma always_valid [simp]:
  "AdDetails_Validate ad = None" "Pool_Validate pool = None" "BMCClusterConfig_Validate bmc = None"
  "ClusterPools_Validate cp = None" "ClusterPoolsResponse_Validate cpr = None" "ClusterMetadata_Validate cm = None"
  "StateDetails_Validate sd = None" "WorkerErrors_Validate we = None"
proof -
  have ad: "AdDetails_Validate x = None" for x by (simp add: AdDetails_Validate_def)
  then have pool: "Pool_Validate x = None" for x
    by (simp add: Pool_Validate_def Pool_validateAds_def validate_None AdDetails_validator.slice_None)
  have roll: "StateDetailsNodesRollup_Validate x = None" "StateDetailsTkwRollup_Validate y = None" for x y
    by (simp_all add: StateDetailsNodesRollup_Validate_def StateDetailsTkwRollup_Validate_def)
  show "AdDetails_Validate ad = None" "Pool_Validate pool = None" by (rule ad, rule pool)
  show "BMCClusterConfig_Validate bmc = None" "ClusterPools_Validate cp = None" "ClusterPoolsResponse_Validate cpr = None"
    by (simp_all add: BMCClusterConfig_Validate_def BMCClusterConfig_validatePools_def ClusterPools_Validate_def
        ClusterPools_validatePools_def ClusterPoolsResponse_Validate_def ClusterPoolsResponse_validatePools_def
        validate_None Pool_validator.slice_None pool)
  show "ClusterMetadata_Validate cm = None" "WorkerErrors_Validate we = None"
    by (simp_all add: ClusterMetadata_Validate_def WorkerErrors_Validate_def)
  show "StateDetails_Validate sd = None"
    by (simp add: StateDetails_Validate_def StateDetails_validateNodesRollup_def StateDetails_validateTkwRollup_def
        validate_None StateDetailsNodesRollup_validator.ptr_None StateDetailsTkwRollup_validator.ptr_None roll)
qed

lemma ClusterCreateRequest_valid:
  "ClusterCreateRequest_Validate m = None \<longleftrightarrow> ccr_LbType m \<in> set ('''' # clusterCreateRequestTypeLbTypePropEnum)"
  by (simp add: ClusterCreateRequest_Validate_def ClusterCreateRequest_validateBmcClusterConfig_def
      ClusterCreateRequest_validateLbType_def ClusterCreateRequest_validateLbTypeEnum_def [abs_def] validate_None
      BMCClusterConfig_validator.ptr_None)

lemma WorkItem_valid:
  "WorkItem_Validate m = None \<longleftrightarrow>
     pred_option (\<lambda>n. 0 \<le> sint n \<and> sint n \<le> 3) (wi_Status m) \<and>
     wi_StatusString m \<in> set ('''' # workItemTypeStatusStringPropEnum) \<and>
     pred_option (\<lambda>n. 0 \<le> sint n \<and> sint n \<le> 2) (wi_Type m)"
  by (simp add: WorkItem_Validate_def WorkItem_validateStatus_def WorkItem_validateStatusString_def
      WorkItem_validateStatusStringEnum_def [abs_def] WorkItem_validateType_def validate_None)

lemma CloudDetails_valid:
  "CloudDetails_Validate m = None \<longleftrightarrow>
     pred_option (\<lambda>b. cdb_LbType b \<in> set ('''' # cloudDetailsBmcTypeLbTypePropEnum)) (cd_Bmc m)"
  by (cases "cd_Bmc m") (simp_all add: CloudDetails_Validate_def CloudDetails_validateBmc_def validate_None CloudDetailsBmc_validator.ptr_None
      CloudDetailsBmc_Validate_def CloudDetailsBmc_validateLbType_def CloudDetailsBmc_validateLbTypeEnum_def [abs_def])

lemma Cluster_valid:
  "Cluster_Validate m = None \<longleftrightarrow>
     pred_option (\<lambda>cd. CloudDetails_Validate cd = None) (okc_CloudDetails m) \<and>
     okc_MastersState m \<in> set ('''' # clusterTypeMastersStatePropEnum) \<and>
     okc_NodesState m \<in> set ('''' # clusterTypeNodesStatePropEnum) \<and>
     okc_State m \<in> set ('''' # clusterTypeStatePropEnum) \<and>
     okc_TkmState m \<in> set ('''' # clusterTypeTkmStatePropEnum) \<and>
     okc_TkwState m \<in> set ('''' # clusterTypeTkwStatePropEnum)"
  unfolding Cluster_Validate_def Cluster_validateBmcClusterConfig_def Cluster_validateCloudDetails_def
    Cluster_validateEndpoints_def Cluster_validateMastersState_def Cluster_validateMetadata_def Cluster_validateNodesState_def
    Cluster_validateState_def Cluster_validateStateDetails_def Cluster_validateTkmState_def Cluster_validateTkwState_def
    Cluster_validateMastersStateEnum_def [abs_def] Cluster_validateNodesStateEnum_def [abs_def] Cluster_validateStateEnum_def [abs_def]
    Cluster_validateTkmStateEnum_def [abs_def] Cluster_validateTkwStateEnum_def [abs_def] collect_None
  by (simp add: validate_enum_None BMCClusterConfig_validator.ptr_None CloudDetails_validator.ptr_None
      ClusterMetadata_validator.ptr_None StateDetails_validator.ptr_None)

lemma WorkerDetails_valid:
  "WorkerDetails_Validate m = None \<longleftrightarrow>
     wd_BmcLifecycleState m \<in> set ('''' # workerDetailsTypeBmcLifecycleStatePropEnum)"
  by (simp add: WorkerDetails_Validate_def WorkerDetails_validateBmcLifecycleState_def
      WorkerDetails_validateBmcLifecycleStateEnum_def [abs_def] WorkerDetails_validateError_def validate_None WorkerErrors_validator.ptr_None)

lemma ClusterDetails_valid:
  "ClusterDetails_Validate m = None \<longleftrightarrow>
     pred_option (\<lambda>k8. Cluster_Validate k8 = None) (cds_K8 m) \<and>
     (\<forall>w. Some w \<in> set (the_list (cds_Workers m)) \<longrightarrow> WorkerDetails_Validate w = None)"
  by (simp add: ClusterDetails_Validate_def ClusterDetails_validateK8_def ClusterDetails_validateWorkers_def validate_None
      OkeClusterState_validator.ptr_None WorkerDetails_validator.slice_None)

lemma Error_valid: "Error_Validate m = None \<longleftrightarrow> oer_Code m \<noteq> None \<and> oer_Message m \<noteq> None"
  by (simp add: Error_Validate_def Error_validateCode_def Error_validateMessage_def validate_None)

text \<open>
  The constants of the masters' states differ from the values the check accepts in every
  case; those of the other fields agree with them.
\<close>

lemmas state_constants = ClusterMastersState_constants_def ClusterMastersStatePENDINGSTATE_def ClusterMastersStateRUNNING_def
  ClusterMastersStateSUCCEEDED_def ClusterMastersStateFAILED_def ClusterMastersStateUNKNOWN_def
  ClusterMastersStateTERMINATING_def ClusterMastersStateTERMINATED_def

lemma masters_constants_refused: "set ClusterMastersState_constants \<inter> set ('''' # clusterTypeMastersStatePropEnum) = {}"
  by (simp add: state_constants clusterTypeMastersStatePropEnum_def)

lemma other_constants_accepted:
  "ClusterNodesState_constants = clusterTypeNodesStatePropEnum"
  "ClusterState_constants = clusterTypeStatePropEnum"
  "ClusterTkmState_constants = clusterTypeTkmStatePropEnum"
  "ClusterTkwState_constants = clusterTypeTkwStatePropEnum"
  "WorkItemStatusString_constants = workItemTypeStatusStringPropEnum"
  "WorkerDetailsBmcLifecycleState_constants = workerDetailsTypeBmcLifecycleStatePropEnum"
  "ClusterCreateRequestLbType_constants = clusterCreateRequestTypeLbTypePropEnum"
  "CloudDetailsBmcLbType_constants = cloudDetailsBmcTypeLbTypePropEnum"
  by code_simp+

end
