(* ===== verification/OkeKubeConfig.thy ===== *)
theory OkeKubeConfig
  imports OkeDetails Provider
begin

text \<open>
  The kubeconfig as the OKE service returns it (\<open>okebmc.go\<close>, \<open>OkeKubeConfig\<close> and the three
  named entries) and \<open>shimKubeConf\<close>, which turns its lists into the maps of a
  \<open>clientcmdapi\<close> configuration. Certificate data is base64 text in JSON.
\<close>

section \<open>Bytes in JSON\<close>

fun decode_bool :: "json \<Rightarrow> bool \<Rightarrow> bool \<times> bool" where
  "decode_bool (JBool b) old = (b, True)"
| "decode_bool JNull old = (old, True)"
| "decode_bool v old = (old, False)"

definition b64_val :: "char \<Rightarrow> nat option" where
  "b64_val c = (let b = byte c in
     if 65 \<le> b \<and> b \<le> 90 then Some (b - 65)
     else if 97 \<le> b \<and> b \<le> 122 then Some (b - 71)
     else if 48 \<le> b \<and> b \<le> 57 then Some (b + 4)
     else if c = CHR ''+'' then Some 62
     else if c = CHR ''/'' then Some 63
     else None)"

definition b64_vals :: "string \<Rightarrow> nat list option" where
  "b64_vals s = those (map b64_val s)"

text \<open>One group of four: its bytes, by how many padding characters end it.\<close>

definition b64_group :: "nat list \<Rightarrow> string" where
  "b64_group vs =
     (case vs of
        [a, b] \<Rightarrow> [char_of (a * 4 + b div 16)]
      | [a, b, c] \<Rightarrow> [char_of (a * 4 + b div 16), char_of (b mod 16 * 16 + c div 4)]
      | [a, b, c, d] \<Rightarrow> [char_of (a * 4 + b div 16), char_of (b mod 16 * 16 + c div 4),
           char_of (c mod 4 * 64 + d)]
      | _ \<Rightarrow> [])"

fun b64_decode :: "string \<Rightarrow> string option" where
  "b64_decode [] = Some []"
| "b64_decode (a # b # c # d # r) =
     (if r = [] \<and> d = CHR ''='' then
        map_option b64_group (b64_vals (if c = CHR ''='' then [a, b] else [a, b, c]))
      else (case (b64_vals [a, b, c, d], b64_decode r) of
          (Some vs, Some rest) \<Rightarrow> Some (b64_group vs @ rest)
        | _ \<Rightarrow> None))"
| "b64_decode _ = None"

definition base64 :: "string \<Rightarrow> string option" where
  "base64 s = b64_decode (filter (\<lambda>c. c \<noteq> CHR 0x0A \<and> c \<noteq> CHR 0x0D) s)"

fun decode_uint8 :: "json \<Rightarrow> char \<Rightarrow> char \<times> bool" where
  "decode_uint8 (JNum s) old =
     (let (n, e) = ParseUint s 64 in if e \<noteq> None \<or> 255 < n then (old, False) else (char_of n, True))"
| "decode_uint8 JNull old = (old, True)"
| "decode_uint8 v old = (old, False)"

fun decode_bytes :: "json \<Rightarrow> string \<Rightarrow> string \<times> bool" where
  "decode_bytes (JStr s) old = (case base64 s of None \<Rightarrow> (old, False) | Some b \<Rightarrow> (b, True))"
| "decode_bytes (JArr vs) old = decode_elems decode_uint8 (char_of (0 :: nat)) vs old"
| "decode_bytes JNull old = ([], True)"
| "decode_bytes v old = (old, False)"

text \<open>
  Extensions are values of an interface type, which the decoder can fill with null only;
  they are not kept.
\<close>

definition null_only :: "json list \<Rightarrow> bool" where
  "null_only vs \<longleftrightarrow> list_all (\<lambda>v. v = JNull) vs"

fun ext_map_ok :: "json \<Rightarrow> bool" where
  "ext_map_ok (JObj kvs) = null_only (map snd kvs)"
| "ext_map_ok JNull = True"
| "ext_map_ok v = False"

fun ext_list_ok :: "json \<Rightarrow> bool" where
  "ext_list_ok (JArr vs) = null_only vs"
| "ext_list_ok JNull = True"
| "ext_list_ok v = False"

definition skip_fld :: "string \<Rightarrow> (json \<Rightarrow> bool) \<Rightarrow> 'r field" where
  "skip_fld name ok = (name, \<lambda>v r. (r, ok v))"

section \<open>The entries\<close>

definition zeroKubeCluster :: kubeCluster where
  "zeroKubeCluster = \<lparr>kc_LocationOfOrigin = '''', kc_Server = '''', kc_InsecureSkipTLSVerify = False,
     kc_CertificateAuthority = '''', kc_CertificateAuthorityData = ''''\<rparr>"

definition kubeCluster_fields :: "kubeCluster field list" where
  "kubeCluster_fields = [
     fld ''LocationOfOrigin'' decode_str kc_LocationOfOrigin (\<lambda>x. kc_LocationOfOrigin_update (\<lambda>_. x)),
     fld ''server'' decode_str kc_Server (\<lambda>x. kc_Server_update (\<lambda>_. x)),
     fld ''insecure-skip-tls-verify'' decode_bool kc_InsecureSkipTLSVerify (\<lambda>x. kc_InsecureSkipTLSVerify_update (\<lambda>_. x)),
     fld ''certificate-authority'' decode_str kc_CertificateAuthority (\<lambda>x. kc_CertificateAuthority_update (\<lambda>_. x)),
     fld ''certificate-authority-data'' decode_bytes kc_CertificateAuthorityData (\<lambda>x. kc_CertificateAuthorityData_update (\<lambda>_. x)),
     skip_fld ''extensions'' ext_map_ok]"

definition zeroAuthProviderConfig :: authProviderConfig where
  "zeroAuthProviderConfig = \<lparr>ap_Name = '''', ap_Config = None\<rparr>"

definition authProviderConfig_fields :: "authProviderConfig field list" where
  "authProviderConfig_fields = [
     fld ''name'' decode_str ap_Name (\<lambda>x. ap_Name_update (\<lambda>_. x)),
     fld ''config'' (decode_map decode_str '''') ap_Config (\<lambda>x. ap_Config_update (\<lambda>_. x))]"

definition zeroAuthInfo :: authInfo where
  "zeroAuthInfo = \<lparr>ai_LocationOfOrigin = '''', ai_ClientCertificate = '''', ai_ClientCertificateData = '''',
     ai_ClientKey = '''', ai_ClientKeyData = '''', ai_Token = '''', ai_TokenFile = '''', ai_Impersonate = '''',
     ai_ImpersonateGroups = None, ai_ImpersonateUserExtra = None, ai_Username = '''', ai_Password = '''',
     ai_AuthProvider = None\<rparr>"

definition authInfo_fields :: "authInfo field list" where
  "authInfo_fields = [
     fld ''LocationOfOrigin'' decode_str ai_LocationOfOrigin (\<lambda>x. ai_LocationOfOrigin_update (\<lambda>_. x)),
     fld ''client-certificate'' decode_str ai_ClientCertificate (\<lambda>x. ai_ClientCertificate_update (\<lambda>_. x)),
     fld ''client-certificate-data'' decode_bytes ai_ClientCertificateData (\<lambda>x. ai_ClientCertificateData_update (\<lambda>_. x)),
     fld ''client-key'' decode_str ai_ClientKey (\<lambda>x. ai_ClientKey_update (\<lambda>_. x)),
     fld ''client-key-data'' decode_bytes ai_ClientKeyData (\<lambda>x. ai_ClientKeyData_update (\<lambda>_. x)),
     fld ''token'' decode_str ai_Token (\<lambda>x. ai_Token_update (\<lambda>_. x)),
     fld ''tokenFile'' decode_str ai_TokenFile (\<lambda>x. ai_TokenFile_update (\<lambda>_. x)),
     fld ''act-as'' decode_str ai_Impersonate (\<lambda>x. ai_Impersonate_update (\<lambda>_. x)),
     fld ''act-as-groups'' (decode_slice decode_str '''') ai_ImpersonateGroups (\<lambda>x. ai_ImpersonateGroups_update (\<lambda>_. x)),
     fld ''act-as-user-extra'' (decode_map (decode_slice decode_str '''') None) ai_ImpersonateUserExtra (\<lambda>x. ai_ImpersonateUserExtra_update (\<lambda>_. x)),
     fld ''username'' decode_str ai_Username (\<lambda>x. ai_Username_update (\<lambda>_. x)),
     fld ''password'' decode_str ai_Password (\<lambda>x. ai_Password_update (\<lambda>_. x)),
     fld ''auth-provider'' (decode_ptr (decode_struct authProviderConfig_fields) zeroAuthProviderConfig) ai_AuthProvider (\<lambda>x. ai_AuthProvider_update (\<lambda>_. x)),
     skip_fld ''extensions'' ext_map_ok]"

definition zeroKubeContext :: kubeContext where
  "zeroKubeContext = \<lparr>cx_LocationOfOrigin = '''', cx_Cluster = '''', cx_AuthInfo = '''', cx_Namespace = ''''\<rparr>"

definition kubeContext_fields :: "kubeContext field list" where
  "kubeContext_fields = [
     fld ''LocationOfOrigin'' decode_str cx_LocationOfOrigin (\<lambda>x. cx_LocationOfOrigin_update (\<lambda>_. x)),
     fld ''cluster'' decode_str cx_Cluster (\<lambda>x. cx_Cluster_update (\<lambda>_. x)),
     fld ''user'' decode_str cx_AuthInfo (\<lambda>x. cx_AuthInfo_update (\<lambda>_. x)),
     fld ''namespace'' decode_str cx_Namespace (\<lambda>x. cx_Namespace_update (\<lambda>_. x)),
     skip_fld ''extensions'' ext_map_ok]"

record OkeCluster =
  okeCluster_Name :: string
  okeCluster_Cluster :: "kubeCluster option"

record OkeContext =
  okeContext_Name :: string
  okeContext_Context :: "kubeContext option"

record OkeUser =
  okeUser_Name :: string
  okeUser_User :: "authInfo option"

record OkeKubeConfig =
  okeCfg_Kind :: string
  okeCfg_APIVersion :: string
  okeCfg_Colors :: bool
  okeCfg_Clusters :: "OkeCluster list option"
  okeCfg_Users :: "OkeUser list option"
  okeCfg_Contexts :: "OkeContext list option"
  okeCfg_CurrentContext :: string

definition OkeCluster_fields :: "OkeCluster field list" where
  "OkeCluster_fields = [
     fld ''name'' decode_str okeCluster_Name (\<lambda>x. okeCluster_Name_update (\<lambda>_. x)),
     fld ''cluster'' (decode_ptr (decode_struct kubeCluster_fields) zeroKubeCluster) okeCluster_Cluster (\<lambda>x. okeCluster_Cluster_update (\<lambda>_. x))]"

definition OkeContext_fields :: "OkeContext field list" where
  "OkeContext_fields = [
     fld ''name'' decode_str okeContext_Name (\<lambda>x. okeContext_Name_update (\<lambda>_. x)),
     fld ''context'' (decode_ptr (decode_struct kubeContext_fields) zeroKubeContext) okeContext_Context (\<lambda>x. okeContext_Context_update (\<lambda>_. x))]"

definition OkeUser_fields :: "OkeUser field list" where
  "OkeUser_fields = [
     fld ''name'' decode_str okeUser_Name (\<lambda>x. okeUser_Name_update (\<lambda>_. x)),
     fld ''user'' (decode_ptr (decode_struct authInfo_fields) zeroAuthInfo) okeUser_User (\<lambda>x. okeUser_User_update (\<lambda>_. x))]"

definition Preferences_fields :: "bool field list" where
  "Preferences_fields = [fld ''colors'' decode_bool (\<lambda>b. b) (\<lambda>x _. x), skip_fld ''extensions'' ext_map_ok]"

definition zeroOkeKubeConfig :: OkeKubeConfig where
  "zeroOkeKubeConfig = \<lparr>okeCfg_Kind = '''', okeCfg_APIVersion = '''', okeCfg_Colors = False,
     okeCfg_Clusters = None, okeCfg_Users = None, okeCfg_Contexts = None, okeCfg_CurrentContext = ''''\<rparr>"

definition OkeKubeConfig_fields :: "OkeKubeConfig field list" where
  "OkeKubeConfig_fields = [
     fld ''kind'' decode_str okeCfg_Kind (\<lambda>x. okeCfg_Kind_update (\<lambda>_. x)),
     fld ''apiVersion'' decode_str okeCfg_APIVersion (\<lambda>x. okeCfg_APIVersion_update (\<lambda>_. x)),
     fld ''preferences'' (decode_struct Preferences_fields) okeCfg_Colors (\<lambda>x. okeCfg_Colors_update (\<lambda>_. x)),
     fld ''clusters'' (decode_slice (decode_struct OkeCluster_fields) \<lparr>okeCluster_Name = '''', okeCluster_Cluster = None\<rparr>)
       okeCfg_Clusters (\<lambda>x. okeCfg_Clusters_update (\<lambda>_. x)),
     fld ''users'' (decode_slice (decode_struct OkeUser_fields) \<lparr>okeUser_Name = '''', okeUser_User = None\<rparr>)
       okeCfg_Users (\<lambda>x. okeCfg_Users_update (\<lambda>_. x)),
     fld ''contexts'' (decode_slice (decode_struct OkeContext_fields) \<lparr>okeContext_Name = '''', okeContext_Context = None\<rparr>)
       okeCfg_Contexts (\<lambda>x. okeCfg_Contexts_update (\<lambda>_. x)),
     fld ''current-context'' decode_str okeCfg_CurrentContext (\<lambda>x. okeCfg_CurrentContext_update (\<lambda>_. x)),
     skip_fld ''extensions'' ext_list_ok]"

section \<open>The shim\<close>

definition shimKubeConf :: "OkeKubeConfig \<Rightarrow> kubeConfig" where
  "shimKubeConf okeCfg = \<lparr>
     cfg_Kind = okeCfg_Kind okeCfg,
     cfg_APIVersion = okeCfg_APIVersion okeCfg,
     cfg_Colors = okeCfg_Colors okeCfg,
     cfg_Clusters = Some (fold (\<lambda>c m. AList.update (okeCluster_Name c) (okeCluster_Cluster c) m)
       (the_list (okeCfg_Clusters okeCfg)) []),
     cfg_AuthInfos = Some (fold (\<lambda>u m. AList.update (okeUser_Name u) (okeUser_User u) m)
       (the_list (okeCfg_Users okeCfg)) []),
     cfg_Contexts = Some (fold (\<lambda>x m. AList.update (okeContext_Name x) (okeContext_Context x) m)
       (the_list (okeCfg_Contexts okeCfg)) []),
     cfg_CurrentContext = okeCfg_CurrentContext okeCfg\<rparr>"

text \<open>The last entry of a name wins; a name of no entry is not in the map.\<close>

lemma fold_update_lookup:
  "map_of (fold (\<lambda>x m. AList.update (f x) (g x) m) xs m) k =
     (case find (\<lambda>x. f x = k) (rev xs) of None \<Rightarrow> map_of m k | Some x \<Rightarrow> Some (g x))"
proof (induction xs arbitrary: m)
  case (Cons x xs)
  then show ?case by (auto simp: find_append AList.update_conv' split: option.splits)
qed simp

lemma shimKubeConf_lookup:
  "map_get (cfg_Clusters (shimKubeConf c)) k =
     map_option okeCluster_Cluster (find (\<lambda>x. okeCluster_Name x = k) (rev (the_list (okeCfg_Clusters c))))"
  "map_get (cfg_AuthInfos (shimKubeConf c)) k =
     map_option okeUser_User (find (\<lambda>x. okeUser_Name x = k) (rev (the_list (okeCfg_Users c))))"
  "map_get (cfg_Contexts (shimKubeConf c)) k =
     map_option okeContext_Context (find (\<lambda>x. okeContext_Name x = k) (rev (the_list (okeCfg_Contexts c))))"
  by (simp_all add: shimKubeConf_def fold_update_lookup split: option.split)

end
