(* ===== verification/Options.thy ===== *)
theory Options
  imports Strconv
begin

text \<open>
  The command line options of the controller (\<open>options/options.go\<close>): the record with its
  defaults, and the flags registered on it. A registered string flag is its name, its
  default, its help text and the field it writes; parsing the command line (the pflag
  package) writes the fields of the flags that are given.
\<close>

record ClusterControllerOptions =
  opt_Domain :: string
  opt_DefaultMasterZones :: string
  opt_DefaultNodeZones :: string
  opt_KopsStateStore :: string
  opt_DefaultOkeAds :: string
  opt_OkeApiHost :: string
  opt_FkubeApiServer :: string
  opt_FkubeName :: string
  opt_FkubeNamespace :: string

definition NewCCO :: ClusterControllerOptions where
  "NewCCO = \<lparr>
     opt_Domain = '''',
     opt_DefaultMasterZones = ''us-east-1a'',
     opt_DefaultNodeZones = ''us-east-1a'',
     opt_KopsStateStore = '''',
     opt_DefaultOkeAds = ''AD-1,AD-2,AD-3'',
     opt_OkeApiHost = ''api.cluster.oracledx.com'',
     opt_FkubeApiServer = '''',
     opt_FkubeName = ''federation'',
     opt_FkubeNamespace = ''federation-system''\<rparr>"

record stringFlag =
  flag_name :: string
  flag_default :: string
  flag_usage :: string
  flag_write :: "string \<Rightarrow> ClusterControllerOptions \<Rightarrow> ClusterControllerOptions"

definition StringVar ::
  "(string \<Rightarrow> ClusterControllerOptions \<Rightarrow> ClusterControllerOptions) \<Rightarrow> string \<Rightarrow> string \<Rightarrow> string \<Rightarrow> stringFlag" where
  "StringVar wr name val usage =
     \<lparr>flag_name = name, flag_default = val, flag_usage = usage, flag_write = wr\<rparr>"

definition AddFlags :: "ClusterControllerOptions \<Rightarrow> stringFlag list" where
  "AddFlags cco = [
     StringVar (\<lambda>v. opt_Domain_update (\<lambda>_. v)) ''domain'' (opt_Domain cco) ''Domain to be used in aws'',
     StringVar (\<lambda>v. opt_DefaultMasterZones_update (\<lambda>_. v)) ''masterZones'' (opt_DefaultMasterZones cco) ''Default master zones'',
     StringVar (\<lambda>v. opt_DefaultNodeZones_update (\<lambda>_. v)) ''nodeZones'' (opt_DefaultNodeZones cco) ''Default node zones'',
     StringVar (\<lambda>v. opt_KopsStateStore_update (\<lambda>_. v)) ''statestore'' (opt_KopsStateStore cco) ''Kops State Store (like s3 path)'',
     StringVar (\<lambda>v. opt_DefaultOkeAds_update (\<lambda>_. v)) ''okeAds'' (opt_DefaultOkeAds cco) ''Default OKE Availability Domains'',
     StringVar (\<lambda>v. opt_OkeApiHost_update (\<lambda>_. v)) ''okeApiHost'' (opt_OkeApiHost cco) ''OKE API host'',
     StringVar (\<lambda>v. opt_FkubeApiServer_update (\<lambda>_. v)) ''fkubeApiServer'' (opt_FkubeApiServer cco) ''Federation API host'',
     StringVar (\<lambda>v. opt_FkubeName_update (\<lambda>_. v)) ''fkubeName'' (opt_FkubeName cco) ''Federation Name'',
     StringVar (\<lambda>v. opt_FkubeNamespace_update (\<lambda>_. v)) ''fkubeNamespace'' (opt_FkubeNamespace cco) ''Federation Namespace'']"

text \<open>Parsing \<open>--name=value\<close> pairs: each known flag writes its field, in order.\<close>

definition set_flag :: "stringFlag list \<Rightarrow> string \<Rightarrow> string \<Rightarrow> ClusterControllerOptions \<Rightarrow> ClusterControllerOptions" where
  "set_flag fs name val cco =
     (case find (\<lambda>f. flag_name f = name) fs of None \<Rightarrow> cco | Some f \<Rightarrow> flag_write f val cco)"

lemma AddFlags_names_distinct: "distinct (map flag_name (AddFlags cco))"
  by (simp add: AddFlags_def StringVar_def)

text \<open>Registering the flags on an options record and parsing no flag changes nothing: every
  flag's default is the value its field already has.\<close>

lemma AddFlags_defaults:
  "f \<in> set (AddFlags cco) \<Longrightarrow> flag_write f (flag_default f) cco = cco"
  by (auto simp: AddFlags_def StringVar_def)

end
