(* ===== verification/Oke.thy ===== *)
theory Oke
  imports Provider OkeValidate OkeKubeConfig Options
begin

text \<open>
  The OKE provider (\<open>provider/oke/okebmc.go\<close>): its configuration, its HTTP requests and the
  five operations of the provider interface. The HTTP client is a parameter: a function from
  a request to a response or an error. The provider never looks at the status code of a
  response, so an error page is decoded like any other body.
\<close>

section \<open>Configuration\<close>

definition ProviderName :: string where "ProviderName = ''oke''"
definition OkeBearerToken :: string where "OkeBearerToken = ''OKE_BEARER_TOKEN''"
definition OkeBearerPrefix :: string where "OkeBearerPrefix = ''Bearer ''"
definition OkeAuthGroup :: string where "OkeAuthGroup = ''OKE_AUTH_GROUP''"
definition OkeDefaultCloudAuthId :: string where "OkeDefaultCloudAuthId = ''OKE_CLOUD_AUTH_ID''"
definition OkeClusterEndPoint :: string where "OkeClusterEndPoint = ''/api/v1/clusters''"
definition OkeWorkItemEndPoint :: string where "OkeWorkItemEndPoint = ''/api/v1/workItems''"
definition OkeKubeConfigPath :: string where "OkeKubeConfigPath = ''/kubeconfig''"
definition OkePoolsPath :: string where "OkePoolsPath = ''/pools''"
definition DefaultK8Version :: string where "DefaultK8Version = ''v1.7.4''"
definition DefaultLbType :: string where "DefaultLbType = ''external''"
definition DefaultWorkersImageName :: string where "DefaultWorkersImageName = ''Oracle-Linux-7.4''"
definition DefaultShape :: string where "DefaultShape = ''VM.Standard1.1''"
definition DefaultWorkersPerAD :: string where "DefaultWorkersPerAD = ''1''"

record OkeBmcConfig =
  obc_Provider :: string
  obc_K8Version :: string
  obc_LbType :: string
  obc_NodeZones :: "string list option"
  obc_ImageName :: string
  obc_Shape :: string
  obc_WorkersPerAD :: string
  obc_Compartment :: string
  obc_SSHPublicKey :: string

definition zeroOkeBmcConfig :: OkeBmcConfig where
  "zeroOkeBmcConfig = \<lparr>obc_Provider = '''', obc_K8Version = '''', obc_LbType = '''', obc_NodeZones = None,
     obc_ImageName = '''', obc_Shape = '''', obc_WorkersPerAD = '''', obc_Compartment = '''',
     obc_SSHPublicKey = ''''\<rparr>"

definition OkeBmcConfig_fields :: "OkeBmcConfig field list" where
  "OkeBmcConfig_fields = [
     fld ''provider'' decode_str obc_Provider (\<lambda>x. obc_Provider_update (\<lambda>_. x)),
     fld ''k8Version'' decode_str obc_K8Version (\<lambda>x. obc_K8Version_update (\<lambda>_. x)),
     fld ''lbType'' decode_str obc_LbType (\<lambda>x. obc_LbType_update (\<lambda>_. x)),
     fld ''nodeZones'' (decode_slice decode_str '''') obc_NodeZones (\<lambda>x. obc_NodeZones_update (\<lambda>_. x)),
     fld ''imageName'' decode_str obc_ImageName (\<lambda>x. obc_ImageName_update (\<lambda>_. x)),
     fld ''shape'' decode_str obc_Shape (\<lambda>x. obc_Shape_update (\<lambda>_. x)),
     fld ''workersPerAD'' decode_str obc_WorkersPerAD (\<lambda>x. obc_WorkersPerAD_update (\<lambda>_. x)),
     fld ''compartment'' decode_str obc_Compartment (\<lambda>x. obc_Compartment_update (\<lambda>_. x)),
     fld ''sshPublicKey'' decode_str obc_SSHPublicKey (\<lambda>x. obc_SSHPublicKey_update (\<lambda>_. x))]"

text \<open>Whether the annotation could be decoded is ignored.\<close>

definition oke_unMarshal :: "cluster \<Rightarrow> OkeBmcConfig \<Rightarrow> OkeBmcConfig" where
  "oke_unMarshal c config =
     (case annotation c ClusterManagerClusterConfigKey of
        None \<Rightarrow> config
      | Some clusterConfigStr \<Rightarrow> fst (Unmarshal OkeBmcConfig_fields clusterConfigStr config))"

section \<open>Requests\<close>

record httpRequest =
  req_Method :: string
  req_Scheme :: string
  req_Host :: string
  req_Path :: string
  req_Header :: "string list gomap"
  req_Body :: "string option"
  req_ContentLength :: nat

text \<open>The body of a response is what reading it returns: the bytes, and the error that ended it.\<close>

record httpResponse =
  resp_StatusCode :: int
  resp_Body :: "string \<times> error option"

record 'w Oke =
  defaultNodeAds :: "string list"
  okeBearer :: string
  okeAuthGroup :: string
  okeDefaultCloudAuthId :: string
  apiHost :: string
  httpDefaultClientDo :: "httpRequest \<Rightarrow> ('w, httpResponse option \<times> error option) go"

text \<open>\<open>Header.Set\<close> stores under the canonical form of the key.\<close>

definition upper_ascii :: "char \<Rightarrow> char" where
  "upper_ascii c = (if 97 \<le> byte c \<and> byte c \<le> 122 then char_of (byte c - 32) else c)"

fun canonical_from :: "bool \<Rightarrow> string \<Rightarrow> string" where
  "canonical_from up [] = []"
| "canonical_from up (c # cs) = (if up then upper_ascii c else lower_ascii c) # canonical_from (c = CHR ''-'') cs"

definition CanonicalHeaderKey :: "string \<Rightarrow> string" where
  "CanonicalHeaderKey = canonical_from True"

definition Header_Set :: "string \<Rightarrow> string \<Rightarrow> string list gomap \<Rightarrow> string list gomap" where
  "Header_Set key val h = AList.update (CanonicalHeaderKey key) [val] h"

definition setDefaultValues :: "'w Oke \<Rightarrow> OkeBmcConfig \<Rightarrow> OkeBmcConfig" where
  "setDefaultValues oke config =
     (let config = (if obc_K8Version config = '''' then config\<lparr>obc_K8Version := DefaultK8Version\<rparr> else config);
          config = (if obc_LbType config = '''' then config\<lparr>obc_LbType := DefaultLbType\<rparr> else config);
          config = (if the_list (obc_NodeZones config) = [] then config\<lparr>obc_NodeZones := Some (defaultNodeAds oke)\<rparr> else config);
          config = (if obc_ImageName config = '''' then config\<lparr>obc_ImageName := DefaultWorkersImageName\<rparr> else config);
          config = (if obc_Shape config = '''' then config\<lparr>obc_Shape := DefaultShape\<rparr> else config);
          config = (if obc_WorkersPerAD config = '''' then config\<lparr>obc_WorkersPerAD := DefaultWorkersPerAD\<rparr> else config)
      in config)"

definition missing_env_error :: "string \<Rightarrow> error" where
  "missing_env_error var = Errorf (''Env var '' @ var @ '' is required by OKE provider, OKE clusters will not be provisioned'')"

text \<open>\<open>LookupEnv\<close> and the default HTTP client are parameters.\<close>

definition NewOke :: "(string \<Rightarrow> string option) \<Rightarrow> (httpRequest \<Rightarrow> ('w, httpResponse option \<times> error option) go) \<Rightarrow>
    ClusterControllerOptions \<Rightarrow> 'w Oke option \<times> error option" where
  "NewOke lookupEnv clientDo config =
     (let oke = \<lparr>defaultNodeAds = Split (opt_DefaultOkeAds config) CHR '','', okeBearer = '''', okeAuthGroup = '''',
            okeDefaultCloudAuthId = '''', apiHost = opt_OkeApiHost config, httpDefaultClientDo = clientDo\<rparr> in
      case lookupEnv OkeBearerToken of
        None \<Rightarrow> (None, Some (missing_env_error OkeBearerToken))
      | Some bearer \<Rightarrow>
          let oke = oke\<lparr>okeBearer := OkeBearerPrefix @ bearer\<rparr> in
          (case lookupEnv OkeAuthGroup of
             None \<Rightarrow> (None, Some (missing_env_error OkeAuthGroup))
           | Some authGroup \<Rightarrow>
               let oke = oke\<lparr>okeAuthGroup := authGroup\<rparr>;
                   oke = (case lookupEnv OkeDefaultCloudAuthId of
                     None \<Rightarrow> oke | Some authId \<Rightarrow> oke\<lparr>okeDefaultCloudAuthId := authId\<rparr>)
               in (Some oke, None)))"

definition buildBaseRequest :: "'w Oke \<Rightarrow> string \<Rightarrow> string \<Rightarrow> httpRequest" where
  "buildBaseRequest oke method path =
     \<lparr>req_Method = method, req_Scheme = ''https'', req_Host = apiHost oke, req_Path = path,
      req_Header = Header_Set ''Authorization'' (okeBearer oke)
        (Header_Set ''AuthorizationGroup'' (okeAuthGroup oke)
          (Header_Set ''Accept'' ''application/json'' [])),
      req_Body = None, req_ContentLength = 0\<rparr>"

definition buildRequestWithBody :: "'w Oke \<Rightarrow> string \<Rightarrow> string \<Rightarrow> string \<Rightarrow> httpRequest" where
  "buildRequestWithBody oke method path body =
     (buildBaseRequest oke method path)\<lparr>req_Body := Some body, req_ContentLength := length body\<rparr>"

definition transmitRequest :: "'w Oke \<Rightarrow> httpRequest \<Rightarrow> ('w, string \<times> error option) go" where
  "transmitRequest oke request =
     bnd (httpDefaultClientDo oke request) (\<lambda>(resp, err).
       if err \<noteq> None then ret ('''', err)
       else bnd (deref resp) (\<lambda>resp.
         let (bodyBytes, err) = resp_Body resp in
         if err \<noteq> None then ret ('''', err) else ret (bodyBytes, None)))"

definition sendRequest :: "'w Oke \<Rightarrow> string \<Rightarrow> string \<Rightarrow> ('w, string \<times> error option) go" where
  "sendRequest oke method path = transmitRequest oke (buildBaseRequest oke method path)"

definition sendRequestWithPayload :: "'w Oke \<Rightarrow> string \<Rightarrow> string \<Rightarrow> string \<Rightarrow> ('w, string \<times> error option) go" where
  "sendRequestWithPayload oke method path body = transmitRequest oke (buildRequestWithBody oke method path body)"

section \<open>The operations\<close>

definition oke_workersPerAd :: "string \<Rightarrow> int32" where
  "oke_workersPerAd s =
     (let (parsed, err) = ParseInt s 32 in
      if err \<noteq> None then word_of_int (fst (ParseInt DefaultWorkersPerAD 32)) else word_of_int parsed)"

definition nodes_count :: "int32 \<Rightarrow> nat \<Rightarrow> string" where
  "nodes_count workersPerAd ads = Itoa (sint (to_int64 workersPerAd * of_nat ads))"

definition createClusterBody :: "'w Oke \<Rightarrow> string \<Rightarrow> OkeBmcConfig \<Rightarrow> ClusterCreateRequest" where
  "createClusterBody oke name config =
     (let ads = map (\<lambda>adName. Some \<lparr>ad_ID = adName, ad_Subnet = ''''\<rparr>) (the_list (obc_NodeZones config));
          defaultPool = \<lparr>pool_Ads = (if ads = [] then None else Some ads), pool_ImageId = '''',
            pool_ImageName = obc_ImageName config, pool_K8Version = obc_K8Version config,
            pool_Name = ''DEFAULT'', pool_Shape = obc_Shape config,
            pool_WorkersPerAD = oke_workersPerAd (obc_WorkersPerAD config)\<rparr>
      in \<lparr>ccr_BmcClusterConfig = Some \<lparr>bmc_Compartment = obc_Compartment config, bmc_Pools = Some [Some defaultPool],
            bmc_Region = '''', bmc_SSHPrivateKey = '''', bmc_SSHPublicKey = obc_SSHPublicKey config, bmc_VcnID = ''''\<rparr>,
          ccr_CloudAuthID = okeDefaultCloudAuthId oke, ccr_CloudType = ''bmc'', ccr_K8Version = obc_K8Version config,
          ccr_LbType = obc_LbType config, ccr_Name = name, ccr_TenantID = '''', ccr_WerckerID = '''',
          ccr_LinuxVersion = ''Oracle Linux''\<rparr>)"

definition okeCreateKubeCluster :: "'w Oke \<Rightarrow> cluster \<Rightarrow> ('w, ClusterAnnotation option \<times> error option) go" where
  "okeCreateKubeCluster oke newCluster =
     (let config = setDefaultValues oke (oke_unMarshal newCluster zeroOkeBmcConfig);
          nodesCount = nodes_count (oke_workersPerAd (obc_WorkersPerAD config)) (length (the_list (obc_NodeZones config)));
          body = print_json (struct_json ClusterCreateRequest_struct (createClusterBody oke (Name newCluster) config)) in
      bnd (sendRequestWithPayload oke ''POST'' OkeClusterEndPoint body) (\<lambda>(bodyBytes, err).
        if err \<noteq> None then ret (None, err)
        else
          let (cwiResp, err) = ClusterWorkItemResponse_UnmarshalBinary bodyBytes
                                 zeroClusterWorkItemResponse in
          if err \<noteq> None then ret (None, err)
          else if cwi_ClusterID cwiResp = '''' then
            ret (None, Some (Errorf (''ClusterId is not specified for '' @ Name newCluster)))
          else if cwi_WorkItemID cwiResp = '''' then
            ret (None, Some (Errorf (''WorkItemID is not specified for '' @ Name newCluster)))
          else ret (Some
            (SetAnnotation NavarkosClusterNodeCountKey nodesCount
              (SetAnnotation ClusterManagerClusterOKEWorkItemKey (cwi_WorkItemID cwiResp)
                (SetAnnotation ClusterManagerClusterOKEIdKey (cwi_ClusterID cwiResp) emptyClusterAnnotation))), None)))"

definition okeExportKubeConfig :: "'w Oke \<Rightarrow> cluster \<Rightarrow> ('w, kubeConfig option \<times> error option) go" where
  "okeExportKubeConfig oke fedCluster =
     (case annotation fedCluster ClusterManagerClusterOKEIdKey of
        None \<Rightarrow> ret (None, Some (Errorf (''ClusterId is not specified for '' @ Name fedCluster)))
      | Some clusterId \<Rightarrow>
          bnd (sendRequest oke ''GET'' (OkeClusterEndPoint @ ''/'' @ clusterId @ OkeKubeConfigPath)) (\<lambda>(bodyBytes, err).
            if err \<noteq> None then ret (None, err)
            else
              let (config, ok) = Unmarshal OkeKubeConfig_fields bodyBytes zeroOkeKubeConfig in
              if \<not> ok then ret (None, Some json_error)
              else ret (Some (shimKubeConf config), None)))"

definition okeDeleteKubeCluster :: "'w Oke \<Rightarrow> cluster \<Rightarrow> ('w, error option) go" where
  "okeDeleteKubeCluster oke existingCluster =
     (case annotation existingCluster ClusterManagerClusterOKEIdKey of
        None \<Rightarrow> ret (Some (Errorf (''Attempt to delete but ClusterId is not specified for '' @ Name existingCluster)))
      | Some clusterId \<Rightarrow>
          bnd (sendRequest oke ''DELETE'' (OkeClusterEndPoint @ ''/'' @ clusterId)) (\<lambda>(bodyBytes, err). ret None))"

text \<open>The first pool of a response: a panic when there is none, or when it is null.\<close>

definition first_pool :: "Pool option list option \<Rightarrow> ('w, Pool) go" where
  "first_pool pools = (case the_list pools of [] \<Rightarrow> crash IndexOutOfRange | p # _ \<Rightarrow> deref p)"

definition set_first_workers :: "int32 \<Rightarrow> Pool option list option \<Rightarrow> Pool option list option" where
  "set_first_workers n pools = map_option (\<lambda>ps. case ps of [] \<Rightarrow> []
     | p # rest \<Rightarrow> map_option (\<lambda>x. x\<lparr>pool_WorkersPerAD := n\<rparr>) p # rest) pools"

definition okeScaleKubeCluster :: "'w Oke \<Rightarrow> cluster \<Rightarrow> int64 \<Rightarrow> ('w, ClusterAnnotation option \<times> error option) go" where
  "okeScaleKubeCluster oke existingCluster scaleSize =
     (case annotation existingCluster ClusterManagerClusterOKEIdKey of
        None \<Rightarrow> ret (None, Some (Errorf (''Attempt to scale with with size of '' @ Itoa (sint scaleSize) @
          '' but ClusterId is not specified for '' @ Name existingCluster)))
      | Some clusterId \<Rightarrow>
          let path = OkeClusterEndPoint @ ''/'' @ clusterId @ OkePoolsPath in
          bnd (sendRequest oke ''GET'' path) (\<lambda>(bodyBytes, err).
            if err \<noteq> None then ret (None, err)
            else
              let (poolsResponse, err) = ClusterPoolsResponse_UnmarshalBinary bodyBytes
                                           zeroClusterPoolsResponse in
              if err \<noteq> None then ret (None, err)
              else bnd (first_pool (cpr_Pools poolsResponse)) (\<lambda>pool.
                if pool_WorkersPerAD pool = 1 \<and> sint scaleSize < 0 then
                  ret (Some (SetAnnotation NavarkosClusterStateKey NavarkosClusterStateReady emptyClusterAnnotation), None)
                else
                  let workersPerAd = scaled_size (pool_WorkersPerAD pool) scaleSize;
                      clusterPools = \<lparr>cp_ClusterID = clusterId,
                        cp_Pools = set_first_workers workersPerAd (cpr_Pools poolsResponse)\<rparr>;
                      (b, err) = ClusterPools_MarshalBinary (Some clusterPools) in
                  if err \<noteq> None then ret (None, err)
                  else bnd (sendRequestWithPayload oke ''PUT'' path b) (\<lambda>(bodyBytes, err).
                    if err \<noteq> None then ret (None, err)
                    else
                      let (cwiResp, err) = ClusterWorkItemResponse_UnmarshalBinary
                                             bodyBytes zeroClusterWorkItemResponse in
                      if err \<noteq> None then ret (None, err)
                      else if cwi_ClusterID cwiResp = clusterId then
                        let nodesCount = nodes_count workersPerAd (length (the_list (pool_Ads pool))) in
                        if cwi_WorkItemID cwiResp \<noteq> '''' then
                          ret (Some (SetAnnotation NavarkosClusterNodeCountKey nodesCount
                            (SetAnnotation ClusterManagerClusterOKEWorkItemKey (cwi_WorkItemID cwiResp)
                              emptyClusterAnnotation)), None)
                        else ret (None, None)
                      else ret (None, Some (Errorf (''Unable to scale Cluster '' @ Name existingCluster @
                        '' because original ClusterId '' @ clusterId @ '' is not the same as the ClusterId '' @
                        cwi_ClusterID cwiResp @ '' in the response!'')))))))"

definition oke_validate_states :: "'w Oke \<Rightarrow> cluster \<Rightarrow> ClusterAnnotation option \<Rightarrow>
    ('w, ClusterAnnotation option \<times> error option) go" where
  "oke_validate_states oke fedCluster clusterAnnotation =
     (case annotation fedCluster ClusterManagerClusterOKEIdKey of
        None \<Rightarrow> ret (clusterAnnotation, Some (Errorf (''Attempt to validate cluster '' @ Name fedCluster @
          '', but ClusterID is not specified'')))
      | Some clusterId \<Rightarrow>
          bnd (sendRequest oke ''GET'' (OkeClusterEndPoint @ ''/'' @ clusterId)) (\<lambda>(bodyBytes, err).
            if err \<noteq> None then ret (clusterAnnotation, err)
            else
              let (clusterDetails, err) = ClusterDetails_UnmarshalBinary bodyBytes
                                            zeroClusterDetails in
              if err \<noteq> None then ret (clusterAnnotation, err)
              else bnd (deref (cds_K8 clusterDetails)) (\<lambda>k8.
                if okc_MastersState k8 = ClusterMastersStateRUNNING \<and> okc_NodesState k8 = ClusterNodesStateRUNNING
                then ret (clusterAnnotation, None)
                else ret (clusterAnnotation, Some (Errorf (''Cluster '' @ Name fedCluster @ '' with ClusterId '' @ clusterId @
                  '' has not completed processing. Master has '' @ okc_MastersState k8 @ '' state, while Nodes has '' @
                  okc_NodesState k8 @ '' state.''))))))"

definition okeValidateKubeCluster :: "'w Oke \<Rightarrow> cluster \<Rightarrow> ('w, ClusterAnnotation option \<times> error option) go" where
  "okeValidateKubeCluster oke fedCluster =
     (case annotation fedCluster ClusterManagerClusterOKEWorkItemKey of
        None \<Rightarrow> oke_validate_states oke fedCluster None
      | Some workItemId \<Rightarrow>
          bnd (sendRequest oke ''GET'' (OkeWorkItemEndPoint @ ''/'' @ workItemId)) (\<lambda>(bodyBytes, err).
            if err \<noteq> None then ret (None, err)
            else
              let (workItemDetails, err) = WorkItem_UnmarshalBinary bodyBytes zeroWorkItem in
              if err \<noteq> None then ret (None, err)
              else if wi_StatusString workItemDetails = WorkItemStatusStringComplete then
                oke_validate_states oke fedCluster
                  (Some (DeleteAnnotation ClusterManagerClusterOKEWorkItemKey emptyClusterAnnotation))
              else ret (None, Some (Errorf (''Cluster '' @ Name fedCluster @ '' with WorkItem '' @ workItemId @
                '' has not completed processing. Current status is '' @ wi_StatusString workItemDetails @ ''.'')))))"

definition oke_provider :: "'w Oke \<Rightarrow> 'w provider" where
  "oke_provider oke = \<lparr>
     CreateKubeCluster = okeCreateKubeCluster oke,
     DeleteKubeCluster = okeDeleteKubeCluster oke,
     ValidateKubeCluster = okeValidateKubeCluster oke,
     ScaleKubeCluster = okeScaleKubeCluster oke,
     ExportKubeConfig = okeExportKubeConfig oke,
     GetProviderName = ProviderName\<rparr>"

end
