(* ===== verification/OkeFacts.thy ===== *)
theory OkeFacts
  imports Oke
begin

text \<open>
  What the OKE provider promises: it keeps the provider contract (so the lemmas on the
  controller apply to it), each operation sends the requests it should, and the pools it
  writes back are the pools it read with one size changed.
\<close>

section \<open>The contract\<close>

lemma oke_create_law:
  assumes "okeCreateKubeCluster oke c w = (Ret (ann, err), w')"
  shows "(err \<noteq> None \<longrightarrow> ann = None) \<and>
      (\<forall>a. ann = Some a \<longrightarrow> wf_patch a \<and> ca_DeleteAnnotations a = [] \<and>
         patch_keys a \<subseteq> {ClusterManagerClusterOKEIdKey, ClusterManagerClusterOKEWorkItemKey,
           NavarkosClusterNodeCountKey})"
  using assms unfolding okeCreateKubeCluster_def Let_def
  by (auto elim!: bnd_RetE simp: ret_def split: prod.splits if_splits)

lemma oke_scale_law:
  assumes "okeScaleKubeCluster oke c n w = (Ret (ann, err), w')"
  shows "(err \<noteq> None \<longrightarrow> ann = None) \<and>
      (\<forall>a. ann = Some a \<longrightarrow> wf_patch a \<and> ca_DeleteAnnotations a = [] \<and>
         (a = ready_patch \<and> sint n < 0 \<or>
          patch_keys a \<subseteq> {ClusterManagerClusterOKEWorkItemKey, NavarkosClusterNodeCountKey}))"
  using assms unfolding okeScaleKubeCluster_def Let_def
  by (auto elim!: bnd_RetE simp: ret_def ready_patch_def split: prod.splits if_splits option.splits)

lemma oke_states_law:
  assumes "oke_validate_states oke c ann0 w = (Ret (ann, err), w')"
  shows "ann = ann0"
  using assms unfolding oke_validate_states_def Let_def
  by (auto elim!: bnd_RetE deref_RetE simp: ret_def split: prod.splits if_splits option.splits)

lemma oke_validate_law:
  assumes "okeValidateKubeCluster oke c w = (Ret (ann, err), w')"
  shows "\<forall>a. ann = Some a \<longrightarrow> ca_Annotations a = None \<and>
         set (ca_DeleteAnnotations a) \<subseteq> {ClusterManagerClusterOKEWorkItemKey}"
  using assms unfolding okeValidateKubeCluster_def Let_def
  by (auto elim!: bnd_RetE simp: ret_def dest!: oke_states_law split: prod.splits if_splits option.splits)

interpretation okep: provider_contract "oke_provider oke" for oke :: "'w Oke"
  by unfold_locales (auto simp: oke_provider_def dest: oke_create_law oke_scale_law oke_validate_law)

section \<open>The operations\<close>

text \<open>A request that is answered.\<close>

lemma transmit_RetE:
  assumes "transmitRequest oke req w = (Ret (body, err), w')"
  obtains (failed) e where "err = Some e" "body = []"
  | (answered) resp where "err = None" "httpDefaultClientDo oke req w = (Ret (Some resp, None), w')"
      "resp_Body resp = (body, None)"
  using assms unfolding transmitRequest_def Let_def
  by (auto elim!: bnd_RetE deref_RetE simp: ret_def split: prod.splits if_splits option.splits)

lemma transmit_answered:
  assumes "httpDefaultClientDo oke req w = (Ret (Some resp, None), w')" "resp_Body resp = (body, None)"
  shows "transmitRequest oke req w = (Ret (body, None), w')"
  using assms by (simp add: transmitRequest_def go_simps)

text \<open>A validation without error means that the service reported both states as running.\<close>

definition reported_running :: "'w Oke \<Rightarrow> cluster \<Rightarrow> 'w \<Rightarrow> bool" where
  "reported_running oke c w' \<longleftrightarrow>
     (\<exists>clusterId w1 resp body details k8. annotation c ClusterManagerClusterOKEIdKey = Some clusterId \<and>
     httpDefaultClientDo oke (buildBaseRequest oke ''GET'' (OkeClusterEndPoint @ ''/'' @ clusterId)) w1 = (Ret (Some resp, None), w') \<and>
     resp_Body resp = (body, None) \<and>
     ClusterDetails_UnmarshalBinary body zeroClusterDetails = (details, None) \<and>
     cds_K8 details = Some k8 \<and> okc_MastersState k8 = ''RUNNING'' \<and> okc_NodesState k8 = ''RUNNING'')"

lemma oke_states_running:
  assumes "oke_validate_states oke c ann0 w = (Ret (ann, None), w')"
  shows "reported_running oke c w'"
proof -
  from assms obtain clusterId where cid: "annotation c ClusterManagerClusterOKEIdKey = Some clusterId"
    by (auto simp: oke_validate_states_def ret_def split: option.splits)
  let ?req = "buildBaseRequest oke ''GET'' (OkeClusterEndPoint @ ''/'' @ clusterId)"
  from assms cid obtain body w1 details k8 where tr: "transmitRequest oke ?req w = (Ret (body, None), w1)"
    and d: "ClusterDetails_UnmarshalBinary body zeroClusterDetails = (details, None)"
      "cds_K8 details = Some k8" "okc_MastersState k8 = ''RUNNING''" "okc_NodesState k8 = ''RUNNING''" "w' = w1"
    by (auto simp: oke_validate_states_def sendRequest_def ret_def ClusterMastersStateRUNNING_def
        ClusterNodesStateRUNNING_def elim!: bnd_RetE deref_RetE split: prod.splits if_splits)
  from tr obtain resp where "httpDefaultClientDo oke ?req w = (Ret (Some resp, None), w1)" "resp_Body resp = (body, None)"
    by (auto elim: transmit_RetE)
  with cid d show ?thesis unfolding reported_running_def by blast
qed

lemma oke_validate_running:
  assumes "okeValidateKubeCluster oke c w = (Ret (ann, None), w')"
  shows "reported_running oke c w' \<and>
    ann = (if annotation c ClusterManagerClusterOKEWorkItemKey = None then None
       else Some (DeleteAnnotation ClusterManagerClusterOKEWorkItemKey emptyClusterAnnotation))"
proof (cases "annotation c ClusterManagerClusterOKEWorkItemKey")
  case None
  with assms have v: "oke_validate_states oke c None w = (Ret (ann, None), w')"
    by (simp add: okeValidateKubeCluster_def)
  from oke_states_running [OF v] oke_states_law [OF v] None show ?thesis by simp
next
  case (Some wi)
  with assms obtain w1 where
    v: "oke_validate_states oke c (Some (DeleteAnnotation ClusterManagerClusterOKEWorkItemKey emptyClusterAnnotation)) w1 = (Ret (ann, None), w')"
    by (auto simp: okeValidateKubeCluster_def ret_def Let_def elim!: bnd_RetE split: prod.splits if_splits)
  from oke_states_running [OF v] oke_states_law [OF v] Some show ?thesis by simp
qed

text \<open>What a scaling sends.\<close>

definition scaled_pools :: "string \<Rightarrow> int64 \<Rightarrow> Pool \<Rightarrow> Pool option list \<Rightarrow> ClusterPools" where
  "scaled_pools clusterId n pool rest = \<lparr>cp_ClusterID = clusterId,
     cp_Pools = Some (Some (pool\<lparr>pool_WorkersPerAD := scaled_size (pool_WorkersPerAD pool) n\<rparr>) # rest)\<rparr>"

lemma first_pool_RetE:
  assumes "first_pool pools w = (Ret p, w')"
  obtains rest where "pools = Some (Some p # rest)" "w' = w"
  using assms
  by (cases pools) (auto simp: first_pool_def the_list_def crash_def elim!: deref_RetE split: list.splits)

definition put_pools :: "'w Oke \<Rightarrow> string \<Rightarrow> ClusterPools \<Rightarrow> httpRequest" where
  "put_pools oke clusterId pools = buildRequestWithBody oke ''PUT'' (OkeClusterEndPoint @ ''/'' @ clusterId @ OkePoolsPath)
     (fst (ClusterPools_MarshalBinary (Some pools)))"

text \<open>The steps of a scaling that returns without error: the pools are read; a first pool that has
  one worker is not scaled down; otherwise the changed pools are written back.\<close>

definition scale_sent :: "'w Oke \<Rightarrow> cluster \<Rightarrow> int64 \<Rightarrow> 'w \<Rightarrow> ClusterAnnotation option \<Rightarrow> 'w \<Rightarrow> bool" where
  "scale_sent oke c n w ann w' \<longleftrightarrow> (\<exists>clusterId body pools pool rest w1.
     annotation c ClusterManagerClusterOKEIdKey = Some clusterId \<and>
     transmitRequest oke (buildBaseRequest oke ''GET'' (OkeClusterEndPoint @ ''/'' @ clusterId @ OkePoolsPath)) w =
       (Ret (body, None), w1) \<and>
     ClusterPoolsResponse_UnmarshalBinary body zeroClusterPoolsResponse = (pools, None) \<and>
     cpr_Pools pools = Some (Some pool # rest) \<and>
     (if pool_WorkersPerAD pool = 1 \<and> sint n < 0 then ann = Some ready_patch \<and> w' = w1
      else \<exists>body2 cwi. transmitRequest oke (put_pools oke clusterId (scaled_pools clusterId n pool rest)) w1 =
             (Ret (body2, None), w') \<and>
           ClusterWorkItemResponse_UnmarshalBinary body2 zeroClusterWorkItemResponse =
             (cwi, None) \<and> cwi_ClusterID cwi = clusterId \<and>
           ann = (if cwi_WorkItemID cwi = '''' then None else
             Some (SetAnnotation NavarkosClusterNodeCountKey
               (nodes_count (scaled_size (pool_WorkersPerAD pool) n) (length (the_list (pool_Ads pool))))
               (SetAnnotation ClusterManagerClusterOKEWorkItemKey (cwi_WorkItemID cwi) emptyClusterAnnotation)))))"

lemma set_first_scaled:
  "\<lparr>cp_ClusterID = clusterId, cp_Pools = set_first_workers (scaled_size (pool_WorkersPerAD pool) n) (Some (Some pool # rest))\<rparr> =
   scaled_pools clusterId n pool rest"
  by (simp add: set_first_workers_def scaled_pools_def)

lemma oke_scale_steps:
  assumes s: "okeScaleKubeCluster oke c n w = (Ret (ann, None), w')"
  shows "scale_sent oke c n w ann w'"
proof -
  from s obtain clusterId where cid: "annotation c ClusterManagerClusterOKEIdKey = Some clusterId"
    by (auto simp: okeScaleKubeCluster_def ret_def split: option.splits)
  note s' = s [unfolded okeScaleKubeCluster_def cid sendRequest_def, simplified Let_def option.case]
  from s' obtain body w1 pools where
    get: "transmitRequest oke (buildBaseRequest oke ''GET'' (OkeClusterEndPoint @ ''/'' @ clusterId @ OkePoolsPath)) w =
       (Ret (body, None), w1)" and
    un: "ClusterPoolsResponse_UnmarshalBinary body zeroClusterPoolsResponse = (pools, None)"
    by (auto simp: ret_def elim!: bnd_RetE split: prod.splits if_splits)
  from s' get un obtain pool w2 where fp: "first_pool (cpr_Pools pools) w1 = (Ret pool, w2)"
    by (auto elim!: bnd_RetE)
  then obtain rest where rest: "cpr_Pools pools = Some (Some pool # rest)" and w2: "w2 = w1" by (auto elim: first_pool_RetE)
  note fp' = fp [unfolded rest w2]
  show ?thesis
  proof (cases "pool_WorkersPerAD pool = 1 \<and> sint n < 0")
    case True
    with s' cid get un rest fp' show ?thesis
      unfolding scale_sent_def by (auto simp: ret_def bnd_def ready_patch_def)
  next
    case False
    from False s' get un rest fp'
    have "\<exists>body2 cwi. transmitRequest oke (put_pools oke clusterId (scaled_pools clusterId n pool rest)) w1 =
             (Ret (body2, None), w') \<and>
           ClusterWorkItemResponse_UnmarshalBinary body2 zeroClusterWorkItemResponse =
             (cwi, None) \<and> cwi_ClusterID cwi = clusterId \<and>
           ann = (if cwi_WorkItemID cwi = '''' then None else
             Some (SetAnnotation NavarkosClusterNodeCountKey
               (nodes_count (scaled_size (pool_WorkersPerAD pool) n) (length (the_list (pool_Ads pool))))
               (SetAnnotation ClusterManagerClusterOKEWorkItemKey (cwi_WorkItemID cwi) emptyClusterAnnotation)))"
      by (auto simp: ret_def bnd_def set_first_scaled sendRequestWithPayload_def put_pools_def MarshalBinary_def
          split: prod.splits outcome.splits if_splits)
    with False cid get un rest show ?thesis unfolding scale_sent_def by auto
  qed
qed

text \<open>A creation without error has posted the request for the defaulted configuration, and the
  answer named a cluster and a work item, which the patch records with the number of nodes.\<close>

definition create_sent :: "'w Oke \<Rightarrow> cluster \<Rightarrow> 'w \<Rightarrow> ClusterAnnotation option \<Rightarrow> 'w \<Rightarrow> bool" where
  "create_sent oke c w ann w' \<longleftrightarrow> (\<exists>config body cwi.
     config = setDefaultValues oke (oke_unMarshal c zeroOkeBmcConfig) \<and>
     transmitRequest oke (buildRequestWithBody oke ''POST'' OkeClusterEndPoint
       (print_json (struct_json ClusterCreateRequest_struct (createClusterBody oke (Name c) config)))) w = (Ret (body, None), w') \<and>
     ClusterWorkItemResponse_UnmarshalBinary body zeroClusterWorkItemResponse =
       (cwi, None) \<and> cwi_ClusterID cwi \<noteq> '''' \<and> cwi_WorkItemID cwi \<noteq> '''' \<and>
     ann = Some (SetAnnotation NavarkosClusterNodeCountKey
       (nodes_count (oke_workersPerAd (obc_WorkersPerAD config)) (length (the_list (obc_NodeZones config))))
       (SetAnnotation ClusterManagerClusterOKEWorkItemKey (cwi_WorkItemID cwi)
         (SetAnnotation ClusterManagerClusterOKEIdKey (cwi_ClusterID cwi) emptyClusterAnnotation))))"

lemma oke_create_steps:
  assumes "okeCreateKubeCluster oke c w = (Ret (ann, None), w')"
  shows "create_sent oke c w ann w'"
  using assms unfolding okeCreateKubeCluster_def create_sent_def sendRequestWithPayload_def Let_def
  by (auto simp: ret_def elim!: bnd_RetE split: prod.splits if_splits)

text \<open>No setting with a default is empty, and there are zones unless the default names none.\<close>

lemma setDefaultValues_total:
  "obc_K8Version (setDefaultValues oke config) \<noteq> ''''" "obc_LbType (setDefaultValues oke config) \<noteq> ''''"
  "obc_ImageName (setDefaultValues oke config) \<noteq> ''''" "obc_Shape (setDefaultValues oke config) \<noteq> ''''"
  "obc_WorkersPerAD (setDefaultValues oke config) \<noteq> ''''"
  "the_list (obc_NodeZones (setDefaultValues oke config)) =
     (if the_list (obc_NodeZones config) = [] then defaultNodeAds oke else the_list (obc_NodeZones config))"
  by (simp_all add: setDefaultValues_def Let_def DefaultK8Version_def DefaultLbType_def DefaultWorkersImageName_def
      DefaultShape_def DefaultWorkersPerAD_def the_list_def)

lemma create_body_valid:
  "ClusterCreateRequest_Validate (createClusterBody oke name (setDefaultValues oke config)) = None \<longleftrightarrow>
   obc_LbType config \<in> set ('''' # clusterCreateRequestTypeLbTypePropEnum)"
  by (simp add: ClusterCreateRequest_valid createClusterBody_def setDefaultValues_def Let_def DefaultLbType_def
      clusterCreateRequestTypeLbTypePropEnum_def)

text \<open>An answer without the object the code looks at crashes it.\<close>

lemma oke_validate_no_k8:
  assumes "annotation c ClusterManagerClusterOKEIdKey = Some clusterId"
    and "transmitRequest oke (buildBaseRequest oke ''GET'' (OkeClusterEndPoint @ ''/'' @ clusterId)) w = (Ret (body, None), w')"
    and "ClusterDetails_UnmarshalBinary body zeroClusterDetails = (details, None)" "cds_K8 details = None"
  shows "oke_validate_states oke c ann w = (Crash NilDereference, w')"
  using assms by (simp add: oke_validate_states_def sendRequest_def bnd_def deref_def crash_def)

lemma oke_scale_no_pools:
  assumes "annotation c ClusterManagerClusterOKEIdKey = Some clusterId"
    and "transmitRequest oke (buildBaseRequest oke ''GET'' (OkeClusterEndPoint @ ''/'' @ clusterId @ OkePoolsPath)) w =
      (Ret (body, None), w')"
    and "ClusterPoolsResponse_UnmarshalBinary body zeroClusterPoolsResponse = (pools, None)"
    and "the_list (cpr_Pools pools) = []"
  shows "okeScaleKubeCluster oke c n w = (Crash IndexOutOfRange, w')"
  using assms by (simp add: okeScaleKubeCluster_def sendRequest_def Let_def bnd_def first_pool_def crash_def)

text \<open>The error of the deleting request is dropped.\<close>

lemma oke_delete_sent:
  assumes "annotation c ClusterManagerClusterOKEIdKey = Some clusterId"
    and "transmitRequest oke (buildBaseRequest oke ''DELETE'' (OkeClusterEndPoint @ ''/'' @ clusterId)) w = (Ret r, w')"
  shows "okeDeleteKubeCluster oke c w = (Ret None, w')"
  using assms by (cases r) (simp add: okeDeleteKubeCluster_def sendRequest_def bnd_def ret_def)

end
