(* ===== verification/KopsApi.thy ===== *)
theory KopsApi
  imports Provider
begin

text \<open>
  What the kops provider works on (\<open>provider/kopsAws\<close>): the parts of the kops objects it
  fills in or reads, the interface \<open>toolSetInterface\<close> with its production implementation
  (\<open>kops_toolset.go\<close>), and the discovery of the API ingress (\<open>status_discovery.go\<close> with
  \<open>status_discovery_toolset.go\<close>).

  The kops library itself is a parameter, the record \<open>kopsLibrary\<close>. Its stores, builders,
  paths and clients are handles the provider only passes on; what they stand for lives in the
  world. A function of the library that fills in the object it is given returns the new one.
  The version of the library, which \<open>init\<close> sets, is part of the library as it is given.
\<close>

type_synonym handle = nat

section \<open>Objects\<close>

record networkingSpec =
  net_Calico :: "bool option"
  net_Kubenet :: bool

record topologySpec =
  top_Masters :: string
  top_Nodes :: string
  top_DNS :: "string option"

record subnetSpec =
  sub_Name :: string
  sub_Zone :: string
  sub_Type :: string

record etcdMemberSpec =
  em_Name :: string
  em_InstanceGroup :: string

record etcdClusterSpec =
  ec_Name :: string
  ec_Members :: "etcdMemberSpec list"

record kopsCluster =
  ks_Name :: string
  ks_Channel :: string
  ks_CloudProvider :: string
  ks_ConfigBase :: string
  ks_SSHAccess :: "string list"
  ks_KubernetesAPIAccess :: "string list"
  ks_Networking :: "networkingSpec option"
  ks_NetworkCIDR :: string
  ks_NonMasqueradeCIDR :: string
  ks_Topology :: "topologySpec option"
  ks_KubeletMaxPods :: "int32 option"
  ks_AlwaysAllow :: bool
  ks_Subnets :: "subnetSpec list"
  ks_EtcdClusters :: "etcdClusterSpec list"

record instanceGroup =
  ig_Name :: string
  ig_Role :: string
  ig_Subnets :: "string list"
  ig_MinSize :: "int32 option"
  ig_MaxSize :: "int32 option"
  ig_MachineType :: string

definition Int32Value :: "int32 option \<Rightarrow> int32" where
  "Int32Value p = (case p of None \<Rightarrow> 0 | Some n \<Rightarrow> n)"

record resourceTracker =
  rt_Shared :: bool
  rt_Name :: string

record clusterResources =
  cr_ClusterName :: string
  cr_Cloud :: handle

record applyClusterCmd =
  cmd_Cluster :: kopsCluster
  cmd_TargetName :: string
  cmd_DryRun :: bool
  cmd_MaxTaskDuration :: int

section \<open>Status discovery\<close>

text \<open>The cloud behind the \<open>fi.Cloud\<close> interface, as the type switch sees it.\<close>

datatype cloud = GCECloud handle | AWSCloud handle | OtherCloud string

record 'w statusDiscovery =
  cloudupBuildCloud :: "kopsCluster \<Rightarrow> ('w, cloud \<times> error option) go"
  gceCloudGetApiIngressStatus :: "kopsCluster \<Rightarrow> handle \<Rightarrow> ('w, string list \<times> error option) go"
  awstasksFindLoadBalancerByNameTag :: "handle \<Rightarrow> string \<Rightarrow> ('w, string option option \<times> error option) go"

text \<open>
  An ingress status is its host name; a load balancer is its DNS name, which may be nil. The
  name of a cluster is a DNS name, in which the verb \<open>%q\<close> escapes nothing.
\<close>

definition GetApiIngressStatus :: "'w statusDiscovery \<Rightarrow> kopsCluster \<Rightarrow> ('w, string list \<times> error option) go" where
  "GetApiIngressStatus toolSet cluster =
     bnd (cloudupBuildCloud toolSet cluster) (\<lambda>(cloud, err).
       if err \<noteq> None then ret ([], err)
       else case cloud of
         GCECloud gceCloud \<Rightarrow> gceCloudGetApiIngressStatus toolSet cluster gceCloud
       | AWSCloud awsCloud \<Rightarrow>
           let name = ''api.'' @ ks_Name cluster in
           bnd (awstasksFindLoadBalancerByNameTag toolSet awsCloud name) (\<lambda>(lb, err). case err of
             Some e \<Rightarrow> ret ([], Some (Errorf (''error looking for AWS ELB: '' @ error_string e)))
           | None \<Rightarrow> (case lb of
               None \<Rightarrow> ret ([], None)
             | Some dnsName \<Rightarrow>
                 let lbDnsName = (case dnsName of None \<Rightarrow> '''' | Some d \<Rightarrow> d) in
                 if lbDnsName = '''' then
                   ret ([], Some (Errorf (''Found ELB '' @ [CHR 0x22] @ name @ [CHR 0x22] @ '', but it did not have a DNSName'')))
                 else ret ([lbDnsName], None)))
       | OtherCloud typeName \<Rightarrow>
           ret ([], Some (Errorf (''API Ingress Status not implemented for '' @ typeName))))"

section \<open>The library and the tool set\<close>

record 'w kopsLibrary =
  BuildVfsPath :: "string \<Rightarrow> error + handle"
  vfs_Path :: "handle \<Rightarrow> string"
  vfs_Join :: "handle \<Rightarrow> string \<Rightarrow> handle"
  lib_EtcdClusters :: "string list"
  lib_TargetDirect :: string
  lib_DefaultMaxTaskDuration :: int
  clientset_Create :: "handle \<Rightarrow> kopsCluster \<Rightarrow> ('w, kopsCluster option \<times> error option) go"
  clientset_GetCluster :: "handle \<Rightarrow> string \<Rightarrow> ('w, kopsCluster option \<times> error option) go"
  PerformAssignments :: "kopsCluster \<Rightarrow> ('w, kopsCluster \<times> error option) go"
  groups_Create :: "handle \<Rightarrow> kopsCluster \<Rightarrow> instanceGroup \<Rightarrow> ('w, instanceGroup option \<times> error option) go"
  groups_Get :: "handle \<Rightarrow> kopsCluster \<Rightarrow> string \<Rightarrow> ('w, instanceGroup option \<times> error option) go"
  groups_Update :: "handle \<Rightarrow> kopsCluster \<Rightarrow> instanceGroup \<Rightarrow> ('w, instanceGroup option \<times> error option) go"
  groups_List :: "handle \<Rightarrow> kopsCluster \<Rightarrow> ('w, instanceGroup list option \<times> error option) go"
  AddSSHPublicKey :: "handle \<Rightarrow> string \<Rightarrow> string \<Rightarrow> ('w, error option) go"
  lib_SecretNameSSHPrimary :: string
  cmd_Run :: "handle \<Rightarrow> applyClusterCmd \<Rightarrow> ('w, error option) go"
  registry_KeyStore :: "kopsCluster option \<Rightarrow> ('w, handle \<times> error option) go"
  registry_SecretStore :: "kopsCluster option \<Rightarrow> ('w, handle \<times> error option) go"
  BuildKubecfg :: "kopsCluster option \<Rightarrow> handle \<Rightarrow> handle \<Rightarrow>
    (kopsCluster \<Rightarrow> ('w, string list \<times> error option) go) \<Rightarrow> ('w, handle \<times> error option) go"
  GenerateKubecfg :: "handle \<Rightarrow> ('w, kubeConfig option \<times> error option) go"
  BuildRestConfig :: "handle \<Rightarrow> ('w, handle \<times> error option) go"
  NewForConfig :: "handle \<Rightarrow> handle \<times> error option"
  ValidateCluster :: "string \<Rightarrow> instanceGroup list option \<Rightarrow> handle \<Rightarrow> ('w, error option) go"
  FindRegion :: "kopsCluster \<Rightarrow> string \<times> error option"
  NewAWSCloud :: "string \<Rightarrow> string gomap \<Rightarrow> ('w, handle \<times> error option) go"
  ListResources :: "clusterResources \<Rightarrow> ('w, resourceTracker option gomap \<times> error option) go"
  registry_ConfigBase :: "kopsCluster \<Rightarrow> ('w, handle \<times> error option) go"
  registry_DeleteAllClusterState :: "handle \<Rightarrow> ('w, error option) go"
  DeleteResources :: "clusterResources \<Rightarrow> resourceTracker option gomap \<Rightarrow> ('w, error option) go"
  builder_DeleteKubeConfig :: "string \<Rightarrow> ('w, error option) go"
  lib_BuildCloud :: "kopsCluster \<Rightarrow> ('w, cloud \<times> error option) go"
  gce_GetApiIngressStatus :: "handle \<Rightarrow> kopsCluster \<Rightarrow> ('w, string list \<times> error option) go"
  lib_FindLoadBalancerByNameTag :: "handle \<Rightarrow> string \<Rightarrow> ('w, string option option \<times> error option) go"

definition statusDiscoveryToolSet :: "'w kopsLibrary \<Rightarrow> 'w statusDiscovery" where
  "statusDiscoveryToolSet lib = \<lparr>
     cloudupBuildCloud = lib_BuildCloud lib,
     gceCloudGetApiIngressStatus = (\<lambda>cluster gceCloud. gce_GetApiIngressStatus lib gceCloud cluster),
     awstasksFindLoadBalancerByNameTag = lib_FindLoadBalancerByNameTag lib\<rparr>"

record 'w toolSetInterface =
  ts_createKopsCluster :: "kopsCluster \<Rightarrow> ('w, error option) go"
  ts_getKopsCluster :: "string \<Rightarrow> ('w, kopsCluster option \<times> error option) go"
  ts_cloudUpPerformAssignments :: "kopsCluster \<Rightarrow> ('w, kopsCluster \<times> error option) go"
  ts_createInstanceGroup :: "kopsCluster \<Rightarrow> instanceGroup \<Rightarrow> ('w, error option) go"
  ts_getInstanceGroupForNodes :: "kopsCluster \<Rightarrow> ('w, instanceGroup option \<times> error option) go"
  ts_updateInstanceGroup :: "kopsCluster \<Rightarrow> instanceGroup \<Rightarrow> ('w, error option) go"
  ts_applyCmdRun :: "applyClusterCmd \<Rightarrow> ('w, error option) go"
  ts_addSSHPublicKey :: "handle \<Rightarrow> string \<Rightarrow> ('w, error option) go"
  ts_getRegistryKeyStore :: "kopsCluster option \<Rightarrow> ('w, handle \<times> error option) go"
  ts_getRegistrySecretStore :: "kopsCluster option \<Rightarrow> ('w, handle \<times> error option) go"
  ts_buildKubeConfig :: "kopsCluster option \<Rightarrow> handle \<Rightarrow> handle \<Rightarrow> ('w, handle \<times> error option) go"
  ts_generateKubeConfig :: "handle \<Rightarrow> ('w, kubeConfig option \<times> error option) go"
  ts_getInstanceGroupList :: "kopsCluster \<Rightarrow> ('w, instanceGroup list option \<times> error option) go"
  ts_validateCluster :: "string \<Rightarrow> instanceGroup list option \<Rightarrow> handle \<Rightarrow> ('w, error option) go"
  ts_awsupFindRegion :: "kopsCluster \<Rightarrow> ('w, string \<times> error option) go"
  ts_awsupNewAWSCloud :: "string \<Rightarrow> string gomap \<Rightarrow> ('w, handle \<times> error option) go"
  ts_listResources :: "clusterResources \<Rightarrow> ('w, resourceTracker option gomap \<times> error option) go"
  ts_registryConfigBase :: "kopsCluster \<Rightarrow> ('w, handle \<times> error option) go"
  ts_registryDeleteAllClusterState :: "handle \<Rightarrow> ('w, error option) go"
  ts_deleteResources :: "clusterResources \<Rightarrow> resourceTracker option gomap \<Rightarrow> ('w, error option) go"
  ts_deleteKubeConfig :: "string \<Rightarrow> ('w, error option) go"

text \<open>The functions that drop the object a library call returns.\<close>

definition only_error :: "('w, 'a \<times> error option) go \<Rightarrow> ('w, error option) go" where
  "only_error m = bnd m (\<lambda>(_, err). ret err)"

definition newToolSet :: "'w kopsLibrary \<Rightarrow> handle \<Rightarrow> 'w toolSetInterface" where
  "newToolSet lib clientset = \<lparr>
     ts_createKopsCluster = (\<lambda>c. only_error (clientset_Create lib clientset c)),
     ts_getKopsCluster = clientset_GetCluster lib clientset,
     ts_cloudUpPerformAssignments = PerformAssignments lib,
     ts_createInstanceGroup = (\<lambda>c ig. only_error (groups_Create lib clientset c ig)),
     ts_getInstanceGroupForNodes = (\<lambda>c. groups_Get lib clientset c ''nodes''),
     ts_updateInstanceGroup = (\<lambda>c ig. only_error (groups_Update lib clientset c ig)),
     ts_applyCmdRun = cmd_Run lib clientset,
     ts_addSSHPublicKey = (\<lambda>store key. AddSSHPublicKey lib store (lib_SecretNameSSHPrimary lib) key),
     ts_getRegistryKeyStore = registry_KeyStore lib,
     ts_getRegistrySecretStore = registry_SecretStore lib,
     ts_buildKubeConfig = (\<lambda>c ks ss. BuildKubecfg lib c ks ss (GetApiIngressStatus (statusDiscoveryToolSet lib))),
     ts_generateKubeConfig = GenerateKubecfg lib,
     ts_getInstanceGroupList = groups_List lib clientset,
     ts_validateCluster = ValidateCluster lib,
     ts_awsupFindRegion = (\<lambda>c. ret (FindRegion lib c)),
     ts_awsupNewAWSCloud = NewAWSCloud lib,
     ts_listResources = ListResources lib,
     ts_registryConfigBase = registry_ConfigBase lib,
     ts_registryDeleteAllClusterState = registry_DeleteAllClusterState lib,
     ts_deleteResources = DeleteResources lib,
     ts_deleteKubeConfig = builder_DeleteKubeConfig lib\<rparr>"

section \<open>What discovery finds\<close>

text \<open>A load balancer without a name is an error, never an empty host.\<close>

lemma ingress_aws:
  assumes "cloudupBuildCloud ts c w = (Ret (AWSCloud h, None), w1)"
    and "awstasksFindLoadBalancerByNameTag ts h (''api.'' @ ks_Name c) w1 = (Ret (lb, None), w2)"
  shows "\<exists>hosts err. GetApiIngressStatus ts c w = (Ret (hosts, err), w2) \<and> '''' \<notin> set hosts \<and>
     (err = None \<longleftrightarrow> lb = None \<or> (\<exists>d. lb = Some (Some d) \<and> d \<noteq> '''' \<and> hosts = [d]))"
  using assms
  by (auto simp: GetApiIngressStatus_def go_simps Let_def split: option.splits)

end
