(* ===== verification/Kops.thy ===== *)
theory Kops
  imports KopsApi OkeModels Options
begin

text \<open>
  The kops provider for AWS (\<open>provider/kopsAws/kops.go\<close>): its configuration, the cluster
  specification it builds, and the five operations of the provider interface over the tool
  set. The clientset is opened on the state path, so its handle is that path's.
\<close>

section \<open>Configuration\<close>

definition KopsProviderName :: string where "KopsProviderName = ''aws-kops''"
definition DefaultMasterSize :: string where "DefaultMasterSize = ''t2.medium''"
definition DefaultNodeSize :: string where "DefaultNodeSize = ''t2.small''"
definition DefaultNumberOfMasters :: string where "DefaultNumberOfMasters = ''1''"
definition DefaultNumberOfNodes :: string where "DefaultNumberOfNodes = ''1''"
definition InstanceGroupMaster :: string where "InstanceGroupMaster = ''master''"
definition InstanceGroupNodes :: string where "InstanceGroupNodes = ''nodes''"
definition AWSAccessKeyId :: string where "AWSAccessKeyId = ''AWS_ACCESS_KEY_ID''"
definition AWSSecretAccessKeyId :: string where "AWSSecretAccessKeyId = ''AWS_SECRET_ACCESS_KEY''"
definition CalicoNetwork :: string where "CalicoNetwork = ''calico''"

record AWSKopsConfig =
  akc_Provider :: string
  akc_Region :: string
  akc_MasterZones :: "string list option"
  akc_NodeZones :: "string list option"
  akc_MasterSize :: string
  akc_NodeSize :: string
  akc_NumberOfMasters :: string
  akc_NumberOfNodes :: string
  akc_MaxNumberOfNodes :: string
  akc_MinNumberOfNodes :: string
  akc_NetworkProvider :: string
  akc_NodeNetwork :: string
  akc_PodNetwork :: string
  akc_SshKey :: string
  akc_MaxPods :: string

definition zeroAWSKopsConfig :: AWSKopsConfig where
  "zeroAWSKopsConfig = \<lparr>akc_Provider = '''', akc_Region = '''', akc_MasterZones = None, akc_NodeZones = None,
     akc_MasterSize = '''', akc_NodeSize = '''', akc_NumberOfMasters = '''', akc_NumberOfNodes = '''',
     akc_MaxNumberOfNodes = '''', akc_MinNumberOfNodes = '''', akc_NetworkProvider = '''', akc_NodeNetwork = '''',
     akc_PodNetwork = '''', akc_SshKey = '''', akc_MaxPods = ''''\<rparr>"

definition AWSKopsConfig_fields :: "AWSKopsConfig field list" where
  "AWSKopsConfig_fields = [
     fld ''provider'' decode_str akc_Provider (\<lambda>x. akc_Provider_update (\<lambda>_. x)),
     fld ''region'' decode_str akc_Region (\<lambda>x. akc_Region_update (\<lambda>_. x)),
     fld ''masterZones'' (decode_slice decode_str '''') akc_MasterZones (\<lambda>x. akc_MasterZones_update (\<lambda>_. x)),
     fld ''nodeZones'' (decode_slice decode_str '''') akc_NodeZones (\<lambda>x. akc_NodeZones_update (\<lambda>_. x)),
     fld ''masterSize'' decode_str akc_MasterSize (\<lambda>x. akc_MasterSize_update (\<lambda>_. x)),
     fld ''nodeSize'' decode_str akc_NodeSize (\<lambda>x. akc_NodeSize_update (\<lambda>_. x)),
     fld ''numberOfMasters'' decode_str akc_NumberOfMasters (\<lambda>x. akc_NumberOfMasters_update (\<lambda>_. x)),
     fld ''numberOfNodes'' decode_str akc_NumberOfNodes (\<lambda>x. akc_NumberOfNodes_update (\<lambda>_. x)),
     fld ''maxNumberOfNodes'' decode_str akc_MaxNumberOfNodes (\<lambda>x. akc_MaxNumberOfNodes_update (\<lambda>_. x)),
     fld ''minNumberOfNodes'' decode_str akc_MinNumberOfNodes (\<lambda>x. akc_MinNumberOfNodes_update (\<lambda>_. x)),
     fld ''networkProvider'' decode_str akc_NetworkProvider (\<lambda>x. akc_NetworkProvider_update (\<lambda>_. x)),
     fld ''nodeNetwork'' decode_str akc_NodeNetwork (\<lambda>x. akc_NodeNetwork_update (\<lambda>_. x)),
     fld ''podNetwork'' decode_str akc_PodNetwork (\<lambda>x. akc_PodNetwork_update (\<lambda>_. x)),
     fld ''sshkey'' decode_str akc_SshKey (\<lambda>x. akc_SshKey_update (\<lambda>_. x)),
     fld ''maxPods'' decode_str akc_MaxPods (\<lambda>x. akc_MaxPods_update (\<lambda>_. x))]"

definition kops_unMarshal :: "cluster \<Rightarrow> AWSKopsConfig \<Rightarrow> AWSKopsConfig" where
  "kops_unMarshal c config =
     (case annotation c ClusterManagerClusterConfigKey of
        None \<Rightarrow> config
      | Some clusterConfigStr \<Rightarrow> fst (Unmarshal AWSKopsConfig_fields clusterConfigStr config))"

record 'w Kops =
  kopsStatePath :: handle
  defaultNodeZones :: "string list"
  defaultMasterZones :: "string list"
  domain :: string
  toolSet :: "'w toolSetInterface"
  library :: "'w kopsLibrary"

definition kops_setDefaultValues :: "'w Kops \<Rightarrow> AWSKopsConfig \<Rightarrow> AWSKopsConfig" where
  "kops_setDefaultValues k config =
     (let config = (if the_list (akc_MasterZones config) = [] then config\<lparr>akc_MasterZones := Some (defaultMasterZones k)\<rparr> else config);
          config = (if the_list (akc_NodeZones config) = [] then config\<lparr>akc_NodeZones := Some (defaultNodeZones k)\<rparr> else config);
          config = (if akc_MasterSize config = '''' then config\<lparr>akc_MasterSize := DefaultMasterSize\<rparr> else config);
          config = (if akc_NodeSize config = '''' then config\<lparr>akc_NodeSize := DefaultNodeSize\<rparr> else config);
          config = (if akc_NumberOfMasters config = '''' then config\<lparr>akc_NumberOfMasters := DefaultNumberOfMasters\<rparr> else config);
          config = (if akc_NumberOfNodes config = '''' then config\<lparr>akc_NumberOfNodes := DefaultNumberOfNodes\<rparr> else config);
          config = (if akc_MaxPods config = '''' then config\<lparr>akc_MaxPods := ''0''\<rparr> else config)
      in config)"

definition osLookup :: "(string \<Rightarrow> string option) \<Rightarrow> string \<Rightarrow> error option" where
  "osLookup lookupEnv keyId =
     (if lookupEnv keyId = None then Some (Errorf (keyId @ '' env is not set, kops provider will be disabled'')) else None)"

definition NewAwsKops :: "(string \<Rightarrow> string option) \<Rightarrow> 'w kopsLibrary \<Rightarrow> ClusterControllerOptions \<Rightarrow>
    'w Kops option \<times> error option" where
  "NewAwsKops lookupEnv lib config =
     (case find (\<lambda>keyId. osLookup lookupEnv keyId \<noteq> None) [AWSAccessKeyId, AWSSecretAccessKeyId] of
        Some keyId \<Rightarrow> (None, osLookup lookupEnv keyId)
      | None \<Rightarrow>
          (case BuildVfsPath lib (opt_KopsStateStore config) of
             Inl err \<Rightarrow> (None, Some err)
           | Inr ksp \<Rightarrow> (Some \<lparr>kopsStatePath = ksp,
               defaultNodeZones = Split (opt_DefaultNodeZones config) CHR '','',
               defaultMasterZones = Split (opt_DefaultMasterZones config) CHR '','',
               domain = opt_Domain config,
               toolSet = newToolSet lib ksp,
               library = lib\<rparr>, None)))"

definition getClusterName :: "'w Kops \<Rightarrow> cluster \<Rightarrow> string" where
  "getClusterName k fedCluster = Join [Name fedCluster, domain k] ''.''"

section \<open>The cluster specification\<close>

definition emptyNetworkingSpec :: networkingSpec where
  "emptyNetworkingSpec = \<lparr>net_Calico = None, net_Kubenet = False\<rparr>"

definition setClusterSpecNetworking :: "AWSKopsConfig \<Rightarrow> kopsCluster \<Rightarrow> kopsCluster" where
  "setClusterSpecNetworking config c =
     (let net = (case ks_Networking c of None \<Rightarrow> emptyNetworkingSpec | Some n \<Rightarrow> n);
          net = (if akc_NetworkProvider config \<noteq> '''' then
                   if akc_NetworkProvider config = CalicoNetwork then net\<lparr>net_Calico := Some True\<rparr>
                   else net\<lparr>net_Kubenet := True\<rparr>
                 else net\<lparr>net_Kubenet := True\<rparr>)
      in c\<lparr>ks_Networking := Some net\<rparr>)"

definition setClusterMaxPods :: "int32 \<Rightarrow> kopsCluster \<Rightarrow> kopsCluster" where
  "setClusterMaxPods maxPods c = (if sint maxPods > 0 then c\<lparr>ks_KubeletMaxPods := Some maxPods\<rparr> else c)"

definition emptyKopsCluster :: kopsCluster where
  "emptyKopsCluster = \<lparr>ks_Name = '''', ks_Channel = '''', ks_CloudProvider = '''', ks_ConfigBase = '''',
     ks_SSHAccess = [], ks_KubernetesAPIAccess = [], ks_Networking = None, ks_NetworkCIDR = '''',
     ks_NonMasqueradeCIDR = '''', ks_Topology = None, ks_KubeletMaxPods = None, ks_AlwaysAllow = False,
     ks_Subnets = [], ks_EtcdClusters = []\<rparr>"

text \<open>The error of parsing \<open>maxPods\<close> is ignored, its clamped value is used.\<close>

definition kops_cluster_spec :: "'w Kops \<Rightarrow> string \<Rightarrow> AWSKopsConfig \<Rightarrow> kopsCluster" where
  "kops_cluster_spec k clusterName config =
     (let c = emptyKopsCluster\<lparr>ks_Name := clusterName, ks_Channel := ''stable'', ks_CloudProvider := ''aws'',
            ks_ConfigBase := vfs_Path (library k) (vfs_Join (library k) (kopsStatePath k) clusterName),
            ks_SSHAccess := [''0.0.0.0/0''], ks_KubernetesAPIAccess := [''0.0.0.0/0'']\<rparr>;
          c = setClusterSpecNetworking config c;
          c = (if akc_NodeNetwork config \<noteq> '''' then c\<lparr>ks_NetworkCIDR := akc_NodeNetwork config\<rparr> else c);
          c = (if akc_PodNetwork config \<noteq> '''' then c\<lparr>ks_NonMasqueradeCIDR := akc_PodNetwork config\<rparr> else c);
          c = setClusterMaxPods (word_of_int (fst (ParseInt (akc_MaxPods config) 32))) c;
          c = c\<lparr>ks_Topology := Some \<lparr>top_Masters = ''public'', top_Nodes = ''public'', top_DNS = Some ''Public''\<rparr>\<rparr>;
          c = c\<lparr>ks_AlwaysAllow := True\<rparr>;
          c = c\<lparr>ks_Subnets := map (\<lambda>z. \<lparr>sub_Name = z, sub_Zone = z, sub_Type = ''Public''\<rparr>) (the_list (akc_NodeZones config))\<rparr>;
          c = c\<lparr>ks_EtcdClusters := map (\<lambda>n. \<lparr>ec_Name = n,
                 ec_Members = map (\<lambda>z. \<lparr>em_Name = z, em_InstanceGroup = InstanceGroupMaster\<rparr>) (the_list (akc_MasterZones config))\<rparr>)
               (lib_EtcdClusters (library k))\<rparr>
      in c)"

section \<open>Creating\<close>

definition instance_count :: "string \<Rightarrow> int32" where
  "instance_count numberOfInstances =
     (let (instances, err) = ParseInt numberOfInstances 32 in
      if err \<noteq> None then 1 else word_of_int instances)"

definition instantiateInstanceGroup :: "'w Kops \<Rightarrow> kopsCluster \<Rightarrow> string \<Rightarrow> string list \<Rightarrow> string \<Rightarrow> string \<Rightarrow>
    ('w, error option) go" where
  "instantiateInstanceGroup k c icType zones machineSize numberOfInstances =
     (let instanceCount = instance_count numberOfInstances;
          role = (if icType = InstanceGroupMaster then Some ''Master''
                  else if icType = InstanceGroupNodes then Some ''Node'' else None) in
      case role of
        None \<Rightarrow> ret (Some (Errorf (''Invalid InstanceGroup type: '' @ icType)))
      | Some r \<Rightarrow> ts_createInstanceGroup (toolSet k) c
          \<lparr>ig_Name = icType, ig_Role = r, ig_Subnets = zones, ig_MinSize = Some instanceCount,
           ig_MaxSize = Some instanceCount, ig_MachineType = machineSize\<rparr>)"

text \<open>The SSH key, when one is configured.\<close>

definition kops_add_ssh_key :: "'w Kops \<Rightarrow> kopsCluster \<Rightarrow> string \<Rightarrow> ('w, error option) go" where
  "kops_add_ssh_key k c sshKey =
     (if sshKey \<noteq> '''' then
        bnd (ts_getRegistryKeyStore (toolSet k) (Some c)) (\<lambda>(keyStore, err).
          if err \<noteq> None then ret err
          else bnd (ts_addSSHPublicKey (toolSet k) keyStore sshKey) (\<lambda>err. case err of
              None \<Rightarrow> ret None
            | Some e \<Rightarrow> ret (Some (Errorf (''error addding SSH public key: '' @ error_string e)))))
      else ret None)"

definition up :: "'w Kops \<Rightarrow> cluster \<Rightarrow> ('w, ClusterAnnotation option \<times> error option) go" where
  "up k newCluster =
     (let clusterName = getClusterName k newCluster in
      bnd (ts_getKopsCluster (toolSet k) clusterName) (\<lambda>(clusterExists, err).
        if err \<noteq> None then ret (None, err)
        else if clusterExists \<noteq> None then ret (None, None)
        else
          let config = kops_setDefaultValues k (kops_unMarshal newCluster zeroAWSKopsConfig);
              c = kops_cluster_spec k clusterName config in
          bnd (ts_cloudUpPerformAssignments (toolSet k) c) (\<lambda>(c, err).
          if err \<noteq> None then ret (None, err) else
          bnd (ts_createKopsCluster (toolSet k) c) (\<lambda>err.
          if err \<noteq> None then ret (None, err) else
          bnd (instantiateInstanceGroup k c InstanceGroupMaster (the_list (akc_MasterZones config)) (akc_MasterSize config)
                 (akc_NumberOfMasters config)) (\<lambda>err.
          if err \<noteq> None then ret (None, err) else
          bnd (instantiateInstanceGroup k c InstanceGroupNodes (the_list (akc_NodeZones config)) (akc_NodeSize config)
                 (akc_NumberOfNodes config)) (\<lambda>err.
          if err \<noteq> None then ret (None, err) else
          bnd (kops_add_ssh_key k c (akc_SshKey config)) (\<lambda>err.
          if err \<noteq> None then ret (None, err) else
          ret (Some (SetAnnotation NavarkosClusterNodeCountKey (akc_NumberOfNodes config) emptyClusterAnnotation), None))))))))"

definition no_config_error :: "'w Kops \<Rightarrow> string \<Rightarrow> error" where
  "no_config_error k clusterName = Errorf (''Could not read config for cluster '' @ clusterName @ '' from the registry '' @
     vfs_Path (library k) (kopsStatePath k))"

definition apply_cluster :: "'w Kops \<Rightarrow> cluster \<Rightarrow> ('w, error option) go" where
  "apply_cluster k fedCluster =
     (let clusterName = getClusterName k fedCluster in
      bnd (ts_getKopsCluster (toolSet k) clusterName) (\<lambda>(c, err).
        if err \<noteq> None then ret err
        else case c of
          None \<Rightarrow> ret (Some (no_config_error k clusterName))
        | Some c \<Rightarrow> ts_applyCmdRun (toolSet k) \<lparr>cmd_Cluster = c, cmd_TargetName = lib_TargetDirect (library k),
            cmd_DryRun = False, cmd_MaxTaskDuration = lib_DefaultMaxTaskDuration (library k)\<rparr>))"

definition kopsCreateKubeCluster :: "'w Kops \<Rightarrow> cluster \<Rightarrow> ('w, ClusterAnnotation option \<times> error option) go" where
  "kopsCreateKubeCluster k newCluster =
     bnd (up k newCluster) (\<lambda>(clusterAnnotation, err).
       if err \<noteq> None then ret (None, err)
       else bnd (apply_cluster k newCluster) (\<lambda>err.
         if err \<noteq> None then ret (None, err) else ret (clusterAnnotation, None)))"

section \<open>Kubeconfig, deletion, scaling, validation\<close>

definition ExportKubeConfigBuilder :: "'w Kops \<Rightarrow> string \<Rightarrow> ('w, handle \<times> error option) go" where
  "ExportKubeConfigBuilder k newClusterName =
     bnd (ts_getKopsCluster (toolSet k) (Join [newClusterName, domain k] ''.'')) (\<lambda>(c, err).
       if err \<noteq> None then ret (0, err)
       else bnd (ts_getRegistryKeyStore (toolSet k) c) (\<lambda>(keyStore, err).
         if err \<noteq> None then ret (0, err)
         else bnd (ts_getRegistrySecretStore (toolSet k) c) (\<lambda>(secretStore, err).
           if err \<noteq> None then ret (0, err)
           else bnd (ts_buildKubeConfig (toolSet k) c keyStore secretStore) (\<lambda>(conf, err).
             if err \<noteq> None then ret (0, err) else ret (conf, None)))))"

definition kopsExportKubeConfig :: "'w Kops \<Rightarrow> cluster \<Rightarrow> ('w, kubeConfig option \<times> error option) go" where
  "kopsExportKubeConfig k fedCluster =
     bnd (ExportKubeConfigBuilder k (Name fedCluster)) (\<lambda>(confBuilder, err).
       if err \<noteq> None then ret (None, err) else ts_generateKubeConfig (toolSet k) confBuilder)"

text \<open>The resources that are not shared; a nil tracker in the map is dereferenced.\<close>

fun extractUnsharedClusterResources :: "resourceTracker option gomap \<Rightarrow> ('w, resourceTracker option gomap) go" where
  "extractUnsharedClusterResources [] = ret []"
| "extractUnsharedClusterResources ((key, resource) # rest) =
     bnd (deref resource) (\<lambda>r.
     bnd (extractUnsharedClusterResources rest) (\<lambda>rs.
       ret (if rt_Shared r then rs else (key, resource) # rs)))"

definition delete_unshared :: "'w Kops \<Rightarrow> clusterResources \<Rightarrow> handle \<Rightarrow> resourceTracker option gomap \<Rightarrow> ('w, error option) go" where
  "delete_unshared k d configBase clusterResources =
     (if length clusterResources > 0 then
        bnd (ts_deleteResources (toolSet k) d clusterResources) (\<lambda>err.
          if err \<noteq> None then ret err
          else ts_registryDeleteAllClusterState (toolSet k) configBase)
      else ret None)"

definition kopsDeleteKubeCluster :: "'w Kops \<Rightarrow> cluster \<Rightarrow> ('w, error option) go" where
  "kopsDeleteKubeCluster k existingCluster =
     (let clusterName = getClusterName k existingCluster in
      bnd (ts_getKopsCluster (toolSet k) clusterName) (\<lambda>(c, err).
        if err \<noteq> None then ret err
        else case c of
          None \<Rightarrow> ret None
        | Some c \<Rightarrow>
            bnd (ts_awsupFindRegion (toolSet k) c) (\<lambda>(region, err).
            if err \<noteq> None then ret err else
            bnd (ts_awsupNewAWSCloud (toolSet k) region [(''KubernetesCluster'', clusterName)]) (\<lambda>(cloud, err).
            if err \<noteq> None then ret err else
            bnd (ts_registryConfigBase (toolSet k) c) (\<lambda>(configBase, err).
            if err \<noteq> None then ret err else
            let d = \<lparr>cr_ClusterName = clusterName, cr_Cloud = cloud\<rparr> in
            bnd (ts_listResources (toolSet k) d) (\<lambda>(allResources, err).
            if err \<noteq> None then ret err else
            bnd (extractUnsharedClusterResources allResources) (\<lambda>clusterResources.
            bnd (delete_unshared k d configBase clusterResources) (\<lambda>err.
            if err \<noteq> None then ret err else
            bnd (ts_deleteKubeConfig (toolSet k) clusterName) (\<lambda>err. ret None)))))))))"

definition kopsScaleKubeCluster :: "'w Kops \<Rightarrow> cluster \<Rightarrow> int64 \<Rightarrow> ('w, ClusterAnnotation option \<times> error option) go" where
  "kopsScaleKubeCluster k existingCluster scaleSize =
     (let clusterName = getClusterName k existingCluster in
      bnd (ts_getKopsCluster (toolSet k) clusterName) (\<lambda>(c, err).
        if err \<noteq> None then ret (None, err)
        else case c of
          None \<Rightarrow> ret (None, None)
        | Some c \<Rightarrow>
            bnd (ts_getInstanceGroupForNodes (toolSet k) c) (\<lambda>(ig, err).
            if err \<noteq> None then ret (None, err)
            else case ig of
              None \<Rightarrow> ret (None, Some (Errorf (''Instance group for nodes returned a nil value for cluster: '' @ clusterName @ '' '')))
            | Some ig \<Rightarrow>
                let nodeCount = Int32Value (ig_MaxSize ig) in
                if nodeCount = 1 \<and> sint scaleSize < 0 then
                  ret (Some (SetAnnotation NavarkosClusterStateKey NavarkosClusterStateReady emptyClusterAnnotation), None)
                else
                  let nodeCount = scaled_size nodeCount scaleSize;
                      ig = ig\<lparr>ig_MinSize := Some nodeCount, ig_MaxSize := Some nodeCount\<rparr> in
                  bnd (ts_updateInstanceGroup (toolSet k) c ig) (\<lambda>err.
                  if err \<noteq> None then ret (None, err)
                  else bnd (apply_cluster k existingCluster) (\<lambda>err.
                    if err \<noteq> None then ret (None, err)
                    else ret (Some (SetAnnotation NavarkosClusterNodeCountKey (Itoa (sint (to_int64 nodeCount)))
                      emptyClusterAnnotation), None))))))"

definition kopsValidateKubeCluster :: "'w Kops \<Rightarrow> cluster \<Rightarrow> ('w, ClusterAnnotation option \<times> error option) go" where
  "kopsValidateKubeCluster k fedCluster =
     (let clusterName = getClusterName k fedCluster in
      bnd (ts_getKopsCluster (toolSet k) clusterName) (\<lambda>(c, err).
        if err \<noteq> None then ret (None, err)
        else case c of
          None \<Rightarrow> ret (None, Some (no_config_error k clusterName))
        | Some c \<Rightarrow>
            bnd (ts_getInstanceGroupList (toolSet k) c) (\<lambda>(list, err).
            if err \<noteq> None then ret (None, err) else
            bnd (deref list) (\<lambda>items.
            bnd (ExportKubeConfigBuilder k (Name fedCluster)) (\<lambda>(confBuilder, err).
            if err \<noteq> None then ret (None, err) else
            bnd (BuildRestConfig (library k) confBuilder) (\<lambda>(clientConfig, err).
            if err \<noteq> None then ret (None, err) else
            let (k8sClient, err) = NewForConfig (library k) clientConfig in
            if err \<noteq> None then ret (None, err) else
            bnd (ts_validateCluster (toolSet k) (ks_Name c) list k8sClient) (\<lambda>validationFailed.
            ret (None, validationFailed))))))))"

definition kops_provider :: "'w Kops \<Rightarrow> 'w provider" where
  "kops_provider k = \<lparr>
     CreateKubeCluster = kopsCreateKubeCluster k,
     DeleteKubeCluster = kopsDeleteKubeCluster k,
     ValidateKubeCluster = kopsValidateKubeCluster k,
     ScaleKubeCluster = kopsScaleKubeCluster k,
     ExportKubeConfig = kopsExportKubeConfig k,
     GetProviderName = KopsProviderName\<rparr>"

section \<open>The contract\<close>

lemma up_law:
  assumes "up k c w = (Ret (ann, err), w')"
  shows "(err \<noteq> None \<longrightarrow> ann = None) \<and>
     (\<forall>a. ann = Some a \<longrightarrow> a = SetAnnotation NavarkosClusterNodeCountKey
        (akc_NumberOfNodes (kops_setDefaultValues k (kops_unMarshal c zeroAWSKopsConfig))) emptyClusterAnnotation)"
  using assms unfolding up_def Let_def
  by (auto elim!: bnd_RetE simp: ret_def split: if_splits)

lemma node_count_patch:
  "wf_patch (SetAnnotation k v emptyClusterAnnotation)"
  "patch_keys (SetAnnotation k v emptyClusterAnnotation) = {k}"
  by (auto simp: patch_keys_def)

lemma kops_create_law:
  assumes "kopsCreateKubeCluster k c w = (Ret (ann, err), w')"
  shows "(err \<noteq> None \<longrightarrow> ann = None) \<and>
      (\<forall>a. ann = Some a \<longrightarrow> wf_patch a \<and> ca_DeleteAnnotations a = [] \<and>
         patch_keys a \<subseteq> {ClusterManagerClusterOKEIdKey, ClusterManagerClusterOKEWorkItemKey,
           NavarkosClusterNodeCountKey})"
  using assms unfolding kopsCreateKubeCluster_def
  by (auto elim!: bnd_RetE simp: ret_def node_count_patch dest!: up_law split: if_splits)

lemma kops_scale_law:
  assumes "kopsScaleKubeCluster k c n w = (Ret (ann, err), w')"
  shows "(err \<noteq> None \<longrightarrow> ann = None) \<and>
      (\<forall>a. ann = Some a \<longrightarrow> wf_patch a \<and> ca_DeleteAnnotations a = [] \<and>
         (a = ready_patch \<and> sint n < 0 \<or>
          patch_keys a \<subseteq> {ClusterManagerClusterOKEWorkItemKey, NavarkosClusterNodeCountKey}))"
  using assms unfolding kopsScaleKubeCluster_def Let_def
  by (auto elim!: bnd_RetE simp: ret_def node_count_patch ready_patch_def split: if_splits option.splits)

lemma kops_validate_law:
  assumes "kopsValidateKubeCluster k c w = (Ret (ann, err), w')"
  shows "ann = None"
  using assms unfolding kopsValidateKubeCluster_def Let_def
  by (auto elim!: bnd_RetE deref_RetE simp: ret_def split: prod.splits if_splits option.splits)

interpretation kopsp: provider_contract "kops_provider k" for k :: "'w Kops"
  by unfold_locales (auto simp: kops_provider_def dest: kops_create_law kops_scale_law kops_validate_law)

end
