(* ===== verification/Wiring.thy ===== *)
theory Wiring
  imports JoinFacts OkeFacts Kops
begin

text \<open>
  The controller the program builds (\<open>newClusterController\<close>, called by
  \<open>StartClusterController\<close>): the kops provider under the class \<open>kops\<close> and the OKE provider
  under the class \<open>oke\<close>, each stored whether or not its constructor succeeded. What the
  program gets from outside is collected in \<open>deployment\<close>. The controller interprets the
  locale \<open>contract_controller\<close>, so the lemmas on the handlers hold of it.
\<close>

record 'w deployment =
  dep_federationClient :: "'w federationClient"
  dep_options :: ClusterControllerOptions
  dep_lookupEnv :: "string \<Rightarrow> string option"
  dep_kopsLibrary :: "'w kopsLibrary"
  dep_httpClientDo :: "httpRequest \<Rightarrow> ('w, httpResponse option \<times> error option) go"
  dep_inClusterConfig :: "error + unit"
  dep_newForConfig :: "unit \<Rightarrow> error + 'w secretsClient"
  dep_packages :: "'w packages"

definition builtin_providers :: "'w deployment \<Rightarrow> 'w provider gomap" where
  "builtin_providers d =
     (let providers = [];
          providers = AList.update ''kops'' (provider_value kops_provider
            (fst (NewAwsKops (dep_lookupEnv d) (dep_kopsLibrary d) (dep_options d)))) providers;
          providers = AList.update ''oke'' (provider_value oke_provider
            (fst (NewOke (dep_lookupEnv d) (dep_httpClientDo d) (dep_options d)))) providers
      in providers)"

definition newClusterController :: "'w deployment \<Rightarrow> 'w ClusterController" where
  "newClusterController d = \<lparr>
     actionableStates = getActionableStates,
     clusterProviders = builtin_providers d,
     federationName = opt_FkubeName (dep_options d),
     federationNamespace = opt_FkubeNamespace (dep_options d),
     clusterToolSet = newClusterToolSet (dep_federationClient d),
     secretToolSet = NewSecretToolSet (dep_inClusterConfig d) (dep_newForConfig d),
     packages = dep_packages d\<rparr>"

lemma provider_value_contract:
  "(\<And>p. provider_contract (m p)) \<Longrightarrow> provider_contract (provider_value m op)"
  by (cases op) (simp_all add: provider_value_def nil_prov.provider_contract_axioms)

lemma builtin_lookup:
  "map_of (builtin_providers d) k =
     (if k = ''oke'' then Some (provider_value oke_provider (fst (NewOke (dep_lookupEnv d) (dep_httpClientDo d) (dep_options d))))
      else if k = ''kops'' then Some (provider_value kops_provider (fst (NewAwsKops (dep_lookupEnv d) (dep_kopsLibrary d) (dep_options d))))
      else None)"
  by (simp add: builtin_providers_def Let_def)

lemma builtin_contract:
  assumes "map_of (clusterProviders (newClusterController d)) k = Some P"
  shows "provider_contract P"
  using assms
  by (auto simp: newClusterController_def builtin_lookup split: if_splits
      intro!: provider_value_contract okep.provider_contract_axioms kopsp.provider_contract_axioms)

interpretation built: contract_controller "newClusterController d" for d :: "'w deployment"
  by (rule contract_controller.intro) (rule builtin_contract)

end
