(* ===== verification/System.thy ===== *)
theory System
  imports Lifecycle WorkerFacts Wiring
begin

text \<open>
  The goroutines \<open>Run\<close> starts, as one step relation over the shared state of the controller.

  \<^item> The informer calls \<open>onClusterAdd\<close> and \<open>onClusterUpdate\<close>; the worker takes items out of the
    queue; a pass of \<open>reconcileWhenReady\<close> runs every fifteen seconds; the goroutine \<open>run\<close> of the
    retrier moves items on, and the loop of \<open>startWithHandler\<close> hands each delivered one to the
    handler; a last goroutine waits for the stop channel and shuts the queue and the retrier
    down. A panic in any of them ends the process, as \<open>HandleCrash\<close> panics again.
  \<^item> A round of the worker, of the handler or of the reconciliation is one step. Between the
    rounds the outside world may do anything, and within a round its answers are arbitrary, so
    what other goroutines do to the API meanwhile is covered; the objects in memory a round
    changes are its own, apart from the loop variable of \<open>reconcileWhenReady\<close>.
  \<^item> The histories of the system: the rounds with the calls each made, the items handed to the
    retrier, and the items handled.
  \<^item> The invariant \<open>system_inv\<close>: the queue is well formed and its pointers are good, no item of
    the retrier is lost or reordered, every waiting updater can be retried, and the calls of
    every round are those of its specification.
\<close>

section \<open>The system\<close>

datatype roundKind = WorkRound string | RetryRound clusterUpdater string | ReconcileRound

record 'w system =
  sys :: "'w state"
  runAt :: "clusterUpdater runPoint"
  stopClosed :: bool
  crashed :: bool
  rounds :: "(roundKind \<times> event list) list"
  handedIn :: "clusterUpdater clusterUpdaterRetryItem list"
  takenOut :: "clusterUpdater clusterUpdaterRetryItem list"

definition system_init :: "'w \<Rightarrow> 'w system" where
  "system_init w = \<lparr>sys = initState w, runAt = LoopHead, stopClosed = False, crashed = False,
     rounds = [], handedIn = [], takenOut = []\<rparr>"

definition new_calls :: "'w state \<Rightarrow> 'w state \<Rightarrow> event list" where
  "new_calls s s' = drop (length (trace s)) (trace s')"

definition new_items :: "'w state \<Rightarrow> 'w state \<Rightarrow> clusterUpdater clusterUpdaterRetryItem list" where
  "new_items s s' = drop (length (updateChannel (updateRetrier s))) (updateChannel (updateRetrier s'))"

definition after_round :: "roundKind \<Rightarrow> 'w state \<Rightarrow> 'w system \<Rightarrow> 'w system" where
  "after_round k s' y = y\<lparr>sys := s', rounds := rounds y @ [(k, new_calls (sys y) s')],
     handedIn := handedIn y @ new_items (sys y) s'\<rparr>"

definition on_stop :: "('w state, unit) go" where
  "on_stop = bnd (on_queue ShutDown) (\<lambda>_. on_retrier stop)"

text \<open>The item the handler takes out of the target channel, and the state without it.\<close>

definition take_target :: "'w state \<Rightarrow> 'w state" where
  "take_target s = s\<lparr>updateRetrier := (updateRetrier s)\<lparr>targetChannel := tl (targetChannel (updateRetrier s))\<rparr>\<rparr>"

definition head_name :: "'w state \<Rightarrow> string" where
  "head_name s = Name (heap s ! the (hd (queue (workQueue s))))"

inductive goroutine_panics :: "'w ClusterController \<Rightarrow> 'w state \<Rightarrow> 'w state \<Rightarrow> bool" for cc s s' where
  "onClusterAdd cc c s = (Crash p, s') \<Longrightarrow> goroutine_panics cc s s'"
| "onClusterUpdate cc old c s = (Crash p, s') \<Longrightarrow> goroutine_panics cc s s'"
| "workerFunction cc s = (Crash p, s') \<Longrightarrow> goroutine_panics cc s s'"
| "reconcileWhenReady cc s = (Crash p, s') \<Longrightarrow> goroutine_panics cc s s'"
| "targetChannel (updateRetrier s) = item # rest \<Longrightarrow> retryHandler cc item (take_target s) = (Crash p, s') \<Longrightarrow>
    goroutine_panics cc s s'"

inductive system_step :: "'w ClusterController \<Rightarrow> 'w system \<Rightarrow> 'w system \<Rightarrow> bool" for cc where
  outside_moves: "\<not> crashed y \<Longrightarrow> system_step cc y (y\<lparr>sys := (sys y)\<lparr>world := w\<rparr>\<rparr>)"
| added: "\<not> crashed y \<Longrightarrow> onClusterAdd cc c (sys y) = (Ret u, s') \<Longrightarrow> system_step cc y (y\<lparr>sys := s'\<rparr>)"
| updated: "\<not> crashed y \<Longrightarrow> onClusterUpdate cc old c (sys y) = (Ret u, s') \<Longrightarrow> system_step cc y (y\<lparr>sys := s'\<rparr>)"
| worked: "\<not> crashed y \<Longrightarrow> workerFunction cc (sys y) = (Ret False, s') \<Longrightarrow>
    system_step cc y (after_round (WorkRound (head_name (sys y))) s' y)"
| worker_quits: "\<not> crashed y \<Longrightarrow> workerFunction cc (sys y) = (Ret True, s') \<Longrightarrow> system_step cc y (y\<lparr>sys := s'\<rparr>)"
| reconciled: "\<not> crashed y \<Longrightarrow> \<not> stopClosed y \<Longrightarrow> reconcileWhenReady cc (sys y) = (Ret err, s') \<Longrightarrow>
    system_step cc y (after_round ReconcileRound s' y)"
| retrier_runs: "\<not> crashed y \<Longrightarrow> now cc (sys y) = (Ret t, s') \<Longrightarrow>
    run_step t (runAt y, updateRetrier s') (p, r) \<Longrightarrow>
    system_step cc y (y\<lparr>sys := s'\<lparr>updateRetrier := r\<rparr>, runAt := p\<rparr>)"
| retried: "\<not> crashed y \<Longrightarrow> targetChannel (updateRetrier (sys y)) = item # rest \<Longrightarrow>
    retryHandler cc item (take_target (sys y)) = (Ret u, s') \<Longrightarrow>
    system_step cc y ((after_round (RetryRound (item_value item) (Name (base_of (item_value item) (sys y)))) s' y)
      \<lparr>takenOut := takenOut y @ [item]\<rparr>)"
| stop_closed: "\<not> crashed y \<Longrightarrow> system_step cc y (y\<lparr>stopClosed := True\<rparr>)"
| shut_down: "\<not> crashed y \<Longrightarrow> stopClosed y \<Longrightarrow> \<not> stopChannel (updateRetrier (sys y)) \<Longrightarrow>
    on_stop (sys y) = (Ret u, s') \<Longrightarrow> system_step cc y (y\<lparr>sys := s'\<rparr>)"
| panics: "\<not> crashed y \<Longrightarrow> goroutine_panics cc (sys y) s' \<Longrightarrow> system_step cc y (y\<lparr>sys := s', crashed := True\<rparr>)"

section \<open>What the rounds promise\<close>

text \<open>The pass over the listed clusters: each is validated or joined by its state, or left alone.\<close>

definition reconcile_item :: "cluster \<Rightarrow> event list \<Rightarrow> bool" where
  "reconcile_item c evs \<longleftrightarrow> (case state_of c of
      None \<Rightarrow> evs = []
    | Some st \<Rightarrow>
        if st \<in> {NavarkosClusterStateProvisioning, NavarkosClusterStateScalingUp, NavarkosClusterStateScalingDown}
        then validate_spec st c evs
        else if st = NavarkosClusterStateJoining then \<exists>address. join_spec address c evs
        else evs = [])"

definition reconcile_spec :: "event list \<Rightarrow> bool" where
  "reconcile_spec evs \<longleftrightarrow> (\<exists>items e. evs = [EvList items (Some e)]) \<or>
     (\<exists>items evss. evs = EvList (Some items) None # concat evss \<and> list_all2 reconcile_item items evss)"

definition retry_spec :: "clusterUpdater \<Rightarrow> string \<Rightarrow> event list \<Rightarrow> bool" where
  "retry_spec cu name evs \<longleftrightarrow> evs = [] \<or>
     (\<exists>err. update_protocol (patched cu) name MaxRetryCount None None evs err)"

fun round_ok :: "roundKind \<times> event list \<Rightarrow> bool" where
  "round_ok (WorkRound name, evs) \<longleftrightarrow> work_spec name evs"
| "round_ok (RetryRound cu name, evs) \<longleftrightarrow> retry_spec cu name evs"
| "round_ok (ReconcileRound, evs) \<longleftrightarrow> reconcile_spec evs"

definition system_inv :: "'w system \<Rightarrow> bool" where
  "system_inv y \<longleftrightarrow>
     wq_ok (workQueue (sys y)) \<and> processing (workQueue (sys y)) = {} \<and>
     (\<forall>p \<in> dirty (workQueue (sys y)). valid_ptr p (sys y)) \<and>
     handedIn y = takenOut y @ waiting (runAt y) (updateRetrier (sys y)) \<and>
     length (targetChannel (updateRetrier (sys y))) \<le> targetCapacity \<and>
     list_all (\<lambda>item. retry_ok (length (heap (sys y))) (item_value item)) (waiting (runAt y) (updateRetrier (sys y))) \<and>
     trace (sys y) = concat (map snd (rounds y))"

section \<open>The rounds keep their promises\<close>

lemma frame_new:
  assumes "handler_frame s s'"
  shows "trace s' = trace s @ new_calls s s'"
    "updateRetrier s' = (updateRetrier s)\<lparr>updateChannel := updateChannel (updateRetrier s) @ new_items s s'\<rparr>"
    "list_all (\<lambda>item. retry_ok (length (heap s')) (item_value item)) (new_items s s')"
    "length (heap s) \<le> length (heap s')" "workQueue s' = workQueue s"
  using assms by (auto simp: handler_frame_def new_calls_def new_items_def)

lemma new_cong:
  "trace s = trace t \<Longrightarrow> new_calls s s' = new_calls t s'"
  "updateChannel (updateRetrier s) = updateChannel (updateRetrier t) \<Longrightarrow> new_items s s' = new_items t s'"
  by (simp_all add: new_calls_def new_items_def)

lemma retry_spec_run:
  assumes "retryHandler cc item s = (Ret u, s')" "retry_ok n (item_value item)"
  shows "\<exists>evs. trace s' = trace s @ evs \<and> retry_spec (item_value item) (Name (base_of (item_value item) s)) evs"
proof -
  let ?cu = "item_value item"
  from assms(1) obtain x s1 where ex: "hasExpiredNow cc (backoff ?cu) s = (Ret x, s1)" and
    rest: "(if \<not> x then clusterUpdate cc ?cu else ret ()) s1 = (Ret u, s')"
    unfolding retryHandler_def Let_def by (auto elim!: bnd_RetE)
  from hasExpiredNow_Ret [OF ex] have w: "trace s1 = trace s" "heap s1 = heap s" by (auto simp: world_only_def)
  show ?thesis
  proof (cases x)
    case True
    with rest w show ?thesis by (auto simp: ret_def retry_spec_def)
  next
    case False
    with rest have run: "clusterUpdate cc ?cu s1 = (Ret u, s')" by simp
    have ok: "wf_patch (clusterAnnotation ?cu)" "cu_cc ?cu" "isDirty ?cu" "needsResync ?cu"
      using assms(2) by (simp_all add: retry_ok_def)
    from clusterUpdate_RetE [OF run ok(1-3)] obtain evs err where "trace s' = trace s1 @ evs"
      "update_protocol (patched ?cu) (Name (base_of ?cu s1)) MaxRetryCount None None evs err"
      using ok(4) by (metis (full_types))
    with w show ?thesis by (auto simp: retry_spec_def base_of_def)
  qed
qed

context contract_controller
begin

lemma reconcile_item_run:
  assumes "reconcileOne cc (Some a) item s = (Ret u, s')"
  shows "\<exists>evs. trace s' = trace s @ evs \<and> reconcile_item item evs"
proof -
  from assms have a: "a < length (heap s)" and
    body: "(case annotation item NavarkosClusterStateKey of None \<Rightarrow> ret ()
       | Some st \<Rightarrow> if st = NavarkosClusterStateProvisioning \<or> st = NavarkosClusterStateScalingUp \<or> st = NavarkosClusterStateScalingDown
           then validateCluster cc (Some a) st
           else if st = NavarkosClusterStateJoining then clusterJoin cc (Some a) else ret ()) (s\<lparr>heap := (heap s)[a := item]\<rparr>) = (Ret u, s')"
    unfolding reconcileOne_def by (auto elim!: bnd_RetE store_RetE)
  define s1 where "s1 = s\<lparr>heap := (heap s)[a := item]\<rparr>"
  note rest = body [folded s1_def]
  have s1: "heap s1 ! a = item" "trace s1 = trace s" using a by (simp_all add: s1_def)
  show ?thesis
  proof (cases "state_of item")
    case None
    with rest s1 show ?thesis by (auto simp: state_of_def reconcile_item_def ret_def)
  next
    case (Some st)
    consider "st \<in> {NavarkosClusterStateProvisioning, NavarkosClusterStateScalingUp, NavarkosClusterStateScalingDown}"
      | "st \<notin> {NavarkosClusterStateProvisioning, NavarkosClusterStateScalingUp, NavarkosClusterStateScalingDown}" "st = NavarkosClusterStateJoining"
      | "st \<notin> {NavarkosClusterStateProvisioning, NavarkosClusterStateScalingUp, NavarkosClusterStateScalingDown, NavarkosClusterStateJoining}"
      by auto
    then show ?thesis
    proof cases
      case 1
      with rest Some have "validateCluster cc (Some a) st s1 = (Ret u, s')" by (auto simp: state_of_def split: if_splits)
      from validate_spec_run [OF this] 1 Some s1 show ?thesis by (auto simp: reconcile_item_def)
    next
      case 2
      with rest Some have "clusterJoin cc (Some a) s1 = (Ret u, s')" by (auto simp: state_of_def split: if_splits)
      from clusterJoin_spec [OF this] 2 Some s1 show ?thesis by (fastforce simp: reconcile_item_def)
    next
      case 3
      with rest Some s1 show ?thesis by (auto simp: state_of_def reconcile_item_def ret_def split: if_splits)
    qed
  qed
qed

lemma reconcile_items_run:
  assumes "for_each (reconcileOne cc (Some a)) items s = (Ret u, s')"
  shows "\<exists>evss. trace s' = trace s @ concat evss \<and> list_all2 reconcile_item items evss"
  using assms
proof (induction items arbitrary: s)
  case Nil
  then show ?case by (simp add: ret_def)
next
  case (Cons c items)
  then obtain s1 where one: "reconcileOne cc (Some a) c s = (Ret (), s1)" and
    rest: "for_each (reconcileOne cc (Some a)) items s1 = (Ret u, s')" by (auto elim!: bnd_RetE)
  from reconcile_item_run [OF one] obtain evs where "trace s1 = trace s @ evs" "reconcile_item c evs" by blast
  moreover from Cons.IH [OF rest] obtain evss where "trace s' = trace s1 @ concat evss" "list_all2 reconcile_item items evss" by blast
  ultimately show ?case by (intro exI [of _ "evs # evss"]) simp
qed

lemma reconcile_spec_run:
  assumes "reconcileWhenReady cc s = (Ret err, s')"
  shows "\<exists>evs. trace s' = trace s @ evs \<and> reconcile_spec evs"
proof -
  from assms obtain clusters e s1 where l: "listClusters cc s = (Ret (clusters, e), s1)" and
    rest: "(if e \<noteq> None then ret e else bnd (deref clusters) (\<lambda>items. bnd (alloc emptyCluster) (\<lambda>loopVar.
       bnd (for_each (reconcileOne cc loopVar) items) (\<lambda>_. ret None)))) s1 = (Ret err, s')"
    unfolding reconcileWhenReady_def by (auto elim!: bnd_RetE)
  from l have t1: "trace s1 = trace s @ [EvList clusters e]" by (auto simp: listClusters_def elim!: logged_RetE)
  show ?thesis
  proof (cases e)
    case (Some x)
    with rest t1 show ?thesis by (auto simp: ret_def reconcile_spec_def)
  next
    case None
    with rest obtain items where items: "clusters = Some items" and
      run: "for_each (reconcileOne cc (Some (length (heap s1)))) items (s1\<lparr>heap := heap s1 @ [emptyCluster]\<rparr>) = (Ret (), s')"
      by (auto simp: alloc_run elim!: bnd_RetE deref_RetE ret_RetE)
    from reconcile_items_run [OF run] t1 None items show ?thesis by (auto simp: reconcile_spec_def)
  qed
qed

end

section \<open>The invariant\<close>

text \<open>
  A round from \<open>s1\<close>, which has the calls, the objects and the update channel of the system,
  appends what it hands in to what is waiting.
\<close>

lemma round_waiting:
  assumes "handler_frame s1 s'" "heap s1 = heap (sys y)" "updateChannel (updateRetrier s1) = updateChannel (updateRetrier (sys y))"
    and "list_all (\<lambda>item. retry_ok (length (heap (sys y))) (item_value item)) (waiting p (updateRetrier s1))"
  shows "waiting p (updateRetrier s') = waiting p (updateRetrier s1) @ new_items (sys y) s'"
    "list_all (\<lambda>item. retry_ok (length (heap s')) (item_value item)) (waiting p (updateRetrier s'))"
    "targetChannel (updateRetrier s') = targetChannel (updateRetrier s1)"
proof -
  note new = frame_new [OF assms(1)]
  have items: "new_items s1 s' = new_items (sys y) s'" by (rule new_cong(2) [OF assms(3)])
  with new(2) show w: "waiting p (updateRetrier s') = waiting p (updateRetrier s1) @ new_items (sys y) s'"
    by (simp add: waiting_def)
  from new(2) show "targetChannel (updateRetrier s') = targetChannel (updateRetrier s1)" by simp
  have "length (heap (sys y)) \<le> length (heap s')" using new(4) assms(2) by simp
  with assms(4) new(3) items w show "list_all (\<lambda>item. retry_ok (length (heap s')) (item_value item)) (waiting p (updateRetrier s'))"
    by (auto simp: list_all_iff intro: retry_ok_mono)
qed

lemma valid_ptr_mono: "valid_ptr p s \<Longrightarrow> length (heap s) \<le> length (heap s') \<Longrightarrow> valid_ptr p s'"
  by (auto simp: valid_ptr_def)

lemma retry_sound: "retry_ok n cu \<Longrightarrow> sound cu"
  by (simp add: retry_ok_def sound_def)

text \<open>Submitting a cluster keeps the queue well formed.\<close>

lemma submit_inv:
  fixes s :: "'a state"
  assumes "SubmitClusterForProvisioning cc c s = (Ret u, s')" "wq_ok (workQueue s)" "processing (workQueue s) = {}"
    and "\<forall>p \<in> dirty (workQueue s). valid_ptr p s"
  shows "wq_ok (workQueue s')" "processing (workQueue s') = {}" "\<forall>p \<in> dirty (workQueue s'). valid_ptr p s'"
    "updateRetrier s' = updateRetrier s" "trace s' = trace s" "length (heap s) \<le> length (heap s')"
proof -
  have add: "on_queue (Add p) t = (Ret (), t\<lparr>workQueue := snd (Add p (workQueue t))\<rparr>)" for p and t :: "'a state"
    by (simp add: on_queue_def zoom_def Add_def modify_def)
  have run: "SubmitClusterForProvisioning cc c s = (Ret (), s) \<or> SubmitClusterForProvisioning cc c s =
      bnd (case DeepCopy (packages cc) c of Inl err \<Rightarrow> ret None | Inr d \<Rightarrow> alloc d) (\<lambda>item. on_queue (Add item)) s"
    by (simp add: SubmitClusterForProvisioning_def ret_def split: option.split)
  consider "s' = s" | p hs where "s' = s\<lparr>heap := heap s @ hs, workQueue := snd (Add p (workQueue s))\<rparr>"
    "valid_ptr p (s\<lparr>heap := heap s @ hs\<rparr>)"
  proof (cases "DeepCopy (packages cc) c")
    case (Inl e)
    with run assms(1) have "s' = s \<or> s' = s\<lparr>workQueue := snd (Add None (workQueue s))\<rparr>" by (auto simp: bnd_def ret_def add)
    then show ?thesis using that(1) that(2) [of None "[]"] by (auto simp: valid_ptr_def)
  next
    case (Inr d)
    with run assms(1) have "s' = s \<or> s' = s\<lparr>heap := heap s @ [d], workQueue := snd (Add (Some (length (heap s))) (workQueue s))\<rparr>"
      by (auto simp: bnd_def alloc_run add)
    then show ?thesis using that(1) that(2) [of "Some (length (heap s))" "[d]"] by (auto simp: valid_ptr_def)
  qed
  then have "wq_ok (workQueue s') \<and> processing (workQueue s') = {} \<and> (\<forall>p \<in> dirty (workQueue s'). valid_ptr p s') \<and>
    updateRetrier s' = updateRetrier s \<and> trace s' = trace s \<and> length (heap s) \<le> length (heap s')"
  proof cases
    case 2
    have "wq_ok (snd (Add p (workQueue s)))" by (rule wq_ok_Add [OF assms(2) surjective_pairing])
    moreover have "valid_ptr q s'" if "q \<in> dirty (snd (Add p (workQueue s)))" for q
      using that 2 assms(4) by (auto simp: Add_def modify_def Let_def valid_ptr_def split: if_splits)
    ultimately show ?thesis using 2(1) assms(3) by (auto simp: Add_def modify_def Let_def split: if_splits)
  qed (use assms in simp)
  then show "wq_ok (workQueue s')" "processing (workQueue s') = {}" "\<forall>p \<in> dirty (workQueue s'). valid_ptr p s'"
    "updateRetrier s' = updateRetrier s" "trace s' = trace s" "length (heap s) \<le> length (heap s')" by blast+
qed

lemma retry_all_mono:
  "list_all (\<lambda>item. retry_ok n (item_value item)) xs \<Longrightarrow> n \<le> m \<Longrightarrow> list_all (\<lambda>item. retry_ok m (item_value item)) xs"
  by (auto simp: list_all_iff intro: retry_ok_mono)

lemma submitted_inv:
  assumes "system_inv y" "SubmitClusterForProvisioning cc c (sys y) = (Ret u, s')"
  shows "system_inv (y\<lparr>sys := s'\<rparr>)"
proof -
  have q: "wq_ok (workQueue (sys y))" "processing (workQueue (sys y)) = {}" "\<forall>p \<in> dirty (workQueue (sys y)). valid_ptr p (sys y)"
    using assms(1) by (simp_all add: system_inv_def)
  note s = submit_inv [OF assms(2) q]
  with assms(1) show ?thesis by (auto simp: system_inv_def intro: retry_all_mono)
qed

lemma new_calls_append: "trace s' = trace s @ evs \<Longrightarrow> new_calls s s' = evs"
  by (simp add: new_calls_def)

lemma round_inv:
  assumes inv: "system_inv y" and fr: "handler_frame s1 s'"
    and s1: "heap s1 = heap (sys y)" "trace s1 = trace (sys y)" "updateRetrier s1 = updateRetrier (sys y)"
    and q: "wq_ok q" "processing q = {}" "dirty q \<subseteq> dirty (workQueue (sys y))"
  shows "system_inv (after_round k (s'\<lparr>workQueue := q\<rparr>) y)"
proof -
  let ?s = "s'\<lparr>workQueue := q\<rparr>"
  have w: "list_all (\<lambda>item. retry_ok (length (heap (sys y))) (item_value item)) (waiting (runAt y) (updateRetrier s1))"
    using inv s1(3) by (simp add: system_inv_def)
  note rw = round_waiting [OF fr s1(1) arg_cong [OF s1(3), of updateChannel] w]
  have new: "trace s' = trace (sys y) @ new_calls (sys y) ?s" "new_items (sys y) ?s = new_items (sys y) s'"
    using frame_new(1) [OF fr] s1(2) by (simp_all add: new_calls_def new_items_def)
  have "valid_ptr p ?s" if "p \<in> dirty q" for p
  proof -
    from that inv q(3) have "valid_ptr p (sys y)" by (auto simp: system_inv_def)
    then show ?thesis by (rule valid_ptr_mono) (use frame_new(4) [OF fr] s1(1) in simp)
  qed
  with inv q rw new s1(3) show ?thesis by (simp add: system_inv_def after_round_def)
qed

context contract_controller
begin

lemma worked_inv:
  assumes "system_inv y" "workerFunction cc (sys y) = (Ret False, s')"
  shows "system_inv (after_round (WorkRound (head_name (sys y))) s' y)"
    "round_ok (WorkRound (head_name (sys y)), new_calls (sys y) s')"
proof -
  have wq: "wq_ok (workQueue (sys y))" using assms(1) by (simp add: system_inv_def)
  obtain p rest s1 s2 where q: "queue (workQueue (sys y)) = p # rest" and
    s1: "s1 = (sys y)\<lparr>workQueue := (workQueue (sys y))\<lparr>queue := rest, processing := insert p (processing (workQueue (sys y))),
       dirty := dirty (workQueue (sys y)) - {p}\<rparr>\<rparr>" and
    run: "processItem cc p s1 = (Ret (), s2)" and fr: "handler_frame s1 s2" and
    s': "s' = s2\<lparr>workQueue := (workQueue (sys y))\<lparr>queue := rest, dirty := dirty (workQueue (sys y)) - {p}\<rparr>\<rparr>"
    using workerFunction_RetE [OF assms(2) wq] by metis
  show "system_inv (after_round (WorkRound (head_name (sys y))) s' y)"
    unfolding s' by (rule round_inv [OF assms(1) fr]) (use assms(1) q s1 in \<open>auto simp: system_inv_def wq_ok_def\<close>)
  have "valid_ptr p (sys y)" using assms(1) q by (auto simp: system_inv_def wq_ok_def)
  moreover from run obtain i where i: "p = Some i" by (cases p) (auto simp: processItem_def crash_def bnd_def)
  ultimately have "i < length (heap s1)" by (simp add: valid_ptr_def s1)
  from work_spec_run [OF run [unfolded i] this] obtain evs where
    "trace s2 = trace s1 @ evs" "work_spec (Name (heap s1 ! i)) evs" by blast
  moreover from this s1 s' have "new_calls (sys y) s' = evs" by (intro new_calls_append) simp
  ultimately show "round_ok (WorkRound (head_name (sys y)), new_calls (sys y) s')"
    using q i s1 by (simp add: head_name_def)
qed

lemma reconciled_inv:
  assumes "system_inv y" "reconcileWhenReady cc (sys y) = (Ret err, s')"
  shows "system_inv (after_round ReconcileRound s' y)" "round_ok (ReconcileRound, new_calls (sys y) s')"
proof -
  from keepsD [OF frame_reconcile assms(2)] have fr: "handler_frame (sys y) s'" .
  have "system_inv (after_round ReconcileRound (s'\<lparr>workQueue := workQueue (sys y)\<rparr>) y)"
    by (rule round_inv [OF assms(1) fr]) (use assms(1) in \<open>simp_all add: system_inv_def\<close>)
  with frame_new(5) [OF fr, symmetric] show "system_inv (after_round ReconcileRound s' y)" by simp
  from reconcile_spec_run [OF assms(2)] show "round_ok (ReconcileRound, new_calls (sys y) s')"
    by (auto simp: new_calls_append)
qed

end

lemma retried_inv:
  assumes inv: "system_inv y" and item: "targetChannel (updateRetrier (sys y)) = item # rest"
    and run: "retryHandler cc item (take_target (sys y)) = (Ret u, s')"
  defines "k \<equiv> RetryRound (item_value item) (Name (base_of (item_value item) (sys y)))"
  shows "system_inv ((after_round k s' y)\<lparr>takenOut := takenOut y @ [item]\<rparr>)" "round_ok (k, new_calls (sys y) s')"
proof -
  let ?s1 = "take_target (sys y)"
  have ok: "retry_ok (length (heap (sys y))) (item_value item)"
    using inv item by (simp add: system_inv_def waiting_def)
  have fr: "handler_frame ?s1 s'" by (rule keepsD [OF frame_retryHandler [OF retry_sound [OF ok]] run])
  have w1: "item # waiting (runAt y) (updateRetrier ?s1) = waiting (runAt y) (updateRetrier (sys y))"
    using item by (simp add: waiting_def take_target_def)
  with inv have w: "list_all (\<lambda>item. retry_ok (length (heap (sys y))) (item_value item)) (waiting (runAt y) (updateRetrier ?s1))"
    by (metis system_inv_def list.pred_inject(2))
  have h: "heap ?s1 = heap (sys y)" "updateChannel (updateRetrier ?s1) = updateChannel (updateRetrier (sys y))"
    "trace ?s1 = trace (sys y)" "workQueue ?s1 = workQueue (sys y)" "targetChannel (updateRetrier ?s1) = rest"
    using item by (simp_all add: take_target_def)
  note rw = round_waiting [OF fr h(1,2) w]
  note new = frame_new [OF fr]
  have "valid_ptr p s'" if "p \<in> dirty (workQueue (sys y))" for p
    using that inv new(4) h(1) by (auto simp: system_inv_def intro: valid_ptr_mono)
  moreover have "trace s' = trace (sys y) @ new_calls (sys y) s'" using new(1) h(3) by (simp add: new_cong(1) [OF h(3)])
  moreover have "handedIn y = takenOut y @ item # waiting (runAt y) (updateRetrier ?s1)"
    using inv w1 by (simp add: system_inv_def)
  ultimately show "system_inv ((after_round k s' y)\<lparr>takenOut := takenOut y @ [item]\<rparr>)"
    using inv rw new(5) h(4,5) item by (simp add: system_inv_def after_round_def)
  from retry_spec_run [OF run ok] h(1,3) show "round_ok (k, new_calls (sys y) s')"
    by (auto simp: k_def new_calls_append base_of_def)
qed

context contract_controller
begin

lemma system_step_inv:
  assumes "system_step cc y y'" "system_inv y" "list_all round_ok (rounds y)"
  shows "(crashed y' \<or> system_inv y') \<and> list_all round_ok (rounds y')"
  using assms
proof (induction rule: system_step.induct)
  case (outside_moves y w)
  then show ?case by (auto simp: system_inv_def valid_ptr_def)
next
  case (worked y s')
  with worked_inv [OF worked(3,2)] show ?case by (simp add: after_round_def)
next
  case (worker_quits y s')
  then have "s' = sys y" by (auto simp: system_inv_def elim: workerFunction_RetE)
  with worker_quits show ?case by simp
next
  case (reconciled y err s')
  with reconciled_inv [OF reconciled(4,3)] show ?case by (simp add: after_round_def)
next
  case (retrier_runs y t s' p r)
  from now_Ret [OF retrier_runs(2)] have w: "heap s' = heap (sys y)" "workQueue s' = workQueue (sys y)"
    "updateRetrier s' = updateRetrier (sys y)" "trace s' = trace (sys y)" by (simp_all add: world_only_def)
  from run_step_waiting [OF retrier_runs(3)] retrier_runs(4,5) show ?case
    by (simp add: system_inv_def w valid_ptr_def)
next
  case (retried y item rest u s')
  with retried_inv [OF retried(4,2,3)] show ?case by (simp add: after_round_def)
next
  case (shut_down y u s')
  then have "s' = (sys y)\<lparr>workQueue := (workQueue (sys y))\<lparr>shuttingDown := True\<rparr>,
      updateRetrier := (updateRetrier (sys y))\<lparr>stopChannel := True\<rparr>\<rparr>"
    by (simp add: on_stop_def on_queue_def on_retrier_def zoom_def bnd_def ShutDown_def stop_def modify_def)
  with shut_down show ?case by (auto simp: system_inv_def wq_ok_def waiting_def valid_ptr_def)
qed (auto simp: onClusterAdd_def onClusterUpdate_def intro: submitted_inv, auto simp: system_inv_def)

lemma system_inv_reachable:
  assumes "(system_step cc)\<^sup>*\<^sup>* (system_init w) y"
  shows "(crashed y \<or> system_inv y) \<and> list_all round_ok (rounds y)"
  using assms
proof (induction rule: rtranclp_induct)
  case base
  show ?case
    by (simp add: system_init_def system_inv_def initState_def wq_ok_new waiting_def in_hand_def newClusterUpdateRetrier_def)
      (simp add: newWorkQueue_def)
next
  case (step y z)
  from step(2) have "\<not> crashed y" by (cases rule: system_step.cases) auto
  with system_step_inv [OF step(2)] step(3) show ?case by blast
qed

end

section \<open>Who calls the providers\<close>

text \<open>
  A call that creates, deletes or scales is made by a round of the worker only, and that round
  has announced it.
\<close>

fun changes_resources :: "providerCall \<Rightarrow> bool" where
  "changes_resources CallCreate = True"
| "changes_resources CallDelete = True"
| "changes_resources (CallScale n) = True"
| "changes_resources CallValidate = False"
| "changes_resources CallExport = False"

fun is_change :: "event \<Rightarrow> bool" where
  "is_change (EvProvider k c e) = changes_resources k"
| "is_change _ = False"

lemma is_change_call: "is_change ev \<Longrightarrow> is_provider_call ev"
  by (cases ev) simp_all

lemma protocol_no_change: "update_protocol Q name n ob e0 evs err \<Longrightarrow> list_all (\<lambda>ev. \<not> is_change ev) evs"
  using protocol_no_provider is_change_call by (fastforce simp: list_all_iff)

lemma delete_no_change: "delete_protocol n ob e0 evs err ob' \<Longrightarrow> list_all (\<lambda>ev. \<not> is_change ev) evs"
  by (induction rule: delete_protocol.induct) simp_all

lemma recreates_no_change: "recreates n c evs err \<Longrightarrow> list_all (\<lambda>ev. \<not> is_change ev) evs"
  by (auto simp: recreates_def list_all_iff)

lemma join_no_change: "join_spec address c evs \<Longrightarrow> list_all (\<lambda>ev. \<not> is_change ev) evs"
  by (auto elim!: join_spec.cases reset_spec.cases dest: delete_no_change recreates_no_change)

lemma validate_no_change: "validate_spec st c evs \<Longrightarrow> list_all (\<lambda>ev. \<not> is_change ev) evs"
  by (auto elim!: validate_spec.cases dest: protocol_no_change)

lemma reconcile_item_no_change: "reconcile_item c evs \<Longrightarrow> list_all (\<lambda>ev. \<not> is_change ev) evs"
  by (auto simp: reconcile_item_def intro: join_no_change validate_no_change split: option.splits if_splits)

lemma reconcile_no_change: assumes "reconcile_spec evs" shows "list_all (\<lambda>ev. \<not> is_change ev) evs"
proof -
  have "list_all (\<lambda>ev. \<not> is_change ev) (concat evss)" if "list_all2 reconcile_item items evss" for items evss
    using that by (induction rule: list_all2_induct) (auto intro: reconcile_item_no_change)
  with assms show ?thesis by (auto simp: reconcile_spec_def)
qed

lemma changes_announced:
  assumes "round_ok (k, evs)" "evs = as @ EvProvider call c e # bs" "changes_resources call"
  shows "\<exists>name. k = WorkRound name \<and> call_announced name as call c"
proof (cases k)
  case (WorkRound name)
  with assms work_provider_call show ?thesis by auto
next
  case (RetryRound cu name)
  with assms show ?thesis by (auto simp: retry_spec_def dest: protocol_no_change)
next
  case ReconcileRound
  with assms reconcile_no_change [of evs] show ?thesis by auto
qed

end
