(* ===== verification/LoopVariable.thy ===== *)
theory LoopVariable
  imports System
begin

text \<open>
  The loop variable of \<open>reconcileWhenReady\<close> (\<open>for _, cluster := range clusters.Items\<close>, of which
  the handlers are given the address).

  \<^item> \<open>renames_nothing\<close>: the handlers of a pass keep the name of every object in memory. Only the
    loop itself overwrites its variable.
  \<^item> So after a pass the variable holds the last cluster of the list, and the retry of an updater
    that still points to it goes to that cluster.
\<close>

section \<open>Names in memory\<close>

definition renames_nothing :: "'w state \<Rightarrow> 'w state \<Rightarrow> bool" where
  "renames_nothing s s' \<longleftrightarrow> length (heap s) \<le> length (heap s') \<and>
     (\<forall>a < length (heap s). Name (heap s' ! a) = Name (heap s ! a))"

interpretation names: run_frame renames_nothing
proof
  show "reflp renames_nothing" by (simp add: reflp_def renames_nothing_def)
  show "transp renames_nothing" by (rule transpI) (auto simp: renames_nothing_def)
qed

named_theorems name_calls \<open>computations that keep the names of the objects in memory\<close>

lemma names_elsewhere: "(\<And>s r s'. m s = (r, s') \<Longrightarrow> heap s' = heap s) \<Longrightarrow> keeps renames_nothing m"
  by (rule keepsI) (simp add: renames_nothing_def)

lemma names_memory [name_calls]: "keeps renames_nothing (alloc c)" "keeps renames_nothing (load p)"
  by (rule keepsI, auto simp: alloc_def load_def renames_nothing_def nth_append split: option.splits if_splits)+

lemma names_calls [name_calls]:
  "keeps renames_nothing (outside m)" "keeps renames_nothing (log_event e)" "keeps renames_nothing (on_retrier r)"
  by (rule names_elsewhere, auto simp: outside_def on_retrier_def zoom_def log_event_def modify_def split: prod.splits)+

lemma names_logged [name_calls]: "keeps renames_nothing (logged ev m)" "keeps renames_nothing (alloc_result oc)"
  unfolding logged_def alloc_result_def by (intro names.rules name_calls)+

text \<open>An object that is stored where it was loaded from keeps its name.\<close>

lemma names_replaced: "load p s = (Ret c, s) \<Longrightarrow> Name c' = Name c \<Longrightarrow> store p c' s = (r, s') \<Longrightarrow> renames_nothing s s'"
  by (auto simp: load_def store_def renames_nothing_def nth_list_update split: option.splits if_splits)

lemma apply_state: "snd (ApplyAnnotation ca m s) = s"
  by (auto simp: ApplyAnnotation_def go_simps split: option.splits)

lemma address_state: "snd (set_server_address addr c s) = s"
  by (auto simp: set_server_address_def ret_def crash_def split: option.splits list.splits)

lemma address_name: "set_server_address addr c s = (Ret c', s') \<Longrightarrow> Name c' = Name c"
  by (auto simp: set_server_address_def ret_def crash_def split: option.splits list.splits)

lemma secret_name: "Name (set_secret_ref n c) = Name c"
  by (simp add: set_secret_ref_def split: option.split)

lemma names_updateData [name_calls]: "keeps renames_nothing (updateData cu)"
proof (rule keepsI)
  fix s r s' assume run: "updateData cu s = (r, s')"
  note app = apply_state and addr = address_state address_name and sec = secret_name
  show "renames_nothing s s'"
  proof (cases "\<exists>a. cu_cluster cu = Some a \<and> a < length (heap s)")
    case True
    then obtain a where a: "cu_cluster cu = Some a" "a < length (heap s)" by blast
    let ?app = "ApplyAnnotation (clusterAnnotation cu) (Annotations (heap s ! a)) s"
    show ?thesis
    proof (cases "fst ?app")
      case (Ret ann)
      then have "?app = (Ret ann, s)" using app by (metis prod.collapse)
      moreover define c1 s1 where "c1 = (heap s ! a)\<lparr>Annotations := ann\<rparr>" and "s1 = s\<lparr>heap := (heap s)[a := c1]\<rparr>"
      ultimately have run1: "bnd (set_server_address (serverAddress cu) c1)
          (\<lambda>c. store (cu_cluster cu) (set_secret_ref (secretRefName cu) c)) s1 = (r, s')"
        using run a by (simp add: updateData_def bnd_def load_def store_def)
      have n1: "renames_nothing s s1" using a by (simp add: renames_nothing_def s1_def c1_def nth_list_update)
      have "renames_nothing s1 s'"
      proof (cases "fst (set_server_address (serverAddress cu) c1 s1)")
        case (Ret c2)
        then have r2: "set_server_address (serverAddress cu) c1 s1 = (Ret c2, s1)" using addr(1) by (metis prod.collapse)
        from addr(2) [OF this] have "Name (set_secret_ref (secretRefName cu) c2) = Name c1" by (simp add: sec)
        moreover have "load (cu_cluster cu) s1 = (Ret c1, s1)" using a by (simp add: load_def s1_def)
        ultimately show ?thesis using run1 r2 names_replaced by (simp add: bnd_def)
      qed (use run1 addr(1) [of "serverAddress cu" c1 s1] in
        \<open>auto simp: bnd_def names.frame_refl [THEN reflpD] split: prod.splits outcome.splits\<close>)
      with n1 show ?thesis by (rule names.frame_trans [THEN transpD])
    qed (use run app [of "clusterAnnotation cu" "Annotations (heap s ! a)" s] a in
        \<open>auto simp: updateData_def bnd_def load_def names.frame_refl [THEN reflpD] split: prod.splits outcome.splits\<close>)
  qed (use run in \<open>auto simp: updateData_def bnd_def load_def names.frame_refl [THEN reflpD] split: option.splits if_splits\<close>)
qed

section \<open>The handlers of a pass\<close>

lemma names_api [name_calls]:
  "keeps renames_nothing (getCluster cc n)" "keeps renames_nothing (updateCluster cc p)" "keeps renames_nothing (listClusters cc)"
  "keeps renames_nothing (deleteCluster cc n)" "keeps renames_nothing (recreateCluster cc p)" "keeps renames_nothing (now cc)"
  unfolding getCluster_def updateCluster_def listClusters_def deleteCluster_def recreateCluster_def now_def
  by (intro names.rules name_calls)+

lemma names_clusterUpdate [name_calls]: "keeps renames_nothing (clusterUpdate cc cu)"
proof -
  have sync: "keeps renames_nothing (resync cc n cu)" for n cu
    unfolding resync_def Let_def by (intro names.rules name_calls)
  have loop: "keeps renames_nothing (update_loop cc n i e cu)" for n i e cu
    by (induction i arbitrary: e cu) (auto simp: Let_def intro!: names.rules name_calls sync)
  have upd: "keeps renames_nothing (cu_update cc cu)" for cu
    unfolding cu_update_def by (intro names.rules name_calls loop)
  have retry: "keeps renames_nothing (retryClusterUpdate cc cu)" for cu
    unfolding retryClusterUpdate_def hasExpiredNow_def Let_def by (intro names.rules name_calls)
  show ?thesis unfolding clusterUpdate_def by (intro names.rules name_calls upd retry)
qed

lemma names_provider [name_calls]: "keeps renames_nothing (callProvider cc p k f m)"
  unfolding callProvider_def by (intro names.rules name_calls)

lemma names_validate: "keeps renames_nothing (validateCluster cc p st)"
  unfolding validateCluster_def Let_def by (intro names.rules name_calls)

lemma names_reset: "keeps renames_nothing (resetCluster cc p)"
proof -
  have del: "keeps renames_nothing (reset_delete cc n e p)" for n e p
    by (induction n arbitrary: e p) (auto intro!: names.rules name_calls)
  have cre: "keeps renames_nothing (reset_create cc n e p)" for n e p
    by (induction n arbitrary: e) (auto intro!: names.rules name_calls)
  have version: "keeps renames_nothing (bnd (load p) (\<lambda>c. bnd (store p (c\<lparr>ResourceVersion := ''''\<rparr>)) (\<lambda>_. reset_create cc n e p)))" for n e p
  proof (rule keepsI)
    fix s r s' assume run: "bnd (load p) (\<lambda>c. bnd (store p (c\<lparr>ResourceVersion := ''''\<rparr>)) (\<lambda>_. reset_create cc n e p)) s = (r, s')"
    show "renames_nothing s s'"
    proof (cases "\<exists>a. p = Some a \<and> a < length (heap s)")
      case True
      then obtain a where a: "p = Some a" "a < length (heap s)" by blast
      let ?s1 = "s\<lparr>heap := (heap s)[a := (heap s ! a)\<lparr>ResourceVersion := ''''\<rparr>]\<rparr>"
      have "renames_nothing s ?s1" using a by (simp add: renames_nothing_def nth_list_update)
      moreover have "renames_nothing ?s1 s'" using run a cre by (auto simp: bnd_def load_def store_def dest: keepsD)
      ultimately show ?thesis by (rule names.frame_trans [THEN transpD])
    qed (use run in \<open>auto simp: bnd_def load_def names.frame_refl [THEN reflpD] split: option.splits if_splits\<close>)
  qed
  show ?thesis unfolding resetCluster_def by (intro names.rules del version)
qed

lemma names_join: "keeps renames_nothing (clusterJoin cc p)"
proof -
  have sec: "keeps renames_nothing (createClusterSecrets cc p conf)" for conf
    unfolding createClusterSecrets_def createSecret_def
    by (cases "secretToolSet cc") (auto intro!: names.rules name_calls)
  have fin: "keeps renames_nothing (finishJoin cc p x)" for x
    unfolding finishJoin_def Let_def by (intro names.rules name_calls names_reset)
  show ?thesis unfolding clusterJoin_def Let_def
    by (intro names.rules name_calls sec fin)
qed

section \<open>After a pass\<close>

lemma one_leaves:
  assumes "reconcileOne cc (Some a) item s = (Ret u, s')"
  shows "a < length (heap s') \<and> Name (heap s' ! a) = Name item"
proof -
  have a: "a < length (heap s)" using assms by (auto simp: reconcileOne_def elim!: bnd_RetE store_RetE)
  define s1 where "s1 = s\<lparr>heap := (heap s)[a := item]\<rparr>"
  have "(case annotation item NavarkosClusterStateKey of None \<Rightarrow> ret ()
       | Some st \<Rightarrow> if st = NavarkosClusterStateProvisioning \<or> st = NavarkosClusterStateScalingUp \<or> st = NavarkosClusterStateScalingDown
           then validateCluster cc (Some a) st
           else if st = NavarkosClusterStateJoining then clusterJoin cc (Some a) else ret ()) s1 = (Ret u, s')"
    using assms unfolding reconcileOne_def s1_def by (auto elim!: bnd_RetE store_RetE)
  moreover have "keeps renames_nothing (case annotation item NavarkosClusterStateKey of None \<Rightarrow> ret ()
       | Some st \<Rightarrow> if st = NavarkosClusterStateProvisioning \<or> st = NavarkosClusterStateScalingUp \<or> st = NavarkosClusterStateScalingDown
           then validateCluster cc (Some a) st
           else if st = NavarkosClusterStateJoining then clusterJoin cc (Some a) else ret ())"
    by (intro names.rules names_validate names_join)
  ultimately have "renames_nothing s1 s'" by (blast dest: keepsD)
  with a show ?thesis by (auto simp: renames_nothing_def s1_def)
qed

lemma loop_leaves:
  "for_each (reconcileOne cc (Some a)) items s = (Ret u, s') \<Longrightarrow> items \<noteq> [] \<Longrightarrow>
     a < length (heap s') \<and> Name (heap s' ! a) = Name (last items)"
proof (induction items arbitrary: s)
  case (Cons c items)
  then obtain s1 where "reconcileOne cc (Some a) c s = (Ret (), s1)" "for_each (reconcileOne cc (Some a)) items s1 = (Ret u, s')"
    by (auto elim!: bnd_RetE)
  with Cons.IH [of s1] one_leaves [of cc a c s "()" s1] show ?case by (cases "items = []") (auto simp: ret_def)
qed simp

context contract_controller
begin

lemma pass_leaves:
  assumes "reconcileWhenReady cc s = (Ret None, s')" "new_calls s s' = EvList (Some items) None # evs" "items \<noteq> []"
  shows "Name (heap s' ! length (heap s)) = Name (last items)"
proof -
  from assms(1) obtain clusters e s1 where l: "listClusters cc s = (Ret (clusters, e), s1)" and
    rest: "(if e \<noteq> None then ret e else bnd (deref clusters) (\<lambda>items. bnd (alloc emptyCluster) (\<lambda>loopVar.
       bnd (for_each (reconcileOne cc loopVar) items) (\<lambda>_. ret None)))) s1 = (Ret None, s')"
    unfolding reconcileWhenReady_def by (auto elim!: bnd_RetE)
  from l have s1: "trace s1 = trace s @ [EvList clusters e]" "heap s1 = heap s"
    by (auto simp: listClusters_def elim!: logged_RetE)
  from rest have e: "e = None" by (cases e) (auto simp: ret_def)
  with rest obtain its where its: "clusters = Some its" and
    run: "for_each (reconcileOne cc (Some (length (heap s1)))) its (s1\<lparr>heap := heap s1 @ [emptyCluster]\<rparr>) = (Ret (), s')"
    by (auto simp: alloc_run elim!: bnd_RetE deref_RetE ret_RetE)
  from reconcile_items_run [OF run] have "\<exists>evs. trace s' = trace s1 @ evs" by auto
  with assms(2) s1 e its have "its = items" by (auto simp: new_calls_def)
  with loop_leaves [OF run] assms(3) s1(2) show ?thesis by simp
qed

lemma loop_variable_retry:
  assumes "reconcileWhenReady cc s = (Ret None, s1)" "new_calls s s1 = EvList (Some items) None # evs" "items \<noteq> []"
    and "retry_ok n (item_value item)" "cu_cluster (item_value item) = Some (length (heap s))"
    and "retryHandler cc item s1 = (Ret u, s2)"
  shows "retry_spec (item_value item) (Name (last items)) (new_calls s1 s2)"
  using retry_spec_run [OF assms(6,4)] pass_leaves [OF assms(1-3)] assms(5)
  by (auto simp: base_of_def new_calls_def)

end

end
