(* ===== verification/Progress.thy ===== *)
theory Progress
  imports WorkerFacts
begin

text \<open>
  The worker gets on with its work. A run of the handlers can end without a value: the code
  dereferences nil objects, indexes empty lists, writes to nil maps, calls providers that may
  crash, and a send on a full channel blocks. \<open>serves\<close> collects what the code relies on
  instead of checking it: the API answers a fetch with an object that has annotations, a server
  address and a class with a provider, and the providers of these classes return. Under
  \<open>serves\<close>, and with room in the update channel, every round of the worker returns, and a
  worker whose queue is shut down drains it and ends.
\<close>

section \<open>What the code relies on\<close>

text \<open>An object the handlers can work on; \<open>K\<close> are the classes with a provider that works.\<close>

definition good :: "string set \<Rightarrow> cluster \<Rightarrow> bool" where
  "good K c \<longleftrightarrow> Annotations c \<noteq> None \<and> ServerAddressByClientCIDRs c \<noteq> [] \<and>
     annotation_or_empty c ClusterManagerClusterClassKey \<in> K"

definition good_ptr :: "string set \<Rightarrow> 'w state \<Rightarrow> ptr \<Rightarrow> bool" where
  "good_ptr K s p \<longleftrightarrow> (\<exists>a. p = Some a \<and> a < length (heap s) \<and> good K (heap s ! a))"

definition good_le :: "string set \<Rightarrow> 'w state \<Rightarrow> 'w state \<Rightarrow> bool" where
  "good_le K s s' \<longleftrightarrow> (\<forall>p. good_ptr K s p \<longrightarrow> good_ptr K s' p)"

definition live :: "('w \<Rightarrow> bool) \<Rightarrow> 'w state \<Rightarrow> bool" where
  "live W s \<longleftrightarrow> W (world s)"

lemma good_leD: "good_le K s s' \<Longrightarrow> good_ptr K s p \<Longrightarrow> good_ptr K s' p"
  by (simp add: good_le_def)

lemma good_le_refl [simp]: "good_le K s s"
  by (simp add: good_le_def)

lemma good_le_trans: "good_le K s t \<Longrightarrow> good_le K t u \<Longrightarrow> good_le K s u"
  by (simp add: good_le_def)

definition provider_serves :: "string set \<Rightarrow> ('w \<Rightarrow> bool) \<Rightarrow> 'w provider \<Rightarrow> bool" where
  "provider_serves K W P \<longleftrightarrow> provider_contract P \<and> (\<forall>c. good K c \<longrightarrow>
     total_on W (CreateKubeCluster P c) (\<lambda>_. True) \<and> total_on W (DeleteKubeCluster P c) (\<lambda>_. True) \<and>
     (\<forall>n. total_on W (ScaleKubeCluster P c n) (\<lambda>_. True)))"

definition serves :: "'w ClusterController \<Rightarrow> string set \<Rightarrow> ('w \<Rightarrow> bool) \<Rightarrow> bool" where
  "serves cc K W \<longleftrightarrow>
     (\<forall>name. total_on W (ts_getCluster (clusterToolSet cc) name) (\<lambda>(oc, err). err = None \<longrightarrow> (\<exists>c. oc = Some c \<and> good K c))) \<and>
     (\<forall>c. good K c \<longrightarrow> total_on W (ts_updateCluster (clusterToolSet cc) c) (\<lambda>_. True)) \<and>
     total_on W (time_Now (packages cc)) (\<lambda>_. True) \<and>
     (\<forall>ts ns name. secretToolSet cc = Some ts \<longrightarrow> total_on W (DeleteSecret ts ns name) (\<lambda>_. True)) \<and>
     (\<forall>cls \<in> K. \<exists>P. map_of (clusterProviders cc) cls = Some P \<and> provider_serves K W P)"

section \<open>Runs that return\<close>

text \<open>
  \<open>goes K W j m s Q\<close>: from \<open>s\<close>, \<open>m\<close> returns with \<open>Q\<close>; it keeps what was good and adds at most \<open>j\<close>
  items to the update channel.
\<close>

definition goes :: "string set \<Rightarrow> ('w \<Rightarrow> bool) \<Rightarrow> nat \<Rightarrow> ('w state, 'a) go \<Rightarrow> 'w state \<Rightarrow> ('a \<Rightarrow> 'w state \<Rightarrow> bool) \<Rightarrow> bool" where
  "goes K W j m s Q \<longleftrightarrow> (\<exists>x s'. m s = (Ret x, s') \<and> live W s' \<and>
     good_le K s s' \<and>
     length (updateChannel (updateRetrier s')) \<le> length (updateChannel (updateRetrier s)) + j \<and> Q x s')"

lemma goes_bnd:
  assumes "goes K W i m s Q1"
    and "\<And>x s'. live W s' \<Longrightarrow> good_le K s s' \<Longrightarrow>
      length (updateChannel (updateRetrier s')) \<le> length (updateChannel (updateRetrier s)) + i \<Longrightarrow> Q1 x s' \<Longrightarrow>
      goes K W j (f x) s' Q"
    and "i + j \<le> k"
  shows "goes K W k (bnd m f) s Q"
proof -
  from assms(1) obtain x s' where 1: "m s = (Ret x, s')" "live W s'" "good_le K s s'"
    "length (updateChannel (updateRetrier s')) \<le> length (updateChannel (updateRetrier s)) + i" "Q1 x s'"
    by (auto simp: goes_def)
  from assms(2) [OF 1(2-5)] obtain y s'' where 2: "f x s' = (Ret y, s'')" "live W s''"
    "good_le K s' s''"
    "length (updateChannel (updateRetrier s'')) \<le> length (updateChannel (updateRetrier s')) + j" "Q y s''"
    by (auto simp: goes_def)
  from 1(1) 2(1) have "bnd m f s = (Ret y, s'')" by (simp add: bnd_def)
  moreover have "length (updateChannel (updateRetrier s'')) \<le> length (updateChannel (updateRetrier s)) + k"
    using 1(4) 2(4) assms(3) by linarith
  ultimately show ?thesis unfolding goes_def using good_le_trans [OF 1(3) 2(3)] 2 by blast
qed

lemma goes_ret: "live W s \<Longrightarrow> Q x s \<Longrightarrow> goes K W j (ret x) s Q"
  by (simp add: goes_def ret_def)

lemma goes_weaken: "goes K W i m s Q1 \<Longrightarrow> i \<le> j \<Longrightarrow> (\<And>x s'. Q1 x s' \<Longrightarrow> Q x s') \<Longrightarrow> goes K W j m s Q"
  unfolding goes_def by fastforce

lemma goes_load:
  "live W s \<Longrightarrow> good_ptr K s p \<Longrightarrow> goes K W j (load p) s (\<lambda>c s'. s' = s \<and> p \<noteq> None \<and> c = heap s ! the p)"
  by (auto simp: goes_def load_def good_ptr_def)

lemma goes_read: "live W s \<Longrightarrow> good_ptr K s p \<Longrightarrow> goes K W j (load p) s (\<lambda>_ s'. s' = s)"
  by (auto simp: goes_def load_def good_ptr_def)

lemma goes_outside:
  assumes "total_on W m P" "live W s"
  shows "goes K W j (outside m) s (\<lambda>x s'. P x)"
  using assms unfolding total_on_def goes_def outside_def zoom_def good_le_def good_ptr_def live_def by fastforce

lemma goes_logged:
  assumes "total_on W m P" "live W s"
  shows "goes K W j (logged ev m) s (\<lambda>x s'. P x)"
  unfolding logged_def
  by (rule goes_bnd [OF goes_outside [OF assms, where j = 0], where j = 0],
      rule goes_bnd [where i = 0 and j = 0 and ?Q1.0 = "\<lambda>_ _. True"])
    (auto simp: goes_def log_event_def modify_def good_le_def good_ptr_def ret_def live_def)

lemma goes_getCluster:
  fixes s :: "'w state"
  assumes "serves cc K W" "live W s"
  shows "goes K W 0 (getCluster cc name) s (\<lambda>r s'. snd r = None \<longrightarrow> good_ptr K s' (fst r))"
proof -
  have "total_on W (ts_getCluster (clusterToolSet cc) name) (\<lambda>(oc, err). err = None \<longrightarrow> (\<exists>c. oc = Some c \<and> good K c))"
    using assms(1) by (simp add: serves_def)
  from goes_logged [OF this assms(2), of K 0 "\<lambda>(oc, err). EvGet name oc err"] show ?thesis
    unfolding getCluster_def
  proof (rule goes_bnd [where j = 0])
    fix x and s' :: "'w state" assume w: "live W s'" and x: "case x of (oc, err) \<Rightarrow> err = None \<longrightarrow> (\<exists>c. oc = Some c \<and> good K c)"
    obtain oc err where oe: "x = (oc, err)" by (cases x)
    show "goes K W 0 (case x of (oc, err) \<Rightarrow> bnd (alloc_result oc) (\<lambda>p. ret (p, err))) s'
        (\<lambda>r s'. snd r = None \<longrightarrow> good_ptr K s' (fst r))"
      using w x oe
      by (cases oc) (auto simp: goes_def alloc_result_def alloc_def bnd_def ret_def good_le_def good_ptr_def nth_append live_def)
  qed simp
qed

section \<open>Updates\<close>

text \<open>The updaters of the worker never touch the class of a cluster.\<close>

definition safe_patch :: "ClusterAnnotation \<Rightarrow> bool" where
  "safe_patch p \<longleftrightarrow> wf_patch p \<and> ClusterManagerClusterClassKey \<notin> patch_keys p \<and>
     ClusterManagerClusterClassKey \<notin> set (ca_DeleteAnnotations p)"

definition safe_updater :: "clusterUpdater \<Rightarrow> bool" where
  "safe_updater cu \<longleftrightarrow> cu_cc cu \<and> safe_patch (clusterAnnotation cu)"

definition updater_ok :: "string set \<Rightarrow> 'w state \<Rightarrow> clusterUpdater \<Rightarrow> bool" where
  "updater_ok K s cu \<longleftrightarrow> safe_updater cu \<and> good_ptr K s (cu_cluster cu)"

lemma patch_effect_class:
  "safe_patch p \<Longrightarrow> patch_effect p f ClusterManagerClusterClassKey = f ClusterManagerClusterClassKey"
  by (auto simp: safe_patch_def patch_effect_def patch_keys_def split: option.split)

lemma goes_updateData:
  assumes "live W s" "updater_ok K s cu"
  shows "goes K W 0 (updateData cu) s (\<lambda>_ _. True)"
proof -
  from assms(2) obtain a where a: "cu_cluster cu = Some a" "a < length (heap s)" "good K (heap s ! a)"
    and safe: "safe_patch (clusterAnnotation cu)" "wf_patch (clusterAnnotation cu)"
    by (auto simp: updater_ok_def safe_updater_def safe_patch_def good_ptr_def)
  let ?c = "heap s ! a"
  from a(3) obtain kvs first rest where c: "Annotations ?c = Some kvs" "ServerAddressByClientCIDRs ?c = first # rest"
    by (auto simp: good_def neq_Nil_conv)
  from ApplyAnnotation_Some [OF safe(2), of kvs s] obtain m where
    m: "ApplyAnnotation (clusterAnnotation cu) (Some kvs) s = (Ret (Some m), s)"
      "map_of m = patch_effect (clusterAnnotation cu) (map_of kvs)" .
  define c1 where "c1 = ?c\<lparr>Annotations := Some m\<rparr>"
  define c2 where "c2 = set_secret_ref (secretRefName cu) (case serverAddress cu of None \<Rightarrow> c1
      | Some addr \<Rightarrow> c1\<lparr>ServerAddressByClientCIDRs := first\<lparr>ServerAddress := addr\<rparr> # rest\<rparr>)"
  have run: "updateData cu s = (Ret (), s\<lparr>heap := (heap s)[a := c2]\<rparr>)"
    using a(1,2) c m(1)
    by (cases "serverAddress cu")
      (simp_all add: updateData_def bnd_def load_def store_def set_server_address_def ret_def c1_def c2_def)
  have "annotation c2 ClusterManagerClusterClassKey = annotation ?c ClusterManagerClusterClassKey"
    using m(2) c(1) patch_effect_class [OF safe(1)]
    by (simp add: annotation_def c2_def c1_def set_secret_ref_def split: option.split)
  then have "good K c2" using a(3) c(2)
    by (auto simp: good_def annotation_or_empty_def c2_def c1_def set_secret_ref_def split: option.splits)
  with assms(1) run a(2) show ?thesis by (auto simp: goes_def good_le_def good_ptr_def nth_list_update live_def)
qed

lemma updater_ok_mono: "good_le K s s' \<Longrightarrow> updater_ok K s cu \<Longrightarrow> updater_ok K s' cu"
  by (simp add: updater_ok_def good_leD)

lemma updater_ok_resync [simp]: "updater_ok K s (cu\<lparr>needsResync := b\<rparr>) = updater_ok K s cu"
  by (simp add: updater_ok_def safe_updater_def)

lemma updater_ok_cluster: "updater_ok K s cu \<Longrightarrow> good_ptr K s p \<Longrightarrow> updater_ok K s (cu\<lparr>cu_cluster := p\<rparr>)"
  by (simp add: updater_ok_def safe_updater_def)

abbreviation keeps_updater :: "string set \<Rightarrow> error option \<times> clusterUpdater \<Rightarrow> 'w state \<Rightarrow> bool" where
  "keeps_updater K r s \<equiv> updater_ok K s (snd r)"

lemma goes_resync:
  fixes s :: "'w state"
  assumes "serves cc K W" "live W s" "updater_ok K s cu"
  shows "goes K W 0 (resync cc name cu) s (keeps_updater K)"
  unfolding resync_def
proof (rule goes_bnd [OF goes_getCluster [OF assms(1,2)], where j = 0])
  fix x :: "ptr \<times> error option" and s' :: "'w state"
  assume w: "live W s'" and mono: "good_le K s s'"
    and x: "snd x = None \<longrightarrow> good_ptr K s' (fst x)"
  obtain p err where pe: "x = (p, err)" by (cases x)
  note ok = updater_ok_mono [OF mono assms(3)]
  show "goes K W 0 (case x of (cluster, err) \<Rightarrow> if err = None then let cu = cu\<lparr>cu_cluster := cluster\<rparr> in
         bnd (updateData cu) (\<lambda>_. ret (err, cu\<lparr>needsResync := False\<rparr>)) else ret (err, cu\<lparr>needsResync := True\<rparr>)) s'
      (keeps_updater K)"
  proof (cases err)
    case None
    with x pe have ok': "updater_ok K s' (cu\<lparr>cu_cluster := p\<rparr>)" by (simp add: updater_ok_cluster [OF ok])
    from None pe show ?thesis
      by (auto simp: Let_def intro!: goes_bnd [OF goes_updateData [OF w ok'], where j = 0] goes_ret
          dest: updater_ok_mono [OF _ ok'])
  qed (use pe w ok in \<open>simp add: goes_ret\<close>)
qed simp

lemma goes_updateCluster:
  assumes "serves cc K W" "live W s" "good_ptr K s p"
  shows "goes K W 0 (updateCluster cc p) s (\<lambda>_ _. True)"
proof -
  obtain a where a: "p = Some a" "a < length (heap s)" "good K (heap s ! a)" using assms(3) by (auto simp: good_ptr_def)
  then have t: "total_on W (ts_updateCluster (clusterToolSet cc) (heap s ! a)) (\<lambda>_. True)"
    using assms(1) by (simp add: serves_def)
  note ld = goes_load [OF assms(2,3), where j = 0]
  show ?thesis unfolding updateCluster_def
    by (rule goes_bnd [OF ld, where j = 0])
      (auto simp: a intro!: goes_bnd [OF goes_logged [OF t, where j = 0], where j = 0] goes_ret split: prod.split)
qed

lemma goes_update_loop:
  fixes s :: "'w state"
  assumes "serves cc K W" "live W s" "updater_ok K s cu"
  shows "goes K W 0 (update_loop cc name n e cu) s (keeps_updater K)"
  using assms(2,3)
proof (induction n arbitrary: e cu s)
  case 0
  then show ?case by (simp add: goes_ret)
next
  case (Suc n)
  let ?first = "if needsResync cu then resync cc name cu else ret (None, cu)"
  have first: "goes K W 0 ?first s (keeps_updater K)"
    using Suc.prems goes_resync [OF assms(1) Suc.prems] by (simp add: goes_ret)
  show ?case unfolding update_loop.simps
  proof (rule goes_bnd [OF first, where j = 0])
    fix x :: "error option \<times> clusterUpdater" and s1 :: "'w state"
    assume w1: "live W s1" and ok: "keeps_updater K x s1"
    obtain err1 cu1 where x: "x = (err1, cu1)" by (cases x)
    with ok have ok1: "updater_ok K s1 cu1" "good_ptr K s1 (cu_cluster cu1)" by (simp_all add: updater_ok_def)
    show "goes K W 0 (case x of (err, cu) \<Rightarrow> if err \<noteq> None then ret (err, cu)
       else bnd (updateCluster cc (cu_cluster cu)) (\<lambda>err. case err of
           None \<Rightarrow> ret (None, cu\<lparr>needsResync := False\<rparr>)
         | Some e \<Rightarrow> let cu = cu\<lparr>needsResync := True\<rparr> in
             if IsConflict e then update_loop cc name n err cu else ret (err, cu))) s1 (keeps_updater K)"
      using w1 ok1 x
      by (auto simp: Let_def intro!: goes_ret goes_bnd [OF goes_updateCluster [OF assms(1) w1 ok1(2)], where j = 0]
          Suc.IH split: option.split) (rule updater_ok_mono, assumption, assumption)+
  qed simp
qed

lemma goes_cu_update:
  fixes s :: "'w state"
  assumes "serves cc K W" "live W s" "updater_ok K s cu"
  shows "goes K W 0 (cu_update cc cu) s (keeps_updater K)"
proof -
  have cc: "cu_cc cu" using assms(3) by (simp add: updater_ok_def safe_updater_def)
  let ?first = "if \<not> needsResync cu then updateData cu else ret ()"
  have first: "goes K W 0 ?first s (\<lambda>_ _. True)"
    using goes_updateData [OF assms(2,3)] assms(2) by (simp add: goes_ret)
  have "goes K W 0 (bnd ?first (\<lambda>_. bnd (load (cu_cluster cu)) (\<lambda>c. update_loop cc (Name c) MaxRetryCount None cu))) s
      (keeps_updater K)"
  proof (rule goes_bnd [OF first, where j = 0])
    fix x :: unit and s1 :: "'w state"
    assume w1: "live W s1" and mono: "good_le K s s1"
    note ok1 = updater_ok_mono [OF mono assms(3)]
    then have p: "good_ptr K s1 (cu_cluster cu)" by (simp add: updater_ok_def)
    note ld = goes_read [OF w1 p, where j = 0]
    show "goes K W 0 (bnd (load (cu_cluster cu)) (\<lambda>c. update_loop cc (Name c) MaxRetryCount None cu)) s1 (keeps_updater K)"
      by (rule goes_bnd [OF ld, where j = 0]) (auto intro!: goes_update_loop [OF assms(1)] w1 ok1)
  qed simp
  with cc assms(2,3) show ?thesis by (simp add: cu_update_def goes_ret)
qed

section \<open>Retries\<close>

lemma goes_now: "serves cc K W \<Longrightarrow> live W s \<Longrightarrow> goes K W 0 (now cc) s (\<lambda>_ _. True)"
  unfolding now_def by (rule goes_outside) (simp_all add: serves_def)

lemma goes_hasExpired: "serves cc K W \<Longrightarrow> live W s \<Longrightarrow> goes K W 0 (hasExpiredNow cc b) s (\<lambda>_ _. True)"
  unfolding hasExpiredNow_def
  by (auto intro!: goes_ret goes_bnd [OF goes_now, where j = 0])

lemma goes_deliver:
  assumes "live W s" "length (updateChannel (updateRetrier s)) < updateCapacity"
  shows "goes K W 1 (on_retrier (deliverAfter t u d)) s (\<lambda>_ _. True)"
  using assms
  by (auto simp: goes_def on_retrier_def zoom_def deliverAfter_def send_update_def good_le_def good_ptr_def live_def)

text \<open>Room for one more item in the update channel is enough.\<close>

lemma goes_retry:
  fixes s :: "'w state"
  assumes "serves cc K W" "live W s" "length (updateChannel (updateRetrier s)) < updateCapacity"
  shows "goes K W 1 (retryClusterUpdate cc cu) s (\<lambda>_ _. True)"
proof -
  have tail: "goes K W 1 (case next_backoff (backoff cu) of (delay, b) \<Rightarrow>
      bnd (now cc) (\<lambda>t. on_retrier (deliverAfter t (cu\<lparr>backoff := b\<rparr>) delay))) s (\<lambda>_ _. True)"
    if "live W s" "length (updateChannel (updateRetrier s)) < updateCapacity" for s :: "'w state" and cu
    using that by (auto intro!: goes_bnd [OF goes_now [OF assms(1)], where j = 1] goes_deliver split: prod.split)
  have first: "goes K W 0 (if IsZero (startTime (backoff cu))
      then bnd (now cc) (\<lambda>t. ret (cu\<lparr>backoff := (backoff cu)\<lparr>startTime := t\<rparr>\<rparr>)) else ret cu) s (\<lambda>_ _. True)"
    using assms(2) by (auto intro!: goes_ret goes_bnd [OF goes_now [OF assms(1)], where j = 0])
  show ?thesis unfolding retryClusterUpdate_def Let_def
  proof (rule goes_bnd [OF first, where j = 1])
    fix x and s1 :: "'w state"
    assume w: "live W s1" and room: "length (updateChannel (updateRetrier s1)) \<le> length (updateChannel (updateRetrier s)) + 0"
    show "goes K W 1 (bnd (hasExpiredNow cc (backoff x)) (\<lambda>expired. if \<not> expired
        then case next_backoff (backoff x) of (delay, b) \<Rightarrow>
          bnd (now cc) (\<lambda>t. on_retrier (deliverAfter t (x\<lparr>backoff := b\<rparr>) delay)) else ret ())) s1 (\<lambda>_ _. True)"
      using room assms(3)
      by (intro goes_bnd [OF goes_hasExpired [OF assms(1) w], where j = 1]) (simp_all add: tail [unfolded One_nat_def] goes_ret)
  qed simp
qed

lemma goes_clusterUpdate:
  fixes s :: "'w state"
  assumes "serves cc K W" "live W s" "updater_ok K s cu" "length (updateChannel (updateRetrier s)) < updateCapacity"
  shows "goes K W 1 (clusterUpdate cc cu) s (\<lambda>_ _. True)"
  unfolding clusterUpdate_def
proof (rule goes_bnd [OF goes_cu_update [OF assms(1-3)], where j = 1])
  fix x :: "error option \<times> clusterUpdater" and s1 :: "'w state"
  assume w: "live W s1" and room: "length (updateChannel (updateRetrier s1)) \<le> length (updateChannel (updateRetrier s)) + 0"
    and ok: "keeps_updater K x s1"
  obtain err cu1 where x: "x = (err, cu1)" by (cases x)
  with ok have p: "good_ptr K s1 (cu_cluster cu1)" by (simp add: updater_ok_def)
  show "goes K W 1 (case x of (err, updater) \<Rightarrow> if err \<noteq> None
      then bnd (load (cu_cluster updater)) (\<lambda>_. retryClusterUpdate cc updater) else ret ()) s1 (\<lambda>_ _. True)"
    using w room assms(4) x
    by (auto intro!: goes_ret goes_bnd [OF goes_read [OF w p, where j = 0], where j = 1] goes_retry [OF assms(1)])
qed simp

section \<open>The handlers\<close>

definition safe_result :: "ClusterAnnotation option \<times> error option \<Rightarrow> bool" where
  "safe_result r \<longleftrightarrow> (\<forall>a. fst r = Some a \<longrightarrow> safe_patch a)"

lemma class_key_other:
  "ClusterManagerClusterClassKey \<notin> {ClusterManagerClusterOKEIdKey, ClusterManagerClusterOKEWorkItemKey, NavarkosClusterNodeCountKey}"
  "ClusterManagerClusterClassKey \<notin> set getClusterAnnotationsToDelete"
  "ClusterManagerClusterClassKey \<noteq> NavarkosClusterStateKey"
  by (simp_all add: getClusterAnnotationsToDelete_def key_defs)

lemma provider_results:
  assumes "provider_serves K W P" "good K c"
  shows "total_on W (CreateKubeCluster P c) safe_result" "total_on W (DeleteKubeCluster P c) (\<lambda>_. True)"
    "total_on W (ScaleKubeCluster P c n) safe_result"
proof -
  from assms have pc: "provider_contract P" and t: "total_on W (CreateKubeCluster P c) (\<lambda>_. True)"
    "total_on W (DeleteKubeCluster P c) (\<lambda>_. True)" "total_on W (ScaleKubeCluster P c n) (\<lambda>_. True)"
    by (auto simp: provider_serves_def)
  show "total_on W (DeleteKubeCluster P c) (\<lambda>_. True)" by (fact t)
  have rp: "safe_patch ready_patch"
    using class_key_other(3) by (auto simp: safe_patch_def ready_patch_def patch_keys_def)
  show "total_on W (CreateKubeCluster P c) safe_result"
  proof (rule total_on_law [OF t(1)])
    fix w w' and x :: "ClusterAnnotation option \<times> error option"
    assume "CreateKubeCluster P c w = (Ret x, w')"
    then show "safe_result x"
      using provider_contract.create_law [OF pc, of c w "fst x" "snd x" w'] class_key_other(1)
      by (auto simp: safe_result_def safe_patch_def)
  qed
  show "total_on W (ScaleKubeCluster P c n) safe_result"
  proof (rule total_on_law [OF t(3)])
    fix w w' and x :: "ClusterAnnotation option \<times> error option"
    assume "ScaleKubeCluster P c n w = (Ret x, w')"
    then show "safe_result x"
      using provider_contract.scale_law [OF pc, of c n w "fst x" "snd x" w'] class_key_other(1) rp
      by (auto simp: safe_result_def safe_patch_def)
  qed
qed

lemma goes_callProvider:
  assumes "serves cc K W" "live W s" "good_ptr K s p"
    and "\<And>P c. provider_serves K W P \<Longrightarrow> good K c \<Longrightarrow> total_on W (method P c) Q"
  shows "goes K W 0 (callProvider cc p k ev method) s (\<lambda>x _. Q x)"
proof -
  obtain a where a: "p = Some a" "a < length (heap s)" "good K (heap s ! a)" using assms(3) by (auto simp: good_ptr_def)
  then obtain P where P: "getProvider cc (heap s ! a) = Some P" "provider_serves K W P"
    using assms(1) unfolding serves_def getProvider_def good_def by blast
  note t = assms(4) [OF P(2) a(3)]
  show ?thesis unfolding callProvider_def
    by (rule goes_bnd [OF goes_load [OF assms(2,3), where j = 0], where j = 0])
      (use a P assms(2) in \<open>auto simp: deref_def intro!: goes_bnd [OF goes_ret, where j = 0] goes_logged [OF t]\<close>)
qed

text \<open>How the handlers build their updaters.\<close>

lemma safe_new: "safe_updater (newClusterUpdater p)"
  by (simp add: safe_updater_def safe_patch_def)

lemma safe_reset: "cu_cc cu \<Longrightarrow> safe_updater (reset cu)"
  by (simp add: safe_updater_def safe_patch_def)

lemma safe_set: "safe_updater cu \<Longrightarrow> k \<noteq> ClusterManagerClusterClassKey \<Longrightarrow> safe_updater (setAnnotation k v cu)"
  by (auto simp: safe_updater_def safe_patch_def)

lemma safe_address: "safe_updater cu \<Longrightarrow> safe_updater (setServerAddress a cu)"
  by (simp add: safe_updater_def)

lemma safe_delete: "safe_updater cu \<Longrightarrow> ClusterManagerClusterClassKey \<notin> set ks \<Longrightarrow> safe_updater (fold deleteAnnotation ks cu)"
  by (induction ks arbitrary: cu) (auto simp: safe_updater_def safe_patch_def)

lemma patch_keys_fold:
  "patch_keys (fold (\<lambda>(key, val). SetAnnotation key val) kvs p) = fst ` set kvs \<union> patch_keys p"
  by (induction kvs arbitrary: p) auto

lemma patch_keys_deletes [simp]: "patch_keys (p\<lparr>ca_DeleteAnnotations := ks\<rparr>) = patch_keys p"
  by (simp add: patch_keys_def)

lemma safe_copy:
  assumes "safe_patch a" "safe_updater cu" "clusterAnnotation cu = emptyClusterAnnotation"
  shows "safe_updater (copyAnnotation a cu)"
proof -
  have "patch_keys (clusterAnnotation (copyAnnotation a cu)) \<subseteq> patch_keys a"
    using assms(3)
    by (auto simp: copyAnnotation_def Let_def patch_keys_fold patch_keys_def [of a] dom_map_of_conv_image_fst
        map_get_Some split: option.splits)
  with assms copyAnnotation_patch [of a cu] show ?thesis by (auto simp: safe_updater_def safe_patch_def)
qed

lemma goes_then_ret: "goes K W j m s (\<lambda>_ _. True) \<Longrightarrow> goes K W j (bnd m (\<lambda>_. ret x)) s (\<lambda>_ _. True)"
  by (erule goes_bnd [where j = 0]) (auto intro: goes_ret)

lemma goes_create:
  fixes s :: "'w state"
  assumes "serves cc K W" "live W s" "good_ptr K s p" "length (updateChannel (updateRetrier s)) < updateCapacity"
  shows "goes K W 1 (createCluster cc p) s (\<lambda>_ _. True)"
  unfolding createCluster_def Let_def
proof (rule goes_bnd [OF goes_callProvider [OF assms(1-3) provider_results(1)], where j = 1])
  fix x :: "ClusterAnnotation option \<times> error option" and s1 :: "'w state"
  assume w: "live W s1" and le: "good_le K s s1" and sr: "safe_result x"
    and room: "length (updateChannel (updateRetrier s1)) \<le> length (updateChannel (updateRetrier s)) + 0"
  obtain ann err where x: "x = (ann, err)" by (cases x)
  define u where "u = (if err \<noteq> None then setAnnotation NavarkosClusterStateKey NavarkosClusterStateFailedProvision (newClusterUpdater p)
      else setAnnotation NavarkosClusterStateKey NavarkosClusterStateProvisioning
        (case ann of None \<Rightarrow> newClusterUpdater p | Some a \<Rightarrow> copyAnnotation a (newClusterUpdater p)))"
  have "updater_ok K s1 u"
    using sr x good_leD [OF le assms(3)] class_key_other(3)
    by (auto simp: u_def updater_ok_def safe_result_def intro!: safe_set safe_copy safe_new split: option.split)
  from goes_then_ret [OF goes_clusterUpdate [OF assms(1) w this], of err] room assms(4) show
    "goes K W 1 (case x of (ann, err) \<Rightarrow> bnd (clusterUpdate cc (if err \<noteq> None
        then setAnnotation NavarkosClusterStateKey NavarkosClusterStateFailedProvision (newClusterUpdater p)
        else setAnnotation NavarkosClusterStateKey NavarkosClusterStateProvisioning
          (case ann of None \<Rightarrow> newClusterUpdater p | Some a \<Rightarrow> copyAnnotation a (newClusterUpdater p)))) (\<lambda>_. ret err)) s1
      (\<lambda>_ _. True)"
    by (simp add: x u_def)
qed simp_all

text \<open>The first step of a shutdown and of a scaling.\<close>

lemma goes_mark:
  assumes "serves cc K W" "live W s" "good_ptr K s p"
  shows "goes K W 0 (cu_update cc (setAnnotation NavarkosClusterStateKey st (newClusterUpdater p))) s (keeps_updater K)"
  using assms class_key_other(3)
  by (intro goes_cu_update) (simp_all add: updater_ok_def safe_set safe_new)

lemma goes_deleteSecret:
  assumes "serves cc K W" "live W s"
  shows "goes K W 0 (deleteSecret cc name) s (\<lambda>_ _. True)"
proof (cases "secretToolSet cc")
  case None
  with assms(2) show ?thesis by (simp add: deleteSecret_def goes_ret)
next
  case (Some ts)
  with assms(1) have "total_on W (DeleteKubeconfigSecret ts (federationNamespace cc) name) (\<lambda>_. True)"
    by (simp add: serves_def DeleteKubeconfigSecret_def)
  from goes_logged [OF this assms(2)] Some show ?thesis by (simp add: deleteSecret_def)
qed

lemma goes_shutdown:
  fixes s :: "'w state"
  assumes "serves cc K W" "live W s" "good_ptr K s p" "length (updateChannel (updateRetrier s)) < updateCapacity"
  shows "goes K W 1 (shutdownCluster cc p) s (\<lambda>_ _. True)"
  unfolding shutdownCluster_def Let_def
proof (rule goes_bnd [OF goes_mark [OF assms(1-3)], where j = 1])
  fix x :: "error option \<times> clusterUpdater" and s1 :: "'w state"
  assume w: "live W s1" and le: "good_le K s s1" and ok: "keeps_updater K x s1"
    and room: "length (updateChannel (updateRetrier s1)) \<le> length (updateChannel (updateRetrier s)) + 0"
  obtain err cu where x: "x = (err, cu)" by (cases x)
  note p1 = good_leD [OF le assms(3)]
  have last: "goes K W 1 (bnd (clusterUpdate cc (fold deleteAnnotation getClusterAnnotationsToDelete
        (setServerAddress DummyServerAddress (setAnnotation NavarkosClusterStateKey NavarkosClusterStateOffline (reset cu)))))
        (\<lambda>_. ret e)) s' (\<lambda>_ _. True)"
    if "live W s'" "good_le K s1 s'" "length (updateChannel (updateRetrier s')) < updateCapacity" for s' :: "'w state" and e
  proof -
    have c: "cu_cc cu" "good_ptr K s' (cu_cluster cu)"
      using ok x good_leD [OF that(2)] by (simp_all add: updater_ok_def safe_updater_def)
    have "updater_ok K s' (fold deleteAnnotation getClusterAnnotationsToDelete
        (setServerAddress DummyServerAddress (setAnnotation NavarkosClusterStateKey NavarkosClusterStateOffline (reset cu))))"
      using c class_key_other(2,3)
      by (simp add: updater_ok_def fold_deleteAnnotation_simps safe_delete safe_address safe_set safe_reset)
    from goes_then_ret [OF goes_clusterUpdate [OF assms(1) that(1) this that(3)]] show ?thesis .
  qed
  have secret: "goes K W 1 (bnd (load p) (\<lambda>c. bnd (deleteSecret cc (Name c)) (\<lambda>err.
        bnd (clusterUpdate cc (fold deleteAnnotation getClusterAnnotationsToDelete
          (setServerAddress DummyServerAddress (setAnnotation NavarkosClusterStateKey NavarkosClusterStateOffline (reset cu)))))
        (\<lambda>_. ret err)))) s' (\<lambda>_ _. True)"
    if "live W s'" "good_le K s1 s'" "length (updateChannel (updateRetrier s')) < updateCapacity" for s' :: "'w state"
    using that
    by (intro goes_bnd [OF goes_read [OF that(1) good_leD [OF that(2) p1], where j = 0], where j = 1]
        goes_bnd [OF goes_deleteSecret [OF assms(1)], where j = 1] last) (auto intro: good_le_trans)
  show "goes K W 1 (case x of (err, updater) \<Rightarrow> if err \<noteq> None then ret err
        else bnd (callProvider cc p CallDelete (\<lambda>err. err) DeleteKubeCluster) (\<lambda>err.
          if err \<noteq> None then ret err
          else bnd (load p) (\<lambda>c. bnd (deleteSecret cc (Name c)) (\<lambda>err.
            bnd (clusterUpdate cc (fold deleteAnnotation getClusterAnnotationsToDelete
              (setServerAddress DummyServerAddress
                (setAnnotation NavarkosClusterStateKey NavarkosClusterStateOffline (reset updater)))))
            (\<lambda>_. ret err))))) s1 (\<lambda>_ _. True)"
    using w room assms(4) x
    by (auto intro!: goes_ret goes_bnd [OF goes_callProvider [OF assms(1) w p1 provider_results(2)], where j = 1]
        secret [unfolded One_nat_def])
qed simp

lemma goes_scale:
  fixes s :: "'w state"
  assumes "serves cc K W" "live W s" "good_ptr K s p" "length (updateChannel (updateRetrier s)) < updateCapacity"
  shows "goes K W 1 (scaleCluster cc p dir) s (\<lambda>_ _. True)"
proof -
  let ?mark = "setAnnotation NavarkosClusterStateKey (scaling_state dir) (newClusterUpdater p)"
  let ?tail = "\<lambda>cu ann err. let updater = (case ann of None \<Rightarrow> reset cu | Some a \<Rightarrow> copyAnnotation a (reset cu))
      in if err \<noteq> None then setAnnotation NavarkosClusterStateKey (failed_scale_state dir) updater else updater"
  have "goes K W 1 (bnd (cu_update cc ?mark) (\<lambda>(err, cu). if err \<noteq> None then ret err
      else bnd (load p) (\<lambda>c. bnd (callProvider cc p (CallScale (scaleSizeOf c dir)) snd
          (\<lambda>P c'. ScaleKubeCluster P c' (scaleSizeOf c dir)))
        (\<lambda>(ann, err). bnd (clusterUpdate cc (?tail cu ann err)) (\<lambda>_. ret err))))) s (\<lambda>_ _. True)"
  proof (rule goes_bnd [OF goes_mark [OF assms(1-3)], where j = 1])
    fix x :: "error option \<times> clusterUpdater" and s1 :: "'w state"
    assume w: "live W s1" and le: "good_le K s s1" and ok: "keeps_updater K x s1"
      and room: "length (updateChannel (updateRetrier s1)) \<le> length (updateChannel (updateRetrier s)) + 0"
    obtain e1 cu where x: "x = (e1, cu)" by (cases x)
    note p1 = good_leD [OF le assms(3)]
    have last: "goes K W 1 (case r of (ann, err) \<Rightarrow> bnd (clusterUpdate cc (?tail cu ann err)) (\<lambda>_. ret err)) s' (\<lambda>_ _. True)"
      if "live W s'" "good_le K s1 s'" "length (updateChannel (updateRetrier s')) < updateCapacity" "safe_result r"
      for s' :: "'w state" and r
    proof -
      have c: "cu_cc cu" "good_ptr K s' (cu_cluster cu)"
        using ok x good_leD [OF that(2)] by (simp_all add: updater_ok_def safe_updater_def)
      have "updater_ok K s' (?tail cu (fst r) (snd r))"
        using c class_key_other(3) that(4)
        by (auto simp: updater_ok_def safe_result_def Let_def intro!: safe_set safe_copy safe_reset split: option.split)
      from goes_then_ret [OF goes_clusterUpdate [OF assms(1) that(1) this that(3)]] show ?thesis
        by (simp add: split_beta)
    qed
    have call: "goes K W 1 (bnd (load p) (\<lambda>c. bnd (callProvider cc p (CallScale (scaleSizeOf c dir)) snd
            (\<lambda>P c'. ScaleKubeCluster P c' (scaleSizeOf c dir)))
          (\<lambda>(ann, err). bnd (clusterUpdate cc (?tail cu ann err)) (\<lambda>_. ret err)))) s1 (\<lambda>_ _. True)"
      using w room assms(4)
      by (intro goes_bnd [OF goes_read [OF w p1, where j = 0], where j = 1]
          goes_bnd [OF goes_callProvider [OF assms(1) _ _ provider_results(3)], where j = 1] last) (simp_all add: p1)
    show "goes K W 1 (case x of (err, cu) \<Rightarrow> if err \<noteq> None then ret err
        else bnd (load p) (\<lambda>c. bnd (callProvider cc p (CallScale (scaleSizeOf c dir)) snd
            (\<lambda>P c'. ScaleKubeCluster P c' (scaleSizeOf c dir)))
          (\<lambda>(ann, err). bnd (clusterUpdate cc (?tail cu ann err)) (\<lambda>_. ret err)))) s1 (\<lambda>_ _. True)"
      using call w by (cases e1) (simp_all only: x prod.case goes_ret option.distinct simp_thms if_True if_False)
  qed simp
  then show ?thesis
    unfolding scaleCluster_def Let_def scaling_state_def failed_scale_state_def by (cases dir) (simp_all cong: if_cong)
qed

section \<open>The worker\<close>

lemma goes_handleState:
  assumes "serves cc K W" "live W s" "good_ptr K s p" "length (updateChannel (updateRetrier s)) < updateCapacity"
  shows "goes K W 1 (handleState cc p st) s (\<lambda>_ _. True)"
  using goes_create [OF assms] goes_shutdown [OF assms] goes_scale [OF assms] assms(2)
  by (simp add: handleState_def goes_ret)

lemma goes_processItem:
  fixes s :: "'w state"
  assumes "serves cc K W" "live W s" "i < length (heap s)" "length (updateChannel (updateRetrier s)) < updateCapacity"
  shows "goes K W 1 (processItem cc (Some i)) s (\<lambda>_ _. True)"
proof -
  have load: "goes K W 0 (if Some i = None then crash TypeAssertion else load (Some i)) s (\<lambda>_ s'. s' = s)"
    using assms(2,3) by (simp add: goes_def load_def)
  have round: "goes K W 1 (case r of (cluster, err) \<Rightarrow> if err \<noteq> None then ret ()
       else bnd (load cluster) (\<lambda>c. case annotation c NavarkosClusterStateKey of None \<Rightarrow> ret ()
         | Some st \<Rightarrow> bnd (handleState cc cluster st) (\<lambda>err. ret ()))) s' (\<lambda>_ _. True)"
    if "live W s'" "length (updateChannel (updateRetrier s')) < updateCapacity" "snd r = None \<longrightarrow> good_ptr K s' (fst r)"
    for s' :: "'w state" and r
  proof (cases "snd r")
    case None
    with that(3) have p: "good_ptr K s' (fst r)" by simp
    from None that(1) show ?thesis
      by (auto simp: split_beta intro!: goes_bnd [OF goes_read [OF that(1) p, where j = 0], where j = 1] goes_ret
          goes_then_ret goes_handleState [OF assms(1) that(1) p that(2), unfolded One_nat_def] split: option.split)
  qed (use that(1) in \<open>simp add: goes_ret split_beta\<close>)
  show ?thesis unfolding processItem_def
    using assms(2,4)
    by (intro goes_bnd [OF load, where j = 1] goes_bnd [OF goes_getCluster [OF assms(1)], where j = 1] round) simp_all
qed

text \<open>Every round returns; the next one needs room again.\<close>

lemma processItem_returns:
  assumes "serves cc K W" "W (world s)" "i < length (heap s)" "length (updateChannel (updateRetrier s)) < updateCapacity"
  obtains s' where "processItem cc (Some i) s = (Ret (), s')" "W (world s')"
    "length (updateChannel (updateRetrier s')) \<le> Suc (length (updateChannel (updateRetrier s)))"
  using goes_processItem [of cc K W s i] assms that by (auto simp: goes_def live_def)

lemma workerFunction_returns:
  assumes "serves cc K W" "live W s" "queue (workQueue s) = Some i # rest" "i < length (heap s)"
    and "length (updateChannel (updateRetrier s)) < updateCapacity"
  obtains s' where "workerFunction cc s = (Ret False, s')" "live W s'" "length (heap s) \<le> length (heap s')"
    "length (updateChannel (updateRetrier s')) \<le> Suc (length (updateChannel (updateRetrier s)))"
proof -
  define s1 where "s1 = s\<lparr>workQueue := (workQueue s)\<lparr>queue := rest,
      processing := insert (Some i) (processing (workQueue s)), dirty := dirty (workQueue s) - {Some i}\<rparr>\<rparr>"
  have run: "workerFunction cc s = deferring (on_queue (Done (Some i))) (bnd (processItem cc (Some i)) (\<lambda>_. ret False)) s1"
    using assms(3) by (simp add: workerFunction_def go_simps on_queue_def zoom_def Get_def s1_def)
  have "live W s1" "i < length (heap s1)" "length (updateChannel (updateRetrier s1)) < updateCapacity"
    using assms by (simp_all add: s1_def live_def)
  from goes_processItem [OF assms(1) this] obtain s2 where p: "processItem cc (Some i) s1 = (Ret (), s2)" "live W s2"
    "length (updateChannel (updateRetrier s2)) \<le> Suc (length (updateChannel (updateRetrier s)))"
    by (auto simp: goes_def s1_def)
  have "length (heap s) \<le> length (heap s2)"
    using keepsD [OF frame_processItem p(1)] by (simp add: handler_frame_def s1_def)
  moreover have "workerFunction cc s = (Ret False, snd (on_queue (Done (Some i)) s2))"
    using run p(1) by (simp add: deferring_def bnd_def ret_def)
  ultimately show ?thesis
    using p by (intro that [of "snd (on_queue (Done (Some i)) s2)"]) (simp_all add: on_queue_def zoom_def live_def split: prod.splits)
qed

text \<open>The worker of a queue that was shut down works off what is there and returns.\<close>

lemma worker_returns:
  assumes "serves cc K W" "live W s" "wq_ok (workQueue s)" "shuttingDown (workQueue s)"
    and "\<forall>p \<in> set (queue (workQueue s)). \<exists>i < length (heap s). p = Some i"
    and "length (updateChannel (updateRetrier s)) + length (queue (workQueue s)) \<le> updateCapacity"
  shows "\<exists>s'. worker cc (Suc (length (queue (workQueue s)))) s = (Ret True, s') \<and> queue (workQueue s') = []"
  using assms(2-)
proof (induction "length (queue (workQueue s))" arbitrary: s)
  case 0
  then have "workerFunction cc s = (Ret True, s)"
    by (simp add: workerFunction_def go_simps on_queue_def zoom_def Get_def)
  with 0 show ?case by (simp add: bnd_def ret_def)
next
  case (Suc n)
  then obtain i rest where q: "queue (workQueue s) = Some i # rest" "i < length (heap s)" by (cases "queue (workQueue s)") auto
  with Suc.prems Suc.hyps(2) have "length (updateChannel (updateRetrier s)) < updateCapacity" by simp
  from workerFunction_returns [OF assms(1) Suc.prems(1) q this] obtain s1 where s1: "workerFunction cc s = (Ret False, s1)"
    "live W s1" "length (heap s) \<le> length (heap s1)"
    "length (updateChannel (updateRetrier s1)) \<le> Suc (length (updateChannel (updateRetrier s)))" .
  from workerFunction_shut [OF Suc.prems(2,3) s1(1)] q have w1: "wq_ok (workQueue s1)" "shuttingDown (workQueue s1)"
    "queue (workQueue s1) = rest" by simp_all
  have "\<exists>s'. worker cc (Suc (length (queue (workQueue s1)))) s1 = (Ret True, s') \<and> queue (workQueue s') = []"
  proof (rule Suc.hyps(1))
    show "\<forall>p \<in> set (queue (workQueue s1)). \<exists>i < length (heap s1). p = Some i"
      using Suc.prems(4) q s1(3) w1(3) by fastforce
  qed (use Suc.hyps(2) Suc.prems(5) q s1 w1 in simp_all)
  with s1(1) w1(3) q Suc.hyps(2) show ?case by (simp add: bnd_def)
qed

end
