(* ===== verification/KopsFacts.thy ===== *)
theory KopsFacts
  imports Kops
begin

text \<open>
  What the operations of the kops provider do beyond the common contract: which resources a
  deletion hands to the library and in which order the registry is emptied, what a scaling
  writes to the instance group, what a creation leaves in the registry, and which operations
  return when the library does: exporting a kubeconfig needs the configuration of the cluster.
\<close>

section \<open>Deletion\<close>

definition unshared :: "resourceTracker option gomap \<Rightarrow> resourceTracker option gomap" where
  "unshared = filter (\<lambda>(_, r). \<not> rt_Shared (the r))"

lemma extract_unshared:
  "extractUnsharedClusterResources res w =
     (if None \<in> snd ` set res then (Crash NilDereference, w) else (Ret (unshared res), w))"
  by (induction res) (auto simp: unshared_def go_simps deref_def split: option.splits)

text \<open>What a deletion looks up before it changes anything, in the order of the code.\<close>

definition delete_found :: "'w Kops \<Rightarrow> cluster \<Rightarrow> 'w \<Rightarrow> handle \<Rightarrow> handle \<Rightarrow> resourceTracker option gomap \<Rightarrow> 'w \<Rightarrow> bool" where
  "delete_found k fc w cloud configBase res w5 \<longleftrightarrow> (\<exists>c region w1 w2 w3 w4.
     ts_getKopsCluster (toolSet k) (getClusterName k fc) w = (Ret (Some c, None), w1) \<and>
     ts_awsupFindRegion (toolSet k) c w1 = (Ret (region, None), w2) \<and>
     ts_awsupNewAWSCloud (toolSet k) region [(''KubernetesCluster'', getClusterName k fc)] w2 = (Ret (cloud, None), w3) \<and>
     ts_registryConfigBase (toolSet k) c w3 = (Ret (configBase, None), w4) \<and>
     ts_listResources (toolSet k) \<lparr>cr_ClusterName = getClusterName k fc, cr_Cloud = cloud\<rparr> w4 = (Ret (res, None), w5))"

text \<open>
  A deletion that was carried out: with resources that are not shared, exactly these are deleted,
  then the state of the cluster in the registry, and last the local kubeconfig, whether or not
  that succeeds; with none, the kubeconfig only.
\<close>

definition deletion_done :: "'w Kops \<Rightarrow> string \<Rightarrow> handle \<Rightarrow> handle \<Rightarrow> resourceTracker option gomap \<Rightarrow> 'w \<Rightarrow> 'w \<Rightarrow> bool" where
  "deletion_done k name cloud configBase res w w' \<longleftrightarrow> (\<exists>w6 w7 err.
     (if res = [] then w7 = w
      else ts_deleteResources (toolSet k) \<lparr>cr_ClusterName = name, cr_Cloud = cloud\<rparr> res w = (Ret None, w6) \<and>
        ts_registryDeleteAllClusterState (toolSet k) configBase w6 = (Ret None, w7)) \<and>
     ts_deleteKubeConfig (toolSet k) name w7 = (Ret err, w'))"

lemma kops_delete_found:
  assumes "delete_found k fc w cloud configBase res w5" "None \<notin> snd ` set res"
  shows "kopsDeleteKubeCluster k fc w =
    bnd (delete_unshared k \<lparr>cr_ClusterName = getClusterName k fc, cr_Cloud = cloud\<rparr> configBase (unshared res)) (\<lambda>err.
      if err \<noteq> None then ret err else bnd (ts_deleteKubeConfig (toolSet k) (getClusterName k fc)) (\<lambda>_. ret None)) w5"
  using assms unfolding delete_found_def kopsDeleteKubeCluster_def Let_def
  by (elim exE conjE) (simp add: bnd_def extract_unshared)

lemma kops_delete_nil:
  assumes "delete_found k fc w cloud configBase res w5" "None \<in> snd ` set res"
  shows "kopsDeleteKubeCluster k fc w = (Crash NilDereference, w5)"
  using assms unfolding delete_found_def kopsDeleteKubeCluster_def Let_def
  by (elim exE conjE) (simp add: bnd_def extract_unshared)

lemma kops_delete_carried_out:
  assumes "delete_found k fc w cloud configBase res w5" "None \<notin> snd ` set res"
  shows "kopsDeleteKubeCluster k fc w = (Ret None, w') \<longleftrightarrow>
    deletion_done k (getClusterName k fc) cloud configBase (unshared res) w5 w'"
  unfolding kops_delete_found [OF assms] delete_unshared_def deletion_done_def
  by (cases "unshared res = []") (auto simp: bnd_def ret_def split: prod.splits outcome.splits option.splits if_splits)

lemma kops_delete_success:
  "kopsDeleteKubeCluster k fc w = (Ret None, w') \<longleftrightarrow>
    ts_getKopsCluster (toolSet k) (getClusterName k fc) w = (Ret (None, None), w') \<or>
    (\<exists>cloud configBase res w5. delete_found k fc w cloud configBase res w5 \<and> None \<notin> snd ` set res \<and>
       deletion_done k (getClusterName k fc) cloud configBase (unshared res) w5 w')"
proof
  assume d: "kopsDeleteKubeCluster k fc w = (Ret None, w')"
  then obtain c w1 where get: "ts_getKopsCluster (toolSet k) (getClusterName k fc) w = (Ret (c, None), w1)"
    by (auto simp: kopsDeleteKubeCluster_def Let_def ret_def elim!: bnd_RetE split: if_splits)
  show "ts_getKopsCluster (toolSet k) (getClusterName k fc) w = (Ret (None, None), w') \<or>
    (\<exists>cloud configBase res w5. delete_found k fc w cloud configBase res w5 \<and> None \<notin> snd ` set res \<and>
       deletion_done k (getClusterName k fc) cloud configBase (unshared res) w5 w')"
  proof (cases c)
    case None
    with d get show ?thesis by (auto simp: kopsDeleteKubeCluster_def Let_def bnd_def ret_def)
  next
    case (Some kc)
    with d get obtain cloud configBase res w5 where f: "delete_found k fc w cloud configBase res w5"
      unfolding kopsDeleteKubeCluster_def delete_found_def Let_def
      by (fastforce simp: ret_def elim!: bnd_RetE split: if_splits)
    have "None \<notin> snd ` set res" using d kops_delete_nil [OF f] by auto
    with f d kops_delete_carried_out [OF f] show ?thesis by blast
  qed
next
  assume "ts_getKopsCluster (toolSet k) (getClusterName k fc) w = (Ret (None, None), w') \<or>
    (\<exists>cloud configBase res w5. delete_found k fc w cloud configBase res w5 \<and> None \<notin> snd ` set res \<and>
       deletion_done k (getClusterName k fc) cloud configBase (unshared res) w5 w')"
  then show "kopsDeleteKubeCluster k fc w = (Ret None, w')"
  proof
    assume "ts_getKopsCluster (toolSet k) (getClusterName k fc) w = (Ret (None, None), w')"
    then show ?thesis by (simp add: kopsDeleteKubeCluster_def Let_def bnd_def ret_def)
  next
    assume "\<exists>cloud configBase res w5. delete_found k fc w cloud configBase res w5 \<and> None \<notin> snd ` set res \<and>
       deletion_done k (getClusterName k fc) cloud configBase (unshared res) w5 w'"
    then show ?thesis by (elim exE conjE) (simp add: kops_delete_carried_out)
  qed
qed

text \<open>
  The error of a deletion of the resources, or of the state in the registry, is returned, and
  nothing is deleted after it.
\<close>

lemma kops_delete_failed:
  assumes "delete_found k fc w cloud configBase res w5" "None \<notin> snd ` set res" "unshared res \<noteq> []"
  shows "ts_deleteResources (toolSet k) \<lparr>cr_ClusterName = getClusterName k fc, cr_Cloud = cloud\<rparr> (unshared res) w5 = (Ret (Some e), w6) \<Longrightarrow>
      kopsDeleteKubeCluster k fc w = (Ret (Some e), w6)"
    "ts_deleteResources (toolSet k) \<lparr>cr_ClusterName = getClusterName k fc, cr_Cloud = cloud\<rparr> (unshared res) w5 = (Ret None, w6) \<Longrightarrow>
      ts_registryDeleteAllClusterState (toolSet k) configBase w6 = (Ret (Some e), w7) \<Longrightarrow>
      kopsDeleteKubeCluster k fc w = (Ret (Some e), w7)"
  unfolding kops_delete_found [OF assms(1,2)] delete_unshared_def
  using assms(3) by (simp_all add: go_simps)

section \<open>Scaling\<close>

definition resized :: "instanceGroup \<Rightarrow> int64 \<Rightarrow> instanceGroup" where
  "resized ig n = (let size = scaled_size (Int32Value (ig_MaxSize ig)) n in
     ig\<lparr>ig_MinSize := Some size, ig_MaxSize := Some size\<rparr>)"

definition kops_scaled :: "'w Kops \<Rightarrow> cluster \<Rightarrow> int64 \<Rightarrow> 'w \<Rightarrow> ClusterAnnotation option \<Rightarrow> 'w \<Rightarrow> bool" where
  "kops_scaled k fc n w ann w' \<longleftrightarrow> (\<exists>c w1 ig w2 w3.
     ts_getKopsCluster (toolSet k) (getClusterName k fc) w = (Ret (Some c, None), w1) \<and>
     ts_getInstanceGroupForNodes (toolSet k) c w1 = (Ret (Some ig, None), w2) \<and>
     (if Int32Value (ig_MaxSize ig) = 1 \<and> sint n < 0 then ann = Some ready_patch \<and> w' = w2
      else ts_updateInstanceGroup (toolSet k) c (resized ig n) w2 = (Ret None, w3) \<and>
           apply_cluster k fc w3 = (Ret None, w') \<and>
           ann = Some (SetAnnotation NavarkosClusterNodeCountKey
             (Itoa (sint (scaled_size (Int32Value (ig_MaxSize ig)) n))) emptyClusterAnnotation)))"

lemma sint_to_int64: "sint (to_int64 (n :: int32)) = sint n"
proof -
  have "- (2 ^ 31) \<le> sint n" "sint n < 2 ^ 31" using sint_range_size [of n] by (simp_all add: word_size)
  then show ?thesis
    by (simp add: to_int64_def signed_scast_eq signed_take_bit_int_eq_self)
qed

lemma kops_scale_steps:
  assumes s: "kopsScaleKubeCluster k fc n w = (Ret (ann, None), w')"
  shows "(\<exists>w1. ts_getKopsCluster (toolSet k) (getClusterName k fc) w = (Ret (None, None), w1) \<and> ann = None \<and> w' = w1) \<or>
    kops_scaled k fc n w ann w'"
proof -
  from s obtain c w1 where get: "ts_getKopsCluster (toolSet k) (getClusterName k fc) w = (Ret (c, None), w1)"
    by (auto simp: kopsScaleKubeCluster_def Let_def ret_def elim!: bnd_RetE split: if_splits)
  show ?thesis
  proof (cases c)
    case None
    with s get show ?thesis by (auto simp: kopsScaleKubeCluster_def Let_def bnd_def ret_def)
  next
    case (Some kc)
    with s get obtain ig w2 where ig: "ts_getInstanceGroupForNodes (toolSet k) kc w1 = (Ret (Some ig, None), w2)"
      unfolding kopsScaleKubeCluster_def Let_def
      by (auto simp: ret_def elim!: bnd_RetE split: if_splits option.splits)
    from s Some get ig have "kops_scaled k fc n w ann w'"
      unfolding kopsScaleKubeCluster_def kops_scaled_def resized_def Let_def
      by (auto simp: ret_def bnd_def ready_patch_def sint_to_int64 split: if_splits outcome.splits prod.splits)
    then show ?thesis ..
  qed
qed

section \<open>Creation\<close>

text \<open>A cluster whose configuration is in the registry already is only applied again.\<close>

lemma kops_create_existing:
  assumes "ts_getKopsCluster (toolSet k) (getClusterName k fc) w = (Ret (Some c, None), w1)"
  shows "kopsCreateKubeCluster k fc w = bnd (apply_cluster k fc) (\<lambda>err. ret (None, err)) w1"
  using assms
  by (simp add: kopsCreateKubeCluster_def up_def Let_def bnd_def ret_def split: outcome.splits prod.splits)

text \<open>The configuration is stored before the instance groups are; when a group cannot be
  created, the configuration stays.\<close>

definition first_store :: "'w Kops \<Rightarrow> cluster \<Rightarrow> 'w \<Rightarrow> kopsCluster \<Rightarrow> 'w \<Rightarrow> bool" where
  "first_store k fc w c w3 \<longleftrightarrow> (\<exists>w1 w2.
     ts_getKopsCluster (toolSet k) (getClusterName k fc) w = (Ret (None, None), w1) \<and>
     ts_cloudUpPerformAssignments (toolSet k)
       (kops_cluster_spec k (getClusterName k fc) (kops_setDefaultValues k (kops_unMarshal fc zeroAWSKopsConfig))) w1 =
       (Ret (c, None), w2) \<and>
     ts_createKopsCluster (toolSet k) c w2 = (Ret None, w3))"

lemma kops_create_group_fails:
  assumes "first_store k fc w c w3"
    and "instantiateInstanceGroup k c InstanceGroupMaster
      (the_list (akc_MasterZones config)) (akc_MasterSize config) (akc_NumberOfMasters config) w3 = (Ret (Some e), w4)"
    and "config = kops_setDefaultValues k (kops_unMarshal fc zeroAWSKopsConfig)"
  shows "kopsCreateKubeCluster k fc w = (Ret (None, Some e), w4)"
  using assms unfolding first_store_def
  by (auto simp: kopsCreateKubeCluster_def up_def Let_def bnd_def ret_def)

text \<open>A validation succeeds only when the library validated the cluster.\<close>

definition kops_validated :: "'w Kops \<Rightarrow> cluster \<Rightarrow> 'w \<Rightarrow> 'w \<Rightarrow> bool" where
  "kops_validated k fc w w' \<longleftrightarrow> (\<exists>c w1 groups w2 client w3.
     ts_getKopsCluster (toolSet k) (getClusterName k fc) w = (Ret (Some c, None), w1) \<and>
     ts_getInstanceGroupList (toolSet k) c w1 = (Ret (Some groups, None), w2) \<and>
     ts_validateCluster (toolSet k) (ks_Name c) (Some groups) client w3 = (Ret None, w'))"

lemma kops_validate_success:
  assumes "kopsValidateKubeCluster k fc w = (Ret (ann, None), w')"
  shows "kops_validated k fc w w'"
  using assms unfolding kopsValidateKubeCluster_def kops_validated_def Let_def
  by (fastforce simp: ret_def elim!: bnd_RetE deref_RetE split: prod.splits if_splits option.splits)

section \<open>No crash of its own\<close>

text \<open>
  The operations of the kops provider that the worker calls return whenever the functions of
  the tool set do, and no resource in the list is nil.
\<close>

definition tools_total :: "('w \<Rightarrow> bool) \<Rightarrow> 'w toolSetInterface \<Rightarrow> bool" where
  "tools_total W ts \<longleftrightarrow>
     (\<forall>n. returns W (ts_getKopsCluster ts n)) \<and> (\<forall>c. returns W (ts_cloudUpPerformAssignments ts c)) \<and>
     (\<forall>c. returns W (ts_createKopsCluster ts c)) \<and> (\<forall>c g. returns W (ts_createInstanceGroup ts c g)) \<and>
     (\<forall>c. returns W (ts_getInstanceGroupForNodes ts c)) \<and> (\<forall>c g. returns W (ts_updateInstanceGroup ts c g)) \<and>
     (\<forall>x. returns W (ts_applyCmdRun ts x)) \<and> (\<forall>h key. returns W (ts_addSSHPublicKey ts h key)) \<and>
     (\<forall>c. returns W (ts_getRegistryKeyStore ts (Some c))) \<and> (\<forall>c. returns W (ts_awsupFindRegion ts c)) \<and>
     (\<forall>r tags. returns W (ts_awsupNewAWSCloud ts r tags)) \<and> (\<forall>c. returns W (ts_registryConfigBase ts c)) \<and>
     (\<forall>d. total_on W (ts_listResources ts d) (\<lambda>(res, err). err = None \<longrightarrow> None \<notin> snd ` set res)) \<and>
     (\<forall>h. returns W (ts_registryDeleteAllClusterState ts h)) \<and> (\<forall>d res. returns W (ts_deleteResources ts d res)) \<and>
     (\<forall>n. returns W (ts_deleteKubeConfig ts n))"

lemma tools_totalD [total_intros]:
  assumes "tools_total W ts"
  shows "returns W (ts_getKopsCluster ts n)" "returns W (ts_cloudUpPerformAssignments ts c)"
    "returns W (ts_createKopsCluster ts c)" "returns W (ts_createInstanceGroup ts c g)"
    "returns W (ts_getInstanceGroupForNodes ts c)" "returns W (ts_updateInstanceGroup ts c g)"
    "returns W (ts_applyCmdRun ts x)" "returns W (ts_addSSHPublicKey ts h key)"
    "returns W (ts_getRegistryKeyStore ts (Some c))" "returns W (ts_awsupFindRegion ts c)"
    "returns W (ts_awsupNewAWSCloud ts r tags)" "returns W (ts_registryConfigBase ts c)"
    "returns W (ts_registryDeleteAllClusterState ts h)" "returns W (ts_deleteResources ts d res)"
    "returns W (ts_deleteKubeConfig ts n)"
  using assms by (simp_all add: tools_total_def)

lemma total_extract: "None \<notin> snd ` set res \<Longrightarrow> returns W (extractUnsharedClusterResources res)"
  unfolding total_on_def by (simp add: extract_unshared)

lemma kops_create_total: "tools_total W (toolSet k) \<Longrightarrow> returns W (kopsCreateKubeCluster k c)"
  unfolding kopsCreateKubeCluster_def up_def apply_cluster_def instantiateInstanceGroup_def kops_add_ssh_key_def Let_def
  by (intro total_intros)

lemma kops_scale_total: "tools_total W (toolSet k) \<Longrightarrow> returns W (kopsScaleKubeCluster k c n)"
  unfolding kopsScaleKubeCluster_def apply_cluster_def Let_def by (intro total_intros)

lemma kops_delete_total:
  assumes "tools_total W (toolSet k)"
  shows "returns W (kopsDeleteKubeCluster k c)"
proof -
  have l: "total_on W (ts_listResources (toolSet k) d) (\<lambda>(res, err). err = None \<longrightarrow> None \<notin> snd ` set res)" for d
    using assms by (simp add: tools_total_def)
  have lst: "returns W (bnd (ts_listResources (toolSet k) d) (\<lambda>(res, err).
      if err \<noteq> None then ret err else bnd (extractUnsharedClusterResources res) f))" if "\<And>x. returns W (f x)" for d f
    by (rule total_on_bnd [OF l]) (auto intro!: total_bnd [OF total_extract] total_ret that)
  have rest: "returns W (bnd (delete_unshared k d h res) (\<lambda>err. if err \<noteq> None then ret err
      else bnd (ts_deleteKubeConfig (toolSet k) n) (\<lambda>err. ret None)))" for d h res n
    unfolding delete_unshared_def by (intro total_intros assms)
  show ?thesis
    unfolding kopsDeleteKubeCluster_def Let_def by (intro lst [OF rest] total_intros assms)
qed

text \<open>
  And so do the two the reconciliation calls, as long as the registry has the configuration of the
  cluster: \<open>ExportKubeConfigBuilder\<close> hands on what it got without looking whether it is nil. A list
  of instance groups comes with its items.
\<close>

definition export_total :: "('w \<Rightarrow> bool) \<Rightarrow> 'w Kops \<Rightarrow> bool" where
  "export_total W k \<longleftrightarrow>
     (\<forall>c. returns W (ts_getRegistrySecretStore (toolSet k) (Some c))) \<and>
     (\<forall>c a b. returns W (ts_buildKubeConfig (toolSet k) (Some c) a b)) \<and>
     (\<forall>h. returns W (ts_generateKubeConfig (toolSet k) h)) \<and>
     (\<forall>c. total_on W (ts_getInstanceGroupList (toolSet k) c) (\<lambda>(l, err). err = None \<longrightarrow> l \<noteq> None)) \<and>
     (\<forall>h. returns W (BuildRestConfig (library k) h)) \<and>
     (\<forall>n l h. returns W (ts_validateCluster (toolSet k) n (Some l) h))"

definition configured :: "('w \<Rightarrow> bool) \<Rightarrow> 'w Kops \<Rightarrow> cluster \<Rightarrow> bool" where
  "configured W k fc \<longleftrightarrow> total_on W (ts_getKopsCluster (toolSet k) (getClusterName k fc)) (\<lambda>(c, err). err = None \<longrightarrow> c \<noteq> None)"

lemma kops_builder_total:
  assumes "tools_total W (toolSet k)" "export_total W k" "configured W k fc"
  shows "returns W (ExportKubeConfigBuilder k (Name fc))"
proof -
  have "returns W (bnd (ts_getRegistryKeyStore (toolSet k) (Some c)) (\<lambda>(keyStore, err).
         if err \<noteq> None then ret (0, err)
         else bnd (ts_getRegistrySecretStore (toolSet k) (Some c)) (\<lambda>(secretStore, err).
           if err \<noteq> None then ret (0, err)
           else bnd (ts_buildKubeConfig (toolSet k) (Some c) keyStore secretStore) (\<lambda>(conf, err).
             if err \<noteq> None then ret (0, err) else ret (conf, None)))))" for c
    using assms(2) by (intro total_intros assms(1)) (simp_all add: export_total_def)
  then show ?thesis unfolding ExportKubeConfigBuilder_def
    by (intro total_on_bnd [OF assms(3) [unfolded configured_def getClusterName_def]]) (auto intro!: total_ret)
qed

lemma kops_export_total:
  assumes "export_total W k" "returns W (ExportKubeConfigBuilder k (Name fc))"
  shows "returns W (kopsExportKubeConfig k fc)"
  unfolding kopsExportKubeConfig_def
  using assms(1) by (intro total_intros assms) (simp add: export_total_def)

lemma kops_validate_total:
  assumes "tools_total W (toolSet k)" "export_total W k" "returns W (ExportKubeConfigBuilder k (Name fc))"
  shows "returns W (kopsValidateKubeCluster k fc)"
proof -
  have l: "total_on W (ts_getInstanceGroupList (toolSet k) kc) (\<lambda>(l, err). err = None \<longrightarrow> l \<noteq> None)" for kc
    using assms(2) by (simp add: export_total_def)
  have lst: "returns W (bnd (ts_getInstanceGroupList (toolSet k) kc) (\<lambda>(l, err).
      if err \<noteq> None then ret (None, err) else bnd (deref l) (f l)))" if "\<And>l x. returns W (f (Some l) x)" for kc f
    by (rule total_on_bnd [OF l]) (use that in \<open>auto simp: deref_def intro!: total_ret\<close>)
  have t: "returns W (BuildRestConfig (library k) h)" "returns W (ts_validateCluster (toolSet k) n (Some gl) h)" for h n gl
    using assms(2) by (simp_all add: export_total_def)
  show ?thesis unfolding kopsValidateKubeCluster_def Let_def
    by (intro lst t total_intros assms)
qed

text \<open>A configuration that is missing is only noticed by the function that dereferences it.\<close>

lemma kops_export_missing:
  assumes "ts_getKopsCluster (toolSet k) (getClusterName k fc) w = (Ret (None, None), w1)"
    and "ts_getRegistryKeyStore (toolSet k) None w1 = (Crash e, w2)"
  shows "kopsExportKubeConfig k fc w = (Crash e, w2)"
  using assms by (simp add: kopsExportKubeConfig_def ExportKubeConfigBuilder_def getClusterName_def bnd_def)

end
