(* ===== verification/Simulation.thy ===== *)
theory Simulation
  imports LoopVariable Progress KopsFacts
begin

text \<open>
  A deployment in memory: an API server with scripted faults, an OKE service with scripted
  answers, a kops library with one instance group, and a clock that moves a second with each
  reading. The theorems about the program are applied to it at concrete inputs.
\<close>

record sim =
  sim_clusters :: "cluster gomap"
  sim_faults :: "error option list"
  sim_http :: "string list"
  sim_requests :: "httpRequest list"
  sim_time :: time
  sim_secrets :: "string list"
  sim_kops :: "kopsCluster option"
  sim_group :: "instanceGroup option"

definition sim_fault :: "(sim, error option) go" where
  "sim_fault = (\<lambda>w. case sim_faults w of
      [] \<Rightarrow> (Ret None, w)
    | e # es \<Rightarrow> (Ret e, w\<lparr>sim_faults := es\<rparr>))"

definition sim_get :: "string \<Rightarrow> (sim, cluster option \<times> error option) go" where
  "sim_get name = (\<lambda>w. case map_of (sim_clusters w) name of
      None \<Rightarrow> (Ret (None, Some (StatusError ''NotFound'' name)), w)
    | Some c \<Rightarrow> (Ret (Some c, None), w))"

definition sim_write :: "cluster \<Rightarrow> (sim, cluster option \<times> error option) go" where
  "sim_write c = bnd sim_fault (\<lambda>e. case e of
      Some _ \<Rightarrow> ret (None, e)
    | None \<Rightarrow> bnd (modify (\<lambda>w. w\<lparr>sim_clusters := AList.update (Name c) c (sim_clusters w)\<rparr>))
        (\<lambda>_. ret (Some c, None)))"

definition sim_delete :: "string \<Rightarrow> (sim, error option) go" where
  "sim_delete name = bnd sim_fault (\<lambda>e. case e of
      Some _ \<Rightarrow> ret e
    | None \<Rightarrow> bnd (modify (\<lambda>w. w\<lparr>sim_clusters := AList.delete name (sim_clusters w)\<rparr>)) (\<lambda>_. ret None))"

definition sim_client :: "sim federationClient" where
  "sim_client = \<lparr>Clusters_Get = sim_get, Clusters_Update = sim_write,
     Clusters_List = gets (\<lambda>w. (Some (map snd (sim_clusters w)), None)),
     Clusters_Delete = sim_delete, Clusters_Create = sim_write\<rparr>"

definition sim_do :: "httpRequest \<Rightarrow> (sim, httpResponse option \<times> error option) go" where
  "sim_do req = (\<lambda>w. case sim_http w of
      [] \<Rightarrow> (Ret (None, Some (Errorf ''connection refused'')), w\<lparr>sim_requests := sim_requests w @ [req]\<rparr>)
    | b # bs \<Rightarrow> (Ret (Some \<lparr>resp_StatusCode = 200, resp_Body = (b, None)\<rparr>, None),
        w\<lparr>sim_http := bs, sim_requests := sim_requests w @ [req]\<rparr>))"

definition sim_packages :: "sim packages" where
  "sim_packages = \<lparr>
     time_Now = (\<lambda>w. (Ret (sim_time w), w\<lparr>sim_time := sim_time w + Second\<rparr>)),
     DeepCopy = Inr,
     FlattenConfig = (\<lambda>c. ret (c, None)),
     clientcmd_Write = (\<lambda>c. (''config'', None))\<rparr>"

definition sim_secretsClient :: "sim secretsClient" where
  "sim_secretsClient = \<lparr>
     client_create = (\<lambda>ns sec. bnd (modify (\<lambda>w. w\<lparr>sim_secrets := sec_Name sec # sim_secrets w\<rparr>)) (\<lambda>_. ret (Some sec, None))),
     client_delete = (\<lambda>ns name orphan. bnd (modify (\<lambda>w. w\<lparr>sim_secrets := removeAll name (sim_secrets w)\<rparr>)) (\<lambda>_. ret None))\<rparr>"

definition sim_kopsLibrary :: "sim kopsLibrary" where
  "sim_kopsLibrary = \<lparr>
     BuildVfsPath = (\<lambda>s. Inr 1), vfs_Path = (\<lambda>h. ''s3://store''), vfs_Join = (\<lambda>h s. h),
     lib_EtcdClusters = [''main'', ''events''], lib_TargetDirect = ''direct'', lib_DefaultMaxTaskDuration = 600,
     clientset_Create = (\<lambda>h c. bnd (modify (\<lambda>w. w\<lparr>sim_kops := Some c\<rparr>)) (\<lambda>_. ret (Some c, None))),
     clientset_GetCluster = (\<lambda>h n. gets (\<lambda>w. (sim_kops w, None))),
     PerformAssignments = (\<lambda>c. ret (c, None)),
     groups_Create = (\<lambda>h c g. bnd (modify (\<lambda>w. w\<lparr>sim_group := Some g\<rparr>)) (\<lambda>_. ret (Some g, None))),
     groups_Get = (\<lambda>h c n. gets (\<lambda>w. (sim_group w, None))),
     groups_Update = (\<lambda>h c g. bnd (modify (\<lambda>w. w\<lparr>sim_group := Some g\<rparr>)) (\<lambda>_. ret (Some g, None))),
     groups_List = (\<lambda>h c. gets (\<lambda>w. (Some (case sim_group w of None \<Rightarrow> [] | Some g \<Rightarrow> [g]), None))),
     AddSSHPublicKey = (\<lambda>h n s. ret None), lib_SecretNameSSHPrimary = ''admin'',
     cmd_Run = (\<lambda>h c. ret None),
     registry_KeyStore = (\<lambda>c. ret (2, None)), registry_SecretStore = (\<lambda>c. ret (3, None)),
     BuildKubecfg = (\<lambda>c a b st. ret (4, None)), GenerateKubecfg = (\<lambda>h. ret (None, Some (Errorf ''no kubeconfig''))),
     BuildRestConfig = (\<lambda>h. ret (5, None)), NewForConfig = (\<lambda>h. (6, None)),
     ValidateCluster = (\<lambda>n l h. ret None),
     FindRegion = (\<lambda>c. (''us-east-1'', None)), NewAWSCloud = (\<lambda>r t. ret (7, None)),
     ListResources = (\<lambda>d. ret ([], None)), registry_ConfigBase = (\<lambda>c. ret (8, None)),
     registry_DeleteAllClusterState = (\<lambda>h. bnd (modify (\<lambda>w. w\<lparr>sim_kops := None\<rparr>)) (\<lambda>_. ret None)),
     DeleteResources = (\<lambda>d r. ret None), builder_DeleteKubeConfig = (\<lambda>n. ret None),
     lib_BuildCloud = (\<lambda>c. ret (AWSCloud 0, None)), gce_GetApiIngressStatus = (\<lambda>h c. ret ([], None)),
     lib_FindLoadBalancerByNameTag = (\<lambda>h n. ret (Some (Some ''elb''), None))\<rparr>"

definition sim_env :: "string \<Rightarrow> string option" where
  "sim_env var = (if var = OkeDefaultCloudAuthId then None else Some ''value'')"

definition sim_deployment :: "sim deployment" where
  "sim_deployment = \<lparr>
     dep_federationClient = sim_client,
     dep_options = NewCCO,
     dep_lookupEnv = sim_env,
     dep_kopsLibrary = sim_kopsLibrary,
     dep_httpClientDo = sim_do,
     dep_inClusterConfig = Inr (),
     dep_newForConfig = (\<lambda>_. Inr sim_secretsClient),
     dep_packages = sim_packages\<rparr>"

abbreviation sim_cc :: "sim ClusterController" where
  "sim_cc \<equiv> newClusterController sim_deployment"

definition sim_oke :: "sim Oke" where
  "sim_oke = \<lparr>defaultNodeAds = [''AD1'', ''AD2''], okeBearer = ''Bearer value'', okeAuthGroup = ''group'',
     okeDefaultCloudAuthId = '''', apiHost = ''api.example.com'', httpDefaultClientDo = sim_do\<rparr>"

text \<open>A cluster of a class in a state, with further annotations.\<close>

definition sim_cluster :: "string \<Rightarrow> string \<Rightarrow> string \<Rightarrow> string gomap \<Rightarrow> cluster" where
  "sim_cluster name cls st anns = \<lparr>Name = name, ResourceVersion = ''7'',
     Annotations = Some ([(ClusterManagerClusterClassKey, cls), (NavarkosClusterStateKey, st)] @ anns),
     ServerAddressByClientCIDRs = [\<lparr>ClientCIDR = ''0.0.0.0/0'', ServerAddress = DummyServerAddress\<rparr>],
     SecretRef = None\<rparr>"

definition sim_world :: "cluster list \<Rightarrow> error option list \<Rightarrow> string list \<Rightarrow> sim" where
  "sim_world cs faults bodies = \<lparr>sim_clusters = map (\<lambda>c. (Name c, c)) cs, sim_faults = faults, sim_http = bodies,
     sim_requests = [], sim_time = 100 * Hour, sim_secrets = [], sim_kops = None, sim_group = None\<rparr>"

text \<open>The state with the objects in the heap and one of them in the queue.\<close>

definition sim_state :: "cluster list \<Rightarrow> sim \<Rightarrow> sim state" where
  "sim_state cs w = (initState w)\<lparr>heap := cs,
     workQueue := newWorkQueue\<lparr>queue := (if cs = [] then [] else [Some 0]), dirty := (if cs = [] then {} else {Some 0})\<rparr>\<rparr>"

text \<open>A run given by its value: for applying theorems to evaluated runs.\<close>

lemma run_split: "fst run = Ret x \<Longrightarrow> run = (Ret x, snd run)"
  by (metis prod.collapse)

section \<open>Retriers\<close>

definition sim_retrier :: "nat retrierSystem" where
  "sim_retrier = (retrier_init 0)\<lparr>submitted := [\<lparr>item_value = 5, deliveryTime = 10\<rparr>],
     retr := newClusterUpdateRetrier\<lparr>updateChannel := [\<lparr>item_value = 5, deliveryTime = 10\<rparr>]\<rparr>\<rparr>"

definition sim_late :: "nat clusterUpdateRetrier" where
  "sim_late = newClusterUpdateRetrier\<lparr>data := [\<lparr>item_value = 1, deliveryTime = 3\<rparr>,
     \<lparr>item_value = 2, deliveryTime = 9\<rparr>, \<lparr>item_value = 3, deliveryTime = 4\<rparr>]\<rparr>"

definition sim_full :: "nat clusterUpdateRetrier" where
  "sim_full = sim_late\<lparr>targetChannel := replicate 100 \<lparr>item_value = 0, deliveryTime = 1\<rparr>\<rparr>"

lemma sim_retrier_reached: "retrier_step\<^sup>*\<^sup>* (retrier_init 0) sim_retrier"
proof -
  have "deliverAfter (clock (retrier_init 0)) 5 10 (retr (retrier_init 0)) =
      (Ret (), newClusterUpdateRetrier\<lparr>updateChannel := [\<lparr>item_value = 5 :: nat, deliveryTime = 10\<rparr>]\<rparr>)"
    by (simp add: deliverAfter_def send_update_def retrier_init_def newClusterUpdateRetrier_def updateCapacity_def
        time_Add_def)
  from retrier_step.submit [OF this] show ?thesis
    by (simp add: sim_retrier_def retrier_init_def time_Add_def r_into_rtranclp)
qed

section \<open>Scenarios\<close>

definition sim_run :: "cluster list \<Rightarrow> error option list \<Rightarrow> string list \<Rightarrow> sim state" where
  "sim_run cs faults bodies = sim_state cs (sim_world cs faults bodies)"

definition sim_conflict :: "error option" where
  "sim_conflict = Some (StatusError ''Conflict'' ''the object has been modified'')"

text \<open>A kops cluster to create, a cluster on OKE to shut down, to scale, to validate and to join.\<close>

definition sim_pending :: "sim state" where
  "sim_pending = sim_run [sim_cluster ''east'' ''kops'' NavarkosClusterStatePending []] [sim_conflict] []"

definition sim_shutdown :: "sim state" where
  "sim_shutdown = sim_run [sim_cluster ''east'' ''oke'' NavarkosClusterStatePendingShutdown
     [(ClusterManagerClusterOKEIdKey, ''id1'')]] [sim_conflict] [''{}'']"

definition sim_pools_answer :: string where
  "sim_pools_answer = print_json (JObj [(''pools'', JArr [JObj [(''name'', JStr ''DEFAULT''), (''workersPerAD'', JNum ''2''),
     (''ads'', JArr [JObj [(''id'', JStr ''AD1'')]])]])])"

definition sim_workitem_answer :: string where
  "sim_workitem_answer = print_json (JObj [(''clusterId'', JStr ''id1''), (''workItemId'', JStr ''w7'')])"

definition sim_scale_up :: "sim state" where
  "sim_scale_up = sim_run [sim_cluster ''east'' ''oke'' NavarkosClusterStatePendingScaleUp
     [(ClusterManagerClusterOKEIdKey, ''id1'')]] [] [sim_pools_answer, sim_workitem_answer]"

definition sim_running_answer :: string where
  "sim_running_answer = print_json (JObj [(''k8'', JObj [(''mastersState'', JStr ''RUNNING''), (''nodesState'', JStr ''RUNNING'')])])"

definition sim_provisioning :: "sim state" where
  "sim_provisioning = sim_run [sim_cluster ''east'' ''oke'' NavarkosClusterStateProvisioning
     [(ClusterManagerClusterOKEIdKey, ''id1'')]] [] [sim_running_answer]"

definition sim_kubeconfig_answer :: string where
  "sim_kubeconfig_answer = print_json (JObj [(''current-context'', JStr ''ctx''),
     (''clusters'', JArr [JObj [(''name'', JStr ''k1''), (''cluster'', JObj [(''server'', JStr ''https://10.0.0.1'')])]]),
     (''contexts'', JArr [JObj [(''name'', JStr ''ctx''), (''context'', JObj [(''cluster'', JStr ''k1'')])]])])"

definition sim_joining :: "sim state" where
  "sim_joining = sim_run [sim_cluster ''east'' ''oke'' NavarkosClusterStateJoining
     [(ClusterManagerClusterOKEIdKey, ''id1'')]] [] [sim_kubeconfig_answer]"

text \<open>An update of the first object, and an API that refuses it.\<close>

definition sim_updater :: clusterUpdater where
  "sim_updater = setAnnotation NavarkosClusterStateKey NavarkosClusterStateReady (newClusterUpdater (Some 0))"

definition sim_refused :: "sim state" where
  "sim_refused = sim_run [sim_cluster ''east'' ''kops'' NavarkosClusterStatePending []]
     [Some (StatusError ''Forbidden'' ''no'')] []"

text \<open>The kops provider on its own, with a configuration and one group in the registry.\<close>

definition sim_kopsProvider :: "sim Kops" where
  "sim_kopsProvider = \<lparr>kopsStatePath = 1, defaultNodeZones = [''us-east-1a''], defaultMasterZones = [''us-east-1b''],
     domain = ''example.com'', toolSet = newToolSet sim_kopsLibrary 1, library = sim_kopsLibrary\<rparr>"

definition sim_kops_world :: sim where
  "sim_kops_world = (sim_world [] [] [])\<lparr>sim_kops := Some emptyKopsCluster,
     sim_group := Some \<lparr>ig_Name = ''nodes'', ig_Role = ''Node'', ig_Subnets = [], ig_MinSize = Some 1, ig_MaxSize = Some 1,
       ig_MachineType = ''t2.small''\<rparr>\<rparr>"

text \<open>
  A library that, like the original, dereferences the configuration it is given, finds one shared
  and one unshared resource, and may not delete the state of a cluster.
\<close>

definition sim_resources :: "resourceTracker option gomap" where
  "sim_resources = [(''vpc'', Some \<lparr>rt_Shared = True, rt_Name = ''vpc''\<rparr>), (''elb'', Some \<lparr>rt_Shared = False, rt_Name = ''elb''\<rparr>)]"

definition sim_strictLibrary :: "sim kopsLibrary" where
  "sim_strictLibrary = sim_kopsLibrary\<lparr>ListResources := (\<lambda>d. ret (sim_resources, None)),
     registry_KeyStore := (\<lambda>c. bnd (deref c) (\<lambda>_. ret (2, None))),
     registry_SecretStore := (\<lambda>c. bnd (deref c) (\<lambda>_. ret (3, None))),
     BuildKubecfg := (\<lambda>c a b st. bnd (deref c) (\<lambda>_. ret (4, None)))\<rparr>"

definition sim_strict :: "sim kopsLibrary \<Rightarrow> sim Kops" where
  "sim_strict lib = sim_kopsProvider\<lparr>toolSet := newToolSet lib 1, library := lib\<rparr>"

definition sim_lockedLibrary :: "sim kopsLibrary" where
  "sim_lockedLibrary = sim_strictLibrary\<lparr>registry_DeleteAllClusterState := (\<lambda>h. ret (Some (Errorf ''denied'')))\<rparr>"

definition sim_pending_oke :: "sim state" where
  "sim_pending_oke = sim_run [sim_cluster ''east'' ''oke'' NavarkosClusterStatePending []] [] []"

text \<open>Two clusters, of which one is being provisioned, and an API that refuses an update; a pass over both and a retry of what it queued.\<close>

definition sim_two :: "sim state" where
  "sim_two = sim_run [sim_cluster ''east'' ''oke'' NavarkosClusterStateProvisioning [(ClusterManagerClusterOKEIdKey, ''id1'')],
       sim_cluster ''west'' ''oke'' NavarkosClusterStateReady []]
     [Some (StatusError ''Forbidden'' ''no'')] [sim_running_answer]"

definition sim_two_passed :: "sim state" where
  "sim_two_passed = snd (reconcileWhenReady sim_cc sim_two)"

definition sim_two_item :: "clusterUpdater clusterUpdaterRetryItem" where
  "sim_two_item = hd (updateChannel (updateRetrier sim_two_passed))"

definition sim_two_retried :: "sim state" where
  "sim_two_retried = snd (retryHandler sim_cc sim_two_item sim_two_passed)"

definition validated_names :: "event list \<Rightarrow> string list" where
  "validated_names = List.map_filter (\<lambda>ev. case ev of EvProvider CallValidate c None \<Rightarrow> Some (Name c) | _ \<Rightarrow> None)"

text \<open>A controller whose copies fail.\<close>

abbreviation uncopied_cc :: "sim ClusterController" where
  "uncopied_cc \<equiv> newClusterController (sim_deployment\<lparr>dep_packages := sim_packages\<lparr>DeepCopy := (\<lambda>c. Inl (Errorf ''no copy''))\<rparr>\<rparr>)"

text \<open>Calls of a kind.\<close>

fun deletes :: "event \<Rightarrow> bool" where
  "deletes (EvProvider CallDelete c e) = True"
| "deletes _ = False"

fun is_create :: "event \<Rightarrow> bool" where
  "is_create (EvCreate c e) = True"
| "is_create _ = False"

fun refused_delete :: "event \<Rightarrow> bool" where
  "refused_delete (EvDelete n (Some e)) = True"
| "refused_delete _ = False"

fun accepted_as :: "string \<Rightarrow> event \<Rightarrow> bool" where
  "accepted_as st (EvUpdate c None) = (state_of c = Some st)"
| "accepted_as st _ = False"

lemma deletesD: "list_ex deletes evs \<Longrightarrow> \<exists>c e. EvProvider CallDelete c e \<in> set evs"
  by (auto simp: list_ex_iff elim!: deletes.elims)

lemma accepted_asD: "list_ex (accepted_as st) evs \<Longrightarrow> \<exists>c. EvUpdate c None \<in> set evs \<and> state_of c = Some st"
  by (auto simp: list_ex_iff elim!: accepted_as.elims)

lemma is_createD: "list_ex is_create evs \<Longrightarrow> \<exists>c e. EvCreate c e \<in> set evs"
  by (auto simp: list_ex_iff elim!: is_create.elims)

text \<open>The calls a run added to the history.\<close>

definition calls_of :: "('w state, 'a) go \<Rightarrow> 'w state \<Rightarrow> event list" where
  "calls_of m s = drop (length (trace s)) (trace (snd (m s)))"

lemma strict_found:
  "delete_found (sim_strict sim_strictLibrary) c sim_kops_world 7 8 sim_resources sim_kops_world"
  "delete_found (sim_strict sim_lockedLibrary) c sim_kops_world 7 8 sim_resources sim_kops_world"
proof -
  have "delete_found (sim_strict l) c sim_kops_world 7 8 sim_resources sim_kops_world"
    if "clientset_GetCluster l = clientset_GetCluster sim_kopsLibrary" "FindRegion l = FindRegion sim_kopsLibrary"
      "NewAWSCloud l = NewAWSCloud sim_kopsLibrary" "registry_ConfigBase l = registry_ConfigBase sim_kopsLibrary"
      "ListResources l = ListResources sim_strictLibrary" for l
    unfolding delete_found_def
    by (rule exI [of _ emptyKopsCluster], rule exI [of _ "''us-east-1''"], (rule exI [of _ sim_kops_world])+)
      (simp add: sim_strict_def newToolSet_def that, simp add: sim_strictLibrary_def sim_kopsLibrary_def sim_kops_world_def gets_def ret_def)
  then show "delete_found (sim_strict sim_strictLibrary) c sim_kops_world 7 8 sim_resources sim_kops_world"
    "delete_found (sim_strict sim_lockedLibrary) c sim_kops_world 7 8 sim_resources sim_kops_world"
    by (simp_all add: sim_lockedLibrary_def sim_strictLibrary_def)
qed

text \<open>How they end.\<close>

lemma sim_updater_ok: "wf_patch (clusterAnnotation sim_updater)" "cu_cc sim_updater" "isDirty sim_updater"
  by (simp_all add: sim_updater_def)

lemma sim_heap_size: "0 < length (heap sim_pending)" "0 < length (heap sim_shutdown)" "0 < length (heap sim_scale_up)"
  "0 < length (heap sim_provisioning)" "0 < length (heap sim_joining)"
  by code_simp+

lemma sim_name: "Name (heap sim_pending ! 0) = ''east''" "Name (heap sim_shutdown ! 0) = ''east''"
  "Name (heap sim_scale_up ! 0) = ''east''"
  by code_simp+

lemma sim_pending_ends: "fst (processItem sim_cc (Some 0) sim_pending) = Ret ()"
  by code_simp

lemma sim_shutdown_ends: "fst (processItem sim_cc (Some 0) sim_shutdown) = Ret ()"
  by code_simp

lemma sim_scale_up_ends: "fst (processItem sim_cc (Some 0) sim_scale_up) = Ret ()"
  by code_simp

lemma sim_provisioning_ends: "fst (validateCluster sim_cc (Some 0) NavarkosClusterStateProvisioning sim_provisioning) = Ret ()"
  by code_simp

lemma sim_joining_ends: "fst (clusterJoin sim_cc (Some 0) sim_joining) = Ret ()"
  by code_simp

section \<open>The kops side serves\<close>

text \<open>With every stored object of the class \<open>kops\<close>, the deployment meets what the worker relies on.\<close>

definition sim_ok :: "sim \<Rightarrow> bool" where
  "sim_ok w \<longleftrightarrow> (\<forall>c \<in> snd ` set (sim_clusters w). good {''kops''} c)"

lemma sim_kops_found:
  "\<exists>k. map_of (clusterProviders sim_cc) ''kops'' = Some (kops_provider k) \<and> toolSet k = newToolSet sim_kopsLibrary 1"
proof -
  have "BuildVfsPath sim_kopsLibrary s = Inr 1" for s by (simp add: sim_kopsLibrary_def)
  then show ?thesis
    by (auto simp: newClusterController_def builtin_lookup NewAwsKops_def sim_deployment_def sim_env_def
        OkeDefaultCloudAuthId_def AWSAccessKeyId_def AWSSecretAccessKeyId_def osLookup_def provider_value_def
        intro: exI [of _ "\<lparr>kopsStatePath = Suc 0, defaultNodeZones = ns, defaultMasterZones = ms, domain = dm,
          toolSet = newToolSet sim_kopsLibrary (Suc 0), library = sim_kopsLibrary\<rparr>" for ns ms dm])
qed

lemma update_range: "(a, b) \<in> set (AList.update k v m) \<Longrightarrow> b = v \<or> (\<exists>x \<in> set m. snd x = b)"
  by (induction m) (force split: if_splits)+

lemma sim_tools: "tools_total sim_ok (newToolSet sim_kopsLibrary 1)"
  by (simp add: tools_total_def newToolSet_def sim_kopsLibrary_def only_error_def total_on_def sim_ok_def
      bnd_def ret_def modify_def gets_def)

lemma sim_provider: "toolSet k = newToolSet sim_kopsLibrary 1 \<Longrightarrow> provider_serves {''kops''} sim_ok (kops_provider k)"
  using sim_tools kopsp.provider_contract_axioms [of k]
  by (simp add: provider_serves_def kops_provider_def kops_create_total kops_scale_total kops_delete_total)

lemma sim_serves: "serves sim_cc {''kops''} sim_ok"
proof -
  have get: "total_on sim_ok (sim_get name) (\<lambda>(oc, err). err = None \<longrightarrow> (\<exists>c. oc = Some c \<and> good {''kops''} c))" for name
    by (auto simp: total_on_def sim_get_def sim_ok_def split: option.split dest!: map_of_SomeD)
  have upd: "returns sim_ok (sim_write c)" if "good {''kops''} c" for c
    using that
    by (auto simp: total_on_def sim_write_def sim_fault_def sim_ok_def bnd_def ret_def modify_def
        dest!: update_range split: list.split option.split)
  have del: "returns sim_ok (client_delete sim_secretsClient ns name orphan)" for ns name orphan
    by (simp add: total_on_def sim_secretsClient_def sim_ok_def bnd_def ret_def modify_def)
  have now: "returns sim_ok (time_Now sim_packages)" by (simp add: total_on_def sim_packages_def sim_ok_def)
  from sim_kops_found sim_provider show ?thesis
    using get upd del now
    by (auto simp: serves_def newClusterController_def newClusterToolSet_def sim_deployment_def sim_client_def
        NewSecretToolSet_def SecretToolSet_DeleteSecret_def split: sum.splits)
qed

lemma sim_pending_ok: "sim_ok (world sim_pending)" "updateChannel (updateRetrier sim_pending) = []"
  by (simp_all add: sim_ok_def sim_pending_def sim_run_def sim_state_def sim_world_def initState_def sim_cluster_def
      good_def annotation_or_empty_def annotation_def key_defs newClusterUpdateRetrier_def)

section \<open>A run of the whole controller\<close>

text \<open>
  A pending cluster is observed and taken by the worker; kops creates it, and the API refuses
  the update, which is handed to the retrier.
\<close>

definition sim_start :: sim where
  "sim_start = sim_world [sim_cluster ''east'' ''kops'' NavarkosClusterStatePending []] [Some (Errorf ''refused'')] []"

text \<open>The steps of a run: a cluster is observed, and the worker takes a round.\<close>

definition observing :: "cluster \<Rightarrow> sim system \<Rightarrow> sim system" where
  "observing c y = y\<lparr>sys := snd (onClusterAdd sim_cc c (sys y))\<rparr>"

definition working :: "sim system \<Rightarrow> sim system" where
  "working y = after_round (WorkRound (head_name (sys y))) (snd (workerFunction sim_cc (sys y))) y"

lemma observe_then_work:
  assumes "(system_step sim_cc)\<^sup>*\<^sup>* y0 y" "\<not> crashed y" "fst (onClusterAdd sim_cc c (sys y)) = Ret ()"
    "fst (workerFunction sim_cc (sys (observing c y))) = Ret False"
  shows "(system_step sim_cc)\<^sup>*\<^sup>* y0 (working (observing c y))"
proof -
  have "system_step sim_cc y (observing c y)"
    unfolding observing_def by (rule system_step.added [OF assms(2) run_split [OF assms(3)]])
  moreover have "system_step sim_cc (observing c y) (working (observing c y))"
    unfolding working_def using assms(2) by (intro system_step.worked run_split [OF assms(4)]) (simp add: observing_def)
  ultimately show ?thesis using assms(1) by (meson rtranclp.rtrancl_into_rtrancl)
qed

definition sim_worked :: "sim system" where
  "sim_worked = working (observing (sim_cluster ''east'' ''kops'' NavarkosClusterStatePending []) (system_init sim_start))"

lemma sim_system_reached: "(system_step sim_cc)\<^sup>*\<^sup>* (system_init sim_start) sim_worked"
  unfolding sim_worked_def by (rule observe_then_work) (rule rtranclp.rtrancl_refl, code_simp+)

end
