(* ===== verification/ProviderFrames.thy ===== *)
theory ProviderFrames
  imports Wiring
begin

text \<open>
  What the providers leave alone. The OKE provider acts on the outside through the HTTP client
  only, the kops provider through the kops library only: a relation between the worlds before
  and after that holds of every call of these holds of every method of the providers. The rules
  are those of the locale \<open>run_frame\<close>.
\<close>

section \<open>OKE\<close>

lemma oke_keeps:
  assumes R: "run_frame R" and http: "\<And>req. keeps R (httpDefaultClientDo oke req)"
  shows "keeps R (okeCreateKubeCluster oke c)" "keeps R (okeDeleteKubeCluster oke c)"
    "keeps R (okeValidateKubeCluster oke c)" "keeps R (okeScaleKubeCluster oke c n)"
    "keeps R (okeExportKubeConfig oke c)"
proof -
  note rules = run_frame.rules [OF R] http
  have send: "keeps R (sendRequest oke m p)" "keeps R (sendRequestWithPayload oke m p b)" for m p b
    unfolding sendRequest_def sendRequestWithPayload_def transmitRequest_def Let_def by (intro rules)+
  have pool: "keeps R (first_pool ps)" for ps
    unfolding first_pool_def by (cases "the_list ps") (auto intro: rules)
  have states: "keeps R (oke_validate_states oke c a)" for a
    unfolding oke_validate_states_def Let_def by (intro rules send)
  show "keeps R (okeCreateKubeCluster oke c)" "keeps R (okeDeleteKubeCluster oke c)"
    "keeps R (okeExportKubeConfig oke c)" "keeps R (okeValidateKubeCluster oke c)" "keeps R (okeScaleKubeCluster oke c n)"
    unfolding okeCreateKubeCluster_def okeDeleteKubeCluster_def okeExportKubeConfig_def okeValidateKubeCluster_def
      okeScaleKubeCluster_def Let_def
    by (intro rules send pool states)+
qed

section \<open>kops\<close>

text \<open>The calls of the library; the one that builds a kubeconfig is given a callback.\<close>

definition library_keeps :: "('w \<Rightarrow> 'w \<Rightarrow> bool) \<Rightarrow> 'w kopsLibrary \<Rightarrow> bool" where
  "library_keeps R lib \<longleftrightarrow>
     (\<forall>h c. keeps R (clientset_Create lib h c)) \<and> (\<forall>h n. keeps R (clientset_GetCluster lib h n)) \<and>
     (\<forall>c. keeps R (PerformAssignments lib c)) \<and> (\<forall>h c g. keeps R (groups_Create lib h c g)) \<and>
     (\<forall>h c n. keeps R (groups_Get lib h c n)) \<and> (\<forall>h c g. keeps R (groups_Update lib h c g)) \<and>
     (\<forall>h c. keeps R (groups_List lib h c)) \<and> (\<forall>h n k. keeps R (AddSSHPublicKey lib h n k)) \<and>
     (\<forall>h c. keeps R (cmd_Run lib h c)) \<and> (\<forall>c. keeps R (registry_KeyStore lib c)) \<and>
     (\<forall>c. keeps R (registry_SecretStore lib c)) \<and>
     (\<forall>c a b f. (\<forall>x. keeps R (f x)) \<longrightarrow> keeps R (BuildKubecfg lib c a b f)) \<and>
     (\<forall>h. keeps R (GenerateKubecfg lib h)) \<and> (\<forall>h. keeps R (BuildRestConfig lib h)) \<and>
     (\<forall>n l h. keeps R (ValidateCluster lib n l h)) \<and> (\<forall>r t. keeps R (NewAWSCloud lib r t)) \<and>
     (\<forall>d. keeps R (ListResources lib d)) \<and> (\<forall>c. keeps R (registry_ConfigBase lib c)) \<and>
     (\<forall>h. keeps R (registry_DeleteAllClusterState lib h)) \<and> (\<forall>d r. keeps R (DeleteResources lib d r)) \<and>
     (\<forall>n. keeps R (builder_DeleteKubeConfig lib n)) \<and> (\<forall>c. keeps R (lib_BuildCloud lib c)) \<and>
     (\<forall>h c. keeps R (gce_GetApiIngressStatus lib h c)) \<and> (\<forall>h n. keeps R (lib_FindLoadBalancerByNameTag lib h n))"

lemma status_keeps:
  assumes R: "run_frame R" and lib: "library_keeps R lib"
  shows "keeps R (GetApiIngressStatus (statusDiscoveryToolSet lib) c)"
proof -
  have lookup: "keeps R (cloudupBuildCloud (statusDiscoveryToolSet lib) c)"
    "keeps R (gceCloudGetApiIngressStatus (statusDiscoveryToolSet lib) c h)"
    "keeps R (awstasksFindLoadBalancerByNameTag (statusDiscoveryToolSet lib) h n)" for c h n
    using lib by (simp_all add: statusDiscoveryToolSet_def library_keeps_def)
  note rules = run_frame.rules [OF R]
  have cloud: "keeps R (case cl of GCECloud h \<Rightarrow> f h | AWSCloud h \<Rightarrow> g h | OtherCloud n \<Rightarrow> m n)"
    if "\<And>h. keeps R (f h)" "\<And>h. keeps R (g h)" "\<And>n. keeps R (m n)" for cl and f g :: "handle \<Rightarrow> ('a, 'b) go" and m
    using that by (cases cl) simp_all
  show ?thesis unfolding GetApiIngressStatus_def Let_def by (intro rules cloud lookup)
qed

lemma tools_keep:
  assumes R: "run_frame R" and lib: "library_keeps R lib"
  shows "keeps R (ts_createKopsCluster (newToolSet lib h) c)" "keeps R (ts_getKopsCluster (newToolSet lib h) n)"
    "keeps R (ts_cloudUpPerformAssignments (newToolSet lib h) c)" "keeps R (ts_createInstanceGroup (newToolSet lib h) c g)"
    "keeps R (ts_getInstanceGroupForNodes (newToolSet lib h) c)" "keeps R (ts_updateInstanceGroup (newToolSet lib h) c g)"
    "keeps R (ts_applyCmdRun (newToolSet lib h) cmd)" "keeps R (ts_addSSHPublicKey (newToolSet lib h) ks k)"
    "keeps R (ts_getRegistryKeyStore (newToolSet lib h) oc)" "keeps R (ts_getRegistrySecretStore (newToolSet lib h) oc)"
    "keeps R (ts_buildKubeConfig (newToolSet lib h) oc ks ss)" "keeps R (ts_generateKubeConfig (newToolSet lib h) b)"
    "keeps R (ts_getInstanceGroupList (newToolSet lib h) c)" "keeps R (ts_validateCluster (newToolSet lib h) n l b)"
    "keeps R (ts_awsupFindRegion (newToolSet lib h) c)" "keeps R (ts_awsupNewAWSCloud (newToolSet lib h) n t)"
    "keeps R (ts_listResources (newToolSet lib h) d)" "keeps R (ts_registryConfigBase (newToolSet lib h) c)"
    "keeps R (ts_registryDeleteAllClusterState (newToolSet lib h) b)" "keeps R (ts_deleteResources (newToolSet lib h) d rs)"
    "keeps R (ts_deleteKubeConfig (newToolSet lib h) n)"
  using lib status_keeps [OF assms]
  by (simp_all add: newToolSet_def library_keeps_def only_error_def run_frame.rules [OF R])

lemma extract_keeps: "run_frame R \<Longrightarrow> keeps R (extractUnsharedClusterResources rs)"
  by (induction rs rule: extractUnsharedClusterResources.induct) (auto intro!: run_frame.rules)

lemma kops_keeps:
  assumes R: "run_frame R" and lib: "library_keeps R (library k)" and ts: "toolSet k = newToolSet (library k) h"
  shows "keeps R (kopsCreateKubeCluster k c)" "keeps R (kopsDeleteKubeCluster k c)" "keeps R (kopsValidateKubeCluster k c)"
    "keeps R (kopsScaleKubeCluster k c n)" "keeps R (kopsExportKubeConfig k c)"
proof -
  note rules = run_frame.rules [OF R] tools_keep [OF R lib, of h, folded ts]
  have group: "keeps R (instantiateInstanceGroup k s t zs m nn)" for s t zs m nn
    unfolding instantiateInstanceGroup_def Let_def by (intro rules)
  have ssh: "keeps R (kops_add_ssh_key k s key)" for s key
    unfolding kops_add_ssh_key_def by (intro rules)
  have apply_c: "keeps R (apply_cluster k c)" unfolding apply_cluster_def Let_def by (intro rules)
  have up: "keeps R (up k c)" unfolding up_def Let_def by (intro rules group ssh)
  have unshared: "keeps R (delete_unshared k d b rs)" for d b rs unfolding delete_unshared_def by (intro rules)
  have builder: "keeps R (ExportKubeConfigBuilder k m)" for m unfolding ExportKubeConfigBuilder_def by (intro rules)
  have rest: "keeps R (BuildRestConfig (library k) b)" for b using lib by (simp add: library_keeps_def)
  show "keeps R (kopsCreateKubeCluster k c)" "keeps R (kopsDeleteKubeCluster k c)" "keeps R (kopsValidateKubeCluster k c)"
    "keeps R (kopsScaleKubeCluster k c n)" "keeps R (kopsExportKubeConfig k c)"
    unfolding kopsCreateKubeCluster_def kopsDeleteKubeCluster_def kopsValidateKubeCluster_def kopsScaleKubeCluster_def
      kopsExportKubeConfig_def Let_def
    by (intro rules up apply_c unshared builder rest extract_keeps [OF R])+
qed

section \<open>The providers of the controller\<close>

definition provider_keeps :: "('w \<Rightarrow> 'w \<Rightarrow> bool) \<Rightarrow> 'w provider \<Rightarrow> bool" where
  "provider_keeps R P \<longleftrightarrow> (\<forall>c. keeps R (CreateKubeCluster P c) \<and> keeps R (DeleteKubeCluster P c) \<and>
     keeps R (ValidateKubeCluster P c) \<and> (\<forall>n. keeps R (ScaleKubeCluster P c n)) \<and> keeps R (ExportKubeConfig P c))"

lemma built_providers_keep:
  assumes R: "run_frame R" and http: "\<And>req. keeps R (dep_httpClientDo d req)" and lib: "library_keeps R (dep_kopsLibrary d)"
    and P: "map_of (clusterProviders (newClusterController d)) k = Some P"
  shows "provider_keeps R P"
proof -
  have nil: "provider_keeps R nil_provider"
    by (simp add: provider_keeps_def nil_provider_def run_frame.rules [OF R])
  have oke: "provider_keeps R (oke_provider oke)" if "fst (NewOke (dep_lookupEnv d) (dep_httpClientDo d) (dep_options d)) = Some oke" for oke
  proof -
    from that have "httpDefaultClientDo oke = dep_httpClientDo d" by (auto simp: NewOke_def Let_def split: option.splits)
    with http oke_keeps [OF R, of oke] show ?thesis by (simp add: provider_keeps_def oke_provider_def)
  qed
  have kops: "provider_keeps R (kops_provider kp)" if "fst (NewAwsKops (dep_lookupEnv d) (dep_kopsLibrary d) (dep_options d)) = Some kp" for kp
  proof -
    from that obtain h where "library kp = dep_kopsLibrary d" "toolSet kp = newToolSet (dep_kopsLibrary d) h"
      by (auto simp: NewAwsKops_def Let_def split: option.splits sum.splits)
    with lib kops_keeps [OF R, of kp h] show ?thesis by (simp add: provider_keeps_def kops_provider_def)
  qed
  from P nil oke kops show ?thesis
    by (auto simp: newClusterController_def builtin_lookup provider_value_def split: if_splits option.splits)
qed

end
