(* ===== verification/Store.thy ===== *)
theory Store
  imports System ProviderFrames
begin

text \<open>
  What the rounds make of the clusters the API stores.

  \<^item> \<open>api_step\<close>: an API server with optimistic locking, as the objects it stores before and after
    a call with its answer. An update is accepted when it carries the version that is stored or
    none, and refused as a conflict otherwise; an accepted write gets a version the server picks. An
    object is created when there is none of its name and it carries no version.
  \<^item> \<open>reliable\<close>: the calls of a deployment follow \<open>api_step\<close>, and nothing else touches the store.
    Then so does every run of a handler (the locale \<open>run_frame\<close>, interpreted for \<open>store_frame\<close>).
  \<^item> With the specifications of the rounds this tells what is stored in the end: the outcome the
    provider reported, in every other respect the object that was there.
\<close>

section \<open>An API server with optimistic locking\<close>

type_synonym store = "string \<rightharpoonup> cluster"

inductive api_step :: "store \<Rightarrow> event \<Rightarrow> store \<Rightarrow> bool" where
  get_found: "S n = Some c \<Longrightarrow> api_step S (EvGet n (Some c) None) S"
| get_missing: "S n = None \<Longrightarrow> api_step S (EvGet n oc (Some e)) S"
| update_accepted: "S (Name c) = Some b \<Longrightarrow> ResourceVersion c \<in> {ResourceVersion b, ''''} \<Longrightarrow>
    api_step S (EvUpdate c None) (S(Name c \<mapsto> c\<lparr>ResourceVersion := v\<rparr>))"
| update_conflict: "S (Name c) = Some b \<Longrightarrow> ResourceVersion c \<notin> {ResourceVersion b, ''''} \<Longrightarrow> IsConflict e \<Longrightarrow>
    api_step S (EvUpdate c (Some e)) S"
| update_missing: "S (Name c) = None \<Longrightarrow> api_step S (EvUpdate c (Some e)) S"
| listed: "set items = ran S \<Longrightarrow> distinct (map Name items) \<Longrightarrow> api_step S (EvList (Some items) None) S"
| delete_found: "S n \<noteq> None \<Longrightarrow> api_step S (EvDelete n None) (S(n := None))"
| delete_missing: "S n = None \<Longrightarrow> api_step S (EvDelete n (Some e)) S"
| create_fresh: "S (Name c) = None \<Longrightarrow> ResourceVersion c = '''' \<Longrightarrow> Name c \<noteq> '''' \<Longrightarrow>
    api_step S (EvCreate c None) (S(Name c \<mapsto> c\<lparr>ResourceVersion := v\<rparr>))"
| create_refused: "S (Name c) \<noteq> None \<or> ResourceVersion c \<noteq> '''' \<or> Name c = '''' \<Longrightarrow> api_step S (EvCreate c (Some e)) S"
| provider_call: "api_step S (EvProvider k c r) S"
| secret_create: "api_step S (EvSecretCreate n r) S"
| secret_delete: "api_step S (EvSecretDelete n r) S"

inductive_simps api_step_simps [simp]:
  "api_step S (EvGet n oc e) S'" "api_step S (EvUpdate c e) S'" "api_step S (EvList items e) S'"
  "api_step S (EvDelete n e) S'" "api_step S (EvCreate c e) S'" "api_step S (EvProvider k c e) S'"
  "api_step S (EvSecretCreate n e) S'" "api_step S (EvSecretDelete n e) S'"

fun api_run :: "store \<Rightarrow> event list \<Rightarrow> store \<Rightarrow> bool" where
  "api_run S [] S' \<longleftrightarrow> S' = S"
| "api_run S (ev # evs) S' \<longleftrightarrow> (\<exists>S1. api_step S ev S1 \<and> api_run S1 evs S')"

lemma api_run_append [simp]: "api_run S (xs @ ys) S' \<longleftrightarrow> (\<exists>S1. api_run S xs S1 \<and> api_run S1 ys S')"
  by (induction xs arbitrary: S) auto

text \<open>Every object is stored under its name, and has one.\<close>

definition named :: "store \<Rightarrow> bool" where
  "named S \<longleftrightarrow> (\<forall>n c. S n = Some c \<longrightarrow> Name c = n \<and> n \<noteq> '''')"

lemma namedD: "named S \<Longrightarrow> S n = Some c \<Longrightarrow> Name c = n"
  by (simp add: named_def)

lemma named_nonempty: "named S \<Longrightarrow> S n = Some c \<Longrightarrow> Name c \<noteq> []"
  by (auto simp: named_def)

lemma api_step_named: "api_step S ev S' \<Longrightarrow> named S \<Longrightarrow> named S'"
  by (induction rule: api_step.induct) (auto simp: named_def)

lemma api_run_named: "api_run S evs S' \<Longrightarrow> named S \<Longrightarrow> named S'"
  by (induction evs arbitrary: S) (auto dest: api_step_named)

section \<open>What an update stores\<close>

text \<open>
  An update of an object that is there succeeds: at the first attempt, or after one conflict on
  the object as it is stored. What is stored is the object it was based on with the changes.
\<close>

definition same_content :: "cluster \<Rightarrow> cluster \<Rightarrow> bool" where
  "same_content b c \<longleftrightarrow> (\<exists>v. c = b\<lparr>ResourceVersion := v\<rparr>)"

definition revision :: "(cluster \<Rightarrow> cluster \<Rightarrow> bool) \<Rightarrow> cluster \<Rightarrow> cluster \<Rightarrow> bool" where
  "revision Q b c \<longleftrightarrow> (\<exists>b' c'. same_content b b' \<and> same_content c' c \<and> Q b' c')"

lemma same_content_refl [simp]: "same_content c c"
  unfolding same_content_def by (rule exI [of _ "ResourceVersion c"]) simp

lemma same_content_version [simp]: "same_content b (b\<lparr>ResourceVersion := v\<rparr>)"
  by (auto simp: same_content_def)

lemma same_content_sym: "same_content b c \<Longrightarrow> same_content c b"
  by (auto simp: same_content_def intro: exI [of _ "ResourceVersion b"])

lemma same_content_trans: "same_content a b \<Longrightarrow> same_content b c \<Longrightarrow> same_content a c"
  by (auto simp: same_content_def)

lemma same_content_fields:
  "same_content b c \<Longrightarrow> Name c = Name b \<and> Annotations c = Annotations b \<and> SecretRef c = SecretRef b \<and>
     ServerAddressByClientCIDRs c = ServerAddressByClientCIDRs b"
  by (auto simp: same_content_def)

lemma same_content_annotation: "same_content b c \<Longrightarrow> annotation c = annotation b \<and> state_of c = state_of b"
  by (auto simp: same_content_def annotation_def state_of_def fun_eq_iff)

lemma revisionI: "Q b c \<Longrightarrow> same_content a b \<Longrightarrow> same_content c c' \<Longrightarrow> revision Q a c'"
  by (auto simp: revision_def)

lemma update_stores:
  assumes run: "update_protocol Q name n (Some b) e0 us r" "api_run S us S'" and n: "2 \<le> n"
    and b: "S name = Some b0" "same_content b b0" "Name b = name"
    and Q: "\<And>b c. Q b c \<Longrightarrow> Name c = Name b \<and> ResourceVersion c = ResourceVersion b"
  shows "r = None \<and> (\<exists>c d. S' = S(name \<mapsto> c) \<and> revision Q b c \<and> last us = EvUpdate d None \<and> same_content d c)"
  using run(1)
proof (cases rule: update_protocol.cases)
  case (accepted c m)
  with run(2) b Q [OF accepted(4)] show ?thesis by (auto intro!: revisionI)
next
  case (refused c e m)
  with run(2) b Q [OF refused(4)] show ?thesis by auto
next
  case (conflict c e m evs)
  have c: "Name c = name" using Q [OF conflict(3)] b(3) by simp
  from conflict(5) show ?thesis
  proof (cases rule: update_protocol.cases)
    case exhausted
    with n conflict(1) show ?thesis by simp
  next
    case (resync_failed k oc e1)
    with run(2) conflict(2) b c show ?thesis by auto
  next
    case (resynced k b1 evs1)
    with run(2) conflict(2) b c have b1: "b1 = b0" and run1: "api_run S evs1 S'" by auto
    have "Name b0 = name" using same_content_fields [OF b(2)] b(3) by simp
    from resynced(3) show ?thesis
    proof (cases rule: update_protocol.cases)
      case (accepted c1)
      with run1 conflict(2) resynced(2) b b1 Q [OF accepted(3)] \<open>Name b0 = name\<close> show ?thesis by (auto intro!: revisionI)
    qed (use run1 b b1 Q \<open>Name b0 = name\<close> in auto)
  qed
qed (use n in simp_all)

text \<open>The relations of the handlers do not depend on the version, which can be left open.\<close>

lemma annotation_version [simp]:
  "annotation (c\<lparr>ResourceVersion := v\<rparr>) = annotation c" "state_of (c\<lparr>ResourceVersion := v\<rparr>) = state_of c"
  by (simp_all add: annotation_def state_of_def fun_eq_iff)

lemma revision_natural:
  assumes "\<And>b c v. Q b c \<Longrightarrow> Q (b\<lparr>ResourceVersion := v\<rparr>) (c\<lparr>ResourceVersion := v\<rparr>)"
  shows "revision Q b c \<longleftrightarrow> Q b (c\<lparr>ResourceVersion := ResourceVersion b\<rparr>)"
proof
  assume "revision Q b c"
  then obtain b' c' where bc: "same_content b b'" "same_content c' c" "Q b' c'" by (auto simp: revision_def)
  from assms [OF bc(3), of "ResourceVersion b"] bc(1,2) show "Q b (c\<lparr>ResourceVersion := ResourceVersion b\<rparr>)"
    by (auto simp: same_content_def)
qed (auto intro!: revisionI same_content_sym [OF same_content_version])

lemma revision_moves: "revision (moves_to st ks) b c \<longleftrightarrow> moves_to st ks b (c\<lparr>ResourceVersion := ResourceVersion b\<rparr>)"
  and revision_keeps: "revision (keeps_state ks) b c \<longleftrightarrow> keeps_state ks b (c\<lparr>ResourceVersion := ResourceVersion b\<rparr>)"
  and revision_offline: "revision goes_offline b c \<longleftrightarrow> goes_offline b (c\<lparr>ResourceVersion := ResourceVersion b\<rparr>)"
  and revision_joins: "revision (joins server) b c \<longleftrightarrow> joins server b (c\<lparr>ResourceVersion := ResourceVersion b\<rparr>)"
  by (rule revision_natural, simp add: moves_to_def keeps_state_def goes_offline_def joins_def)+

lemmas revision_simps = revision_moves revision_keeps revision_offline revision_joins

lemma revision_after_mark:
  assumes "revision (moves_to st {}) a b"
  shows "revision goes_offline b c \<Longrightarrow> revision goes_offline a c"
    "revision (moves_to st' {}) b c \<Longrightarrow> revision (moves_to st' {}) a c"
    "revision (keeps_state ks) b c \<Longrightarrow> NavarkosClusterStateKey \<notin> ks \<Longrightarrow> revision (moves_to st ks) a c"
  using assms unfolding revision_simps
  by (simp_all add: moves_to_def keeps_state_def goes_offline_def state_of_def)

lemma revision_more: "revision (moves_to st ks) a b \<Longrightarrow> ks \<subseteq> ks' \<Longrightarrow> revision (moves_to st ks') a b"
  unfolding revision_simps by (auto simp: moves_to_def)

lemma revision_content: "same_content a b \<Longrightarrow> revision Q a c \<Longrightarrow> revision Q b c"
  unfolding revision_def by (meson same_content_sym same_content_trans)

lemma revision_state:
  "revision (moves_to st ks) b c \<Longrightarrow> state_of c = Some st \<and> Name c = Name b"
  "revision goes_offline b c \<Longrightarrow> state_of c = Some NavarkosClusterStateOffline \<and> Name c = Name b"
  "revision (joins server) b c \<Longrightarrow> state_of c = Some NavarkosClusterStateReady \<and> Name c = Name b"
  "revision (keeps_state ks) b c \<Longrightarrow> Name c = Name b"
  unfolding revision_simps by (auto simp: moves_to_def goes_offline_def joins_def keeps_state_def)

text \<open>An update made by a handler, of the object it has.\<close>

definition same_object :: "(cluster \<Rightarrow> cluster \<Rightarrow> bool) \<Rightarrow> bool" where
  "same_object Q \<longleftrightarrow> (\<forall>b c. Q b c \<longrightarrow> Name c = Name b \<and> ResourceVersion c = ResourceVersion b)"

lemma same_object_relations [simp]: "same_object (moves_to st ks)" "same_object (keeps_state ks)" "same_object goes_offline"
  by (simp_all add: same_object_def moves_to_def keeps_state_def goes_offline_def)

lemma handler_update:
  assumes "update_protocol Q (Name b) MaxRetryCount (Some b) None us r" "api_run S us S'" "S (Name b) = Some b0" "same_content b b0"
    and "same_object Q"
  shows "r = None \<and> (\<exists>c d. S' = S(Name b \<mapsto> c) \<and> revision Q b c \<and> last us = EvUpdate d None \<and> same_content d c)"
  using assms(5) by (intro update_stores [OF assms(1,2) _ assms(3,4) refl]) (auto simp: MaxRetryCount_def same_object_def)

section \<open>What a round stores\<close>

lemma create_stores:
  assumes "create_spec c err evs" "api_run S evs S'" "S (Name c) = Some c"
  shows "\<exists>c'. S' = S(Name c \<mapsto> c') \<and> revision (moves_to (if err = None then NavarkosClusterStateProvisioning
      else NavarkosClusterStateFailedProvision) create_keys) c c'"
proof -
  let ?Q = "moves_to (if err = None then NavarkosClusterStateProvisioning else NavarkosClusterStateFailedProvision) create_keys"
  from assms(1) obtain us e where evs: "evs = EvProvider CallCreate c err # us"
    and p: "update_protocol ?Q (Name c) MaxRetryCount (Some c) None us e" unfolding create_spec_def by blast
  from evs assms(2) have "api_run S us S'" by simp
  from handler_update [OF p this assms(3)] show ?thesis by auto
qed

lemma shutdown_stores:
  assumes "shutdown_spec c err evs" "api_run S evs S'" "S (Name c) = Some c"
  shows "\<exists>c1 e c'. EvProvider CallDelete c1 e \<in> set evs \<and> S' = S(Name c \<mapsto> c') \<and>
    (if e = None then revision goes_offline c c' else revision (moves_to NavarkosClusterStateShuttingDown {}) c c')"
  using assms(1)
proof (cases rule: shutdown_spec.cases)
  case (not_marked e)
  from handler_update [OF not_marked(2) assms(2,3)] show ?thesis by auto
next
  case (not_deleted us c1 e)
  from assms(2) not_deleted(2) have "api_run S us S'" by auto
  from handler_update [OF not_deleted(3) this assms(3)] not_deleted(2) show ?thesis by auto
next
  case (deleted us c1 b sec us' e)
  have sec: "api_run T sec T' \<longleftrightarrow> T' = T" for T T' using deleted(5) by auto
  from assms(2) deleted(1) obtain S1 where r: "api_run S us S1" "api_run S1 us' S'" by (auto simp: sec)
  from handler_update [OF deleted(2) r(1) assms(3)] deleted(4) obtain d where
    d: "S1 = S(Name c \<mapsto> d)" "revision (moves_to NavarkosClusterStateShuttingDown {}) c d" "same_content b d" by auto
  have n: "Name b = Name c" "S1 (Name b) = Some d" using d revision_state(1) [OF d(2)] same_content_fields [OF d(3)] by auto
  from handler_update [OF deleted(6) r(2) n(2) d(3)] obtain c' where "S' = S1(Name b \<mapsto> c')" "revision goes_offline b c'" by auto
  with d n revision_after_mark(1) [OF d(2)] revision_content [OF d(3)] have "S' = S(Name c \<mapsto> c') \<and> revision goes_offline c c'" by auto
  moreover have "EvProvider CallDelete c1 None \<in> set evs" unfolding deleted(1) by simp
  ultimately show ?thesis by (intro exI [of _ c1] exI [of _ None] exI [of _ c']) simp
qed

text \<open>A negative size is refused by no provider; OKE reports a pool of one worker as ready at once.\<close>

lemma scale_stores:
  assumes "scale_spec grow c err evs" "api_run S evs S'" "S (Name c) = Some c"
  shows "\<exists>c1 c'. EvProvider (CallScale (scaleSizeOf c grow)) c1 err \<in> set evs \<and> S' = S(Name c \<mapsto> c') \<and>
    (if err = None then revision (moves_to (scaling_state grow) scale_keys) c c' \<or>
       sint (scaleSizeOf c grow) < 0 \<and> revision (moves_to NavarkosClusterStateReady {}) c c'
     else revision (moves_to (failed_scale_state grow) {}) c c')"
  using assms(1)
proof (cases rule: scale_spec.cases)
  case (scale_not_marked e)
  from handler_update [OF scale_not_marked(2) assms(2,3)] show ?thesis by auto
next
  case (scale_failed us c1 b us' e' e)
  from assms(2) scale_failed(2) obtain S1 where r: "api_run S us S1" "api_run S1 us' S'" by auto
  from handler_update [OF scale_failed(3) r(1) assms(3)] scale_failed(5) obtain d where
    d: "S1 = S(Name c \<mapsto> d)" "revision (moves_to (scaling_state grow) {}) c d" "same_content b d" by auto
  have n: "Name b = Name c" "S1 (Name b) = Some d" using d revision_state(1) [OF d(2)] same_content_fields [OF d(3)] by auto
  from handler_update [OF scale_failed(6) r(2) n(2) d(3)] obtain c' where
    "S' = S1(Name b \<mapsto> c')" "revision (moves_to (failed_scale_state grow) {}) b c'" by auto
  with d n revision_after_mark(2) [OF d(2)] revision_content [OF d(3)] have
    "S' = S(Name c \<mapsto> c') \<and> revision (moves_to (failed_scale_state grow) {}) c c'" by auto
  with scale_failed(1,2) show ?thesis by (intro exI [of _ c1] exI [of _ c']) simp
next
  case (scaled us c1 b us' e)
  from assms(2) scaled(2) obtain S1 where r: "api_run S us S1" "api_run S1 us' S'" by auto
  from handler_update [OF scaled(3) r(1) assms(3)] scaled(5) obtain d where
    d: "S1 = S(Name c \<mapsto> d)" "revision (moves_to (scaling_state grow) {}) c d" "same_content b d" by auto
  have n: "Name b = Name c" "S1 (Name b) = Some d" using d revision_state(1) [OF d(2)] same_content_fields [OF d(3)] by auto
  have k: "NavarkosClusterStateKey \<notin> scale_keys" by (simp add: scale_keys_def keys_simps)
  from scaled(6) have "\<exists>c'. S' = S(Name c \<mapsto> c') \<and> (revision (moves_to (scaling_state grow) scale_keys) c c' \<or>
       sint (scaleSizeOf c grow) < 0 \<and> revision (moves_to NavarkosClusterStateReady {}) c c')"
  proof (elim disjE conjE)
    assume "us' = []"
    with r(2) d revision_more [OF d(2)] show ?thesis by auto
  next
    assume p: "update_protocol (keeps_state scale_keys) (Name b) MaxRetryCount (Some b) None us' e"
    from handler_update [OF p r(2) n(2) d(3)] obtain c' where c': "S' = S1(Name b \<mapsto> c')" "revision (keeps_state scale_keys) b c'"
      by auto
    from revision_after_mark(3) [OF d(2) revision_content [OF d(3) c'(2)] k] c'(1) d n show ?thesis by auto
  next
    assume s: "sint (scaleSizeOf c grow) < 0"
      and p: "update_protocol (moves_to NavarkosClusterStateReady {}) (Name b) MaxRetryCount (Some b) None us' e"
    from handler_update [OF p r(2) n(2) d(3)] obtain c' where
      c': "S' = S1(Name b \<mapsto> c')" "revision (moves_to NavarkosClusterStateReady {}) b c'" by auto
    from revision_after_mark(2) [OF d(2) revision_content [OF d(3) c'(2)]] c'(1) d n s show ?thesis by auto
  qed
  with scaled(1,2) show ?thesis by auto
qed

lemma keeps_refl: "revision (keeps_state ks) c c"
  unfolding revision_simps by (simp add: keeps_state_def)

lemma validate_stores:
  assumes "validate_spec st c evs" "api_run S evs S'" "S (Name c) = Some c"
  shows "\<exists>e c'. EvProvider CallValidate c e \<in> set evs \<and> S' = S(Name c \<mapsto> c') \<and>
    (if e = None then revision (moves_to (validated_state st) {ClusterManagerClusterOKEWorkItemKey}) c c'
     else revision (keeps_state {ClusterManagerClusterOKEWorkItemKey}) c c')"
  using assms(1)
proof (cases rule: validate_spec.cases)
  case (valid us e)
  with assms(2) have "api_run S us S'" by simp
  from handler_update [OF valid(2) this assms(3)] valid(1) show ?thesis
    by (intro exI [of _ None]) auto
next
  case (still_working e)
  with assms(2,3) keeps_refl show ?thesis by (intro exI [of _ "Some e"] exI [of _ c]) (auto simp: fun_upd_idem)
next
  case (work_item_gone us e' e)
  with assms(2) have "api_run S us S'" by simp
  from handler_update [OF work_item_gone(2) this assms(3)] work_item_gone(1) show ?thesis
    by (intro exI [of _ "Some e"]) auto
qed

lemma delete_stores:
  assumes "delete_protocol (Suc n) (Some c) e0 evs r ob" "api_run S evs S'" "S (Name c) \<noteq> None"
  shows "r = None \<and> ob = Some c \<and> evs = [EvDelete (Name c) None] \<and> S' = S(Name c := None)"
  using assms by (cases rule: delete_protocol.cases) auto

lemma recreate_stores:
  assumes "recreates n c evs err" "api_run S evs S'" "S (Name c) = None" "ResourceVersion c = []" "Name c \<noteq> []"
  shows "err = None \<and> (\<exists>c'. S' = S(Name c \<mapsto> c') \<and> same_content c c')"
proof -
  from assms(1) obtain es where evs: "evs = map (EvCreate c) (es @ [err])" and es: "\<forall>e \<in> set es. e \<noteq> None"
    by (auto simp: recreates_def)
  have "es = []" using evs es assms(2-) by (cases es) auto
  with evs assms(2-) show ?thesis by auto
qed

lemma reset_stores:
  assumes "reset_spec b err evs" "api_run S evs S'" "S (Name b) \<noteq> None" "Name b \<noteq> []"
  shows "\<exists>c'. S' = S(Name b \<mapsto> c') \<and> same_content b c'"
  using assms(1)
proof (cases rule: reset_spec.cases)
  case (not_deleted e ob)
  from delete_stores [OF not_deleted(2) [unfolded MaxRetryCount_Suc] assms(2,3)] show ?thesis by simp
next
  case (recreated ds b' rs)
  from assms(2) recreated(1) obtain S1 where r: "api_run S ds S1" "api_run S1 rs S'" by auto
  from delete_stores [OF recreated(2) [unfolded MaxRetryCount_Suc] r(1) assms(3)] have d: "b' = b" "S1 = S(Name b := None)" by auto
  from recreate_stores [OF recreated(3) r(2)] d assms(4) obtain c' where "S' = S1(Name b \<mapsto> c')" "same_content (b\<lparr>ResourceVersion := []\<rparr>) c'" by auto
  with d show ?thesis by (auto intro: same_content_trans [OF same_content_version])
qed

lemma join_stores:
  assumes "join_spec address c evs" "api_run S evs S'" "S (Name c) = Some c" "Name c \<noteq> []"
  shows "if EvSecretCreate (Name c) None \<in> set evs
    then \<exists>server c'. S' = S(Name c \<mapsto> c') \<and> revision (joins server) c c' else S' = S"
  using assms(1)
proof (cases rule: join_spec.cases)
  case (joined server b err us)
  have n: "Name b = Name c" using joined(3) by (simp add: joins_def)
  from joined(1) assms(2) have "api_run S us S'" by simp
  from reset_stores [OF joined(4) this] n assms(3,4) obtain c' where "S' = S(Name c \<mapsto> c')" "same_content b c'" by auto
  moreover from this joined(3) have "revision (joins server) c c'" by (intro revisionI [where b = c and c = b]) simp_all
  ultimately show ?thesis using joined(1) by (auto simp del: fun_upd_apply)
qed (use assms(2) in auto)

subsection \<open>A round of the worker\<close>

text \<open>
  What a round of the worker makes of the object \<open>c\<close> it finds, by the answer \<open>e\<close> the provider gave
  in the calls of the round. The outcome of a scaling in progress is left to the validation; a
  pool of one worker that is to shrink is reported as ready at once.
\<close>

definition scale_effect :: "bool \<Rightarrow> cluster \<Rightarrow> event list \<Rightarrow> cluster \<Rightarrow> bool" where
  "scale_effect grow c evs c' \<longleftrightarrow> (\<exists>c1 e. EvProvider (CallScale (scaleSizeOf c grow)) c1 e \<in> set evs \<and>
     (if e = None then revision (moves_to (scaling_state grow) scale_keys) c c' \<or>
        sint (scaleSizeOf c grow) < 0 \<and> revision (moves_to NavarkosClusterStateReady {}) c c'
      else revision (moves_to (failed_scale_state grow) {}) c c'))"

definition work_effect :: "cluster \<Rightarrow> event list \<Rightarrow> cluster \<Rightarrow> bool" where
  "work_effect c evs c' \<longleftrightarrow>
     (if state_of c = Some NavarkosClusterStatePending then
        \<exists>e. EvProvider CallCreate c e \<in> set evs \<and> revision (moves_to (if e = None
          then NavarkosClusterStateProvisioning else NavarkosClusterStateFailedProvision) create_keys) c c'
      else if state_of c = Some NavarkosClusterStatePendingShutdown then
        \<exists>c1 e. EvProvider CallDelete c1 e \<in> set evs \<and> (if e = None then revision goes_offline c c'
          else revision (moves_to NavarkosClusterStateShuttingDown {}) c c')
      else if state_of c = Some NavarkosClusterStatePendingScaleUp then scale_effect True c evs c'
      else if state_of c = Some NavarkosClusterStatePendingScaleDown then scale_effect False c evs c'
      else c' = c)"

lemma work_effect_simps:
  "state_of c = Some NavarkosClusterStatePendingShutdown \<Longrightarrow> work_effect c evs c' \<longleftrightarrow>
     (\<exists>c1 e. EvProvider CallDelete c1 e \<in> set evs \<and> (if e = None then revision goes_offline c c'
        else revision (moves_to NavarkosClusterStateShuttingDown {}) c c'))"
  "state_of c = Some NavarkosClusterStatePendingScaleUp \<Longrightarrow> work_effect c evs c' \<longleftrightarrow> scale_effect True c evs c'"
  "state_of c = Some NavarkosClusterStatePendingScaleDown \<Longrightarrow> work_effect c evs c' \<longleftrightarrow> scale_effect False c evs c'"
  unfolding work_effect_def by (simp_all add: state_defs)

lemma scale_effect_Cons: "scale_effect grow c evs c' \<Longrightarrow> scale_effect grow c (ev # evs) c'"
  unfolding scale_effect_def by (simp only: list.set) blast

lemma work_stores:
  assumes "work_spec n evs" "api_run S evs S'" "named S" "S n = Some c"
  shows "\<exists>c'. S' = S(n \<mapsto> c') \<and> work_effect c evs c'"
  using assms(1)
proof (cases rule: work_spec.cases)
  case (fetch_failed oc e)
  with assms(2,4) show ?thesis by simp
next
  case (nothing_to_do b)
  with assms(2,4) show ?thesis
    by (intro exI [of _ c]) (auto simp: work_effect_def getActionableStates_def fun_upd_idem)
next
  case (create b err us)
  with assms have b: "b = c" "Name b = n" and r: "api_run S us S'" by (auto dest: namedD)
  from create(3) have "EvProvider CallCreate b err \<in> set us" by (auto simp: create_spec_def)
  then have ev: "EvProvider CallCreate c err \<in> set evs" using create(1) b(1) by simp
  from create_stores [OF create(3) r] b assms(4) obtain c' where "S' = S(n \<mapsto> c')" and
    c': "revision (moves_to (if err = None then NavarkosClusterStateProvisioning else NavarkosClusterStateFailedProvision) create_keys) c c'"
    by blast
  moreover have "work_effect c evs c'" unfolding work_effect_def if_P [OF create(2) [unfolded b(1)]] using ev c' by blast
  ultimately show ?thesis by blast
next
  case (shutdown b err us)
  with assms have b: "b = c" "Name b = n" and r: "api_run S us S'" by (auto dest: namedD)
  from shutdown_stores [OF shutdown(3) r] b assms(4) obtain c1 e c' where
    "EvProvider CallDelete c1 e \<in> set us" "S' = S(n \<mapsto> c')"
    "if e = None then revision goes_offline c c' else revision (moves_to NavarkosClusterStateShuttingDown {}) c c'" by auto
  moreover from this shutdown(1) have "EvProvider CallDelete c1 e \<in> set evs" by simp
  ultimately show ?thesis unfolding work_effect_simps(1) [OF shutdown(2) [unfolded b(1)]] by blast
next
  case (scale_up b err us)
  with assms have b: "b = c" "Name b = n" and r: "api_run S us S'" by (auto dest: namedD)
  from scale_stores [OF scale_up(3) r] b assms(4) obtain c' where "scale_effect True c us c'" "S' = S(n \<mapsto> c')"
    unfolding scale_effect_def by blast
  with scale_up(1) show ?thesis unfolding work_effect_simps(2) [OF scale_up(2) [unfolded b(1)]] by (auto intro: scale_effect_Cons)
next
  case (scale_down b err us)
  with assms have b: "b = c" "Name b = n" and r: "api_run S us S'" by (auto dest: namedD)
  from scale_stores [OF scale_down(3) r] b assms(4) obtain c' where "scale_effect False c us c'" "S' = S(n \<mapsto> c')"
    unfolding scale_effect_def by blast
  with scale_down(1) show ?thesis unfolding work_effect_simps(3) [OF scale_down(2) [unfolded b(1)]] by (auto intro: scale_effect_Cons)
qed

subsection \<open>A pass of the reconciliation\<close>

definition pass_effect :: "cluster \<Rightarrow> event list \<Rightarrow> cluster \<Rightarrow> bool" where
  "pass_effect c evs c' \<longleftrightarrow> (case state_of c of
      None \<Rightarrow> c' = c
    | Some st \<Rightarrow>
        if st \<in> {NavarkosClusterStateProvisioning, NavarkosClusterStateScalingUp, NavarkosClusterStateScalingDown} then
          \<exists>e. EvProvider CallValidate c e \<in> set evs \<and>
            (if e = None then revision (moves_to (validated_state st) {ClusterManagerClusterOKEWorkItemKey}) c c'
             else revision (keeps_state {ClusterManagerClusterOKEWorkItemKey}) c c')
        else if st = NavarkosClusterStateJoining \<and> EvSecretCreate (Name c) None \<in> set evs then
          \<exists>server. revision (joins server) c c'
        else c' = c)"

lemma item_stores:
  assumes "reconcile_item c es" "api_run S es S'" "S (Name c) = Some c" "Name c \<noteq> []"
  shows "\<exists>c'. S' = S(Name c \<mapsto> c') \<and> pass_effect c es c'"
proof (cases "state_of c")
  case None
  with assms show ?thesis by (auto simp: reconcile_item_def pass_effect_def fun_upd_idem)
next
  case (Some st)
  consider "st \<in> {NavarkosClusterStateProvisioning, NavarkosClusterStateScalingUp, NavarkosClusterStateScalingDown}"
    | "st = NavarkosClusterStateJoining"
    | "st \<notin> {NavarkosClusterStateProvisioning, NavarkosClusterStateScalingUp, NavarkosClusterStateScalingDown, NavarkosClusterStateJoining}"
    by blast
  then show ?thesis
  proof cases
    case 1
    with Some assms(1) have "validate_spec st c es" by (auto simp: reconcile_item_def)
    from validate_stores [OF this assms(2,3)] obtain e c' where "S' = S(Name c \<mapsto> c')" and
      "EvProvider CallValidate c e \<in> set es" "if e = None then revision (moves_to (validated_state st) {ClusterManagerClusterOKEWorkItemKey}) c c'
        else revision (keeps_state {ClusterManagerClusterOKEWorkItemKey}) c c'" by blast
    moreover from this have "pass_effect c es c'" unfolding pass_effect_def Some option.case if_P [OF 1] by blast
    ultimately show ?thesis by blast
  next
    case 2
    with Some assms(1) obtain address where "join_spec address c es" by (auto simp: reconcile_item_def state_defs)
    from join_stores [OF this assms(2-4)] 2 Some assms(3) show ?thesis
      by (auto simp: pass_effect_def state_defs fun_upd_idem split: if_splits)
  next
    case 3
    with Some assms show ?thesis by (auto simp: reconcile_item_def pass_effect_def fun_upd_idem)
  qed
qed

lemma item_secrets:
  assumes "reconcile_item c es" "EvSecretCreate m r \<in> set es"
  shows "m = Name c"
proof -
  have upd: "update_protocol Q name n ob e0 us err \<Longrightarrow> EvSecretCreate m r \<notin> set us" for Q name n ob e0 us err
    by (auto dest: protocol_kinds)
  have del: "delete_protocol n ob e0 us err ob' \<Longrightarrow> EvSecretCreate m r \<notin> set us" for n ob e0 us err ob'
    by (induction rule: delete_protocol.induct) auto
  have val: "validate_spec st c es \<Longrightarrow> EvSecretCreate m r \<notin> set es" for st
    by (erule validate_spec.cases) (auto dest: upd)
  have "join_spec address c es \<Longrightarrow> EvSecretCreate m r \<in> set es \<Longrightarrow> m = Name c" for address
    by (erule join_spec.cases) (auto elim!: reset_spec.cases dest: del simp: recreates_def)
  with assms val show ?thesis by (auto simp: reconcile_item_def split: option.splits if_splits)
qed

lemma pass_effect_mono:
  assumes "pass_effect c es c'" "set es \<subseteq> set evs" "EvSecretCreate (Name c) None \<in> set evs \<Longrightarrow> EvSecretCreate (Name c) None \<in> set es"
  shows "pass_effect c evs c'"
proof (cases "state_of c")
  case None
  with assms(1) show ?thesis by (simp add: pass_effect_def)
next
  case (Some st)
  have sec: "EvSecretCreate (Name c) None \<in> set evs \<longleftrightarrow> EvSecretCreate (Name c) None \<in> set es" using assms(2,3) by blast
  show ?thesis
  proof (cases "st \<in> {NavarkosClusterStateProvisioning, NavarkosClusterStateScalingUp, NavarkosClusterStateScalingDown}")
    case True
    show ?thesis using assms(1,2) unfolding pass_effect_def Some option.case if_P [OF True] by blast
  next
    case False
    show ?thesis using assms(1) unfolding pass_effect_def Some option.case if_not_P [OF False] sec .
  qed
qed

lemma items_store:
  assumes "list_all2 reconcile_item items evss" "api_run S (concat evss) S'" "distinct (map Name items)"
    and "\<And>c. c \<in> set items \<Longrightarrow> S (Name c) = Some c \<and> Name c \<noteq> []"
  shows "(\<forall>n. n \<notin> Name ` set items \<longrightarrow> S' n = S n) \<and>
    (\<forall>c \<in> set items. \<exists>c'. S' (Name c) = Some c' \<and> pass_effect c (concat evss) c')"
  using assms
proof (induction arbitrary: S rule: list_all2_induct)
  case Nil
  then show ?case by simp
next
  case (Cons c items es evss)
  from Cons.prems(1) obtain S1 where r: "api_run S es S1" "api_run S1 (concat evss) S'" by auto
  from item_stores [OF Cons.hyps(1) r(1)] Cons.prems(3) obtain c1 where
    c1: "S1 = S(Name c \<mapsto> c1)" "pass_effect c es c1" by auto
  have other: "Name d \<noteq> Name c" if "d \<in> set items" for d using Cons.prems(2) that by (auto simp: image_iff)
  have stored: "S1 (Name d) = Some d \<and> Name d \<noteq> []" if "d \<in> set items" for d
    using Cons.prems(3) [of d] other [OF that] that c1(1) by simp
  have IH: "\<forall>n. n \<notin> Name ` set items \<longrightarrow> S' n = S1 n"
    "\<forall>d \<in> set items. \<exists>c'. S' (Name d) = Some c' \<and> pass_effect d (concat evss) c'"
    using Cons.IH [OF r(2) _ stored] Cons.prems(2) by auto
  have sec: "EvSecretCreate (Name c) None \<notin> set es'" if "es' \<in> set evss" for es'
  proof -
    from that obtain i where i: "i < length evss" "es' = evss ! i" by (auto simp: in_set_conv_nth)
    with Cons.hyps(2) have "reconcile_item (items ! i) es'" "items ! i \<in> set items" by (simp_all add: list_all2_conv_all_nth)
    with item_secrets [OF this(1), of "Name c" None] other [OF this(2)] show ?thesis by auto
  qed
  show ?case
  proof (intro conjI allI impI ballI)
    fix n assume "n \<notin> Name ` set (c # items)"
    with IH(1) c1(1) show "S' n = S n" by auto
  next
    fix d assume d: "d \<in> set (c # items)"
    show "\<exists>c'. S' (Name d) = Some c' \<and> pass_effect d (concat (es # evss)) c'"
    proof (cases "d = c")
      case True
      have "Name c \<notin> Name ` set items" using Cons.prems(2) by simp
      with IH(1) c1(1) have "S' (Name c) = Some c1" by simp
      moreover have "pass_effect c (concat (es # evss)) c1" by (rule pass_effect_mono [OF c1(2)]) (use sec in auto)
      ultimately show ?thesis using True by blast
    next
      case False
      with d have di: "d \<in> set items" by simp
      with IH(2) obtain c' where c': "S' (Name d) = Some c'" "pass_effect d (concat evss) c'" by blast
      have "EvSecretCreate (Name d) None \<notin> set es" using item_secrets [OF Cons.hyps(1), of "Name d" None] other [OF di] by auto
      then have "pass_effect d (concat (es # evss)) c'" by (intro pass_effect_mono [OF c'(2)]) auto
      with c'(1) show ?thesis by blast
    qed
  qed
qed

lemma pass_stores:
  assumes "reconcile_spec evs" "api_run S evs S'" "named S"
  shows "(\<forall>n. S n = None \<longrightarrow> S' n = None) \<and> (\<forall>n c. S n = Some c \<longrightarrow> (\<exists>c'. S' n = Some c' \<and> pass_effect c evs c'))"
proof -
  from assms(1,2) obtain items evss where evs: "evs = EvList (Some items) None # concat evss"
    and sp: "list_all2 reconcile_item items evss" by (auto simp: reconcile_spec_def)
  with assms(2) have r: "api_run S (concat evss) S'" "set items = ran S" "distinct (map Name items)" by auto
  have stored: "S (Name c) = Some c \<and> Name c \<noteq> []" if "c \<in> set items" for c
    using that r(2) assms(3) by (auto simp: ran_def dest: namedD named_nonempty)
  note st = items_store [OF sp r(1,3) stored]
  show ?thesis
  proof (intro conjI allI impI)
    fix n assume "S n = None"
    then have "n \<notin> Name ` set items" using r(2) assms(3) by (auto simp: ran_def dest: namedD)
    with st \<open>S n = None\<close> show "S' n = None" by simp
  next
    fix n c assume c: "S n = Some c"
    then have n: "Name c = n" "c \<in> set items" using r(2) assms(3) by (auto simp: ran_def dest: namedD)
    with st obtain c' where "S' n = Some c'" "pass_effect c (concat evss) c'" by blast
    moreover from this(2) have "pass_effect c evs c'" unfolding evs by (rule pass_effect_mono) auto
    ultimately show "\<exists>c'. S' n = Some c' \<and> pass_effect c evs c'" by blast
  qed
qed

section \<open>Deployments whose API works like this\<close>

text \<open>
  \<open>W\<close> are the worlds that can occur, \<open>stored\<close> the clusters in one. A call of the API that returns is
  a step of it; everything else, and a call that does not return, leaves the store alone.
\<close>

definition aside :: "('w \<Rightarrow> bool) \<Rightarrow> ('w \<Rightarrow> store) \<Rightarrow> 'w \<Rightarrow> 'w \<Rightarrow> bool" where
  "aside W stored w w' \<longleftrightarrow> (W w \<longrightarrow> W w' \<and> stored w' = stored w)"

definition api_call :: "('w \<Rightarrow> bool) \<Rightarrow> ('w \<Rightarrow> store) \<Rightarrow> ('a \<Rightarrow> event) \<Rightarrow> ('w, 'a) go \<Rightarrow> bool" where
  "api_call W stored ev m \<longleftrightarrow> (\<forall>w r w'. W w \<and> m w = (r, w') \<longrightarrow> W w' \<and>
     (case r of Ret x \<Rightarrow> api_step (stored w) (ev x) (stored w') | _ \<Rightarrow> stored w' = stored w))"

definition api_reliable :: "'w federationClient \<Rightarrow> ('w \<Rightarrow> bool) \<Rightarrow> ('w \<Rightarrow> store) \<Rightarrow> bool" where
  "api_reliable api W stored \<longleftrightarrow>
     (\<forall>w. W w \<longrightarrow> named (stored w)) \<and>
     (\<forall>n. api_call W stored (\<lambda>(oc, err). EvGet n oc err) (Clusters_Get api n)) \<and>
     (\<forall>c. api_call W stored (\<lambda>r. EvUpdate c (snd r)) (Clusters_Update api c)) \<and>
     api_call W stored (\<lambda>(items, err). EvList items err) (Clusters_List api) \<and>
     (\<forall>n. api_call W stored (\<lambda>err. EvDelete n err) (Clusters_Delete api n)) \<and>
     (\<forall>c. api_call W stored (\<lambda>r. EvCreate c (snd r)) (Clusters_Create api c))"

definition reliable :: "'w deployment \<Rightarrow> ('w \<Rightarrow> bool) \<Rightarrow> ('w \<Rightarrow> store) \<Rightarrow> bool" where
  "reliable d W stored \<longleftrightarrow>
     api_reliable (dep_federationClient d) W stored \<and>
     (\<forall>req. keeps (aside W stored) (dep_httpClientDo d req)) \<and>
     library_keeps (aside W stored) (dep_kopsLibrary d) \<and>
     (\<forall>cfg client ns sec name opts. dep_newForConfig d cfg = Inr client \<longrightarrow>
        keeps (aside W stored) (client_create client ns sec) \<and> keeps (aside W stored) (client_delete client ns name opts)) \<and>
     keeps (aside W stored) (time_Now (dep_packages d)) \<and>
     (\<forall>conf. keeps (aside W stored) (FlattenConfig (dep_packages d) conf))"

lemma aside_frame: "run_frame (aside W stored)"
  by unfold_locales (auto simp: aside_def reflp_def transp_def)

definition store_frame :: "('w \<Rightarrow> bool) \<Rightarrow> ('w \<Rightarrow> store) \<Rightarrow> 'w state \<Rightarrow> 'w state \<Rightarrow> bool" where
  "store_frame W stored s s' \<longleftrightarrow> (W (world s) \<longrightarrow> W (world s') \<and>
     (\<exists>evs. trace s' = trace s @ evs \<and> api_run (stored (world s)) evs (stored (world s'))))"

interpretation stores: run_frame "store_frame W stored" for W stored
proof
  show "reflp (store_frame W stored)" by (simp add: reflp_def store_frame_def)
  show "transp (store_frame W stored)"
  proof (rule transpI)
    fix s t u assume "store_frame W stored s t" "store_frame W stored t u"
    then show "store_frame W stored s u" unfolding store_frame_def by (auto simp: api_run_append)
  qed
qed

lemma store_inside:
  assumes "\<And>s r s'. m s = (r, s') \<Longrightarrow> world s' = world s \<and> trace s' = trace s"
  shows "keeps (store_frame W stored) m"
  by (rule keepsI) (use assms in \<open>auto simp: store_frame_def\<close>)

lemma store_outside: "keeps (aside W stored) m \<Longrightarrow> keeps (store_frame W stored) (outside m)"
  by (rule keepsI) (auto simp: outside_def zoom_def store_frame_def aside_def dest: keepsD split: prod.splits)

lemma store_logged:
  assumes "api_call W stored ev m"
  shows "keeps (store_frame W stored) (logged ev m)"
proof (rule keepsI)
  fix s r s' assume run: "logged ev m s = (r, s')"
  obtain o1 w1 where m: "m (world s) = (o1, w1)" by (cases "m (world s)")
  have law: "W (world s) \<Longrightarrow> W w1 \<and>
      (case o1 of Ret x \<Rightarrow> api_step (stored (world s)) (ev x) (stored w1) | _ \<Rightarrow> stored w1 = stored (world s))"
    using assms m unfolding api_call_def by blast
  from run m have "s' = (case o1 of Ret x \<Rightarrow> s\<lparr>world := w1, trace := trace s @ [ev x]\<rparr> | _ \<Rightarrow> s\<lparr>world := w1\<rparr>)"
    by (cases o1) (auto simp: logged_def outside_def zoom_def bnd_def log_event_def modify_def ret_def)
  with law show "store_frame W stored s s'" unfolding store_frame_def by (cases o1) auto
qed

lemma aside_call: "keeps (aside W stored) m \<Longrightarrow> (\<And>S x. api_step S (ev x) S) \<Longrightarrow> api_call W stored ev m"
  unfolding api_call_def aside_def by (fastforce dest: keepsD split: outcome.split)

named_theorems store_calls \<open>computations that move the store as their calls say\<close>

lemma store_memory [store_calls]:
  "keeps (store_frame W stored) (alloc c)" "keeps (store_frame W stored) (load p)" "keeps (store_frame W stored) (Updater.store p c)"
  by (rule store_inside, auto simp: alloc_def load_def store_def split: option.splits if_splits)+

lemma store_retrier [store_calls]: "keeps (store_frame W stored) (on_retrier m)"
  by (rule store_inside) (auto simp: on_retrier_def zoom_def split: prod.splits)

lemma store_queue [store_calls]: "keeps (store_frame W stored) (on_queue m)"
  by (rule store_inside) (auto simp: on_queue_def zoom_def split: prod.splits)

lemma store_data [store_calls]:
  "keeps (store_frame W stored) (alloc_result oc)" "keeps (store_frame W stored) (updateData cu)"
proof -
  have addr: "keeps (store_frame W stored) (set_server_address a c)" for a c
    unfolding set_server_address_def by (cases a; cases "ServerAddressByClientCIDRs c") (auto intro: stores.rules)
  have app: "keeps (store_frame W stored) (ApplyAnnotation a m)" for a m
    unfolding ApplyAnnotation_def by (intro stores.rules)
  show "keeps (store_frame W stored) (alloc_result oc)" "keeps (store_frame W stored) (updateData cu)"
    unfolding alloc_result_def updateData_def by (intro stores.rules store_calls addr app)+
qed

text \<open>The calls of the controller the program builds.\<close>

lemma reliable_api:
  assumes "reliable d W stored"
  shows "keeps (store_frame W stored) (getCluster (newClusterController d) n)"
    "keeps (store_frame W stored) (updateCluster (newClusterController d) p)"
    "keeps (store_frame W stored) (listClusters (newClusterController d))"
    "keeps (store_frame W stored) (deleteCluster (newClusterController d) n)"
    "keeps (store_frame W stored) (recreateCluster (newClusterController d) p)"
    "keeps (store_frame W stored) (now (newClusterController d))"
    "keeps (store_frame W stored) (hasExpiredNow (newClusterController d) b)"
proof -
  have calls: "api_call W stored (\<lambda>(oc, err). EvGet n oc err) (ts_getCluster (clusterToolSet (newClusterController d)) n)"
    "api_call W stored (\<lambda>r. EvUpdate c (snd r)) (ts_updateCluster (clusterToolSet (newClusterController d)) c)"
    "api_call W stored (\<lambda>(items, err). EvList items err) (ts_listClusters (clusterToolSet (newClusterController d)))"
    "api_call W stored (\<lambda>err. EvDelete n err) (ts_deleteCluster (clusterToolSet (newClusterController d)) n)"
    "api_call W stored (\<lambda>r. EvCreate c (snd r)) (ts_createCluster (clusterToolSet (newClusterController d)) c)" for n c
    using assms by (simp_all add: reliable_def api_reliable_def newClusterController_def newClusterToolSet_def)
  have clock: "keeps (aside W stored) (time_Now (packages (newClusterController d)))"
    using assms by (simp add: reliable_def newClusterController_def)
  show "keeps (store_frame W stored) (getCluster (newClusterController d) n)"
    "keeps (store_frame W stored) (updateCluster (newClusterController d) p)"
    "keeps (store_frame W stored) (listClusters (newClusterController d))"
    "keeps (store_frame W stored) (deleteCluster (newClusterController d) n)"
    "keeps (store_frame W stored) (recreateCluster (newClusterController d) p)"
    and now: "keeps (store_frame W stored) (now (newClusterController d))"
    unfolding getCluster_def updateCluster_def listClusters_def deleteCluster_def recreateCluster_def now_def
    by (intro stores.rules store_calls store_logged calls store_outside clock)+
  show "keeps (store_frame W stored) (hasExpiredNow (newClusterController d) b)"
    unfolding hasExpiredNow_def by (intro stores.rules now)
qed

lemma reliable_provider:
  assumes "reliable d W stored" "\<And>P c. provider_keeps (aside W stored) P \<Longrightarrow> keeps (aside W stored) (m P c)"
  shows "keeps (store_frame W stored) (callProvider (newClusterController d) p k f m)"
proof -
  have P: "provider_keeps (aside W stored) P" if "getProvider (newClusterController d) c = Some P" for P c
    using that assms(1) built_providers_keep [OF aside_frame, of W stored d] by (auto simp: getProvider_def reliable_def)
  have call: "keeps (store_frame W stored) (bnd (deref (getProvider (newClusterController d) c))
      (\<lambda>P. logged (\<lambda>r. EvProvider k c (f r)) (m P c)))" for c
  proof (cases "getProvider (newClusterController d) c")
    case None
    then show ?thesis by (simp add: deref_def bnd_def crash_def keeps_def store_frame_def)
  next
    case (Some Q)
    have "keeps (store_frame W stored) (logged (\<lambda>r. EvProvider k c (f r)) (m Q c))"
      by (intro store_logged aside_call assms(2) P [OF Some]) simp
    with Some show ?thesis by (simp add: deref_def bnd_def ret_def)
  qed
  show ?thesis unfolding callProvider_def by (intro stores.rules store_calls call)
qed

lemma reliable_secrets:
  assumes "reliable d W stored"
  shows "keeps (store_frame W stored) (createClusterSecrets (newClusterController d) p conf)"
    "keeps (store_frame W stored) (deleteSecret (newClusterController d) n)"
proof -
  have ts: "keeps (aside W stored) (CreateSecret ts ns sec)" "keeps (aside W stored) (DeleteSecret ts ns name)"
    if "secretToolSet (newClusterController d) = Some ts" for ts ns sec name
    using that assms
    by (auto simp: newClusterController_def NewSecretToolSet_def reliable_def SecretToolSet_CreateSecret_def
        SecretToolSet_DeleteSecret_def Let_def split: sum.splits)
  have flat: "keeps (aside W stored) (FlattenConfig (packages (newClusterController d)) conf')" for conf'
    using assms by (simp add: reliable_def newClusterController_def)
  have create: "keeps (aside W stored) (CreateKubeconfigSecret wr ts conf' ns n f c dr)"
    if "secretToolSet (newClusterController d) = Some ts" for wr ts conf' ns n f c dr
    unfolding CreateKubeconfigSecret_def DeleteKubeconfigSecret_def Let_def
    by (intro run_frame.rules [OF aside_frame] ts [OF that])
  have sec: "keeps (store_frame W stored) (createSecret (newClusterController d) conf' ns f c n dr)" for conf' ns f c n dr
    unfolding createSecret_def
    by (cases "secretToolSet (newClusterController d)")
      (auto intro!: stores.rules store_outside flat store_logged aside_call create)
  show "keeps (store_frame W stored) (createClusterSecrets (newClusterController d) p conf)"
    unfolding createClusterSecrets_def by (intro stores.rules store_calls sec)
  show "keeps (store_frame W stored) (deleteSecret (newClusterController d) n)"
    unfolding deleteSecret_def DeleteKubeconfigSecret_def
    by (cases "secretToolSet (newClusterController d)") (auto intro!: stores.rules store_logged aside_call ts)
qed

text \<open>And so every round.\<close>

lemma reliable_updates:
  assumes "reliable d W stored"
  shows "keeps (store_frame W stored) (cu_update (newClusterController d) cu)"
    "keeps (store_frame W stored) (clusterUpdate (newClusterController d) cu)"
proof -
  note rules = stores.rules store_calls reliable_api [OF assms]
  have sync: "keeps (store_frame W stored) (resync (newClusterController d) n cu)" for n cu
    unfolding resync_def Let_def by (intro rules)
  have loop: "keeps (store_frame W stored) (update_loop (newClusterController d) n i e cu)" for n i e cu
    by (induction i arbitrary: e cu) (auto simp: Let_def intro!: rules sync)
  show upd: "keeps (store_frame W stored) (cu_update (newClusterController d) cu)" for cu
    unfolding cu_update_def by (intro rules loop)
  have retry: "keeps (store_frame W stored) (retryClusterUpdate (newClusterController d) cu)" for cu
    unfolding retryClusterUpdate_def Let_def by (intro rules)
  show "keeps (store_frame W stored) (clusterUpdate (newClusterController d) cu)"
    unfolding clusterUpdate_def by (intro rules upd retry)
qed

lemma reliable_handlers:
  assumes "reliable d W stored"
  shows "keeps (store_frame W stored) (processItem (newClusterController d) p)"
    "keeps (store_frame W stored) (reconcileWhenReady (newClusterController d))"
    "keeps (store_frame W stored) (retryHandler (newClusterController d) item)"
proof -
  note rules = stores.rules store_calls reliable_api [OF assms] reliable_updates [OF assms] reliable_secrets [OF assms]
    reliable_provider [OF assms]
  have create: "keeps (store_frame W stored) (createCluster (newClusterController d) p)" for p
    unfolding createCluster_def Let_def by (intro rules) (simp add: provider_keeps_def)
  have shutdown: "keeps (store_frame W stored) (shutdownCluster (newClusterController d) p)" for p
    unfolding shutdownCluster_def Let_def by (intro rules) (simp add: provider_keeps_def)
  have scale: "keeps (store_frame W stored) (scaleCluster (newClusterController d) p grow)" for p grow
    unfolding scaleCluster_def Let_def by (intro rules) (simp_all add: provider_keeps_def)
  show "keeps (store_frame W stored) (processItem (newClusterController d) p)"
    unfolding processItem_def handleState_def by (intro rules create shutdown scale)
  show "keeps (store_frame W stored) (retryHandler (newClusterController d) item)"
    unfolding retryHandler_def Let_def by (intro rules)
  have del: "keeps (store_frame W stored) (reset_delete (newClusterController d) n e p)" for n e p
    by (induction n arbitrary: e p) (auto intro!: rules)
  have cre: "keeps (store_frame W stored) (reset_create (newClusterController d) n e p)" for n e p
    by (induction n arbitrary: e) (auto intro!: rules)
  have val: "keeps (store_frame W stored) (validateCluster (newClusterController d) p st)" for p st
    unfolding validateCluster_alt by (intro rules) (simp add: provider_keeps_def)
  have join: "keeps (store_frame W stored) (clusterJoin (newClusterController d) p)" for p
    unfolding clusterJoin_def finishJoin_def resetCluster_def Let_def by (intro rules del cre) (simp add: provider_keeps_def)
  show "keeps (store_frame W stored) (reconcileWhenReady (newClusterController d))"
    unfolding reconcileWhenReady_def reconcileOne_def by (intro rules val join)
qed

section \<open>What the controller makes of the store\<close>

lemma worker_store:
  assumes d: "reliable d W stored" "W (world s)"
    and run: "processItem (newClusterController d) (Some i) s = (Ret u, s')" "i < length (heap s)"
    and n: "Name (heap s ! i) = n"
  shows "W (world s')" "stored (world s) n = None \<Longrightarrow> stored (world s') = stored (world s)"
    "stored (world s) n = Some c \<Longrightarrow>
      \<exists>c'. stored (world s') = (stored (world s))(n \<mapsto> c') \<and> work_effect c (new_calls s s') c'"
proof -
  from keepsD [OF reliable_handlers(1) [OF d(1)] run(1)] d(2) obtain evs where W: "W (world s')"
    and tr: "trace s' = trace s @ evs" and r: "api_run (stored (world s)) evs (stored (world s'))" by (auto simp: store_frame_def)
  from built.work_spec_run [OF run] tr n have sp: "work_spec n evs" by auto
  have nm: "named (stored (world s))" using d by (simp add: reliable_def api_reliable_def)
  show "W (world s')" by (rule W)
  show "stored (world s') = stored (world s)" if "stored (world s) n = None"
    using sp r that by (auto elim!: work_spec.cases)
  show "\<exists>c'. stored (world s') = (stored (world s))(n \<mapsto> c') \<and> work_effect c (new_calls s s') c'" if "stored (world s) n = Some c"
    using work_stores [OF sp r nm that] tr by (simp add: new_calls_def)
qed

lemma pass_store:
  assumes d: "reliable d W stored" "W (world s)" and run: "reconcileWhenReady (newClusterController d) s = (Ret err, s')"
  shows "W (world s')" "stored (world s) n = None \<Longrightarrow> stored (world s') n = None"
    "stored (world s) n = Some c \<Longrightarrow> \<exists>c'. stored (world s') n = Some c' \<and> pass_effect c (new_calls s s') c'"
proof -
  from keepsD [OF reliable_handlers(2) [OF d(1)] run] d(2) obtain evs where W: "W (world s')"
    and tr: "trace s' = trace s @ evs" and r: "api_run (stored (world s)) evs (stored (world s'))" by (auto simp: store_frame_def)
  from built.reconcile_spec_run [OF run] tr have sp: "reconcile_spec evs" by auto
  have nm: "named (stored (world s))" using d by (simp add: reliable_def api_reliable_def)
  show "W (world s')" by (rule W)
  note st = pass_stores [OF sp r nm]
  show "stored (world s') n = None" if "stored (world s) n = None" using st that by blast
  show "\<exists>c'. stored (world s') n = Some c' \<and> pass_effect c (new_calls s s') c'" if "stored (world s) n = Some c"
    using st that tr by (simp add: new_calls_def)
qed

end
