(* ===== verification/PassProgress.thy ===== *)
theory PassProgress
  imports Progress
begin

text \<open>
  A pass of the reconciliation gets to its end. What it relies on beyond \<open>serves\<close>: the API lists
  objects the handlers can work on, answers a fetch that fails with an empty object (the pass goes
  on with it when a deletion failed), and the kubeconfigs the providers export name an entry that
  is there. Each cluster that is validated may leave one update to the retrier, so there has to be
  room for as many as are listed.
\<close>

definition conf_ok :: "kubeConfig \<Rightarrow> bool" where
  "conf_ok conf \<longleftrightarrow> (\<forall>clusters. cfg_Clusters conf = Some clusters \<longrightarrow>
     (\<exists>cx. map_get (cfg_Contexts conf) (cfg_CurrentContext conf) = Some (Some cx) \<and> map_of clusters (cx_Cluster cx) \<noteq> Some None))"

definition exported_ok :: "kubeConfig option \<times> error option \<Rightarrow> bool" where
  "exported_ok r \<longleftrightarrow> (\<forall>conf. r = (Some conf, None) \<longrightarrow> conf_ok conf)"

definition listed_ok :: "string set \<Rightarrow> cluster list option \<times> error option \<Rightarrow> bool" where
  "listed_ok K r \<longleftrightarrow> (snd r = None \<longrightarrow> (\<exists>cs. fst r = Some cs \<and> (\<forall>c \<in> set cs. good K c)))"

definition usable :: "string set \<Rightarrow> cluster \<Rightarrow> bool" where
  "usable K c \<longleftrightarrow> good K c \<or> c = emptyCluster"

definition serves_pass :: "'w ClusterController \<Rightarrow> string set \<Rightarrow> ('w \<Rightarrow> bool) \<Rightarrow> bool" where
  "serves_pass cc K W \<longleftrightarrow> serves cc K W \<and>
     total_on W (ts_listClusters (clusterToolSet cc)) (listed_ok K) \<and>
     (\<forall>n. total_on W (ts_getCluster (clusterToolSet cc) n) (\<lambda>r. \<exists>c. fst r = Some c \<and> usable K c)) \<and>
     (\<forall>n. total_on W (ts_deleteCluster (clusterToolSet cc) n) (\<lambda>_. True)) \<and>
     (\<forall>c. usable K c \<longrightarrow> total_on W (ts_createCluster (clusterToolSet cc) c) (\<lambda>_. True)) \<and>
     (\<forall>conf. total_on W (FlattenConfig (packages cc) conf) (\<lambda>_. True)) \<and>
     (\<forall>ts ns sec. secretToolSet cc = Some ts \<longrightarrow> total_on W (CreateSecret ts ns sec) (\<lambda>_. True)) \<and>
     (\<forall>cls \<in> K. \<forall>P c. map_of (clusterProviders cc) cls = Some P \<and> good K c \<longrightarrow>
        total_on W (ValidateKubeCluster P c) (\<lambda>_. True) \<and> total_on W (ExportKubeConfig P c) exported_ok)"

lemma serves_passD: "serves_pass cc K W \<Longrightarrow> serves cc K W"
  by (simp add: serves_pass_def)

lemma goes_call:
  assumes "serves_pass cc K W" "live W s" "good_ptr K s p"
    and "\<And>P c. provider_contract P \<Longrightarrow> total_on W (ValidateKubeCluster P c) (\<lambda>_. True) \<Longrightarrow>
      total_on W (ExportKubeConfig P c) exported_ok \<Longrightarrow> total_on W (act P c) Q"
  shows "goes K W 0 (callProvider cc p k ev act) s (\<lambda>x _. Q x)"
proof -
  obtain a where a: "p = Some a" "a < length (heap s)" "good K (heap s ! a)" using assms(3) by (auto simp: good_ptr_def)
  let ?cls = "annotation_or_empty (heap s ! a) ClusterManagerClusterClassKey"
  have K: "?cls \<in> K" using a(3) by (simp add: good_def)
  with serves_passD [OF assms(1)] obtain P where P: "map_of (clusterProviders cc) ?cls = Some P" "provider_contract P"
    unfolding serves_def provider_serves_def by blast
  have t2: "total_on W (ValidateKubeCluster P (heap s ! a)) (\<lambda>_. True)" "total_on W (ExportKubeConfig P (heap s ! a)) exported_ok"
    using assms(1) K P(1) a(3) unfolding serves_pass_def by blast+
  note t = assms(4) [OF P(2) t2]
  show ?thesis unfolding callProvider_def
    by (rule goes_bnd [OF goes_load [OF assms(2,3), where j = 0], where j = 0])
      (use a P(1) assms(2) in \<open>auto simp: getProvider_def deref_def intro!: goes_bnd [OF goes_ret, where j = 0] goes_logged [OF t]\<close>)
qed

section \<open>Validating\<close>

lemma validate_results:
  assumes "provider_contract P" "total_on W (ValidateKubeCluster P c) (\<lambda>_. True)"
  shows "total_on W (ValidateKubeCluster P c) safe_result"
proof (rule total_on_law [OF assms(2)])
  fix w w' and x :: "ClusterAnnotation option \<times> error option"
  assume "ValidateKubeCluster P c w = (Ret x, w')"
  then show "safe_result x"
    using provider_contract.validate_law [OF assms(1), of c w "fst x" "snd x" w'] class_key_other(1)
    by (auto simp: safe_result_def safe_patch_def wf_patch_None patch_keys_def)
qed

lemma goes_validate:
  fixes s :: "'w state"
  assumes "serves_pass cc K W" "live W s" "good_ptr K s p" "length (updateChannel (updateRetrier s)) < updateCapacity"
  shows "goes K W 1 (validateCluster cc p st) s (\<lambda>_ _. True)"
  unfolding validateCluster_alt
proof (rule goes_bnd [OF goes_call [OF assms(1-3) validate_results], where j = 1])
  fix x :: "ClusterAnnotation option \<times> error option" and s1 :: "'w state"
  assume w: "live W s1" and le: "good_le K s s1" and sr: "safe_result x"
    and room: "length (updateChannel (updateRetrier s1)) \<le> length (updateChannel (updateRetrier s)) + 0"
  obtain ann err where x: "x = (ann, err)" by (cases x)
  have ok: "updater_ok K s1 (fresh_updater p ann)" "updater_ok K s1 (setAnnotation NavarkosClusterStateKey v (fresh_updater p ann))" for v
    using sr x good_leD [OF le assms(3)] class_key_other(3)
    by (auto simp: fresh_updater_def updater_ok_def safe_result_def intro!: safe_set safe_copy safe_new split: option.split)
  have r: "length (updateChannel (updateRetrier s1)) < updateCapacity" using room assms(4) by simp
  note upd = goes_clusterUpdate [OF serves_passD [OF assms(1)] w ok(1) r] goes_clusterUpdate [OF serves_passD [OF assms(1)] w ok(2) r]
  show "goes K W 1 (case x of (ann, verr) \<Rightarrow> if verr = None
      then clusterUpdate cc (setAnnotation NavarkosClusterStateKey (validated_state st) (fresh_updater p ann))
      else if ann = None then ret () else clusterUpdate cc (fresh_updater p ann)) s1 (\<lambda>_ _. True)"
    using upd w by (simp add: x goes_ret)
qed simp_all

section \<open>Joining\<close>

text \<open>An object to be written back: one that is good, or the empty one of a failed fetch.\<close>

definition usable_ptr :: "string set \<Rightarrow> 'w state \<Rightarrow> ptr \<Rightarrow> bool" where
  "usable_ptr K s p \<longleftrightarrow> (\<exists>a. p = Some a \<and> a < length (heap s) \<and> usable K (heap s ! a))"

lemma usable_heap: "usable_ptr K s p \<Longrightarrow> heap s' = heap s \<Longrightarrow> usable_ptr K s' p"
  by (simp add: usable_ptr_def)

lemma goes_access: "live W s \<Longrightarrow> usable_ptr K s p \<Longrightarrow> goes K W j (load p) s (\<lambda>c s'. s' = s \<and> p \<noteq> None \<and> c = heap s ! the p \<and> usable K c)"
  by (auto simp: goes_def load_def usable_ptr_def)

lemma logged_heap: "logged ev m s = (r, s') \<Longrightarrow> heap s' = heap s"
  by (auto simp: logged_def outside_def zoom_def bnd_def log_event_def modify_def ret_def split: prod.splits outcome.splits)

lemma goes_logged_heap:
  assumes "total_on W m P" "live W s"
  shows "goes K W j (logged ev m) s (\<lambda>x s'. P x \<and> heap s' = heap s)"
  using goes_logged [OF assms, of K j ev] logged_heap unfolding goes_def by blast

lemma goes_fetch:
  fixes s :: "'w state"
  assumes "serves_pass cc K W" "live W s"
  shows "goes K W 0 (getCluster cc n) s (\<lambda>r s'. usable_ptr K s' (fst r))"
proof -
  have "total_on W (ts_getCluster (clusterToolSet cc) n) (\<lambda>r. \<exists>c. fst r = Some c \<and> usable K c)"
    using assms(1) by (simp add: serves_pass_def)
  from goes_logged [OF this assms(2), of K 0 "\<lambda>(oc, err). EvGet n oc err"] show ?thesis
    unfolding getCluster_def
    by (rule goes_bnd [where j = 0])
      (auto simp: goes_def alloc_result_def alloc_def bnd_def ret_def good_le_def good_ptr_def nth_append live_def usable_ptr_def
        split: option.splits prod.splits)
qed

lemma goes_delete:
  assumes "serves_pass cc K W" "live W s"
  shows "goes K W 0 (deleteCluster cc n) s (\<lambda>_ s'. heap s' = heap s)"
proof -
  have t: "total_on W (ts_deleteCluster (clusterToolSet cc) n) (\<lambda>_. True)" using assms(1) by (simp add: serves_pass_def)
  show ?thesis unfolding deleteCluster_def by (rule goes_weaken [OF goes_logged_heap [OF t assms(2), where j = 0]]) simp_all
qed

lemma goes_recreate:
  fixes s :: "'w state"
  assumes "serves_pass cc K W" "live W s" "usable_ptr K s p"
  shows "goes K W 0 (recreateCluster cc p) s (\<lambda>_ s'. heap s' = heap s)"
proof -
  have t: "total_on W (ts_createCluster (clusterToolSet cc) c) (\<lambda>_. True)" if "usable K c" for c
    using assms(1) that by (simp add: serves_pass_def)
  have "goes K W 0 (bnd (logged ev (ts_createCluster (clusterToolSet cc) c)) (\<lambda>(_, err). ret err)) s (\<lambda>_ s'. heap s' = heap s)"
    if "usable K c" for c and ev :: "cluster option \<times> error option \<Rightarrow> event"
    by (rule goes_bnd [OF goes_logged_heap [OF t [OF that] assms(2), where j = 0], where j = 0]) (auto intro!: goes_ret split: prod.split)
  then show ?thesis unfolding recreateCluster_def
    by (intro goes_bnd [OF goes_access [OF assms(2,3), where j = 0], where j = 0]) auto
qed

lemma goes_reset_delete:
  fixes s :: "'w state"
  assumes "serves_pass cc K W" "live W s" "usable_ptr K s p"
  shows "goes K W 0 (reset_delete cc n e p) s (\<lambda>r s'. usable_ptr K s' (snd r))"
  using assms(2-)
proof (induction n arbitrary: e p s)
  case 0
  then show ?case by (simp add: goes_ret)
next
  case (Suc n)
  have again: "goes K W 0 (bnd (load p) (\<lambda>c. bnd (getCluster cc (Name c)) (\<lambda>(cluster, _). reset_delete cc n err cluster))) s2
      (\<lambda>r s'. usable_ptr K s' (snd r))" if "live W s2" "usable_ptr K s2 p" for err and s2 :: "'w state"
    by (rule goes_bnd [OF goes_access [OF that, where j = 0], where j = 0])
      (auto intro!: goes_bnd [OF goes_fetch [OF assms(1) that(1)], where j = 0] Suc.IH split: prod.split)
  have del: "goes K W 0 (bnd (deleteCluster cc m) (\<lambda>err. if err = None then ret (None, p)
      else bnd (load p) (\<lambda>c. bnd (getCluster cc (Name c)) (\<lambda>(cluster, _). reset_delete cc n err cluster)))) s
      (\<lambda>r s'. usable_ptr K s' (snd r))" for m
    by (rule goes_bnd [OF goes_delete [OF assms(1) Suc.prems(1)], where j = 0])
      (use again usable_heap [OF Suc.prems(2)] in \<open>auto simp: goes_ret\<close>)
  show ?case unfolding reset_delete.simps
    by (rule goes_bnd [OF goes_access [OF Suc.prems, where j = 0], where j = 0]) (use del in auto)
qed

lemma goes_reset_create:
  fixes s :: "'w state"
  assumes "serves_pass cc K W" "live W s" "usable_ptr K s p"
  shows "goes K W 0 (reset_create cc n e p) s (\<lambda>_ _. True)"
  using assms(2,3)
proof (induction n arbitrary: e s)
  case (Suc n)
  show ?case unfolding reset_create.simps
    by (rule goes_bnd [OF goes_recreate [OF assms(1) Suc.prems], where j = 0])
      (auto intro!: goes_ret Suc.IH usable_heap [OF Suc.prems(2)])
qed (simp add: goes_ret)

lemma usable_version: "usable K c \<Longrightarrow> usable K (c\<lparr>ResourceVersion := []\<rparr>)"
  by (auto simp: usable_def good_def annotation_or_empty_def annotation_def emptyCluster_def)

lemma good_version: "good K c \<Longrightarrow> good K (c\<lparr>ResourceVersion := v\<rparr>)"
  by (simp add: good_def annotation_or_empty_def annotation_def)

lemma goes_store_version:
  assumes "live W s" "usable_ptr K s p"
  shows "goes K W 0 (Updater.store p ((heap s ! the p)\<lparr>ResourceVersion := []\<rparr>)) s (\<lambda>_ s'. usable_ptr K s' p)"
  using assms
  by (auto simp: goes_def store_def usable_ptr_def live_def good_le_def good_ptr_def nth_list_update good_version usable_version)

lemma goes_resetCluster:
  fixes s :: "'w state"
  assumes "serves_pass cc K W" "live W s" "usable_ptr K s p"
  shows "goes K W 0 (resetCluster cc p) s (\<lambda>_ _. True)"
  unfolding resetCluster_def
proof (rule goes_bnd [OF goes_reset_delete [OF assms], where j = 0])
  fix r :: "error option \<times> ptr" and s1 :: "'w state"
  assume s1: "live W s1" "usable_ptr K s1 (snd r)"
  have "goes K W 0 (bnd (Updater.store (snd r) ((heap s1 ! the (snd r))\<lparr>ResourceVersion := []\<rparr>)) (\<lambda>_.
      reset_create cc MaxRetryCount None (snd r))) s1 (\<lambda>_ _. True)"
    by (rule goes_bnd [OF goes_store_version [OF s1], where j = 0]) (auto intro!: goes_reset_create [OF assms(1)])
  then have "goes K W 0 (bnd (load (snd r)) (\<lambda>c. bnd (Updater.store (snd r) (c\<lparr>ResourceVersion := []\<rparr>)) (\<lambda>_.
      reset_create cc MaxRetryCount None (snd r)))) s1 (\<lambda>_ _. True)"
    by (intro goes_bnd [OF goes_access [OF s1, where j = 0], where j = 0]) auto
  then show "goes K W 0 (case r of (err, cluster) \<Rightarrow> if err \<noteq> None then ret err
      else bnd (load cluster) (\<lambda>c. bnd (Updater.store cluster (c\<lparr>ResourceVersion := []\<rparr>)) (\<lambda>_.
        reset_create cc MaxRetryCount None cluster))) s1 (\<lambda>_ _. True)"
    using s1 by (auto simp: goes_ret split: prod.split)
qed simp

lemma safe_secret: "safe_updater cu \<Longrightarrow> safe_updater (setSecretRefName n cu)"
  by (simp add: safe_updater_def)

lemma good_usable: "good_ptr K s p \<Longrightarrow> usable_ptr K s p"
  by (auto simp: good_ptr_def usable_ptr_def usable_def)

lemma goes_finishJoin:
  fixes s :: "'w state"
  assumes "serves_pass cc K W" "live W s" "good_ptr K s p"
  shows "goes K W 0 (finishJoin cc p (Some kc)) s (\<lambda>_ _. True)"
proof -
  let ?u = "\<lambda>c. setSecretRefName (Name c) (setServerAddress (kc_Server kc)
      (setAnnotation NavarkosClusterStateKey NavarkosClusterStateReady (newClusterUpdater p)))"
  have ok: "updater_ok K s (?u c)" for c
    using assms(3) class_key_other(3) by (simp add: updater_ok_def safe_secret safe_address safe_set safe_new)
  have reset: "goes K W 0 (bnd (resetCluster cc p) (\<lambda>err. ret ())) s1 (\<lambda>_ _. True)"
    if "live W s1" "good_le K s s1" for s1 :: "'w state"
    using goes_resetCluster [OF assms(1) that(1)] good_usable [OF good_leD [OF that(2) assms(3)]] by (intro goes_then_ret) simp
  show ?thesis unfolding finishJoin_def Let_def deref_def option.case bnd_ret
    by (rule goes_bnd [OF goes_load [OF assms(2,3), where j = 0], where j = 0])
      (use goes_bnd [OF goes_updateData [OF assms(2) ok] reset] in auto)
qed

lemma goes_secrets:
  assumes "serves_pass cc K W" "live W s" "good_ptr K s p"
  shows "goes K W 0 (createClusterSecrets cc p conf) s (\<lambda>_ _. True)"
proof -
  have flat: "total_on W (FlattenConfig (packages cc) conf) (\<lambda>_. True)" using assms(1) by (simp add: serves_pass_def)
  have create: "total_on W (CreateKubeconfigSecret wr ts conf' ns n f c False) (\<lambda>_. True)"
    if "secretToolSet cc = Some ts" for wr ts conf' ns n f c
    using assms(1) that by (auto simp: serves_pass_def CreateKubeconfigSecret_def Let_def total_ret split: prod.split)
  have sec: "goes K W 0 (createSecret cc conf ns f c n False) s (\<lambda>_ _. True)" for ns f c n
  proof (cases "secretToolSet cc")
    case None
    with assms(2) show ?thesis by (simp add: createSecret_def goes_ret)
  next
    case (Some ts)
    then show ?thesis unfolding createSecret_def
      by (auto intro!: goes_bnd [OF goes_outside [OF flat assms(2), where j = 0], where j = 0] goes_ret
          goes_logged [OF create] split: prod.split)
  qed
  have "goes K W 0 (bnd (createSecret cc conf ns f c n False) (\<lambda>(_, err). ret err)) s (\<lambda>_ _. True)" for ns f c n
    by (rule goes_bnd [OF sec, where j = 0]) (auto intro!: goes_ret split: prod.split)
  then show ?thesis unfolding createClusterSecrets_def
    by (intro goes_bnd [OF goes_load [OF assms(2,3), where j = 0], where j = 0]) auto
qed

lemma goes_join:
  fixes s :: "'w state"
  assumes "serves_pass cc K W" "live W s" "good_ptr K s p"
  shows "goes K W 0 (clusterJoin cc p) s (\<lambda>_ _. True)"
  unfolding clusterJoin_def
proof (rule goes_bnd [OF goes_call [OF assms, where act = ExportKubeConfig and Q = exported_ok], where j = 0])
  fix x :: "kubeConfig option \<times> error option" and s1 :: "'w state"
  assume s1: "live W s1" "good_le K s s1" and x: "exported_ok x"
  have p: "good_ptr K s1 p" using good_leD [OF s1(2) assms(3)] .
  have finish: "goes K W 0 (bnd (createClusterSecrets cc p conf) (\<lambda>err. if err = None then finishJoin cc p (Some kc) else ret ())) s1
      (\<lambda>_ _. True)" for conf kc
    by (rule goes_bnd [OF goes_secrets [OF assms(1) s1(1) p], where j = 0])
      (auto intro!: goes_finishJoin [OF assms(1)] goes_ret good_leD [OF _ p])
  show "goes K W 0 (case x of (kubeConf, err) \<Rightarrow> (case (err, kubeConf) of
         (None, Some conf) \<Rightarrow>
           (case cfg_Clusters conf of
              None \<Rightarrow> ret ()
            | Some clusters \<Rightarrow>
                bnd (deref (case map_get (cfg_Contexts conf) (cfg_CurrentContext conf) of
                       None \<Rightarrow> None | Some cx \<Rightarrow> cx)) (\<lambda>context.
                let clusterName = cx_Cluster context in
                case map_of clusters clusterName of
                  None \<Rightarrow> ret ()
                | Some clusterConf \<Rightarrow>
                    bnd (createClusterSecrets cc p conf) (\<lambda>err.
                      if err = None then finishJoin cc p clusterConf else ret ())))
       | _ \<Rightarrow> ret ())) s1 (\<lambda>_ _. True)"
  proof (cases "\<exists>conf clusters. x = (Some conf, None) \<and> cfg_Clusters conf = Some clusters")
    case True
    then obtain conf clusters where c: "x = (Some conf, None)" "cfg_Clusters conf = Some clusters" by blast
    with x obtain cx where "map_get (cfg_Contexts conf) (cfg_CurrentContext conf) = Some (Some cx)"
      "map_of clusters (cx_Cluster cx) \<noteq> Some None" by (auto simp: exported_ok_def conf_ok_def)
    with c finish [of conf] s1(1) show ?thesis
      by (cases "map_of clusters (cx_Cluster cx)") (auto simp: deref_def goes_ret)
  next
    case False
    with s1(1) show ?thesis by (auto simp: goes_ret split: prod.split option.split)
  qed
qed simp_all

section \<open>The pass\<close>

lemma goes_put:
  assumes "live W s" "a < length (heap s)" "good K c"
  shows "goes K W 0 (Updater.store (Some a) c) s (\<lambda>_ s'. good_ptr K s' (Some a))"
  using assms by (auto simp: goes_def store_def live_def good_le_def good_ptr_def nth_list_update)

lemma goes_good:
  "goes K W j m s Q \<Longrightarrow> good_ptr K s p \<Longrightarrow> goes K W j m s (\<lambda>_ s'. good_ptr K s' p)"
  unfolding goes_def by (meson good_leD)

lemma goes_reconcileOne:
  fixes s :: "'w state"
  assumes "serves_pass cc K W" "live W s" "a < length (heap s)" "good K c" "length (updateChannel (updateRetrier s)) < updateCapacity"
  shows "goes K W 1 (reconcileOne cc (Some a) c) s (\<lambda>_ s'. good_ptr K s' (Some a))"
  unfolding reconcileOne_def
proof (rule goes_bnd [OF goes_put [OF assms(2-4)], where j = 1])
  fix u and s1 :: "'w state" assume s1: "live W s1" "good_ptr K s1 (Some a)"
    and room: "length (updateChannel (updateRetrier s1)) \<le> length (updateChannel (updateRetrier s)) + 0"
  have "length (updateChannel (updateRetrier s1)) < updateCapacity" using room assms(5) by simp
  note val = goes_validate [OF assms(1) s1 this] and join = goes_weaken [OF goes_join [OF assms(1) s1], where j = 1]
  show "goes K W 1 (case annotation c NavarkosClusterStateKey of None \<Rightarrow> ret ()
       | Some clusterStatus \<Rightarrow>
           if clusterStatus = NavarkosClusterStateProvisioning \<or> clusterStatus = NavarkosClusterStateScalingUp \<or>
              clusterStatus = NavarkosClusterStateScalingDown
           then validateCluster cc (Some a) clusterStatus
           else if clusterStatus = NavarkosClusterStateJoining then clusterJoin cc (Some a) else ret ()) s1
      (\<lambda>_ s'. good_ptr K s' (Some a))"
    using goes_good [OF val s1(2)] goes_good [OF join s1(2)] s1 by (simp add: goes_ret split: option.split)
qed simp

lemma goes_items:
  fixes s :: "'w state"
  assumes "serves_pass cc K W" "live W s" "a < length (heap s)" "\<forall>c \<in> set items. good K c"
    and "length (updateChannel (updateRetrier s)) + length items \<le> updateCapacity"
  shows "goes K W (length items) (for_each (reconcileOne cc (Some a)) items) s (\<lambda>_ _. True)"
  using assms(2-)
proof (induction items arbitrary: s)
  case (Cons c items)
  then have "good K c" by simp
  show ?case unfolding for_each.simps
    by (rule goes_bnd [OF goes_reconcileOne [OF assms(1) Cons.prems(1,2) \<open>good K c\<close>], where j = "length items"])
      (use Cons.prems in \<open>auto simp: good_ptr_def intro!: Cons.IH\<close>)
qed (simp add: goes_ret)

lemma goes_listed:
  fixes s :: "'w state"
  assumes "serves_pass cc K W" "live W s" "\<forall>c \<in> set items. good K c"
    and "length (updateChannel (updateRetrier s)) + length items \<le> updateCapacity"
  shows "goes K W (length items) (bnd (alloc emptyCluster) (\<lambda>loopVar. bnd (for_each (reconcileOne cc loopVar) items) (\<lambda>_. ret None))) s
    (\<lambda>_ _. True)"
proof (rule goes_bnd [where i = 0 and j = "length items"])
  show "goes K W 0 (alloc emptyCluster) s (\<lambda>p s2. \<exists>a. p = Some a \<and> a < length (heap s2))"
    using assms(2) by (auto simp: goes_def alloc_def live_def good_le_def good_ptr_def nth_append)
  fix p :: ptr and s2 :: "'w state" assume s2: "live W s2" "\<exists>a. p = Some a \<and> a < length (heap s2)"
    "length (updateChannel (updateRetrier s2)) \<le> length (updateChannel (updateRetrier s)) + 0"
  from s2(2) obtain a where a: "p = Some a" "a < length (heap s2)" by blast
  have "length (updateChannel (updateRetrier s2)) + length items \<le> updateCapacity" using s2(3) assms(4) by simp
  from goes_items [OF assms(1) s2(1) a(2) assms(3) this]
  show "goes K W (length items) (bnd (for_each (reconcileOne cc p) items) (\<lambda>_. ret None)) s2 (\<lambda>_ _. True)"
    unfolding a(1) by (rule goes_then_ret)
qed simp

text \<open>The pass returns, when there is room for a retry of each cluster that is listed.\<close>

lemma reconcile_returns:
  fixes s :: "'w state"
  assumes "serves_pass cc K W" "W (world s)"
    and "\<And>items w'. ts_listClusters (clusterToolSet cc) (world s) = (Ret (Some items, None), w') \<Longrightarrow> length items \<le> L"
    and "length (updateChannel (updateRetrier s)) + L \<le> updateCapacity"
  obtains err s' where "reconcileWhenReady cc s = (Ret err, s')" "W (world s')"
    "length (updateChannel (updateRetrier s')) \<le> length (updateChannel (updateRetrier s)) + L"
proof -
  have "total_on W (ts_listClusters (clusterToolSet cc)) (listed_ok K)" using assms(1) by (simp add: serves_pass_def)
  with assms(2) obtain x w1 where x: "ts_listClusters (clusterToolSet cc) (world s) = (Ret x, w1)" "listed_ok K x" "W w1"
    unfolding total_on_def by blast
  define s1 where "s1 = s\<lparr>world := w1, trace := trace s @ [EvList (fst x) (snd x)]\<rparr>"
  have s1: "live W s1" "updateRetrier s1 = updateRetrier s" using x(3) by (simp_all add: s1_def live_def)
  have "listClusters cc s = (Ret x, s1)"
    using x(1) by (simp add: listClusters_def logged_def outside_def zoom_def bnd_def log_event_def modify_def ret_def s1_def split_beta)
  then have run: "reconcileWhenReady cc s = (if snd x \<noteq> None then ret (snd x) else bnd (deref (fst x)) (\<lambda>items.
      bnd (alloc emptyCluster) (\<lambda>loopVar. bnd (for_each (reconcileOne cc loopVar) items) (\<lambda>_. ret None)))) s1"
    by (simp add: reconcileWhenReady_def bnd_def [of "listClusters cc"] split_beta)
  show ?thesis
  proof (cases "snd x")
    case None
    with x(2) obtain items where i: "x = (Some items, None)" "\<forall>c \<in> set items. good K c" by (cases x) (auto simp: listed_ok_def)
    with assms(3) x(1) have n: "length items \<le> L" by blast
    with s1(2) assms(4) have "length (updateChannel (updateRetrier s1)) + length items \<le> updateCapacity" by simp
    from goes_listed [OF assms(1) s1(1) i(2) this] run i n s1(2) show ?thesis
      by (auto simp: goes_def live_def deref_def intro!: that)
  next
    case (Some e)
    with run s1 show ?thesis by (intro that [of "Some e" s1]) (simp_all add: ret_def live_def)
  qed
qed

end
