(* ===== verification/Outcome.thy ===== *)
theory Outcome
  imports Store PassProgress
begin

text \<open>
  Progress and effect together: on a deployment that serves the controller and whose API is the
  only one to write, the rounds return, and what is stored then follows from what the providers
  answered. In the end a cluster that is asked for is ready, and one that is scaled is ready again.
\<close>

section \<open>Rounds that return\<close>

lemma worker_outcome_run:
  assumes d: "reliable d V stored" "serves (newClusterController d) K W" "V (world s)" "W (world s)"
    and i: "i < length (heap s)" "Name (heap s ! i) = n" "length (updateChannel (updateRetrier s)) < updateCapacity"
  obtains s' where "processItem (newClusterController d) (Some i) s = (Ret (), s')" "V (world s')" "W (world s')"
    "length (updateChannel (updateRetrier s')) \<le> Suc (length (updateChannel (updateRetrier s)))"
    "stored (world s) n = None \<Longrightarrow> stored (world s') = stored (world s)"
    "\<And>c. stored (world s) n = Some c \<Longrightarrow>
      \<exists>c'. stored (world s') = (stored (world s))(n \<mapsto> c') \<and> work_effect c (new_calls s s') c'"
proof -
  from processItem_returns [OF d(2,4) i(1,3)] obtain s' where run: "processItem (newClusterController d) (Some i) s = (Ret (), s')"
    "W (world s')" "length (updateChannel (updateRetrier s')) \<le> Suc (length (updateChannel (updateRetrier s)))" .
  note eff = worker_store [OF d(1,3) run(1) i(1,2)]
  show ?thesis by (rule that [OF run(1) eff(1) run(2,3) eff(2,3)])
qed

text \<open>A pass needs room for as many retries as there are clusters.\<close>

lemma listed_count:
  assumes "reliable d V stored" "V w" "Clusters_List (dep_federationClient d) w = (Ret (Some items, None), w')"
  shows "length items = card (dom (stored w))"
proof -
  have nm: "named (stored w)" and "api_call V stored (\<lambda>(items, err). EvList items err) (Clusters_List (dep_federationClient d))"
    using assms(1,2) by (simp_all add: reliable_def api_reliable_def)
  with assms(2,3) have "api_step (stored w) (EvList (Some items) None) (stored w')" unfolding api_call_def by force
  then have i: "set items = ran (stored w)" "distinct (map Name items)" by simp_all
  have "Name ` ran (stored w) = dom (stored w)" using nm by (force simp: named_def ran_def dom_def)
  with i have "set (map Name items) = dom (stored w)" by simp
  with distinct_card [OF i(2)] show ?thesis by simp
qed

lemma reconcile_listed:
  assumes "reliable d V stored" "V (world s)" "reconcileWhenReady (newClusterController d) s = (Ret err, s')"
  shows "err = None"
proof -
  from assms(3) obtain items e s1 where l: "listClusters (newClusterController d) s = (Ret (items, e), s1)"
    and rest: "e = None \<Longrightarrow> err = None"
    unfolding reconcileWhenReady_def by (auto elim!: bnd_RetE ret_RetE split: if_splits)
  from l have "trace s1 = trace s @ [EvList items e]" unfolding listClusters_def by (auto elim!: logged_RetE)
  with keepsD [OF reliable_api(3) [OF assms(1)] l] assms(2) have "e = None" by (auto simp: store_frame_def)
  with rest show ?thesis .
qed

lemma pass_outcome_run:
  assumes d: "reliable d V stored" "serves_pass (newClusterController d) K W" "V (world s)" "W (world s)"
    and room: "length (updateChannel (updateRetrier s)) + card (dom (stored (world s))) \<le> updateCapacity"
  obtains s' where "reconcileWhenReady (newClusterController d) s = (Ret None, s')" "V (world s')" "W (world s')"
    "length (updateChannel (updateRetrier s')) \<le> length (updateChannel (updateRetrier s)) + card (dom (stored (world s)))"
    "\<And>n. stored (world s) n = None \<Longrightarrow> stored (world s') n = None"
    "\<And>n c. stored (world s) n = Some c \<Longrightarrow> \<exists>c'. stored (world s') n = Some c' \<and> pass_effect c (new_calls s s') c'"
proof -
  have "length items \<le> card (dom (stored (world s)))"
    if "ts_listClusters (clusterToolSet (newClusterController d)) (world s) = (Ret (Some items, None), w')" for items w'
    using listed_count [OF d(1,3)] that by (simp add: newClusterController_def newClusterToolSet_def)
  from reconcile_returns [OF d(2,4) this room] obtain err s' where run: "reconcileWhenReady (newClusterController d) s = (Ret err, s')"
    "W (world s')" "length (updateChannel (updateRetrier s')) \<le> length (updateChannel (updateRetrier s)) + card (dom (stored (world s)))" .
  from reconcile_listed [OF d(1,3) run(1)] have "err = None" .
  note eff = pass_store [OF d(1,3) run(1)]
  show ?thesis by (rule that [OF run(1) [unfolded \<open>err = None\<close>] eff(1) run(2,3) eff(2,3)])
qed

text \<open>The two for one cluster that is stored.\<close>

lemma worker_step:
  assumes d: "reliable d V stored" "serves_pass (newClusterController d) K W" "V (world s)" "W (world s)"
    and i: "i < length (heap s)" "Name (heap s ! i) = n" "length (updateChannel (updateRetrier s)) < updateCapacity"
    and c: "stored (world s) n = Some c"
  obtains s' c' where "processItem (newClusterController d) (Some i) s = (Ret (), s')" "V (world s')" "W (world s')"
    "length (updateChannel (updateRetrier s')) \<le> Suc (length (updateChannel (updateRetrier s)))"
    "dom (stored (world s')) = dom (stored (world s))" "stored (world s') n = Some c'" "work_effect c (new_calls s s') c'"
proof (rule worker_outcome_run [OF d(1) serves_passD [OF d(2)] d(3,4) i])
  fix s' assume run: "processItem (newClusterController d) (Some i) s = (Ret (), s')" "V (world s')" "W (world s')"
    "length (updateChannel (updateRetrier s')) \<le> Suc (length (updateChannel (updateRetrier s)))"
    and eff: "\<And>c. stored (world s) n = Some c \<Longrightarrow>
      \<exists>c'. stored (world s') = (stored (world s))(n \<mapsto> c') \<and> work_effect c (new_calls s s') c'"
  from eff [OF c] obtain c' where c': "stored (world s') = (stored (world s))(n \<mapsto> c')" "work_effect c (new_calls s s') c'" by blast
  then have "dom (stored (world s')) = dom (stored (world s))" "stored (world s') n = Some c'" using c by auto
  from that [OF run this c'(2)] show ?thesis .
qed

lemma pass_step:
  assumes d: "reliable d V stored" "serves_pass (newClusterController d) K W" "V (world s)" "W (world s)"
    and room: "length (updateChannel (updateRetrier s)) + card (dom (stored (world s))) \<le> updateCapacity"
    and c: "stored (world s) n = Some c"
  obtains s' c' where "reconcileWhenReady (newClusterController d) s = (Ret None, s')" "V (world s')" "W (world s')"
    "length (updateChannel (updateRetrier s')) \<le> length (updateChannel (updateRetrier s)) + card (dom (stored (world s)))"
    "dom (stored (world s')) = dom (stored (world s))" "stored (world s') n = Some c'" "pass_effect c (new_calls s s') c'"
proof (rule pass_outcome_run [OF d room])
  fix s' assume run: "reconcileWhenReady (newClusterController d) s = (Ret None, s')" "V (world s')" "W (world s')"
    "length (updateChannel (updateRetrier s')) \<le> length (updateChannel (updateRetrier s)) + card (dom (stored (world s)))"
    and gone: "\<And>n. stored (world s) n = None \<Longrightarrow> stored (world s') n = None"
    and eff: "\<And>n c. stored (world s) n = Some c \<Longrightarrow> \<exists>c'. stored (world s') n = Some c' \<and> pass_effect c (new_calls s s') c'"
  have "n \<in> dom (stored (world s')) \<longleftrightarrow> n \<in> dom (stored (world s))" for n
    by (cases "stored (world s) n") (auto dest: gone eff)
  then have "dom (stored (world s')) = dom (stored (world s))" by blast
  moreover from eff [OF c] obtain c' where "stored (world s') n = Some c'" "pass_effect c (new_calls s s') c'" by blast
  ultimately show ?thesis using that run by blast
qed

section \<open>A cluster becomes ready\<close>

text \<open>The calls to a provider about the clusters of \<open>P\<close> all succeeded.\<close>

definition succeeded :: "(cluster \<Rightarrow> bool) \<Rightarrow> event list \<Rightarrow> bool" where
  "succeeded P evs \<longleftrightarrow> list_all (\<lambda>ev. case ev of EvProvider call c e \<Rightarrow> P c \<longrightarrow> e = None | _ \<Rightarrow> True) evs"

text \<open>\<open>c'\<close> is \<open>c\<close> in the state ready, changed otherwise at most at the annotations \<open>ks\<close>.\<close>

definition ready_from :: "string set \<Rightarrow> cluster \<Rightarrow> cluster \<Rightarrow> bool" where
  "ready_from ks c c' \<longleftrightarrow> Name c' = Name c \<and> state_of c' = Some NavarkosClusterStateReady \<and>
     (\<forall>k. k \<notin> insert NavarkosClusterStateKey ks \<longrightarrow> annotation c' k = annotation c k)"

definition pending_scale :: "bool \<Rightarrow> string" where
  "pending_scale grow = (if grow then NavarkosClusterStatePendingScaleUp else NavarkosClusterStatePendingScaleDown)"

lemma succeededD: "succeeded P evs \<Longrightarrow> EvProvider call c e \<in> set evs \<Longrightarrow> P c \<Longrightarrow> e = None"
  unfolding succeeded_def list_all_iff by fastforce

lemma created_effect:
  assumes "work_effect c evs c'" "state_of c = Some NavarkosClusterStatePending" "succeeded (\<lambda>_. True) evs"
  shows "revision (moves_to NavarkosClusterStateProvisioning create_keys) c c'"
proof -
  from assms(1) obtain e where e: "EvProvider CallCreate c e \<in> set evs" and
    c': "revision (moves_to (if e = None then NavarkosClusterStateProvisioning else NavarkosClusterStateFailedProvision) create_keys) c c'"
    unfolding work_effect_def if_P [OF assms(2)] by blast
  from succeededD [OF assms(3) e] c' show ?thesis by simp
qed

lemma scaled_effect:
  assumes "work_effect c evs c'" "state_of c = Some (pending_scale grow)" "succeeded (\<lambda>_. True) evs"
  shows "revision (moves_to (scaling_state grow) scale_keys) c c' \<or> revision (moves_to NavarkosClusterStateReady {}) c c'"
proof -
  from assms(1,2) have "scale_effect grow c evs c'"
    by (cases grow) (simp_all add: work_effect_simps pending_scale_def)
  then obtain c1 e where e: "EvProvider (CallScale (scaleSizeOf c grow)) c1 e \<in> set evs" and
    c': "if e = None then revision (moves_to (scaling_state grow) scale_keys) c c' \<or>
        sint (scaleSizeOf c grow) < 0 \<and> revision (moves_to NavarkosClusterStateReady {}) c c'
      else revision (moves_to (failed_scale_state grow) {}) c c'"
    unfolding scale_effect_def by blast
  from succeededD [OF assms(3) e] c' show ?thesis by auto
qed

lemma validated_effect:
  assumes "pass_effect c evs c'" "state_of c = Some st"
    and "st \<in> {NavarkosClusterStateProvisioning, NavarkosClusterStateScalingUp, NavarkosClusterStateScalingDown}"
    and "succeeded (\<lambda>b. Name b = Name c) evs"
  shows "revision (moves_to (validated_state st) {ClusterManagerClusterOKEWorkItemKey}) c c'"
proof -
  from assms(1) obtain e where e: "EvProvider CallValidate c e \<in> set evs" and
    c': "if e = None then revision (moves_to (validated_state st) {ClusterManagerClusterOKEWorkItemKey}) c c'
      else revision (keeps_state {ClusterManagerClusterOKEWorkItemKey}) c c'"
    unfolding pass_effect_def assms(2) option.case if_P [OF assms(3)] by blast
  from succeededD [OF assms(4) e] c' show ?thesis by simp
qed

lemma joined_effect:
  assumes "pass_effect c evs c'" "state_of c = Some NavarkosClusterStateJoining" "EvSecretCreate (Name c) None \<in> set evs"
  shows "\<exists>server. revision (joins server) c c'"
  using assms by (simp add: pass_effect_def state_defs)

lemma ready_stays:
  assumes "pass_effect c evs c'" "state_of c = Some NavarkosClusterStateReady"
  shows "c' = c"
  using assms by (simp add: pass_effect_def state_defs)

lemma joined_ready:
  assumes "revision (moves_to NavarkosClusterStateProvisioning create_keys) c c1"
    and "revision (moves_to NavarkosClusterStateJoining {ClusterManagerClusterOKEWorkItemKey}) c1 c2"
    and "revision (joins server) c2 c3"
  shows "ready_from create_keys c c3 \<and> SecretRef c3 = Some (Name c)"
  using assms unfolding revision_simps
  by (auto simp: moves_to_def joins_def ready_from_def create_keys_def)

lemma settled_ready:
  assumes "revision (moves_to st scale_keys) c c1"
    and "revision (moves_to NavarkosClusterStateReady {ClusterManagerClusterOKEWorkItemKey}) c1 c2"
  shows "ready_from scale_keys c c2 \<and> SecretRef c2 = SecretRef c \<and> ServerAddressByClientCIDRs c2 = ServerAddressByClientCIDRs c"
  using assms unfolding revision_simps
  by (auto simp: moves_to_def ready_from_def scale_keys_def)

lemma at_once_ready:
  assumes "revision (moves_to NavarkosClusterStateReady {}) c c1"
  shows "ready_from scale_keys c c1 \<and> SecretRef c1 = SecretRef c \<and> ServerAddressByClientCIDRs c1 = ServerAddressByClientCIDRs c"
  using assms unfolding revision_simps by (auto simp: moves_to_def ready_from_def)

lemma provision_run:
  assumes d: "reliable d V stored" "serves_pass (newClusterController d) K W" "V (world s)" "W (world s)"
    and i: "i < length (heap s)" "Name (heap s ! i) = n"
    and c: "stored (world s) n = Some c" "state_of c = Some NavarkosClusterStatePending"
    and room: "length (updateChannel (updateRetrier s)) + 1 + 2 * card (dom (stored (world s))) \<le> updateCapacity"
  obtains s1 s2 s3 where "processItem (newClusterController d) (Some i) s = (Ret (), s1)"
    "reconcileWhenReady (newClusterController d) s1 = (Ret None, s2)"
    "reconcileWhenReady (newClusterController d) s2 = (Ret None, s3)"
    "succeeded (\<lambda>_. True) (new_calls s s1) \<Longrightarrow> succeeded (\<lambda>b. Name b = n) (new_calls s1 s2) \<Longrightarrow>
      EvSecretCreate n None \<in> set (new_calls s2 s3) \<Longrightarrow>
      \<exists>c'. stored (world s3) n = Some c' \<and> ready_from create_keys c c' \<and> SecretRef c' = Some n"
proof -
  have n: "Name c = n" using d(1,3) c(1) by (auto simp: reliable_def api_reliable_def dest: namedD)
  have r0: "length (updateChannel (updateRetrier s)) < updateCapacity" using room by simp
  obtain s1 c1 where s1: "processItem (newClusterController d) (Some i) s = (Ret (), s1)" "V (world s1)" "W (world s1)"
      "length (updateChannel (updateRetrier s1)) \<le> Suc (length (updateChannel (updateRetrier s)))"
    and c1: "dom (stored (world s1)) = dom (stored (world s))" "stored (world s1) n = Some c1" "work_effect c (new_calls s s1) c1"
    by (rule worker_step [OF d i r0 c(1)])
  have r1: "length (updateChannel (updateRetrier s1)) + card (dom (stored (world s1))) \<le> updateCapacity"
    using room s1(4) c1(1) by simp
  obtain s2 c2 where s2: "reconcileWhenReady (newClusterController d) s1 = (Ret None, s2)" "V (world s2)" "W (world s2)"
      "length (updateChannel (updateRetrier s2)) \<le> length (updateChannel (updateRetrier s1)) + card (dom (stored (world s1)))"
    and c2: "dom (stored (world s2)) = dom (stored (world s1))" "stored (world s2) n = Some c2" "pass_effect c1 (new_calls s1 s2) c2"
    by (rule pass_step [OF d(1,2) s1(2,3) r1 c1(2)])
  have r2: "length (updateChannel (updateRetrier s2)) + card (dom (stored (world s2))) \<le> updateCapacity"
    using room s1(4) s2(4) c1(1) c2(1) by simp
  obtain s3 c3 where s3: "reconcileWhenReady (newClusterController d) s2 = (Ret None, s3)"
      "stored (world s3) n = Some c3" "pass_effect c2 (new_calls s2 s3) c3"
    by (rule pass_step [OF d(1,2) s2(2,3) r2 c2(2)])
  have "ready_from create_keys c c3 \<and> SecretRef c3 = Some n" if ok: "succeeded (\<lambda>_. True) (new_calls s s1)"
    "succeeded (\<lambda>b. Name b = n) (new_calls s1 s2)" "EvSecretCreate n None \<in> set (new_calls s2 s3)"
  proof -
    have 1: "revision (moves_to NavarkosClusterStateProvisioning create_keys) c c1" by (rule created_effect [OF c1(3) c(2) ok(1)])
    note st1 = revision_state(1) [OF 1]
    from validated_effect [OF c2(3) conjunct1 [OF st1]] ok(2) st1 n
    have 2: "revision (moves_to NavarkosClusterStateJoining {ClusterManagerClusterOKEWorkItemKey}) c1 c2"
      by (simp add: validated_state_def)
    note st2 = revision_state(1) [OF 2]
    from joined_effect [OF s3(3) conjunct1 [OF st2]] ok(3) st1 st2 n obtain server where "revision (joins server) c2 c3" by auto
    from joined_ready [OF 1 2 this] n show ?thesis by simp
  qed
  with that [OF s1(1) s2(1) s3(1)] s3(2) show ?thesis by blast
qed

lemma scaling_run:
  assumes d: "reliable d V stored" "serves_pass (newClusterController d) K W" "V (world s)" "W (world s)"
    and i: "i < length (heap s)" "Name (heap s ! i) = n"
    and c: "stored (world s) n = Some c" "state_of c = Some (pending_scale grow)"
    and room: "length (updateChannel (updateRetrier s)) + 1 + card (dom (stored (world s))) \<le> updateCapacity"
  obtains s1 s2 where "processItem (newClusterController d) (Some i) s = (Ret (), s1)"
    "reconcileWhenReady (newClusterController d) s1 = (Ret None, s2)"
    "succeeded (\<lambda>_. True) (new_calls s s1) \<Longrightarrow> succeeded (\<lambda>b. Name b = n) (new_calls s1 s2) \<Longrightarrow>
      \<exists>c'. stored (world s2) n = Some c' \<and> ready_from scale_keys c c' \<and> SecretRef c' = SecretRef c \<and>
        ServerAddressByClientCIDRs c' = ServerAddressByClientCIDRs c"
proof -
  have n: "Name c = n" using d(1,3) c(1) by (auto simp: reliable_def api_reliable_def dest: namedD)
  have r0: "length (updateChannel (updateRetrier s)) < updateCapacity" using room by simp
  obtain s1 c1 where s1: "processItem (newClusterController d) (Some i) s = (Ret (), s1)" "V (world s1)" "W (world s1)"
      "length (updateChannel (updateRetrier s1)) \<le> Suc (length (updateChannel (updateRetrier s)))"
    and c1: "dom (stored (world s1)) = dom (stored (world s))" "stored (world s1) n = Some c1" "work_effect c (new_calls s s1) c1"
    by (rule worker_step [OF d i r0 c(1)])
  have r1: "length (updateChannel (updateRetrier s1)) + card (dom (stored (world s1))) \<le> updateCapacity"
    using room s1(4) c1(1) by simp
  obtain s2 c2 where s2: "reconcileWhenReady (newClusterController d) s1 = (Ret None, s2)"
      "stored (world s2) n = Some c2" "pass_effect c1 (new_calls s1 s2) c2"
    by (rule pass_step [OF d(1,2) s1(2,3) r1 c1(2)])
  have "ready_from scale_keys c c2 \<and> SecretRef c2 = SecretRef c \<and> ServerAddressByClientCIDRs c2 = ServerAddressByClientCIDRs c"
    if ok: "succeeded (\<lambda>_. True) (new_calls s s1)" "succeeded (\<lambda>b. Name b = n) (new_calls s1 s2)"
    using scaled_effect [OF c1(3) c(2) ok(1)]
  proof
    assume 1: "revision (moves_to (scaling_state grow) scale_keys) c c1"
    note st = revision_state(1) [OF 1]
    from validated_effect [OF s2(3) conjunct1 [OF st]] ok(2) st n
    have "revision (moves_to NavarkosClusterStateReady {ClusterManagerClusterOKEWorkItemKey}) c1 c2"
      by (cases grow) (simp_all add: validated_state_def scaling_state_def state_defs)
    from settled_ready [OF 1 this] show ?thesis .
  next
    assume 1: "revision (moves_to NavarkosClusterStateReady {}) c c1"
    from ready_stays [OF s2(3)] revision_state(1) [OF 1] have "c2 = c1" by simp
    with at_once_ready [OF 1] show ?thesis by simp
  qed
  with that [OF s1(1) s2(1)] s2(2) show ?thesis by blast
qed

end
