(* ===== verification/Claim.thy ===== *)
theory Claim
  imports Store
begin

text \<open>
  Rounds that overlap. A round of the worker is not atomic: other rounds, the retries, the
  reconciliation and other clients write between its calls. What protects a deletion or a scaling
  is the mark it writes first, with the version of the object it fetched.

  \<^item> \<open>locking_history\<close>: the calls of everybody, each with the one who made it, and the objects the API
    stores before each call. All that is asked of the API is optimistic locking: a fetch returns what
    is stored, an update that carries a version is accepted only on that version, and an object that is
    stored anew has a version that no object of its name had before. Calls that fail, and other
    calls, may change anything.
  \<^item> \<open>claims\<close>: a round took a request, by replacing the pending object that is stored by the
    announced one, before it called the provider.
  \<^item> A round whose mark was accepted at once claims what it deletes or scales, and no two rounds
    claim the same version of an object. After a conflict the code marks what it fetches again in
    whatever state that is, so then there need not be a claim.
\<close>

section \<open>The calls of many\<close>

fun answers :: "store \<Rightarrow> event \<Rightarrow> store \<Rightarrow> bool" where
  "answers S (EvGet n oc None) S' \<longleftrightarrow> S n = oc \<and> (\<forall>b. oc = Some b \<longrightarrow> Name b = n)"
| "answers S (EvUpdate c None) S' \<longleftrightarrow> (\<exists>b v. S (Name c) = Some b \<and> ResourceVersion c \<in> {ResourceVersion b, ''''} \<and>
     S' = S(Name c \<mapsto> c\<lparr>ResourceVersion := v\<rparr>))"
| "answers S ev S' \<longleftrightarrow> True"

lemma api_step_answers: "api_step S ev S' \<Longrightarrow> named S \<Longrightarrow> answers S ev S'"
  by (induction rule: api_step.induct) (auto simp: named_def)

definition fresh_versions :: "(nat \<Rightarrow> store) \<Rightarrow> nat \<Rightarrow> bool" where
  "fresh_versions \<sigma> N \<longleftrightarrow> (\<forall>n b. \<sigma> 0 n = Some b \<longrightarrow> ResourceVersion b \<noteq> '''') \<and>
     (\<forall>k < N. \<forall>n b. \<sigma> (Suc k) n = Some b \<and> \<sigma> k n \<noteq> Some b \<longrightarrow> ResourceVersion b \<noteq> '''' \<and>
        (\<forall>j \<le> k. \<forall>b'. \<sigma> j n = Some b' \<longrightarrow> ResourceVersion b' \<noteq> ResourceVersion b))"

definition locking_history :: "(nat \<Rightarrow> store) \<Rightarrow> ('p \<times> event) list \<Rightarrow> bool" where
  "locking_history \<sigma> h \<longleftrightarrow> fresh_versions \<sigma> (length h) \<and> (\<forall>k < length h. answers (\<sigma> k) (snd (h ! k)) (\<sigma> (Suc k)))"

definition calls_by :: "'p \<Rightarrow> ('p \<times> event) list \<Rightarrow> event list" where
  "calls_by p h = map snd (filter (\<lambda>x. fst x = p) h)"

lemma calls_by_simps [simp]:
  "calls_by p [] = []" "calls_by p (x # h) = (if fst x = p then snd x # calls_by p h else calls_by p h)"
  by (simp_all add: calls_by_def)

lemma calls_by_split:
  "calls_by p h = xs @ y # ys \<Longrightarrow>
    \<exists>k < length h. h ! k = (p, y) \<and> calls_by p (take k h) = xs \<and> calls_by p (drop (Suc k) h) = ys"
proof (induction h arbitrary: xs)
  case (Cons x h)
  have rec: ?case if zs: "calls_by p h = zs @ y # ys" "xs = calls_by p [x] @ zs" for zs
  proof -
    from Cons.IH [OF zs(1)] obtain k where "k < length h" "h ! k = (p, y)" "calls_by p (take k h) = zs" "calls_by p (drop (Suc k) h) = ys"
      by blast
    with zs(2) show ?thesis by (intro exI [of _ "Suc k"]) simp
  qed
  show ?case
  proof (cases "fst x = p \<and> xs = []")
    case True
    with Cons.prems show ?thesis by (intro exI [of _ 0]) (auto simp: prod_eq_iff)
  next
    case False
    with Cons.prems have "calls_by p h = drop (length (calls_by p [x])) xs @ y # ys" "xs = calls_by p [x] @ drop (length (calls_by p [x])) xs"
      by (cases xs; simp split: if_splits)+
    then show ?thesis by (rule rec)
  qed
qed simp

lemma calls_by_later:
  assumes "calls_by p (drop k h) = xs @ y # ys"
  obtains j where "k \<le> j" "j < length h" "h ! j = (p, y)"
proof -
  from calls_by_split [OF assms] obtain i where "i < length (drop k h)" "drop k h ! i = (p, y)" by blast
  then show ?thesis by (intro that [of "k + i"]) auto
qed

section \<open>Versions\<close>

lemma fresh_step:
  assumes "fresh_versions \<sigma> N" "k < N" "\<sigma> (Suc k) n = Some b" "\<sigma> k n \<noteq> Some b"
  shows "ResourceVersion b \<noteq> []" "j \<le> k \<Longrightarrow> \<sigma> j n = Some b' \<Longrightarrow> ResourceVersion b' \<noteq> ResourceVersion b"
  using assms unfolding fresh_versions_def by blast+

lemma versions_set:
  assumes "fresh_versions \<sigma> N" "k \<le> N" "\<sigma> k n = Some b"
  shows "ResourceVersion b \<noteq> ''''"
  using assms(2,3)
proof (induction k)
  case 0
  then show ?case using assms(1) by (simp add: fresh_versions_def)
next
  case (Suc k)
  then show ?case using fresh_step(1) [OF assms(1), of k n b] by (cases "\<sigma> k n = Some b") auto
qed

lemma version_gone:
  assumes "fresh_versions \<sigma> N" "j < k" "k \<le> N" "\<sigma> j n = Some b" "\<sigma> (Suc j) n \<noteq> Some b" "\<sigma> k n = Some b'"
  shows "ResourceVersion b' \<noteq> ResourceVersion b"
  using assms(2,3,6)
proof (induction k arbitrary: b')
  case (Suc k)
  show ?case
  proof (cases "\<sigma> k n = Some b'")
    case True
    with Suc assms(4,5) show ?thesis by (cases "j = k") auto
  next
    case False
    with Suc.prems assms(4) show ?thesis using fresh_step(2) [OF assms(1), of k n b' j b] by auto
  qed
qed simp

lemma version_identifies:
  assumes "fresh_versions \<sigma> N" "j \<le> k" "k \<le> N" "\<sigma> j n = Some b" "\<sigma> k n = Some b'" "ResourceVersion b' = ResourceVersion b"
  shows "b' = b"
  using assms(2,3,5,6)
proof (induction k)
  case (Suc k)
  show ?case
  proof (cases "j = Suc k \<or> \<sigma> k n = Some b'")
    case True
    with Suc assms(4) show ?thesis by (cases "j = Suc k") auto
  next
    case False
    with Suc.prems assms(4) show ?thesis using fresh_step(2) [OF assms(1), of k n b' j b] by auto
  qed
qed (use assms(4) in simp)

section \<open>Claims\<close>

definition pend :: "cluster \<Rightarrow> bool" where
  "pend c \<longleftrightarrow> (case state_of c of None \<Rightarrow> False | Some st \<Rightarrow> st \<in> getActionableStates)"

fun claim_states :: "providerCall \<Rightarrow> (string \<times> string) set" where
  "claim_states CallDelete = {(NavarkosClusterStatePendingShutdown, NavarkosClusterStateShuttingDown)}"
| "claim_states (CallScale n) = {(NavarkosClusterStatePendingScaleUp, NavarkosClusterStateScalingUp),
     (NavarkosClusterStatePendingScaleDown, NavarkosClusterStateScalingDown)}"
| "claim_states _ = {}"

definition claims :: "(nat \<Rightarrow> store) \<Rightarrow> ('p \<times> event) list \<Rightarrow> 'p \<Rightarrow> string \<Rightarrow> providerCall \<Rightarrow> nat \<Rightarrow> cluster \<Rightarrow> bool" where
  "claims \<sigma> h p n call u b \<longleftrightarrow> (\<exists>r m c e v st st'. u < r \<and> r < length h \<and>
     h ! u = (p, EvUpdate m None) \<and> h ! r = (p, EvProvider call c e) \<and>
     (st, st') \<in> claim_states call \<and> state_of b = Some st \<and> moves_to st' {} b m \<and> moves_to st' {} b c \<and>
     Name b = n \<and> \<sigma> u n = Some b \<and> \<sigma> (Suc u) n = Some (m\<lparr>ResourceVersion := v\<rparr>))"

lemma claim_states_differ: "(st, st') \<in> claim_states call \<Longrightarrow> st \<noteq> st'"
  by (cases call) (auto simp: state_defs)

lemma state_of_version: "state_of (c\<lparr>ResourceVersion := v\<rparr>) = state_of c"
  by (simp add: state_of_def annotation_def)

lemma claim_moves:
  assumes "claims \<sigma> h p n call u b"
  shows "u < length h \<and> \<sigma> u n = Some b \<and> \<sigma> (Suc u) n \<noteq> Some b \<and> fst (h ! u) = p"
proof -
  from assms obtain r m st st' v where c: "u < r" "r < length h" "fst (h ! u) = p" "(st, st') \<in> claim_states call" "state_of b = Some st"
    "moves_to st' {} b m" "\<sigma> u n = Some b" "\<sigma> (Suc u) n = Some (m\<lparr>ResourceVersion := v\<rparr>)"
    unfolding claims_def by (metis fst_conv)
  from c(6) have "state_of (m\<lparr>ResourceVersion := v\<rparr>) = Some st'" by (simp add: moves_to_def state_of_version)
  with c claim_states_differ [OF c(4)] show ?thesis by auto
qed

lemma claims_differ:
  assumes "fresh_versions \<sigma> (length h)" "p \<noteq> q" "claims \<sigma> h p n call u b" "claims \<sigma> h q n call' u' b'"
  shows "ResourceVersion b \<noteq> ResourceVersion b'"
proof -
  note c = claim_moves [OF assms(3)] claim_moves [OF assms(4)]
  with assms(2) have "u < u' \<or> u' < u" by (metis linorder_neqE_nat)
  then show ?thesis
  proof
    assume "u < u'"
    with c version_gone [OF assms(1), of u u' n b b'] show ?thesis by auto
  next
    assume "u' < u"
    with c version_gone [OF assms(1), of u' u n b' b] show ?thesis by auto
  qed
qed

section \<open>The rounds of the worker claim\<close>

text \<open>The API refused no update of the round before its call of the provider.\<close>

definition marked_at_once :: "event list \<Rightarrow> bool" where
  "marked_at_once evs \<longleftrightarrow> (\<forall>ev \<in> set (takeWhile (\<lambda>ev. \<not> is_provider_call ev) evs). is_update ev \<longrightarrow> event_error ev = None)"

lemma unrefused_mark:
  assumes "update_protocol Q name n (Some b) None us None" "0 < n" "\<forall>ev \<in> set us. is_update ev \<longrightarrow> event_error ev = None"
  shows "\<exists>m. us = [EvUpdate m None] \<and> Q b m"
  using assms by (cases rule: update_protocol.cases) auto

lemma acting_round:
  assumes "work_spec n evs" "EvProvider call c e \<in> set evs" "call \<noteq> CallCreate" "marked_at_once evs"
  obtains b m as bs st st' where "evs = EvGet n (Some b) None # EvUpdate m None # as @ EvProvider call c e # bs"
    "(st, st') \<in> claim_states call" "state_of b = Some st" "moves_to st' {} b m"
    "moves_to st' {} b c"
proof -
  note found = that
  have act: ?thesis if e: "evs = EvGet n (Some b) None # us @ EvProvider call c e # bs" and s: "(st, st') \<in> claim_states call" "state_of b = Some st"
    and u: "update_protocol (moves_to st' {}) (Name b) MaxRetryCount (Some b) None us None" "moves_to st' {} b c" for b us bs st st'
  proof -
    have "takeWhile (\<lambda>ev. \<not> is_provider_call ev) evs = EvGet n (Some b) None # us"
      using protocol_no_provider [OF u(1)] by (simp add: e)
    with unrefused_mark [OF u(1)] assms(4) obtain m where "us = [EvUpdate m None]" "moves_to st' {} b m"
      by (auto simp: MaxRetryCount_def marked_at_once_def)
    with e s u(2) show ?thesis by (intro found [of b m "[]" bs st st']) auto
  qed
  from assms(1) show ?thesis
  proof (cases rule: work_spec.cases)
    case (create b err es)
    with assms(2,3) show ?thesis by (auto simp: create_spec_def dest: protocol_provider_free)
  next
    case (shutdown b err es)
    from shutdown(3) assms(2) obtain us bs where "es = us @ EvProvider call c e # bs" "call = CallDelete"
      "update_protocol (moves_to NavarkosClusterStateShuttingDown {}) (Name b) MaxRetryCount (Some b) None us None" "moves_to NavarkosClusterStateShuttingDown {} b c"
      unfolding shutdown(1) by cases (auto dest: protocol_provider_free)
    with shutdown(1,2) show ?thesis by (intro act) auto
  next
    case (scale_up b err es)
    from scale_up(3) assms(2) obtain us bs where "es = us @ EvProvider call c e # bs" "call = CallScale (scaleSizeOf b True)"
      "update_protocol (moves_to NavarkosClusterStateScalingUp {}) (Name b) MaxRetryCount (Some b) None us None" "moves_to NavarkosClusterStateScalingUp {} b c"
      unfolding scale_up(1) by cases (auto dest: protocol_provider_free simp: scaling_state_def)
    with scale_up(1,2) show ?thesis by (intro act) auto
  next
    case (scale_down b err es)
    from scale_down(3) assms(2) obtain us bs where "es = us @ EvProvider call c e # bs" "call = CallScale (scaleSizeOf b False)"
      "update_protocol (moves_to NavarkosClusterStateScalingDown {}) (Name b) MaxRetryCount (Some b) None us None" "moves_to NavarkosClusterStateScalingDown {} b c"
      unfolding scale_down(1) by cases (auto dest: protocol_provider_free simp: scaling_state_def)
    with scale_down(1,2) show ?thesis by (intro act) auto
  qed (use assms(2) in auto)
qed

lemma round_claims:
  assumes h: "locking_history \<sigma> h" and w: "work_spec n (calls_by p h)"
    and c: "EvProvider call c e \<in> set (calls_by p h)" "call \<noteq> CallCreate" and r: "marked_at_once (calls_by p h)"
  shows "\<exists>u b. claims \<sigma> h p n call u b"
proof -
  obtain b m as bs st st' where evs: "calls_by p h = EvGet n (Some b) None # EvUpdate m None # as @ EvProvider call c e # bs"
    and s: "(st, st') \<in> claim_states call" "state_of b = Some st" "moves_to st' {} b m" "moves_to st' {} b c"
    by (rule acting_round [OF w c r])
  from evs obtain g where g: "g < length h" "h ! g = (p, EvGet n (Some b) None)"
    "calls_by p (drop (Suc g) h) = EvUpdate m None # as @ EvProvider call c e # bs"
    using calls_by_split [of p h "[]"] by auto
  then obtain i where i: "i < length (drop (Suc g) h)" "drop (Suc g) h ! i = (p, EvUpdate m None)"
    "calls_by p (drop (Suc i) (drop (Suc g) h)) = as @ EvProvider call c e # bs"
    using calls_by_split [of p "drop (Suc g) h" "[]"] by auto
  define u where "u = Suc g + i"
  have u: "g < u" "u < length h" "h ! u = (p, EvUpdate m None)" "calls_by p (drop (Suc u) h) = as @ EvProvider call c e # bs"
    using i by (auto simp: u_def drop_drop add.commute add.left_commute)
  from u(4) obtain q where q: "Suc u \<le> q" "q < length h" "h ! q = (p, EvProvider call c e)" by (rule calls_by_later)
  from h g(1,2) have sg: "\<sigma> g n = Some b" "Name b = n" unfolding locking_history_def by fastforce+
  from h u(2,3) obtain x v where x: "\<sigma> u (Name m) = Some x" "ResourceVersion m \<in> {ResourceVersion x, ''''}"
    "\<sigma> (Suc u) = (\<sigma> u)(Name m \<mapsto> m\<lparr>ResourceVersion := v\<rparr>)" unfolding locking_history_def by fastforce
  have f: "fresh_versions \<sigma> (length h)" using h by (simp add: locking_history_def)
  have m: "Name m = n" "ResourceVersion m = ResourceVersion b" using s(3) sg(2) by (simp_all add: moves_to_def)
  with x versions_set [OF f, of g n b] g(1) sg have "ResourceVersion x = ResourceVersion b" by auto
  with version_identifies [OF f, of g u n b x] x(1) m(1) sg(1) u(1,2) have "x = b" by simp
  have "claims \<sigma> h p n call u b" unfolding claims_def
    by (rule exI [of _ q], rule exI [of _ m], rule exI [of _ c], rule exI [of _ e], rule exI [of _ v], rule exI [of _ st],
        rule exI [of _ st']) (use x m s u q sg(2) \<open>x = b\<close> in auto)
  then show ?thesis by blast
qed

text \<open>The calls of a round on a cluster of the name \<open>n\<close>.\<close>

definition worker_calls :: "'w deployment \<Rightarrow> string \<Rightarrow> event list \<Rightarrow> bool" where
  "worker_calls d n evs \<longleftrightarrow> (\<exists>i s u s'. processItem (newClusterController d) (Some i) s = (Ret u, s') \<and>
     i < length (heap s) \<and> Name (heap s ! i) = n \<and> evs = new_calls s s')"

lemma worker_calls_spec: "worker_calls d n evs \<Longrightarrow> work_spec n evs"
  unfolding worker_calls_def new_calls_def by (auto dest!: built.work_spec_run)

end
