(* ===== verification/Rehearsal.thy ===== *)
theory Rehearsal
  imports Simulation Outcome Claim
begin

text \<open>
  The deployment in memory with an API server that keeps versions, and a kops library that hands
  out a kubeconfig: the API is \<open>reliable\<close>, the deployment serves the worker and the reconciliation,
  and a cluster is taken from \<open>pending\<close> to \<open>ready\<close>. Last, a history of two rounds and another
  client on such a server.
\<close>

definition lock_error :: "string \<Rightarrow> cluster \<Rightarrow> error option" where
  "lock_error reason c = Some (StatusError reason (Name c))"

definition lock_get :: "string \<Rightarrow> (sim, cluster option \<times> error option) go" where
  "lock_get name = (\<lambda>w. case map_of (sim_clusters w) name of
      None \<Rightarrow> (Ret (Some emptyCluster, Some (StatusError ''NotFound'' name)), w)
    | Some c \<Rightarrow> (Ret (Some c, None), w))"

definition lock_put :: "string \<Rightarrow> cluster \<Rightarrow> (sim, cluster option \<times> error option) go" where
  "lock_put v c = (\<lambda>w. (Ret (Some (c\<lparr>ResourceVersion := v\<rparr>), None),
     w\<lparr>sim_clusters := AList.update (Name c) (c\<lparr>ResourceVersion := v\<rparr>) (sim_clusters w)\<rparr>))"

definition lock_update :: "cluster \<Rightarrow> (sim, cluster option \<times> error option) go" where
  "lock_update c = (\<lambda>w. case map_of (sim_clusters w) (Name c) of
      None \<Rightarrow> (Ret (None, lock_error ''NotFound'' c), w)
    | Some b \<Rightarrow> if ResourceVersion c = ResourceVersion b \<or> ResourceVersion c = ''''
        then lock_put (CHR ''1'' # ResourceVersion b) c w
        else (Ret (None, lock_error ''Conflict'' c), w))"

definition lock_create :: "cluster \<Rightarrow> (sim, cluster option \<times> error option) go" where
  "lock_create c = (\<lambda>w. if map_of (sim_clusters w) (Name c) \<noteq> None \<or> ResourceVersion c \<noteq> '''' \<or> Name c = ''''
     then (Ret (None, lock_error ''Invalid'' c), w) else lock_put ''1'' c w)"

definition lock_delete :: "string \<Rightarrow> (sim, error option) go" where
  "lock_delete name = (\<lambda>w. if map_of (sim_clusters w) name = None then (Ret (Some (StatusError ''NotFound'' name)), w)
     else (Ret None, w\<lparr>sim_clusters := AList.delete name (sim_clusters w)\<rparr>))"

definition lock_client :: "sim federationClient" where
  "lock_client = \<lparr>Clusters_Get = lock_get, Clusters_Update = lock_update,
     Clusters_List = gets (\<lambda>w. (Some (map snd (sim_clusters w)), None)),
     Clusters_Delete = lock_delete, Clusters_Create = lock_create\<rparr>"

definition lock_config :: kubeConfig where
  "lock_config = \<lparr>cfg_Kind = [], cfg_APIVersion = [], cfg_Colors = False,
     cfg_Clusters = Some [(''k1'', Some \<lparr>kc_LocationOfOrigin = [], kc_Server = ''https://10.0.0.1'',
       kc_InsecureSkipTLSVerify = False, kc_CertificateAuthority = [], kc_CertificateAuthorityData = []\<rparr>)],
     cfg_AuthInfos = None,
     cfg_Contexts = Some [(''ctx'', Some \<lparr>cx_LocationOfOrigin = [], cx_Cluster = ''k1'', cx_AuthInfo = [], cx_Namespace = []\<rparr>)],
     cfg_CurrentContext = ''ctx''\<rparr>"

definition lock_library :: "sim kopsLibrary" where
  "lock_library = sim_kopsLibrary\<lparr>GenerateKubecfg := (\<lambda>h. ret (Some lock_config, None))\<rparr>"

definition lock_deployment :: "sim deployment" where
  "lock_deployment = sim_deployment\<lparr>dep_federationClient := lock_client, dep_kopsLibrary := lock_library\<rparr>"

abbreviation lock_cc :: "sim ClusterController" where
  "lock_cc \<equiv> newClusterController lock_deployment"

definition lock_stored :: "sim \<Rightarrow> store" where
  "lock_stored w = map_of (sim_clusters w)"

definition lock_ok :: "sim \<Rightarrow> bool" where
  "lock_ok w \<longleftrightarrow> distinct (map fst (sim_clusters w)) \<and> (\<forall>(n, c) \<in> set (sim_clusters w). Name c = n \<and> n \<noteq> '''')"

section \<open>The API is reliable\<close>

lemma lock_named: "lock_ok w \<Longrightarrow> named (lock_stored w)"
  by (auto simp: lock_ok_def named_def lock_stored_def dest!: map_of_SomeD)

lemma lock_key: "lock_ok w \<Longrightarrow> map_of (sim_clusters w) n = Some c \<Longrightarrow> n \<noteq> []"
  by (auto simp: lock_ok_def dest!: map_of_SomeD)

lemma put_range: "(a, b) \<in> set (AList.update k v m) \<Longrightarrow> (a, b) = (k, v) \<or> (a, b) \<in> set m"
  by (induction m) (auto split: if_splits)

lemma lock_put_ok: "lock_ok w \<Longrightarrow> Name c \<noteq> [] \<Longrightarrow>
    lock_ok (w\<lparr>sim_clusters := AList.update (Name c) (c\<lparr>ResourceVersion := v\<rparr>) (sim_clusters w)\<rparr>)"
  by (auto simp: lock_ok_def AList.distinct_update dest!: put_range)

lemma lock_delete_ok: "lock_ok w \<Longrightarrow> lock_ok (w\<lparr>sim_clusters := AList.delete n (sim_clusters w)\<rparr>)"
proof -
  have "set (AList.delete n (sim_clusters w)) \<subseteq> set (sim_clusters w)" by (auto simp: AList.delete_eq)
  then show "lock_ok w \<Longrightarrow> ?thesis" unfolding lock_ok_def by (auto simp: AList.distinct_delete)
qed

lemma lock_api: "api_reliable lock_client lock_ok lock_stored"
proof -
  have get: "api_call lock_ok lock_stored (\<lambda>(oc, err). EvGet n oc err) (lock_get n)" for n
    by (auto simp: api_call_def lock_get_def lock_stored_def split: option.splits)
  have upd: "api_call lock_ok lock_stored (\<lambda>r. EvUpdate c (snd r)) (lock_update c)" for c
    unfolding api_call_def lock_update_def lock_put_def lock_error_def
    by (auto simp: lock_stored_def AList.update_conv' StatusReasonConflict_def intro!: lock_put_ok dest: lock_key
        split: option.splits if_splits)
  have lst: "api_call lock_ok lock_stored (\<lambda>(items, err). EvList items err) (Clusters_List lock_client)"
  proof -
    have "set (map snd (sim_clusters w)) = ran (lock_stored w) \<and> distinct (map Name (map snd (sim_clusters w)))" if "lock_ok w" for w
    proof -
      have "map Name (map snd (sim_clusters w)) = map fst (sim_clusters w)" using that by (auto simp: lock_ok_def)
      with that show ?thesis unfolding lock_ok_def lock_stored_def by (metis ran_distinct set_map)
    qed
    then show ?thesis by (auto simp: api_call_def lock_client_def gets_def)
  qed
  have del: "api_call lock_ok lock_stored (\<lambda>err. EvDelete n err) (lock_delete n)" for n
    unfolding api_call_def lock_delete_def
    by (auto simp: lock_stored_def AList.delete_conv' intro: lock_delete_ok split: if_splits)
  have cre: "api_call lock_ok lock_stored (\<lambda>r. EvCreate c (snd r)) (lock_create c)" for c
    unfolding api_call_def lock_create_def lock_put_def lock_error_def
    by (auto simp: lock_stored_def AList.update_conv' intro!: lock_put_ok split: if_splits)
  show ?thesis using get upd lst del cre lock_named by (simp add: api_reliable_def lock_client_def)
qed

text \<open>What does not touch the stored clusters.\<close>

lemma lock_aside: "(\<And>w r w'. m w = (r, w') \<Longrightarrow> sim_clusters w' = sim_clusters w) \<Longrightarrow> keeps (aside lock_ok lock_stored) m"
  by (rule keepsI) (fastforce simp: aside_def lock_ok_def lock_stored_def)

lemma lock_library_keeps: "library_keeps (aside lock_ok lock_stored) lock_library"
  unfolding library_keeps_def lock_library_def sim_kopsLibrary_def
  by (intro conjI allI impI lock_aside) (auto simp: bnd_def ret_def modify_def gets_def)

lemma lock_reliable: "reliable lock_deployment lock_ok lock_stored"
proof -
  have http: "keeps (aside lock_ok lock_stored) (sim_do req)" for req
    by (rule lock_aside) (auto simp: sim_do_def split: list.splits)
  have sec: "keeps (aside lock_ok lock_stored) (client_create sim_secretsClient ns s)"
    "keeps (aside lock_ok lock_stored) (client_delete sim_secretsClient ns n opts)" for ns s n opts
    by (rule lock_aside, auto simp: sim_secretsClient_def bnd_def ret_def modify_def)+
  have pkg: "keeps (aside lock_ok lock_stored) (time_Now sim_packages)"
    "keeps (aside lock_ok lock_stored) (FlattenConfig sim_packages conf)" for conf
    by (rule lock_aside, auto simp: sim_packages_def ret_def)+
  show ?thesis using http sec pkg lock_api lock_library_keeps
    by (simp add: reliable_def lock_deployment_def sim_deployment_def)
qed

section \<open>It serves the controller\<close>

lemma lock_kops_found:
  "\<exists>k. map_of (clusterProviders lock_cc) ''kops'' = Some (kops_provider k) \<and> toolSet k = newToolSet lock_library 1 \<and> library k = lock_library"
proof -
  have "BuildVfsPath lock_library s = Inr 1" for s by (simp add: lock_library_def sim_kopsLibrary_def)
  then show ?thesis
    by (auto simp: newClusterController_def builtin_lookup NewAwsKops_def sim_deployment_def lock_deployment_def sim_env_def
        OkeDefaultCloudAuthId_def AWSAccessKeyId_def AWSSecretAccessKeyId_def osLookup_def provider_value_def
        intro: exI [of _ "\<lparr>kopsStatePath = Suc 0, defaultNodeZones = ns, defaultMasterZones = ms, domain = dm,
          toolSet = newToolSet lock_library (Suc 0), library = lock_library\<rparr>" for ns ms dm])
qed

lemma lock_tools: "tools_total sim_ok (newToolSet lock_library 1)"
  by (simp add: tools_total_def newToolSet_def lock_library_def sim_kopsLibrary_def only_error_def total_on_def sim_ok_def
      bnd_def ret_def modify_def gets_def)

lemma lock_exports:
  assumes "toolSet k = newToolSet lock_library 1" "library k = lock_library"
  shows "export_total sim_ok k" "returns sim_ok (ExportKubeConfigBuilder k n)"
    "total_on sim_ok (kopsExportKubeConfig k c) exported_ok"
proof -
  show "export_total sim_ok k"
    by (simp add: export_total_def assms newToolSet_def lock_library_def sim_kopsLibrary_def total_on_def sim_ok_def
        bnd_def ret_def gets_def)
  have b: "returns sim_ok (ExportKubeConfigBuilder k n)" for n
    by (simp add: ExportKubeConfigBuilder_def assms newToolSet_def lock_library_def sim_kopsLibrary_def total_on_def
        bnd_def ret_def gets_def)
  then show "returns sim_ok (ExportKubeConfigBuilder k n)" .
  have conf: "exported_ok (Some lock_config, e)" for e
    by (simp add: exported_ok_def conf_ok_def lock_config_def)
  have "total_on sim_ok (ts_generateKubeConfig (toolSet k) h) exported_ok" for h
    using conf by (simp add: assms newToolSet_def lock_library_def total_on_def ret_def)
  then show "total_on sim_ok (kopsExportKubeConfig k c) exported_ok"
    unfolding kopsExportKubeConfig_def
    by (intro total_on_bnd [OF b]) (auto simp: total_on_def ret_def exported_ok_def split: prod.splits if_splits)
qed

lemma lock_provider:
  assumes "toolSet k = newToolSet lock_library 1" "library k = lock_library"
  shows "provider_serves {''kops''} sim_ok (kops_provider k)"
  using lock_tools kopsp.provider_contract_axioms [of k] assms
  by (simp add: provider_serves_def kops_provider_def kops_create_total kops_scale_total kops_delete_total)

lemma good_put: "sim_ok w \<Longrightarrow> good {''kops''} c \<Longrightarrow>
    sim_ok (w\<lparr>sim_clusters := AList.update n (c\<lparr>ResourceVersion := v\<rparr>) (sim_clusters w)\<rparr>)"
  by (auto simp: sim_ok_def good_version dest!: update_range)

lemma lock_serves: "serves lock_cc {''kops''} sim_ok"
proof -
  have get: "total_on sim_ok (lock_get name) (\<lambda>(oc, err). err = None \<longrightarrow> (\<exists>c. oc = Some c \<and> good {''kops''} c))" for name
    by (auto simp: total_on_def lock_get_def sim_ok_def split: option.split dest!: map_of_SomeD)
  have upd: "returns sim_ok (lock_update c)" if "good {''kops''} c" for c
    using that by (auto simp: total_on_def lock_update_def lock_put_def intro!: good_put split: option.split)
  have del: "returns sim_ok (client_delete sim_secretsClient ns name orphan)" for ns name orphan
    by (simp add: total_on_def sim_secretsClient_def sim_ok_def bnd_def ret_def modify_def)
  have now: "returns sim_ok (time_Now sim_packages)" by (simp add: total_on_def sim_packages_def sim_ok_def)
  from lock_kops_found lock_provider show ?thesis
    using get upd del now
    by (auto simp: serves_def newClusterController_def newClusterToolSet_def sim_deployment_def lock_deployment_def lock_client_def
        NewSecretToolSet_def SecretToolSet_DeleteSecret_def split: sum.splits)
qed

lemma lock_serves_pass: "serves_pass lock_cc {''kops''} sim_ok"
proof -
  have lst: "total_on sim_ok (Clusters_List lock_client) (listed_ok {''kops''})"
    by (auto simp: total_on_def lock_client_def gets_def listed_ok_def sim_ok_def)
  have get: "total_on sim_ok (lock_get n) (\<lambda>r. \<exists>c. fst r = Some c \<and> usable {''kops''} c)" for n
    by (auto simp: total_on_def lock_get_def sim_ok_def usable_def split: option.split dest!: map_of_SomeD)
  have del: "returns sim_ok (lock_delete n)" for n
    by (auto simp: total_on_def lock_delete_def sim_ok_def AList.delete_eq)
  have cre: "returns sim_ok (lock_create c)" if "usable {''kops''} c" for c
    using that by (auto simp: total_on_def lock_create_def lock_put_def usable_def emptyCluster_def intro!: good_put)
  have sec: "returns sim_ok (client_create sim_secretsClient ns s)" for ns s
    by (simp add: total_on_def sim_secretsClient_def sim_ok_def bnd_def ret_def modify_def)
  have flat: "returns sim_ok (FlattenConfig sim_packages conf)" for conf
    by (simp add: total_on_def sim_packages_def sim_ok_def ret_def)
  have prov: "returns sim_ok (ValidateKubeCluster P c) \<and> total_on sim_ok (ExportKubeConfig P c) exported_ok"
    if "map_of (clusterProviders lock_cc) ''kops'' = Some P" for P c
  proof -
    from lock_kops_found that obtain k where k: "P = kops_provider k" "toolSet k = newToolSet lock_library 1" "library k = lock_library"
      by auto
    with kops_validate_total [of sim_ok k c] lock_tools lock_exports [OF k(2,3)] show ?thesis by (simp add: kops_provider_def)
  qed
  show ?thesis unfolding serves_pass_def
    using lock_serves lst get del cre sec flat prov
    by (auto simp: newClusterController_def newClusterToolSet_def sim_deployment_def lock_deployment_def lock_client_def
        NewSecretToolSet_def SecretToolSet_CreateSecret_def split: sum.splits)
qed

section \<open>A cluster to create, and one to scale\<close>

definition lock_pending :: "sim state" where
  "lock_pending = sim_run [sim_cluster ''east'' ''kops'' NavarkosClusterStatePending [],
     sim_cluster ''west'' ''kops'' NavarkosClusterStateOffline []] [] []"

definition lock_scaling :: "sim state" where
  "lock_scaling = (sim_run [sim_cluster ''east'' ''kops'' NavarkosClusterStatePendingScaleUp []] [] [])\<lparr>world :=
     (sim_world [sim_cluster ''east'' ''kops'' NavarkosClusterStatePendingScaleUp []] [] [])
       \<lparr>sim_kops := sim_kops sim_kops_world, sim_group := sim_group sim_kops_world\<rparr>\<rparr>"

lemma lock_start:
  "sim_ok (world lock_pending)" "lock_ok (world lock_pending)" "sim_ok (world lock_scaling)" "lock_ok (world lock_scaling)"
  by (simp_all add: sim_ok_def lock_ok_def lock_pending_def lock_scaling_def sim_run_def sim_state_def sim_world_def initState_def
      sim_cluster_def good_def annotation_or_empty_def annotation_def key_defs)

text \<open>The states after the round of the worker, and after the passes that follow.\<close>

definition lock_work :: "sim state \<Rightarrow> sim state" where
  "lock_work s = snd (processItem lock_cc (Some 0) s)"

definition lock_pass :: "sim state \<Rightarrow> sim state" where
  "lock_pass s = snd (reconcileWhenReady lock_cc s)"

lemma lock_rooms:
  "0 < length (heap lock_pending)" "Name (heap lock_pending ! 0) = ''east''" "0 < length (heap lock_scaling)" "Name (heap lock_scaling ! 0) = ''east''"
  "updateChannel (updateRetrier lock_pending) = []" "updateChannel (updateRetrier lock_scaling) = []"
  "lock_stored (world lock_pending) ''east'' = Some (sim_cluster ''east'' ''kops'' NavarkosClusterStatePending [])"
  "lock_stored (world lock_scaling) ''east'' = Some (sim_cluster ''east'' ''kops'' NavarkosClusterStatePendingScaleUp [])"
  by code_simp+

lemma lock_count: "card (dom (lock_stored (world lock_pending))) \<le> 2" "card (dom (lock_stored (world lock_scaling))) \<le> 2"
proof -
  have *: "card (dom (map_of m)) \<le> length m" for m :: "cluster gomap"
    by (metis card_length dom_map_of_conv_image_fst length_map set_map)
  show "card (dom (lock_stored (world lock_pending))) \<le> 2" "card (dom (lock_stored (world lock_scaling))) \<le> 2"
    unfolding lock_stored_def by (rule order_trans [OF *], code_simp)+
qed

lemma lock_provisions:
  "succeeded (\<lambda>_. True) (new_calls lock_pending (lock_work lock_pending))"
  "succeeded (\<lambda>b. Name b = ''east'') (new_calls (lock_work lock_pending) (lock_pass (lock_work lock_pending)))"
  "EvSecretCreate ''east'' None \<in>
     set (new_calls (lock_pass (lock_work lock_pending)) (lock_pass (lock_pass (lock_work lock_pending))))"
  by code_simp+

lemma lock_scales:
  "succeeded (\<lambda>_. True) (new_calls lock_scaling (lock_work lock_scaling))"
  "succeeded (\<lambda>b. Name b = ''east'') (new_calls (lock_work lock_scaling) (lock_pass (lock_work lock_scaling)))"
  by code_simp+

section \<open>Overlapping rounds\<close>

text \<open>
  A server in memory that counts versions up, played back over a history: \<open>serve\<close> is what a call
  leaves in the store, \<open>served\<close> whether its answer is right.
\<close>

fun serve :: "store \<Rightarrow> event \<Rightarrow> store" where
  "serve S (EvUpdate c None) = (case S (Name c) of None \<Rightarrow> S
     | Some b \<Rightarrow> S(Name c \<mapsto> c\<lparr>ResourceVersion := CHR ''1'' # ResourceVersion b\<rparr>))"
| "serve S _ = S"

fun served :: "store \<Rightarrow> event \<Rightarrow> bool" where
  "served S (EvGet n oc None) = (S n = oc \<and> (case oc of None \<Rightarrow> True | Some b \<Rightarrow> Name b = n))"
| "served S (EvUpdate c None) = (case S (Name c) of None \<Rightarrow> False | Some b \<Rightarrow> ResourceVersion c \<in> {ResourceVersion b, ''''})"
| "served S _ = True"

fun plays :: "store \<Rightarrow> event list \<Rightarrow> bool" where
  "plays S [] = True"
| "plays S (ev # evs) = (served S ev \<and> plays (serve S ev) evs)"

definition played :: "store \<Rightarrow> event list \<Rightarrow> nat \<Rightarrow> store" where
  "played S evs k = foldl serve S (take k evs)"

lemma played_Suc: "k < length evs \<Longrightarrow> played S evs (Suc k) = serve (played S evs k) (evs ! k)"
  by (simp add: played_def take_Suc_conv_app_nth)

lemma served_answers: "served S ev \<Longrightarrow> answers S ev (serve S ev)"
  by (cases "(S, ev, serve S ev)" rule: answers.cases) (auto split: option.splits)

lemma plays_answers: "plays S evs \<Longrightarrow> k < length evs \<Longrightarrow> answers (played S evs k) (evs ! k) (played S evs (Suc k))"
proof (induction evs arbitrary: S k)
  case (Cons ev evs)
  then show ?case by (cases k) (simp_all add: played_def served_answers)
qed simp

lemma serve_grows:
  "S n = Some b \<Longrightarrow> \<exists>b'. serve S ev n = Some b' \<and> (b' = b \<or> length (ResourceVersion b) < length (ResourceVersion b'))"
  "serve S ev n = Some b' \<Longrightarrow> \<exists>b. S n = Some b"
  by (cases "(S, ev)" rule: serve.cases; auto split: option.splits if_splits)+

lemma played_grows:
  assumes "j \<le> k" "k \<le> length evs" "played S evs j n = Some b" "played S evs k n = Some b'"
  shows "length (ResourceVersion b) \<le> length (ResourceVersion b')"
  using assms
proof (induction k arbitrary: b')
  case (Suc k)
  show ?case
  proof (cases "j = Suc k")
    case False
    from Suc.prems have p: "played S evs (Suc k) = serve (played S evs k) (evs ! k)" by (simp add: played_Suc)
    with Suc.prems obtain b1 where b1: "played S evs k n = Some b1" using serve_grows(2) by metis
    with p Suc.prems(4) serve_grows(1) [of "played S evs k" n b1 "evs ! k"] have "length (ResourceVersion b1) \<le> length (ResourceVersion b')" by fastforce
    moreover have "length (ResourceVersion b) \<le> length (ResourceVersion b1)" using Suc.IH [OF _ _ Suc.prems(3) b1] Suc.prems False by simp
    ultimately show ?thesis by simp
  qed (use Suc.prems in simp)
qed simp

lemma played_fresh: "(\<And>n b. S n = Some b \<Longrightarrow> ResourceVersion b \<noteq> []) \<Longrightarrow> fresh_versions (played S evs) (length evs)"
  unfolding fresh_versions_def
proof (intro conjI allI impI)
  fix k n b assume k: "k < length evs" and c: "played S evs (Suc k) n = Some b \<and> played S evs k n \<noteq> Some b"
  from k have p: "played S evs (Suc k) = serve (played S evs k) (evs ! k)" by (simp add: played_Suc)
  with c obtain b1 where b1: "played S evs k n = Some b1" using serve_grows(2) by metis
  with p c serve_grows(1) [of "played S evs k" n b1 "evs ! k"] have l: "length (ResourceVersion b1) < length (ResourceVersion b)" by fastforce
  then show "ResourceVersion b \<noteq> []" by auto
  fix j b' assume "j \<le> k" "played S evs j n = Some b'"
  with played_grows [of j k evs S n b' b1] k b1 l show "ResourceVersion b' \<noteq> ResourceVersion b" by auto
qed (simp add: played_def)

lemma played_history:
  assumes "plays S (map snd h)" "\<And>n b. S n = Some b \<Longrightarrow> ResourceVersion b \<noteq> []"
  shows "locking_history (played S (map snd h)) h"
  unfolding locking_history_def
  using played_fresh [of S "map snd h"] plays_answers [OF assms(1)] assms(2) by auto

text \<open>
  A cluster is shut down, asked to shut down again by another client and shut down once more;
  that client writes to another cluster between the calls of the first round.
\<close>

definition lock_shutdown :: "sim state" where
  "lock_shutdown = sim_run [sim_cluster ''east'' ''kops'' NavarkosClusterStatePendingShutdown [],
     sim_cluster ''west'' ''kops'' NavarkosClusterStateOffline []] [] []"

definition lock_ask :: "string \<Rightarrow> event" where
  "lock_ask n = EvUpdate ((sim_cluster n ''kops'' NavarkosClusterStatePendingShutdown [])\<lparr>ResourceVersion := ''''\<rparr>) None"

definition lock_asked :: "sim state" where
  "lock_asked = (lock_work lock_shutdown)\<lparr>world := snd (lock_update
     ((sim_cluster ''east'' ''kops'' NavarkosClusterStatePendingShutdown [])\<lparr>ResourceVersion := ''''\<rparr>) (world (lock_work lock_shutdown)))\<rparr>"

definition lock_history :: "(nat \<times> event) list" where
  "lock_history = (let first = new_calls lock_shutdown (lock_work lock_shutdown); second = new_calls lock_asked (lock_work lock_asked)
     in map (Pair 0) (take 2 first) @ [(2, lock_ask ''west'')] @ map (Pair 0) (drop 2 first) @ [(2, lock_ask ''east'')] @ map (Pair 1) second)"

lemma lock_history_calls: "worker_calls lock_deployment ''east'' (calls_by 0 lock_history)"
  "worker_calls lock_deployment ''east'' (calls_by 1 lock_history)"
proof -
  have "fst (processItem lock_cc (Some 0) lock_shutdown) = Ret ()" "0 < length (heap lock_shutdown)" "Name (heap lock_shutdown ! 0) = ''east''"
    "calls_by 0 lock_history = new_calls lock_shutdown (lock_work lock_shutdown)"
    by code_simp+
  then show "worker_calls lock_deployment ''east'' (calls_by 0 lock_history)"
    unfolding worker_calls_def lock_work_def using run_split by metis
  have "fst (processItem lock_cc (Some 0) lock_asked) = Ret ()" "0 < length (heap lock_asked)" "Name (heap lock_asked ! 0) = ''east''"
    "calls_by 1 lock_history = new_calls lock_asked (lock_work lock_asked)"
    by code_simp+
  then show "worker_calls lock_deployment ''east'' (calls_by 1 lock_history)"
    unfolding worker_calls_def lock_work_def using run_split by metis
qed

definition lock_timeline :: "nat \<Rightarrow> store" where
  "lock_timeline = played (lock_stored (world lock_shutdown)) (map snd lock_history)"

lemma lock_history_locking: "locking_history lock_timeline lock_history"
  unfolding lock_timeline_def
proof (rule played_history)
  show "plays (lock_stored (world lock_shutdown)) (map snd lock_history)" by code_simp
  show "lock_stored (world lock_shutdown) n = Some b \<Longrightarrow> ResourceVersion b \<noteq> []" for n b
    by (auto simp: lock_stored_def lock_shutdown_def sim_run_def sim_state_def initState_def sim_world_def sim_cluster_def split: if_splits)
qed

end
