(* ===== verification/Entry.thy ===== *)
theory Entry
  imports Wiring
begin

text \<open>
  The process (\<open>cmd/controller/main.go\<close> and \<open>StartClusterController\<close>): from the command line
  and the kubeconfig to the running controller. Reading the command line, building the client
  configuration and building the client are parameters. A process exits with a status, panics,
  or serves with a controller for as long as it is not killed: \<open>StartController\<close> gives the
  controller a stop channel that is never closed and blocks in an empty \<open>select\<close>.
\<close>

text \<open>The fields of the client configuration the program writes; the queries per second, a
  \<open>float32\<close>, are a whole number.\<close>

record 'c restConfig =
  rc_QPS :: int
  rc_Burst :: int
  rc_UserAgent :: string
  rc_rest :: 'c

datatype 'a process = Exit nat | Panicked | Serving 'a

text \<open>What the process uses of the packages around it.\<close>

record ('w, 'c) processEnv =
  env_initFlags :: "stringFlag list \<Rightarrow> ClusterControllerOptions \<Rightarrow> ClusterControllerOptions"
  env_versionFlag :: bool
  env_verflagRequested :: bool
  env_BuildConfigFromFlags :: "string \<Rightarrow> string \<Rightarrow> 'c restConfig option \<times> error option"
  env_DefaultKubernetesUserAgent :: string
  env_NewForConfig :: "'c restConfig \<Rightarrow> error + 'w federationClient"
  env_deployment :: "'w federationClient \<Rightarrow> ClusterControllerOptions \<Rightarrow> 'w deployment"

definition AddUserAgent :: "string \<Rightarrow> 'c restConfig \<Rightarrow> string \<Rightarrow> 'c restConfig" where
  "AddUserAgent defaultAgent config userAgent = config\<lparr>rc_UserAgent := defaultAgent @ ''/'' @ userAgent\<rparr>"

definition StartClusterController ::
  "('w, 'c) processEnv \<Rightarrow> 'c restConfig \<Rightarrow> ClusterControllerOptions \<Rightarrow> 'w ClusterController process" where
  "StartClusterController env config options =
     (let config = AddUserAgent (env_DefaultKubernetesUserAgent env) config ''cluster-controller'' in
      case env_NewForConfig env config of
        Inl err \<Rightarrow> Panicked
      | Inr client \<Rightarrow> Serving (newClusterController (env_deployment env client options)))"

definition StartController ::
  "('w, 'c) processEnv \<Rightarrow> 'c restConfig \<Rightarrow> ClusterControllerOptions \<Rightarrow> 'w ClusterController process" where
  "StartController env restClientCfg options = StartClusterController env restClientCfg options"

definition kubeconfigPath :: string where
  "kubeconfigPath = ''/etc/federation/controller-manager/kubeconfig''"

text \<open>\<open>Run\<close> returns only when the configuration could not be built, with the error it got.\<close>

definition Run :: "('w, 'c) processEnv \<Rightarrow> ClusterControllerOptions \<Rightarrow>
    'w ClusterController process + error option" where
  "Run env options =
     (let (restClientCfg, err) = env_BuildConfigFromFlags env (opt_FkubeApiServer options) kubeconfigPath in
      case (err, restClientCfg) of
        (None, Some cfg) \<Rightarrow> Inl (StartController env (cfg\<lparr>rc_QPS := 20, rc_Burst := 30\<rparr>) options)
      | _ \<Rightarrow> Inr err)"

definition main :: "('w, 'c) processEnv \<Rightarrow> 'w ClusterController process" where
  "main env =
     (let options = env_initFlags env (AddFlags NewCCO) NewCCO in
      if env_versionFlag env then Exit 0
      else if env_verflagRequested env then Exit 0
      else case Run env options of
          Inl p \<Rightarrow> p
        | Inr (Some err) \<Rightarrow> Exit 1
        | Inr None \<Rightarrow> Exit 0)"

lemmas main_defs = main_def Run_def StartController_def StartClusterController_def AddUserAgent_def Let_def

text \<open>The configuration the client is built from.\<close>

definition client_config :: "('w, 'c) processEnv \<Rightarrow> 'c restConfig \<Rightarrow> 'c restConfig" where
  "client_config env cfg = cfg\<lparr>rc_QPS := 20, rc_Burst := 30,
     rc_UserAgent := env_DefaultKubernetesUserAgent env @ ''/cluster-controller''\<rparr>"

lemma main_runs:
  assumes "\<not> env_versionFlag env" "\<not> env_verflagRequested env"
  shows "main env = (case env_BuildConfigFromFlags env (opt_FkubeApiServer (env_initFlags env (AddFlags NewCCO) NewCCO)) kubeconfigPath of
     (Some cfg, None) \<Rightarrow> (case env_NewForConfig env (client_config env cfg) of
        Inl e \<Rightarrow> Panicked
      | Inr client \<Rightarrow> Serving (newClusterController (env_deployment env client (env_initFlags env (AddFlags NewCCO) NewCCO))))
   | (_, Some e) \<Rightarrow> Exit 1
   | (None, None) \<Rightarrow> Exit 0)"
  using assms by (auto simp: main_defs client_config_def split: prod.split option.split sum.split)

end
