(* ===== verification/TestSupport.thy ===== *)
theory TestSupport
  imports Strconv
begin

text \<open>
  The helpers of the unit tests (\<open>pkg/common/test/util.go\<close>): a fake of a tool set reports each
  call with its name, the call is compared with the next one expected, and at a chosen call it
  returns an error. The errors reported to the testing package are the list \<open>t\<close>; the counters
  behind pointers are passed and returned, and start at zero.

  The checks are sound and complete for a list of expected calls that is not empty; with an
  empty list they pass whatever is called.
\<close>

definition CheckExecutionSequence :: "string list \<Rightarrow> string \<Rightarrow> nat \<Rightarrow> string list \<Rightarrow> nat \<times> string list" where
  "CheckExecutionSequence executionsequenceList executingFunction index t =
     (let sequenceListCount = length executionsequenceList in
      if 0 < sequenceListCount then
        (index + 1,
         if sequenceListCount \<le> index then
           t @ [''Sequence #'' @ Itoa (int index) @ '' is out of bounds for function '' @ executingFunction @ ''!'']
         else if executionsequenceList ! index \<noteq> executingFunction then
           t @ [''Executing the wrong function ('' @ executingFunction @ '') when it should have been '' @
             executionsequenceList ! index @ ''!'']
         else t)
      else (index, t))"

definition CheckIfFunctionHasError :: "string \<Rightarrow> string \<Rightarrow> nat \<Rightarrow> nat \<Rightarrow> error option \<times> nat" where
  "CheckIfFunctionHasError functionWithError executingFunction functionWithErrorNumber functionWithErrorCount =
     (if functionWithError = executingFunction then
        let functionWithErrorCount = functionWithErrorCount + 1 in
        (if functionWithErrorNumber = functionWithErrorCount then Some (Errorf ''Error is triggered!'') else None,
         functionWithErrorCount)
      else (None, functionWithErrorCount))"

definition VerifyExecutionSequenceCompleted :: "string list \<Rightarrow> nat \<Rightarrow> string list \<Rightarrow> string list" where
  "VerifyExecutionSequenceCompleted executionSequenceList executionIndex t =
     (let totalFunctionsInExecutionList = length executionSequenceList in
      if executionIndex \<noteq> totalFunctionsInExecutionList then
        t @ [''Function execution list has a total of '' @ Itoa (int executionIndex) @ '' when it should have been '' @
          Itoa (int totalFunctionsInExecutionList) @ ''!'']
      else t)"

section \<open>A whole test\<close>

text \<open>The calls of a test, each checked, and the final check.\<close>

fun check_calls :: "string list \<Rightarrow> string list \<Rightarrow> nat \<Rightarrow> string list \<Rightarrow> nat \<times> string list" where
  "check_calls expected [] index t = (index, t)"
| "check_calls expected (f # fs) index t =
     (case CheckExecutionSequence expected f index t of (index, t) \<Rightarrow> check_calls expected fs index t)"

definition test_run :: "string list \<Rightarrow> string list \<Rightarrow> string list" where
  "test_run expected called =
     (case check_calls expected called 0 [] of (index, t) \<Rightarrow> VerifyExecutionSequenceCompleted expected index t)"

text \<open>The answers of a fake to a sequence of calls.\<close>

fun fake_answers :: "string \<Rightarrow> nat \<Rightarrow> string list \<Rightarrow> nat \<Rightarrow> error option list" where
  "fake_answers bad n [] count = []"
| "fake_answers bad n (f # fs) count =
     (case CheckIfFunctionHasError bad f n count of (err, count) \<Rightarrow> err # fake_answers bad n fs count)"

lemma check_calls_index:
  "expected \<noteq> [] \<Longrightarrow> fst (check_calls expected called index t) = index + length called"
  by (induction called arbitrary: index t) (simp_all add: CheckExecutionSequence_def Let_def)

lemma check_calls_grow: "t \<noteq> [] \<Longrightarrow> snd (check_calls expected called index t) \<noteq> []"
  by (induction called arbitrary: index t) (auto simp: CheckExecutionSequence_def Let_def)

lemma check_calls_silent:
  assumes "expected \<noteq> []"
  shows "snd (check_calls expected called index []) = [] \<longleftrightarrow>
     index + length called \<le> length expected \<and> called = take (length called) (drop index expected) \<or> called = []"
proof (induction called arbitrary: index)
  case (Cons f fs)
  show ?case
  proof (cases "index < length expected \<and> expected ! index = f")
    case True
    then have d: "drop index expected = f # drop (Suc index) expected" by (auto simp: Cons_nth_drop_Suc)
    have "check_calls expected (f # fs) index [] = check_calls expected fs (Suc index) []"
      using assms True by (simp add: CheckExecutionSequence_def Let_def)
    with Cons.IH [of "Suc index"] True d show ?thesis by auto
  next
    case False
    then have "snd (CheckExecutionSequence expected f index []) \<noteq> []"
      using assms by (auto simp: CheckExecutionSequence_def Let_def)
    then have "snd (check_calls expected (f # fs) index []) \<noteq> []"
      by (auto simp: check_calls_grow split: prod.split)
    moreover have "f = hd (drop index expected)" if "index + length (f # fs) \<le> length expected" "f # fs = take (length (f # fs)) (drop index expected)"
      using that(2) by (metis hd_take length_greater_0_conv list.distinct(1) list.sel(1))
    ultimately show ?thesis using False by (auto simp: hd_drop_conv_nth)
  qed
qed simp

theorem test_run_exact:
  "test_run expected called = [] \<longleftrightarrow> called = expected \<or> expected = []"
proof (cases "expected = []")
  case True
  have "check_calls [] called 0 [] = (0, [])"
    by (induction called) (simp_all add: CheckExecutionSequence_def)
  with True show ?thesis by (simp add: test_run_def VerifyExecutionSequenceCompleted_def)
next
  case False
  obtain i t where c: "check_calls expected called 0 [] = (i, t)" by fastforce
  then have i: "i = length called" using check_calls_index [OF False, of called 0 "[]"] by simp
  have "test_run expected called = [] \<longleftrightarrow> t = [] \<and> length called = length expected"
    by (simp add: test_run_def c VerifyExecutionSequenceCompleted_def Let_def i)
  with check_calls_silent [OF False, of called 0] c False show ?thesis by (auto simp: length_0_conv)
qed

theorem fake_answers_nth:
  assumes "k < length fs" "0 < n"
  shows "fake_answers bad n fs 0 ! k \<noteq> None \<longleftrightarrow> fs ! k = bad \<and> count_list (take (Suc k) fs) bad = n"
proof -
  have "k < length fs \<Longrightarrow> fake_answers bad n fs c ! k \<noteq> None \<longleftrightarrow> fs ! k = bad \<and> c + count_list (take (Suc k) fs) bad = n" for c
  proof (induction fs arbitrary: k c)
    case (Cons f fs)
    then show ?case by (cases k) (auto simp: CheckIfFunctionHasError_def Let_def)
  qed simp
  from this [OF assms(1), of 0] show ?thesis by simp
qed

end
