(* ===== verification/Spec2Isabelle.thy ===== *)
theory Spec2Isabelle
  imports Rehearsal Entry TestSupport
begin

text \<open>
  A verification of the cluster manager: the controller that provisions, joins, scales and
  shuts down the Kubernetes clusters of a federation through a provider, kops on AWS or Oracle's
  container engine (OKE). Paths are under \<open>src/\<close>; \<open>CC\<close> stands for
  \<open>pkg/controller/cluster/clustercontroller.go\<close>.

  \<^bold>\<open>The program.\<close> A cluster is an object of the federation API. Its annotation \<open>state\<close> says where
  it is in its life: somebody sets it to one of four pending states, the controller acts on that
  and moves it on. An informer calls \<open>onClusterAdd\<close> and \<open>onClusterUpdate\<close>, which put a copy of the
  object into a work queue; a worker takes it out, fetches the object again and runs the handler
  of its state, which calls the provider and writes the object back. A second loop validates
  clusters being provisioned or scaled and lets finished ones join. An update the API refuses is
  handed to a retrier, which delivers it to a handler when its delay is over. The program shares
  these parts in memory: the objects by pointer, the queue, and the channels of the retrier.

  \<^bold>\<open>Effects.\<close> A function of the program is \<open>('s, 'a) go\<close> (\<open>Prelude\<close>): from a state to an outcome
  and a state, where the outcome is a value, a panic or a goroutine blocked for good. Errors are
  values of the results, as in Go. The controller's \<open>state\<close> (\<open>Updater\<close>) has the heap of cluster
  objects, addressed by index, the work queue, the retrier, the outside \<open>world\<close>, and a history of
  the calls that left the process, in terms of which the specifications are written.

  \<^bold>\<open>The theories.\<close>
  \<^item> \<open>Prelude\<close>: the monad, Go maps and slices, 64-bit wrap-around, and what holds of every run
    (\<open>keeps\<close>, with the locale \<open>run_frame\<close> for relations between the states of a run). \<open>Strconv\<close>: \<open>ParseInt\<close>, \<open>Itoa\<close>, \<open>Split\<close>, with their round trip.
  \<^item> \<open>Annotations\<close> (\<open>pkg/common/constants.go\<close>, \<open>util/cluster_annotation.go\<close>): keys, states, patches.
    \<open>Options\<close> (\<open>options/options.go\<close>). \<open>Secrets\<close> (\<open>util/secret.go\<close>, \<open>util/secret_toolset.go\<close>).
  \<^item> \<open>Provider\<close> (\<open>provider/kubeprovider.go\<close>): the interface as a record of methods, and the locale
    \<open>provider_contract\<close>, what a provider promises of the patches it returns. \<open>Oke\<close> and \<open>Kops\<close>
    interpret it on the two providers, \<open>Provider\<close> on the nil one.
  \<^item> \<open>Retrier\<close> (\<open>CC\<close>, \<open>clusterUpdateRetrier\<close> and \<open>backoffItem\<close>): the methods, the goroutines as step
    relations, the backoff. \<open>WorkQueue\<close>: the vendored work queue.
  \<^item> \<open>Updater\<close> (\<open>CC\<close>, \<open>clusterUpdater\<close>; \<open>cluster_toolset.go\<close>) and \<open>UpdaterFacts\<close>: an update is a run of
    \<open>update_protocol\<close>.
  \<^item> \<open>Controller\<close> (\<open>CC\<close>, the rest): submission, worker, handlers, reconciliation. \<open>ControllerFacts\<close>
    and \<open>JoinFacts\<close>: the specifications \<open>create_spec\<close>, \<open>shutdown_spec\<close>, \<open>scale_spec\<close>, \<open>validate_spec\<close>,
    \<open>join_spec\<close> and \<open>work_spec\<close> and that the handlers implement them, in the locale
    \<open>contract_controller\<close>, which \<open>Wiring\<close> interprets on the controller the program builds.
    \<open>Lifecycle\<close>: what follows for the order of calls and the states. \<open>WorkerFacts\<close>: what every
    run leaves alone (the locale \<open>state_frame\<close>, which extends \<open>run_frame\<close>). \<open>Progress\<close> and
    \<open>PassProgress\<close>: that rounds of the worker and passes of the reconciliation return.
  \<^item> \<open>System\<close> (\<open>CC\<close>, \<open>Run\<close>): the goroutines together, as a step relation over all of this.
    \<open>LoopVariable\<close>: what the loop variable of a pass holds when the pass is over.
    \<open>Entry\<close> (\<open>cmd/controller/main.go\<close>, \<open>StartClusterController\<close>): the process.
  \<^item> \<open>Store\<close>: an API server with optimistic locking, and what the specifications of the rounds make
    of the objects it stores; every run of a handler follows it (\<open>run_frame\<close>, interpreted for
    \<open>store_frame\<close>). \<open>ProviderFrames\<close>: the providers touch the world only through their libraries.
    \<open>Outcome\<close>: both together, rounds that return and what is stored then. \<open>Claim\<close>: rounds that
    overlap, as one history of calls of many, and how a round claims a request by its mark.
  \<^item> \<open>Json\<close>, \<open>JsonFacts\<close>: printing and parsing JSON. \<open>GoTime\<close>: times in RFC 3339. \<open>Codec\<close>: structs
    as tables of members; the locale \<open>json_struct\<close> says what makes such a table read back what it
    writes. \<open>CodecTypes\<close>: what the decoder lets in, with the locale \<open>typed_struct\<close> that extends it.
    \<open>OkeModels\<close>, \<open>OkeDetails\<close>, \<open>OkeCatalog\<close> (\<open>provider/oke/models\<close>): every struct with its tags and
    its two methods, each interpreting a locale. \<open>Validators\<close>, \<open>OkeValidate\<close>: the \<open>Validate\<close>
    methods, with the locale \<open>composite_validator\<close> for nested ones.
  \<^item> \<open>OkeKubeConfig\<close>, \<open>Oke\<close>, \<open>OkeFacts\<close> (\<open>provider/oke/okebmc.go\<close>); \<open>KopsApi\<close>, \<open>Kops\<close>, \<open>KopsFacts\<close>
    (\<open>provider/kopsAws\<close>).
  \<^item> \<open>Simulation\<close>: a deployment in memory, on which the theorems are applied at concrete inputs.
    \<open>Rehearsal\<close>: the same with an API server that keeps versions.
    \<open>TestSupport\<close> (\<open>pkg/common/test/util.go\<close>): the checks the unit tests make of sequences of calls.

  \<^bold>\<open>What is shown.\<close> A round of the worker makes exactly the calls of its specification, moves a
  cluster only along the table of states, calls a provider only after the announcing mark was
  accepted, and returns when API and provider answer (C1 to C4). In the controller as a whole,
  with its goroutines interleaved, every round keeps its specification, only announced rounds of
  the worker change resources and no retry is lost (C5, C6). However the calls of rounds and of
  other clients interleave, a round that deletes or scales a cluster on a mark that was accepted
  at once has claimed the request, and no other round claims the same one (C7). With an API
  that keeps what it is given, a pending cluster becomes ready and a scaled one ready again, and
  what rounds and passes leave in the API is what the providers answered (C8 to C11). Then each
  handler (C12 to C15), the update and its bounds (C16 to C18), the retrier (C19 to C21), queue and
  submission (C22 to C24), patches and sizes (C25, C26), the messages of OKE and their checks (C27
  to C29), the two providers (C30 to C36), hazards of the code (C32, C37, C38), the kubeconfig of
  OKE (C39) and the process (C40).

  \<^bold>\<open>Bounds and fuel.\<close> The loops of an update and of a join run \<open>MaxRetryCount\<close> times, as in the
  code. The JSON parser has fuel \<open>json_fuel\<close>, twice the length of the text and two more;
  more fuel changes no result, and C27 shows that everything the encoder prints is parsed.
  \<open>worker\<close> is given a number of rounds; C24 shows that one more than the queue is long is enough after a shutdown. \<open>deliver\<close> has a termination proof.

  \<^bold>\<open>Parameters.\<close> The generated federation client, the secrets client, the HTTP client, the kops
  library, the environment variables, the clock, the deep copy, flattening and writing a
  kubeconfig, and the client configuration are arguments (\<open>deployment\<close>, \<open>kopsLibrary\<close>,
  \<open>processEnv\<close>). Their answers are arbitrary unless a theorem says otherwise; \<open>serves\<close> in C4,
  C10 and C24 and \<open>serves_pass\<close> in C8, C9 and C11 ask that they answer, and \<open>reliable\<close> in C8 to C11 that
  the API is one with optimistic locking that nobody else writes to. C7 asks only for optimistic
  locking (\<open>locking_history\<close>): others may write at any time, and new versions are fresh. A kops
  registry that lacks the configuration of a joining cluster does not meet \<open>serves_pass\<close>: exporting
  its kubeconfig panics, which C36 shows. The update channel needs
  room for the retries a round can leave: one for a round of the worker, one for each stored
  cluster for a pass.

  \<^bold>\<open>Not modelled.\<close> Log statements (where one dereferences a pointer, so does the model). Parsing
  the command line and the cache of the informer are libraries. In \<open>System\<close> a round is one step:
  two rounds interleave as wholes; what others do to the API meanwhile is in the arbitrary
  answers (C5, C6 hold for any), and C7 does not rest on \<open>System\<close>; but a pass of the reconciliation that overwrites its loop variable while a retry
  reads it is only seen between rounds. A round that would block on a full channel takes place
  when there is room. The decoder hands a time to its parser without the escapes of its token,
  and a zone is kept in minutes, as it is written. Of the helpers of the tests, the names of
  functions the Go runtime gives and the constructors that return nil.
\<close>

section \<open>The worker\<close>

text \<open>C1. One round of the worker of the controller the program builds, from the item it took
  out of the queue: when it returns, the calls it has made are those of the specification
  \<open>work_spec\<close>. It fetches the object by name; it does nothing more unless the fetch succeeded
  and the state of the fetched object is actionable; then it runs the handler of that state,
  whose calls are \<open>create_spec\<close>, \<open>shutdown_spec\<close> or \<open>scale_spec\<close> of the fetched object.\<close>

theorem worker_round_refines:
  assumes "processItem (newClusterController d) (Some i) s = (Ret u, s')" "i < length (heap s)"
  shows "\<exists>evs. trace s' = trace s @ evs \<and> work_spec (Name (heap s ! i)) evs"
  using assms by (rule built.work_spec_run)

theorem worker_round_refines_witness:
  "fst (processItem sim_cc (Some 0) sim_shutdown) = Ret () \<and>
   (\<exists>evs. trace (snd (processItem sim_cc (Some 0) sim_shutdown)) = trace sim_shutdown @ evs \<and> work_spec ''east'' evs)"
  using worker_round_refines [OF run_split [OF sim_shutdown_ends] sim_heap_size(2)] sim_shutdown_ends sim_name
  by simp

text \<open>C2. The states of a cluster: every object a round submits to the API is in a state that
  the table \<open>worker_transition\<close> allows from the state the round fetched, or carries the state
  of an object that was fetched again after a conflict.\<close>

theorem worker_round_states:
  assumes "processItem (newClusterController d) (Some i) s = (Ret u, s')" "i < length (heap s)"
    and "trace s' = trace s @ evs" "EvUpdate c' e \<in> set evs"
  shows "\<exists>c evs'. evs = EvGet (Name (heap s ! i)) (Some c) None # evs' \<and> state_justified c evs' c'"
proof -
  from built.work_spec_run [OF assms(1,2)] assms(3) have "work_spec (Name (heap s ! i)) evs" by auto
  from work_states [OF this assms(4)] show ?thesis .
qed

theorem worker_round_states_witness:
  "\<exists>c' e c evs'. EvUpdate c' e \<in> set (calls_of (processItem sim_cc (Some 0)) sim_shutdown) \<and>
     calls_of (processItem sim_cc (Some 0)) sim_shutdown = EvGet ''east'' (Some c) None # evs' \<and> state_justified c evs' c'"
proof -
  let ?evs = "calls_of (processItem sim_cc (Some 0)) sim_shutdown"
  have tr: "trace (snd (processItem sim_cc (Some 0) sim_shutdown)) = trace sim_shutdown @ ?evs" by code_simp
  have "list_ex is_update ?evs" by code_simp
  then obtain c' e where "EvUpdate c' e \<in> set ?evs" by (auto simp: list_ex_iff elim: is_update.elims)
  with worker_round_states [OF run_split [OF sim_shutdown_ends] sim_heap_size(2) tr this] sim_name show ?thesis by auto
qed

text \<open>C3. The calls to a provider: a round makes a call to the provider either to create the
  cluster it fetched, as its first call after the fetch and on the very object fetched, which
  is pending; or right after the API accepted an object marked as shutting down, to delete it;
  or right after it accepted one marked as scaling, to scale it.\<close>

theorem worker_provider_calls:
  assumes "processItem (newClusterController d) (Some i) s = (Ret u, s')" "i < length (heap s)"
    and "trace s' = trace s @ as @ EvProvider k c1 e # bs"
  shows "call_announced (Name (heap s ! i)) as k c1"
proof -
  from built.work_spec_run [OF assms(1,2)] assms(3) have
    "work_spec (Name (heap s ! i)) (as @ EvProvider k c1 e # bs)" by auto
  from work_provider_call [OF this refl] show ?thesis .
qed

theorem worker_provider_calls_witness:
  "\<exists>as k c1 e bs. calls_of (processItem sim_cc (Some 0)) sim_shutdown = as @ EvProvider k c1 e # bs \<and>
    call_announced ''east'' as k c1"
proof -
  let ?evs = "calls_of (processItem sim_cc (Some 0)) sim_shutdown"
  have tr: "trace (snd (processItem sim_cc (Some 0) sim_shutdown)) = trace sim_shutdown @ ?evs" by code_simp
  have "list_ex is_provider_call ?evs" by code_simp
  then obtain k c1 e where "EvProvider k c1 e \<in> set ?evs" by (auto simp: list_ex_iff elim: is_provider_call.elims)
  then obtain as bs where evs: "?evs = as @ EvProvider k c1 e # bs" by (auto simp: in_set_conv_decomp)
  from worker_provider_calls [OF run_split [OF sim_shutdown_ends] sim_heap_size(2) tr [unfolded evs]] evs sim_name
  show ?thesis by metis
qed

text \<open>C4. A round always ends: under \<open>serves\<close>, with room for one item in the update channel, the
  round returns without a crash and without blocking, and leaves room for the next unless it
  handed a retry to the retrier.\<close>

theorem worker_round_returns:
  assumes "serves cc K W" "W (world s)" "i < length (heap s)" "length (updateChannel (updateRetrier s)) < updateCapacity"
  shows "\<exists>s'. processItem cc (Some i) s = (Ret (), s') \<and> W (world s') \<and>
     length (updateChannel (updateRetrier s')) \<le> Suc (length (updateChannel (updateRetrier s)))"
  using processItem_returns [OF assms] by blast

theorem worker_round_returns_witness:
  "\<exists>s'. processItem sim_cc (Some 0) sim_pending = (Ret (), s') \<and> sim_ok (world s') \<and>
     length (updateChannel (updateRetrier s')) \<le> 1"
  using worker_round_returns [OF sim_serves sim_pending_ok(1) sim_heap_size(1)] sim_pending_ok(2)
  by (simp add: updateCapacity_def)

section \<open>The whole controller\<close>

text \<open>C5. The controller as a whole, with its goroutines interleaved in any order and the outside
  doing anything in between: in every reachable state the calls of every round so far are those
  of its specification. A round of the worker follows \<open>work_spec\<close>, a retry fetches the object
  and follows \<open>update_protocol\<close>, a pass of the reconciliation validates and joins by the states
  listed. Only rounds of the worker create, delete or scale anything, and each announced it.\<close>

theorem system_rounds:
  assumes "(system_step (newClusterController d))\<^sup>*\<^sup>* (system_init w) y"
  shows "list_all round_ok (rounds y) \<and>
    (\<forall>k as call c e bs. (k, as @ EvProvider call c e # bs) \<in> set (rounds y) \<and> changes_resources call \<longrightarrow>
      (\<exists>name. k = WorkRound name \<and> call_announced name as call c))"
proof -
  have ok: "list_all round_ok (rounds y)" using built.system_inv_reachable [OF assms] by blast
  then have "round_ok r" if "r \<in> set (rounds y)" for r using that by (simp add: list_all_iff)
  with ok changes_announced show ?thesis by blast
qed

theorem system_rounds_witness:
  "\<exists>as c e bs. rounds sim_worked = [(WorkRound ''east'', as @ EvProvider CallCreate c e # bs)] \<and>
     call_announced ''east'' as CallCreate c"
proof -
  let ?evs = "snd (hd (rounds sim_worked))"
  have "map fst (rounds sim_worked) = [WorkRound ''east'']" by code_simp
  then have r: "rounds sim_worked = [(WorkRound ''east'', ?evs)]" by (cases "rounds sim_worked") auto
  have "case ?evs of _ # EvProvider CallCreate _ _ # _ \<Rightarrow> True | _ \<Rightarrow> False" by code_simp
  then obtain x c e bs where "?evs = [x] @ EvProvider CallCreate c e # bs"
    by (auto split: list.splits event.splits providerCall.splits)
  with r have m: "rounds sim_worked = [(WorkRound ''east'', [x] @ EvProvider CallCreate c e # bs)]" by simp
  have "\<exists>name. WorkRound ''east'' = WorkRound name \<and> call_announced name [x] CallCreate c"
    using system_rounds [OF sim_system_reached] m by (metis list.set_intros(1) changes_resources.simps(1))
  with m show ?thesis by blast
qed

text \<open>C6. The invariant of the whole controller, in every reachable state before a panic: the work
  queue is well formed and its pointers are good; nothing handed to the retrier is lost or
  reordered on its way to the handler; every updater that waits there has changes to make, names
  an object that is there and fetches it again before it submits; the target channel is within
  its capacity; and the history of calls is that of the rounds.\<close>

theorem system_invariant:
  assumes "(system_step (newClusterController d))\<^sup>*\<^sup>* (system_init w) y" "\<not> crashed y"
  shows "wq_ok (workQueue (sys y)) \<and> (\<forall>p \<in> set (queue (workQueue (sys y))). valid_ptr p (sys y)) \<and>
    handedIn y = takenOut y @ waiting (runAt y) (updateRetrier (sys y)) \<and>
    list_all (\<lambda>item. retry_ok (length (heap (sys y))) (item_value item)) (waiting (runAt y) (updateRetrier (sys y))) \<and>
    length (targetChannel (updateRetrier (sys y))) \<le> targetCapacity \<and>
    trace (sys y) = concat (map snd (rounds y))"
  using built.system_inv_reachable [OF assms(1)] assms(2) by (auto simp: system_inv_def wq_ok_def)

theorem system_invariant_witness:
  "length (handedIn sim_worked) = 1 \<and>
   list_all (\<lambda>item. retry_ok (length (heap (sys sim_worked))) (item_value item)) (waiting (runAt sim_worked) (updateRetrier (sys sim_worked)))"
proof -
  have "length (handedIn sim_worked) = 1" "\<not> crashed sim_worked" by code_simp+
  with system_invariant [OF sim_system_reached] show ?thesis by blast
qed

text \<open>C7. A request is claimed, and by one round only, however the rounds overlap. Take the calls of any
  number of rounds of the worker on a cluster, interleaved with each other and with the calls of
  everybody else, on an API with optimistic locking. A round that deletes or scales the cluster,
  and whose mark the API accepted at the first attempt, has replaced the object that was stored,
  in the pending state that asks for it, by the one in the announced state before it called the
  provider with it; and no two rounds have replaced the same version. (A creation is not marked
  before the call, and a mark that ran into a conflict is written again on whatever state is
  fetched then: neither is a claim.)\<close>

theorem request_claimed:
  assumes "locking_history \<sigma> h" "\<forall>p \<in> R. worker_calls (d p) n (calls_by p h) \<and> marked_at_once (calls_by p h)"
  shows "(\<forall>p \<in> R. \<forall>call c e. EvProvider call c e \<in> set (calls_by p h) \<and> call \<noteq> CallCreate \<longrightarrow>
      (\<exists>u b. claims \<sigma> h p n call u b)) \<and>
    (\<forall>p q call call' u u' b b'. p \<noteq> q \<and> claims \<sigma> h p n call u b \<and> claims \<sigma> h q n call' u' b' \<longrightarrow>
      ResourceVersion b \<noteq> ResourceVersion b')"
proof -
  have f: "fresh_versions \<sigma> (length h)" using assms(1) by (simp add: locking_history_def)
  have "\<exists>u b. claims \<sigma> h p n call u b" if "p \<in> R" "EvProvider call c e \<in> set (calls_by p h)" "call \<noteq> CallCreate" for p call c e
    using round_claims [OF assms(1) _ that(2,3)] worker_calls_spec assms(2) that(1) by blast
  then show ?thesis by (intro conjI allI impI ballI) (blast, metis claims_differ [OF f])
qed

theorem request_claimed_witness:
  "\<exists>u b u' b'. claims lock_timeline lock_history 0 ''east'' CallDelete u b \<and>
     claims lock_timeline lock_history 1 ''east'' CallDelete u' b' \<and> ResourceVersion b \<noteq> ResourceVersion b'"
proof -
  have m: "marked_at_once (calls_by 0 lock_history)" "marked_at_once (calls_by 1 lock_history)" by code_simp+
  have "list_ex deletes (calls_by 0 lock_history)" "list_ex deletes (calls_by 1 lock_history)" by code_simp+
  then obtain c e c' e' where d: "EvProvider CallDelete c e \<in> set (calls_by 0 lock_history)"
    "EvProvider CallDelete c' e' \<in> set (calls_by 1 lock_history)" by (auto dest!: deletesD)
  have "\<forall>p \<in> {0, 1}. worker_calls lock_deployment ''east'' (calls_by p lock_history) \<and> marked_at_once (calls_by p lock_history)"
    using lock_history_calls m by auto
  note claim = request_claimed [OF lock_history_locking this]
  from conjunct1 [OF claim] d obtain u b u' b' where c: "claims lock_timeline lock_history 0 ''east'' CallDelete u b"
    "claims lock_timeline lock_history 1 ''east'' CallDelete u' b'" by blast
  moreover have "ResourceVersion b \<noteq> ResourceVersion b'"
    using conjunct2 [OF claim, rule_format, of 0 1 CallDelete u b CallDelete u' b'] c by simp
  ultimately show ?thesis by blast
qed

section \<open>What becomes of the stored clusters\<close>





text \<open>C10. What a round of the worker leaves in the API: the round returns, and the only object it
  changes is the one of the cluster it was about. A pending cluster is stored as \<open>provisioning\<close> or
  \<open>failed-provision\<close>, one to be shut down as \<open>offline\<close> or \<open>shutting-down\<close>, one to be scaled as
  scaling or failed to scale, each by the answer of the provider in this round; any other is left
  as it is. Conflicts on the way do not change this.\<close>

theorem worker_outcome:
  assumes "reliable d V stored" "serves (newClusterController d) K W" "V (world s)" "W (world s)"
    and "i < length (heap s)" "Name (heap s ! i) = n" "length (updateChannel (updateRetrier s)) < updateCapacity"
  shows "\<exists>s'. processItem (newClusterController d) (Some i) s = (Ret (), s') \<and>
    (case stored (world s) n of None \<Rightarrow> stored (world s') = stored (world s)
     | Some c \<Rightarrow> \<exists>c'. stored (world s') = (stored (world s))(n \<mapsto> c') \<and> work_effect c (new_calls s s') c')"
  by (rule worker_outcome_run [OF assms]) (auto split: option.split)

theorem worker_outcome_witness:
  "\<exists>c'. lock_stored (world (lock_work lock_pending)) = (lock_stored (world lock_pending))(''east'' \<mapsto> c') \<and>
     work_effect (sim_cluster ''east'' ''kops'' NavarkosClusterStatePending []) (new_calls lock_pending (lock_work lock_pending)) c'"
proof -
  have "length (updateChannel (updateRetrier lock_pending)) < updateCapacity" by (simp add: lock_rooms(5) updateCapacity_def)
  from worker_outcome [OF lock_reliable lock_serves lock_start(2,1) lock_rooms(1,2) this] show ?thesis
    by (auto simp: lock_rooms(7) lock_work_def)
qed



section \<open>The handlers\<close>

text \<open>C12. Shutting down: the calls are those of \<open>shutdown_spec\<close>. The provider is asked to delete
  the cluster only right after the API accepted the mark \<open>shutting-down\<close>, and an object in the
  state \<open>offline\<close> is submitted only after a deletion that succeeded.\<close>

theorem shutdown_order:
  assumes "shutdownCluster cc p s = (Ret err, s')"
  shows "\<exists>a evs. p = Some a \<and> a < length (heap s) \<and> trace s' = trace s @ evs \<and>
     shutdown_spec (heap s ! a) err evs \<and>
     (\<forall>as k c1 e bs. evs = as @ EvProvider k c1 e # bs \<longrightarrow> k = CallDelete \<and>
        (\<exists>pre c'. as = pre @ [EvUpdate c' None] \<and> state_of c' = Some NavarkosClusterStateShuttingDown)) \<and>
     (\<forall>as c' e bs. evs = as @ EvUpdate c' e # bs \<and> state_of c' = Some NavarkosClusterStateOffline \<longrightarrow>
        (\<exists>c1. EvProvider CallDelete c1 None \<in> set as))"
  using shutdownCluster_spec [OF assms] shutdown_marked_before_delete shutdown_offline_after_delete by metis

theorem shutdown_order_witness:
  "\<exists>err evs. fst (shutdownCluster sim_cc (Some 0) sim_shutdown) = Ret err \<and>
     trace (snd (shutdownCluster sim_cc (Some 0) sim_shutdown)) = trace sim_shutdown @ evs \<and>
     shutdown_spec (heap sim_shutdown ! 0) err evs"
proof -
  have r: "fst (shutdownCluster sim_cc (Some 0) sim_shutdown) = Ret None" by code_simp
  from shutdown_order [OF run_split [OF r]] r show ?thesis by auto
qed

text \<open>C13. Scaling: the calls are those of \<open>scale_spec\<close>. The provider is called at most once, with
  the size the annotations ask for (negative for a scale-down), and only right after the API
  accepted the mark \<open>scaling-up\<close> or \<open>scaling-down\<close>; the error of that call is the error returned.\<close>

theorem scale_order:
  assumes "scaleCluster (newClusterController d) p dir s = (Ret err, s')"
  shows "\<exists>a evs. p = Some a \<and> a < length (heap s) \<and> trace s' = trace s @ evs \<and>
     scale_spec dir (heap s ! a) err evs \<and>
     (\<forall>as k c1 e bs. evs = as @ EvProvider k c1 e # bs \<longrightarrow>
        k = CallScale (scaleSizeOf (heap s ! a) dir) \<and> e = err \<and> (\<forall>ev \<in> set bs. \<not> is_provider_call ev) \<and>
        (\<exists>pre c'. as = pre @ [EvUpdate c' None] \<and> state_of c' = Some (scaling_state dir)))"
  using built.scale_spec_run [OF assms] scale_marked_before_call by metis

theorem scale_order_witness:
  "\<exists>evs. fst (scaleCluster sim_cc (Some 0) True sim_scale_up) = Ret None \<and>
     trace (snd (scaleCluster sim_cc (Some 0) True sim_scale_up)) = trace sim_scale_up @ evs \<and>
     scale_spec True (heap sim_scale_up ! 0) None evs"
proof -
  have r: "fst (scaleCluster sim_cc (Some 0) True sim_scale_up) = Ret None" by code_simp
  from scale_order [OF run_split [OF r]] r show ?thesis by auto
qed

text \<open>C14. Creating: the provider is called first and once, on the object as it is. What is
  submitted then is that object moved to \<open>provisioning\<close> when the call succeeded and to
  \<open>failed-provision\<close> when it did not, changed otherwise at most at the annotations
  \<open>create_keys\<close>.\<close>

theorem create_order:
  assumes "createCluster (newClusterController d) p s = (Ret err, s')"
  shows "\<exists>a evs. p = Some a \<and> a < length (heap s) \<and> trace s' = trace s @ evs \<and> create_spec (heap s ! a) err evs"
  using assms by (rule built.create_spec_run)

theorem create_order_witness:
  "\<exists>evs. fst (createCluster sim_cc (Some 0) sim_pending) = Ret None \<and>
     trace (snd (createCluster sim_cc (Some 0) sim_pending)) = trace sim_pending @ evs \<and>
     create_spec (heap sim_pending ! 0) None evs"
proof -
  have r: "fst (createCluster sim_cc (Some 0) sim_pending) = Ret None" by code_simp
  from create_order [OF run_split [OF r]] r show ?thesis by auto
qed

text \<open>C15. Validating and joining. Of a validation: a cluster the provider reports as valid is moved
  on, a provisioned one to \<open>joining\<close> and a scaled one to \<open>ready\<close>; one it does not report as valid
  keeps its state and loses at most its work item. Of a joining: the kubeconfig is exported first,
  and the object is deleted and created again only after the secret named after the cluster was
  stored. When the object was deleted at the first attempt, what is created is that object in the
  state \<open>ready\<close>, with the address of the current context of the exported kubeconfig and the
  secret's name; after an attempt that failed it is what was fetched since, as it was fetched.\<close>

theorem reconcile_order:
  "(\<forall>st u s'. validateCluster (newClusterController d) (Some a) st s = (Ret u, s') \<longrightarrow>
      (\<exists>evs. trace s' = trace s @ evs \<and> validate_spec st (heap s ! a) evs)) \<and>
   (\<forall>u s'. clusterJoin (newClusterController d) (Some a) s = (Ret u, s') \<longrightarrow>
      (\<exists>P r w1 evs. getProvider (newClusterController d) (heap s ! a) = Some P \<and>
         ExportKubeConfig P (heap s ! a) (world s) = (Ret r, w1) \<and> trace s' = trace s @ evs \<and>
         join_spec (exported_server r) (heap s ! a) evs \<and>
         (\<forall>as b e bs. evs = as @ EvCreate b e # bs \<longrightarrow> created_again (exported_server r) (heap s ! a) as b)))"
proof (intro conjI allI impI)
  fix u s' assume "clusterJoin (newClusterController d) (Some a) s = (Ret u, s')"
  from clusterJoin_spec [OF this] obtain P r w1 evs where j: "getProvider (newClusterController d) (heap s ! a) = Some P"
    "ExportKubeConfig P (heap s ! a) (world s) = (Ret r, w1)" "trace s' = trace s @ evs" "join_spec (exported_server r) (heap s ! a) evs"
    by blast
  with join_recreated [OF j(4)] show "\<exists>P r w1 evs. getProvider (newClusterController d) (heap s ! a) = Some P \<and>
         ExportKubeConfig P (heap s ! a) (world s) = (Ret r, w1) \<and> trace s' = trace s @ evs \<and>
         join_spec (exported_server r) (heap s ! a) evs \<and>
         (\<forall>as b e bs. evs = as @ EvCreate b e # bs \<longrightarrow> created_again (exported_server r) (heap s ! a) as b)" by blast
qed (rule built.validate_spec_run)

theorem reconcile_order_witness:
  "(\<exists>evs. trace (snd (validateCluster sim_cc (Some 0) NavarkosClusterStateProvisioning sim_provisioning)) =
       trace sim_provisioning @ evs \<and> validate_spec NavarkosClusterStateProvisioning (heap sim_provisioning ! 0) evs) \<and>
   (\<exists>as b e bs. trace (snd (clusterJoin sim_cc (Some 0) sim_joining)) = trace sim_joining @ as @ EvCreate b e # bs \<and>
     joins ''https://10.0.0.1'' (heap sim_joining ! 0) (b\<lparr>ResourceVersion := ResourceVersion (heap sim_joining ! 0)\<rparr>))"
proof
  show "\<exists>evs. trace (snd (validateCluster sim_cc (Some 0) NavarkosClusterStateProvisioning sim_provisioning)) =
       trace sim_provisioning @ evs \<and> validate_spec NavarkosClusterStateProvisioning (heap sim_provisioning ! 0) evs"
    using reconcile_order [of sim_deployment 0 sim_provisioning] run_split [OF sim_provisioning_ends] by blast
  from conjunct2 [OF reconcile_order [of sim_deployment 0 sim_joining]] run_split [OF sim_joining_ends]
  obtain P r w1 evs where j: "getProvider sim_cc (heap sim_joining ! 0) = Some P"
    "ExportKubeConfig P (heap sim_joining ! 0) (world sim_joining) = (Ret r, w1)"
    "trace (snd (clusterJoin sim_cc (Some 0) sim_joining)) = trace sim_joining @ evs"
    and cr: "\<forall>as b e bs. evs = as @ EvCreate b e # bs \<longrightarrow> created_again (exported_server r) (heap sim_joining ! 0) as b"
    by blast
  have "case getProvider sim_cc (heap sim_joining ! 0) of None \<Rightarrow> False
    | Some P \<Rightarrow> (case fst (ExportKubeConfig P (heap sim_joining ! 0) (world sim_joining)) of
        Ret r \<Rightarrow> exported_server r = Some ''https://10.0.0.1'' | _ \<Rightarrow> False)" by code_simp
  then have ex: "exported_server r = Some ''https://10.0.0.1''" unfolding j by (simp add: j)
  have evs: "evs = calls_of (clusterJoin sim_cc (Some 0)) sim_joining" unfolding calls_of_def j(3) by simp
  have "list_ex is_create evs" and nd: "list_all (\<lambda>ev. \<not> refused_delete ev) evs" unfolding evs by code_simp+
  then obtain b e as bs where sp: "evs = as @ EvCreate b e # bs" by (metis is_createD in_set_conv_decomp)
  from nd have "\<nexists>y e. EvDelete y (Some e) \<in> set as"
    unfolding sp list_all_iff by (metis Un_iff refused_delete.simps(1) set_append)
  with cr sp ex have "joins ''https://10.0.0.1'' (heap sim_joining ! 0) (b\<lparr>ResourceVersion := ResourceVersion (heap sim_joining ! 0)\<rparr>)"
    unfolding created_again_def by (metis option.inject)
  with j(3) sp show "\<exists>as b e bs. trace (snd (clusterJoin sim_cc (Some 0) sim_joining)) = trace sim_joining @ as @ EvCreate b e # bs \<and>
     joins ''https://10.0.0.1'' (heap sim_joining ! 0) (b\<lparr>ResourceVersion := ResourceVersion (heap sim_joining ! 0)\<rparr>)" by metis
qed

section \<open>Updates\<close>

text \<open>C16. One update: whatever the API answers, an update that returns has made a sequence of
  calls of \<open>update_protocol\<close>: every object submitted is the object in hand with exactly the
  changes of the updater made, after a conflict the object is fetched and changed again, and
  any other error ends it. It leaves the work queue, the retrier and all other objects alone.\<close>

theorem update_refines:
  assumes "cu_update cc cu s = (Ret (err, cu'), s')" "wf_patch (clusterAnnotation cu)" "cu_cc cu" "isDirty cu"
  shows "\<exists>a evs. cu_cluster cu = Some a \<and> trace s' = trace s @ evs \<and>
     update_protocol (patched cu) (Name (base_of cu s)) MaxRetryCount
       (if needsResync cu then None else Some (base_of cu s)) None evs err \<and>
     workQueue s' = workQueue s \<and> updateRetrier s' = updateRetrier s \<and>
     (\<forall>i < length (heap s). i \<noteq> a \<longrightarrow> heap s' ! i = heap s ! i)"
  by (rule cu_update_protocol [OF assms]) blast

theorem update_refines_witness:
  "\<exists>cu' evs. fst (cu_update sim_cc sim_updater sim_pending) = Ret (None, cu') \<and>
     trace (snd (cu_update sim_cc sim_updater sim_pending)) = trace sim_pending @ evs \<and>
     update_protocol (patched sim_updater) (Name (base_of sim_updater sim_pending)) MaxRetryCount
       (Some (base_of sim_updater sim_pending)) None evs None"
proof -
  have r: "fst (cu_update sim_cc sim_updater sim_pending) = Ret (None, sim_updater\<lparr>cu_cluster := Some 1\<rparr>)" by code_simp
  have "\<not> needsResync sim_updater" by code_simp
  with update_refines [OF run_split [OF r] sim_updater_ok] r show ?thesis by auto
qed

text \<open>C17. The bounds of an update: at most three submissions and at most six calls; the update
  succeeds exactly when the last call is a submission that was accepted; every submission
  before the last call was refused with a conflict.\<close>

theorem update_bounds:
  assumes "cu_update cc cu s = (Ret (err, cu'), s')" "wf_patch (clusterAnnotation cu)" "cu_cc cu" "isDirty cu"
  shows "\<exists>evs. trace s' = trace s @ evs \<and> evs \<noteq> [] \<and>
     length (filter is_update evs) \<le> 3 \<and> length evs \<le> 6 \<and>
     (err = None \<longleftrightarrow> (\<exists>c. last evs = EvUpdate c None)) \<and>
     (\<forall>c e. EvUpdate c e \<in> set (butlast evs) \<longrightarrow> (\<exists>x. e = Some x \<and> IsConflict x))"
proof -
  from assms obtain ob evs where tr: "trace s' = trace s @ evs" and
    p: "update_protocol (patched cu) (Name (base_of cu s)) MaxRetryCount ob None evs err"
    by (rule cu_update_protocol) blast
  have "\<exists>c. last evs = EvUpdate c None" if "err = None"
    using protocol_success [OF p [unfolded that]] by (auto simp: MaxRetryCount_def)
  then have "err = None \<longleftrightarrow> (\<exists>c. last evs = EvUpdate c None)"
    using protocol_result [OF p] by (auto simp: MaxRetryCount_def)
  moreover have "\<exists>x. e = Some x \<and> IsConflict x" if "EvUpdate c e \<in> set (butlast evs)" for c e
    using that protocol_retried [OF p] protocol_not_accepted_before [OF p] by (cases e) auto
  ultimately show ?thesis
    using tr protocol_bound [OF p] protocol_calls_bound [OF p] protocol_result [OF p]
    by (auto simp: MaxRetryCount_def split: if_splits)
qed

theorem update_bounds_witness:
  "\<exists>evs. trace (snd (cu_update sim_cc sim_updater sim_pending)) = trace sim_pending @ evs \<and>
     length (filter is_update evs) \<le> 3 \<and> (\<exists>c. last evs = EvUpdate c None)"
proof -
  have r: "fst (cu_update sim_cc sim_updater sim_pending) = Ret (None, sim_updater\<lparr>cu_cluster := Some 1\<rparr>)" by code_simp
  from update_bounds [OF run_split [OF r] sim_updater_ok] show ?thesis by auto
qed

text \<open>C18. A failed update is not lost: \<open>clusterUpdate\<close> makes one update, and after an error the updater,
  with the same changes and marked for a fresh fetch, is queued with the next delay of its
  backoff, counted from the reading of the clock. It is dropped only when its expiry has passed
  between the start of its retries (the reading of the clock at the first failure) and now. An
  update that succeeded leaves the retrier alone.\<close>

theorem update_retried:
  assumes "clusterUpdate cc cu s = (Ret u, s')" "wf_patch (clusterAnnotation cu)" "cu_cc cu" "isDirty cu"
  shows "\<exists>err p s1 evs. cu_update cc cu s = (Ret (err, cu\<lparr>cu_cluster := p, needsResync := (err \<noteq> None)\<rparr>), s1) \<and>
     trace s1 = trace s @ evs \<and> updateRetrier s1 = updateRetrier s \<and>
     update_protocol (patched cu) (Name (base_of cu s)) MaxRetryCount
       (if needsResync cu then None else Some (base_of cu s)) None evs err \<and>
     (if err = None then s' = s1 else retried cc (cu\<lparr>cu_cluster := p, needsResync := True\<rparr>) s1 s')"
proof (rule clusterUpdate_runs [OF assms])
  fix err p s1
  assume upd: "cu_update cc cu s = (Ret (err, cu\<lparr>cu_cluster := p, needsResync := (err \<noteq> None)\<rparr>), s1)"
    and r: "if err = None then s' = s1 else retried cc (cu\<lparr>cu_cluster := p, needsResync := True\<rparr>) s1 s'"
  from upd assms(2-) obtain evs where "trace s1 = trace s @ evs" "updateRetrier s1 = updateRetrier s"
    "update_protocol (patched cu) (Name (base_of cu s)) MaxRetryCount
       (if needsResync cu then None else Some (base_of cu s)) None evs err"
    by (rule cu_update_protocol) blast
  with upd r show ?thesis by blast
qed

theorem update_retried_witness:
  "\<exists>p s1. retried sim_cc (sim_updater\<lparr>cu_cluster := p, needsResync := True\<rparr>) s1 (snd (clusterUpdate sim_cc sim_updater sim_refused)) \<and>
     updateRetrier s1 = updateRetrier sim_refused \<and>
     length (updateChannel (updateRetrier (snd (clusterUpdate sim_cc sim_updater sim_refused)))) = 1"
proof -
  have r: "fst (clusterUpdate sim_cc sim_updater sim_refused) = Ret ()" by code_simp
  have l: "length (updateChannel (updateRetrier (snd (clusterUpdate sim_cc sim_updater sim_refused)))) = 1"
    "length (updateChannel (updateRetrier sim_refused)) = 0" by code_simp+
  from update_retried [OF run_split [OF r] sim_updater_ok] l show ?thesis
    by (elim exE conjE) (fastforce split: if_splits)
qed

section \<open>The retrier\<close>

text \<open>C19. No retry is lost, duplicated, overtaken or early: in every reachable state of the
  goroutines around the retrier, what was handed to \<open>deliverAfter\<close> is, in that order, what the
  handler has received, then what waits in the target channel, in the hand of the delivering
  goroutine, in its list and in the update channel; the delivery time of everything the handler
  received, or that waits for it, has passed; and the channels hold no more than their capacity.\<close>

theorem retrier_fifo:
  assumes "retrier_step\<^sup>*\<^sup>* (retrier_init t) s"
  shows "submitted s = handled s @ targetChannel (retr s) @ in_hand (point s) @ data (retr s) @ updateChannel (retr s) \<and>
     (\<forall>item \<in> set (handled s @ targetChannel (retr s)). deliveryTime item \<le> clock s) \<and>
     length (targetChannel (retr s)) \<le> targetCapacity \<and> length (updateChannel (retr s)) \<le> updateCapacity"
  using retrier_inv_reachable [OF assms] by (auto simp: retrier_inv_def)

theorem retrier_fifo_witness:
  "submitted sim_retrier = handled sim_retrier @ targetChannel (retr sim_retrier) @ in_hand (point sim_retrier) @
     data (retr sim_retrier) @ updateChannel (retr sim_retrier) \<and>
   list_all (\<lambda>item. deliveryTime item \<le> clock sim_retrier) (handled sim_retrier @ targetChannel (retr sim_retrier)) \<and>
   length (updateChannel (retr sim_retrier)) \<le> updateCapacity"
  using retrier_fifo [OF sim_retrier_reached] unfolding list_all_iff by blast

text \<open>C20. A delivery that finds room moves exactly the items in front of the first one that is
  not due, in order; on a list sorted by time those are all that are due, and otherwise an item
  that is due but stands behind one that is not stays. A delivery that finds the target channel
  too full blocks after it has moved what fits, with one more item taken out of the list.\<close>

theorem deliver_exact:
  assumes "length (targetChannel r) \<le> targetCapacity"
  shows "deliver ts r =
    (if length (targetChannel r) + length (due_prefix ts (data r)) \<le> targetCapacity
     then (Ret (), r\<lparr>data := dropWhile (due ts) (data r), targetChannel := targetChannel r @ due_prefix ts (data r)\<rparr>)
     else (Blocked, r\<lparr>data := drop (Suc (targetCapacity - length (targetChannel r))) (data r),
       targetChannel := targetChannel r @ take (targetCapacity - length (targetChannel r)) (data r)\<rparr>)) \<and>
   (sorted (map deliveryTime (data r)) \<longrightarrow> due_prefix ts (data r) = filter (due ts) (data r))"
  using deliver_complete deliver_blocks [OF assms] due_prefix_sorted by auto

theorem deliver_exact_witness:
  "deliver 5 sim_late = (Ret (), sim_late\<lparr>
     data := [\<lparr>item_value = 2, deliveryTime = 9\<rparr>, \<lparr>item_value = 3, deliveryTime = 4\<rparr>],
     targetChannel := [\<lparr>item_value = 1, deliveryTime = 3\<rparr>]\<rparr>) \<and>
   deliver 5 sim_full = (Blocked, sim_full\<lparr>
     data := [\<lparr>item_value = 2, deliveryTime = 9\<rparr>, \<lparr>item_value = 3, deliveryTime = 4\<rparr>]\<rparr>)"
  using deliver_exact [of sim_late 5] deliver_exact [of sim_full 5]
  by (simp add: sim_full_def sim_late_def due_prefix_def due_def newClusterUpdateRetrier_def targetCapacity_def)

text \<open>C21. The delays of successive retries of a new updater grow by five seconds from five
  seconds and stay at thirty minutes from there on; no addition wraps around. And retries end: an
  updater that is put back only while it has not expired, each time after the delay its backoff
  gave, is put back at most 54 times.\<close>

theorem retries_end:
  "(\<forall>i < n. backoff_delays n new_backoff ! i = min (5 * Second * (int i + 1)) (30 * Minute)) \<and>
   (\<forall>t ts start. retry_times (t # ts) (new_backoff\<lparr>startTime := start\<rparr>) \<and> start \<le> t \<longrightarrow> length (t # ts) \<le> 54)"
proof (intro conjI allI impI)
  show "backoff_delays n new_backoff ! i = min (5 * Second * (int i + 1)) (30 * Minute)" if "i < n" for i
    using backoff_delays_nth [OF backoff_ok_new that] by (simp add: new_backoff_def)
  fix t ts start assume r: "retry_times (t # ts) (new_backoff\<lparr>startTime := start\<rparr>) \<and> start \<le> t"
  have "backoff_ok (new_backoff\<lparr>startTime := start\<rparr>)" using backoff_ok_new by (simp add: backoff_ok_def)
  from retry_count [OF conjunct1 [OF r] this] r show "length (t # ts) \<le> 54" by (simp add: new_backoff_def)
qed

theorem retries_end_witness:
  "backoff_delays 3 new_backoff ! 2 = 15 * Second \<and>
   retry_times [Hour, Hour + 6 * Second] (new_backoff\<lparr>startTime := Hour\<rparr>) \<and> length [Hour, Hour + 6 * Second] \<le> 54"
proof -
  have r: "retry_times [Hour, Hour + 6 * Second] (new_backoff\<lparr>startTime := Hour\<rparr>)" by code_simp
  have "backoff_delays 3 new_backoff ! 2 = min (5 * Second * (int 2 + 1)) (30 * Minute)" using retries_end [of 3] by simp
  moreover have "length [Hour, Hour + 6 * Second] \<le> 54" using retries_end [of 3] r by blast
  ultimately show ?thesis using r by (simp add: Second_def Minute_def)
qed

section \<open>The work queue\<close>

text \<open>C22. The invariant of the work queue: an element of the queue is dirty, is there once and is
  not being processed, and a dirty item outside the queue is being processed. A new queue has
  it and every operation keeps it. No wake-up is lost: an item added while it is being processed
  is in the queue again when its processing is done.\<close>

theorem queue_invariant:
  assumes "wq_ok q"
  shows "wq_ok (newWorkQueue :: 'a workQueue) \<and> wq_ok (snd (Add x q)) \<and> wq_ok (snd (Get q)) \<and>
    wq_ok (snd (ShutDown q)) \<and> (x \<in> processing q \<longrightarrow> wq_ok (snd (Done x q)) \<and>
      (\<not> shuttingDown q \<longrightarrow> x \<in> set (queue (snd (Done x (snd (Add x q)))))))"
proof (intro conjI impI)
  assume "x \<in> processing q" "\<not> shuttingDown q"
  then show "x \<in> set (queue (snd (Done x (snd (Add x q)))))"
    using Add_while_processing [OF assms, of x] by (simp add: Add_def Done_def modify_def)
qed (use wq_ok_new wq_ok_Add [OF assms surjective_pairing] wq_ok_Get [OF assms surjective_pairing]
    wq_ok_ShutDown [OF assms surjective_pairing] wq_ok_Done [OF assms _ surjective_pairing] in blast)+

theorem queue_invariant_witness:
  "wq_ok (snd (Get (newWorkQueue\<lparr>queue := [7 :: nat], dirty := {7}\<rparr>))) \<and>
   (7 :: nat) \<in> set (queue (snd (Done 7 (snd (Add 7 (newWorkQueue\<lparr>processing := {7}\<rparr>))))))"
proof -
  have "wq_ok (newWorkQueue\<lparr>queue := [7 :: nat], dirty := {7}\<rparr>)" "wq_ok (newWorkQueue\<lparr>processing := {7 :: nat}\<rparr>)"
    by (simp_all add: wq_ok_def newWorkQueue_def)
  from queue_invariant [OF this(1), of 7] queue_invariant [OF this(2), of 7] show ?thesis
    by (auto simp: newWorkQueue_def)
qed

text \<open>C23. What is queued: an observed cluster is ignored unless its class has a provider and its
  state is one of the four actionable ones. Otherwise a fresh copy of it is appended to the queue,
  also when an earlier copy of the same cluster is still there; a queue that is shutting down takes
  nothing. When the copy fails, nil is queued in its place (there is no return after the error),
  unless a nil is there already, and the worker that takes it panics.\<close>

theorem submit_eligible:
  assumes "queue_ptrs_ok s"
  shows "(\<exists>s'. SubmitClusterForProvisioning cc c s = (Ret (), s') \<and> queue_ptrs_ok s' \<and>
     (if \<not> eligible cc c then s' = s
      else case DeepCopy (packages cc) c of
        Inr c' \<Rightarrow> heap s' = heap s @ [c'] \<and> queue (workQueue s') = queue (workQueue s) @
          (if shuttingDown (workQueue s) then [] else [Some (length (heap s))])
      | Inl e \<Rightarrow> heap s' = heap s \<and> queue (workQueue s') = queue (workQueue s) @
          (if shuttingDown (workQueue s) \<or> None \<in> dirty (workQueue s) \<union> processing (workQueue s) then [] else [None]))) \<and>
    processItem cc None s = (Crash TypeAssertion, s)"
  using submit_result [OF assms] nil_item_crashes by blast

theorem submit_eligible_witness:
  "(\<exists>s'. SubmitClusterForProvisioning sim_cc (heap sim_pending ! 0) sim_pending = (Ret (), s') \<and>
     queue (workQueue s') = [Some 0, Some 1]) \<and>
   (\<exists>s'. SubmitClusterForProvisioning uncopied_cc (heap sim_pending ! 0) sim_pending = (Ret (), s') \<and>
     queue (workQueue s') = [Some 0, None])"
proof -
  have 1: "queue_ptrs_ok sim_pending"
    by (simp add: queue_ptrs_ok_def valid_ptr_def sim_pending_def sim_run_def sim_state_def newWorkQueue_def initState_def)
  have 2: "\<not> shuttingDown (workQueue sim_pending)" "queue (workQueue sim_pending) = [Some 0]" "length (heap sim_pending) = 1"
    "None \<notin> dirty (workQueue sim_pending) \<union> processing (workQueue sim_pending)" by code_simp+
  have 3: "DeepCopy (packages sim_cc) c = Inr c" "DeepCopy (packages uncopied_cc) c = Inl (Errorf ''no copy'')" for c
    by (simp_all add: newClusterController_def sim_deployment_def sim_packages_def)
  have 4: "eligible sim_cc (heap sim_pending ! 0)" "eligible uncopied_cc (heap sim_pending ! 0)"
  proof -
    have "annotation (heap sim_pending ! 0) ClusterManagerClusterClassKey = Some ''kops''"
      "map_of (clusterProviders (newClusterController d)) ''kops'' \<noteq> None"
      "annotation (heap sim_pending ! 0) NavarkosClusterStateKey = Some NavarkosClusterStatePending"
      "NavarkosClusterStatePending \<in> actionableStates (newClusterController d)" for d :: "sim deployment"
      by (code_simp, simp add: newClusterController_def builtin_lookup, code_simp,
          simp add: newClusterController_def getActionableStates_def)
    then show "eligible sim_cc (heap sim_pending ! 0)" "eligible uncopied_cc (heap sim_pending ! 0)" unfolding eligible_def by blast+
  qed
  from conjunct1 [OF submit_eligible [OF 1, of sim_cc "heap sim_pending ! 0"]]
    conjunct1 [OF submit_eligible [OF 1, of uncopied_cc "heap sim_pending ! 0"]] 2 3 4
  show ?thesis by auto
qed



section \<open>Annotations and sizes\<close>

text \<open>C25. A patch: the patch built by setting \<open>kvs\<close> and then deleting \<open>ks\<close>, applied to a map of
  annotations, gives the map in which the deleted keys are gone, the others have the last value
  set, and everything else is as it was. Applied to a nil map it panics, unless nothing is set.\<close>

theorem patch_applied:
  "\<exists>m'. ApplyAnnotation (fold DeleteAnnotation ks (fold (\<lambda>(k, v). SetAnnotation k v) kvs emptyClusterAnnotation)) (Some m) s =
       (Ret (Some m'), s) \<and>
     map_of m' = (\<lambda>k. if k \<in> set ks then None else case map_of (rev kvs) k of Some v \<Rightarrow> Some v | None \<Rightarrow> map_of m k) \<and>
   ApplyAnnotation (fold DeleteAnnotation ks (fold (\<lambda>(k, v). SetAnnotation k v) kvs emptyClusterAnnotation)) None s =
     (if kvs = [] then (Ret None, s) else (Crash NilMapWrite, s))"
proof -
  let ?p = "fold DeleteAnnotation ks (fold (\<lambda>(k, v). SetAnnotation k v) kvs emptyClusterAnnotation)"
  have wf: "wf_patch (fold DeleteAnnotation ks q)" if "wf_patch q" for q
    using that by (induction ks arbitrary: q) auto
  have same: "ca_Annotations (fold DeleteAnnotation ks q) = ca_Annotations q" for q
    by (induction ks arbitrary: q) auto
  have "map_len (ca_Annotations ?p) = 0 \<longleftrightarrow> kvs = []"
    using map_get_fold_SetAnnotation [of kvs emptyClusterAnnotation]
    by (cases kvs rule: rev_cases) (auto simp: same map_len_def SetAnnotation_def split: option.splits)
  then have nil: "ApplyAnnotation ?p None s = (if kvs = [] then (Ret None, s) else (Crash NilMapWrite, s))"
    by (simp add: ApplyAnnotation_None)
  obtain m' where "ApplyAnnotation ?p (Some m) s = (Ret (Some m'), s)" "map_of m' = patch_effect ?p (map_of m)"
    by (rule ApplyAnnotation_Some [OF wf [OF wf_patch_fold [OF wf_patch_empty]]])
  with nil ca.eff_build [of kvs ks "map_of m"] show ?thesis by (auto simp: ca.build_def)
qed

text \<open>C26. The sizes of a scaling. What an annotation asks for: the printed form of a 64-bit integer is
  read back; an empty value, a value that is not a number and one out of range give the default.
  The size after a scaling is at least one; as long as neither the size asked for nor the sum
  leaves the range of 32 bits, it is the sum, raised to one. Outside that range it wraps around:
  one node more than the largest size scales down to one node, and a request for \<open>2 ^ 32\<close> more
  nodes changes nothing.\<close>

theorem scale_sizes:
  "(\<forall>i. - (2 ^ 63) \<le> i \<and> i < 2 ^ 63 \<and> annotation c key = Some (Itoa i) \<longrightarrow> sint (getAnnotationIntegerValue c key dflt) = i) \<and>
   (\<forall>v. annotation c key = Some v \<and> (v = '''' \<or> snd (Atoi v) \<noteq> None) \<longrightarrow> getAnnotationIntegerValue c key dflt = dflt) \<and>
   1 \<le> sint (scaled_size n k) \<and>
   (- (2 ^ 31) \<le> sint k \<and> sint k < 2 ^ 31 \<and> - (2 ^ 31) \<le> sint n + sint k \<and> sint n + sint k < 2 ^ 31 \<longrightarrow>
    sint (scaled_size n k) = max 1 (sint n + sint k)) \<and>
   sint (scaled_size 2147483647 1) = 1 \<and> scaled_size 3 4294967296 = 3"
proof -
  have "sint (word_of_int i :: int64) = i" if "- (2 ^ 63) \<le> i" "i < 2 ^ 63" for i
    using that by (simp add: int_word_sint)
  then have "\<forall>i. - (2 ^ 63) \<le> i \<and> i < 2 ^ 63 \<and> annotation c key = Some (Itoa i) \<longrightarrow> sint (getAnnotationIntegerValue c key dflt) = i"
    "\<forall>v. annotation c key = Some v \<and> (v = '''' \<or> snd (Atoi v) \<noteq> None) \<longrightarrow> getAnnotationIntegerValue c key dflt = dflt"
    by (auto simp: getAnnotationIntegerValue_def Atoi_Itoa split: prod.split option.split)
  moreover have "sint (scaled_size 2147483647 1) = 1" "scaled_size 3 4294967296 = 3" by code_simp+
  ultimately show ?thesis using scaled_size_ge_1 [of n k] scaled_size_exact [of k n] by blast
qed

theorem scale_sizes_witness:
  "sint (getAnnotationIntegerValue (sim_cluster ''east'' ''oke'' NavarkosClusterStateReady
     [(ClusterManagerClusterScaleUpSizeKey, ''-4'')]) ClusterManagerClusterScaleUpSizeKey 1) = - 4 \<and>
   sint (scaled_size 2 (- 5)) = 1"
proof -
  let ?c = "sim_cluster ''east'' ''oke'' NavarkosClusterStateReady [(ClusterManagerClusterScaleUpSizeKey, ''-4'')]"
  have "annotation ?c ClusterManagerClusterScaleUpSizeKey = Some ''-4''" by code_simp
  moreover have "''-4'' = Itoa (- 4)" by code_simp
  ultimately show ?thesis
    using scale_sizes [of ?c ClusterManagerClusterScaleUpSizeKey 1 2 "- 5"] by simp
qed

section \<open>The messages of the OKE service\<close>

text \<open>C27. Messages survive the wire: unmarshalling what \<open>MarshalBinary\<close> produced gives the same
  object, whatever was in the receiver, for the requests the provider sends, for the answers it
  reads and for the lists of the rest of the interface, nested objects, maps, times and pointers
  to integers included. The strings of the object are in UTF-8, the keys of its maps in order and
  its times in range. A work item with an activity whose year has not four digits is not written.\<close>

theorem models_roundtrip:
  shows "(struct_ok ClusterPools_struct pools \<longrightarrow> ClusterPools_UnmarshalBinary (fst (ClusterPools_MarshalBinary (Some pools))) pools0 = (pools, None)) \<and>
    (struct_ok ClusterCreateRequest_struct req \<longrightarrow> ClusterCreateRequest_UnmarshalBinary (fst (ClusterCreateRequest_MarshalBinary (Some req))) req0 = (req, None)) \<and>
    (struct_ok ClusterWorkItemResponse_struct cwi \<longrightarrow> ClusterWorkItemResponse_UnmarshalBinary (fst (ClusterWorkItemResponse_MarshalBinary (Some cwi))) cwi0 = (cwi, None)) \<and>
    (struct_ok ClusterPoolsResponse_struct cpr \<longrightarrow> ClusterPoolsResponse_UnmarshalBinary (fst (ClusterPoolsResponse_MarshalBinary (Some cpr))) cpr0 = (cpr, None)) \<and>
    (struct_ok OkeClusterState_struct k8 \<longrightarrow> Cluster_UnmarshalBinary (fst (Cluster_MarshalBinary (Some k8))) k80 = (k8, None)) \<and>
    (struct_ok ClusterDetails_struct d \<longrightarrow> ClusterDetails_UnmarshalBinary (fst (ClusterDetails_MarshalBinary (Some d))) d0 = (d, None)) \<and>
    (struct_ok ClustersListResponse_struct cl \<longrightarrow> ClustersListResponse_UnmarshalBinary (fst (ClustersListResponse_MarshalBinary (Some cl))) cl0 = (cl, None)) \<and>
    (struct_ok AuthConfigsListResponse_struct ac \<longrightarrow> AuthConfigsListResponse_UnmarshalBinary (fst (AuthConfigsListResponse_MarshalBinary (Some ac))) ac0 = (ac, None)) \<and>
    (struct_ok GetSubnetsResponse_struct sn \<longrightarrow> GetSubnetsResponse_UnmarshalBinary (fst (GetSubnetsResponse_MarshalBinary (Some sn))) sn0 = (sn, None)) \<and>
    (struct_ok OkeError_struct er \<longrightarrow> Error_UnmarshalBinary (fst (Error_MarshalBinary (Some er))) er0 = (er, None)) \<and>
    (struct_ok WorkItem_struct wi \<longrightarrow> WorkItem_UnmarshalBinary (fst (WorkItem_MarshalBinary (Some wi))) wi0 = (wi, None)) \<and>
    (struct_ok WorkItemsListResponse_struct wl \<longrightarrow> WorkItemsListResponse_UnmarshalBinary (fst (WorkItemsListResponse_MarshalBinary (Some wl))) wl0 = (wl, None)) \<and>
    (act \<in> set (the_list (wi_Activity wi)) \<and> \<not> (0 \<le> tm_year (act_CreatedAt act) \<and> tm_year (act_CreatedAt act) < 10000) \<longrightarrow>
      WorkItem_MarshalBinary (Some wi) = ([], Some year_error))"
  unfolding message_methods by (intro conjI impI; (erule messages_read_back | erule WorkItem_not_written))

theorem models_roundtrip_witness:
  "ClusterPools_UnmarshalBinary
     (fst (ClusterPools_MarshalBinary (Some \<lparr>cp_ClusterID = ''id1'', cp_Pools = Some [Some (zeroPool\<lparr>pool_WorkersPerAD := 3\<rparr>), None]\<rparr>)))
     zeroClusterPools =
   (\<lparr>cp_ClusterID = ''id1'', cp_Pools = Some [Some (zeroPool\<lparr>pool_WorkersPerAD := 3\<rparr>), None]\<rparr>, None)"
proof -
  let ?m = "\<lparr>cp_ClusterID = ''id1'', cp_Pools = Some [Some (zeroPool\<lparr>pool_WorkersPerAD := 3\<rparr>), None]\<rparr>"
  have "valid_utf8 ''id1''" by code_simp
  then have "struct_ok ClusterPools_struct ?m"
    by (simp add: struct_ok_def ClusterPools_struct_def Pool_struct_def zeroPool_def)
  then show ?thesis by (rule models_roundtrip [THEN conjunct1, THEN mp])
qed

text \<open>C28. What is read from the wire is well-formed: whatever bytes \<open>UnmarshalBinary\<close> accepts, in all
  parts of the object it gives the strings are in UTF-8 and the maps have each key once. So the
  object can be sent on: written and read again it is the same.\<close>

theorem messages_typed:
  "(ClusterPools_UnmarshalBinary b pools0 = (pools, None) \<longrightarrow>
       struct_ok ClusterPools_struct pools \<and> ClusterPools_UnmarshalBinary (fst (ClusterPools_MarshalBinary (Some pools))) pools1 = (pools, None)) \<and>
    (ClusterCreateRequest_UnmarshalBinary b req0 = (req, None) \<longrightarrow>
       struct_ok ClusterCreateRequest_struct req \<and> ClusterCreateRequest_UnmarshalBinary (fst (ClusterCreateRequest_MarshalBinary (Some req))) req1 = (req, None)) \<and>
    (ClusterWorkItemResponse_UnmarshalBinary b cwi0 = (cwi, None) \<longrightarrow>
       struct_ok ClusterWorkItemResponse_struct cwi \<and> ClusterWorkItemResponse_UnmarshalBinary (fst (ClusterWorkItemResponse_MarshalBinary (Some cwi))) cwi1 = (cwi, None)) \<and>
    (ClusterPoolsResponse_UnmarshalBinary b cpr0 = (cpr, None) \<longrightarrow>
       struct_ok ClusterPoolsResponse_struct cpr \<and> ClusterPoolsResponse_UnmarshalBinary (fst (ClusterPoolsResponse_MarshalBinary (Some cpr))) cpr1 = (cpr, None)) \<and>
    (Cluster_UnmarshalBinary b k80 = (k8, None) \<longrightarrow>
       struct_ok OkeClusterState_struct k8 \<and> Cluster_UnmarshalBinary (fst (Cluster_MarshalBinary (Some k8))) k81 = (k8, None)) \<and>
    (ClusterDetails_UnmarshalBinary b d0 = (d, None) \<longrightarrow>
       struct_ok ClusterDetails_struct d \<and> ClusterDetails_UnmarshalBinary (fst (ClusterDetails_MarshalBinary (Some d))) d1 = (d, None)) \<and>
    (ClustersListResponse_UnmarshalBinary b cl0 = (cl, None) \<longrightarrow>
       struct_ok ClustersListResponse_struct cl \<and> ClustersListResponse_UnmarshalBinary (fst (ClustersListResponse_MarshalBinary (Some cl))) cl1 = (cl, None)) \<and>
    (AuthConfigsListResponse_UnmarshalBinary b ac0 = (ac, None) \<longrightarrow>
       struct_ok AuthConfigsListResponse_struct ac \<and> AuthConfigsListResponse_UnmarshalBinary (fst (AuthConfigsListResponse_MarshalBinary (Some ac))) ac1 = (ac, None)) \<and>
    (GetSubnetsResponse_UnmarshalBinary b sn0 = (sn, None) \<longrightarrow>
       struct_ok GetSubnetsResponse_struct sn \<and> GetSubnetsResponse_UnmarshalBinary (fst (GetSubnetsResponse_MarshalBinary (Some sn))) sn1 = (sn, None)) \<and>
    (Error_UnmarshalBinary b er0 = (er, None) \<longrightarrow>
       struct_ok OkeError_struct er \<and> Error_UnmarshalBinary (fst (Error_MarshalBinary (Some er))) er1 = (er, None))"
  unfolding message_methods by (intro conjI impI; (erule messages_ok | erule messages_again))

theorem messages_typed_witness:
  "struct_ok ClusterWorkItemResponse_struct \<lparr>cwi_ClusterID = CHR ''a'' # replacement_char, cwi_WorkItemID = ''''\<rparr>"
proof -
  let ?q = "CHR 0x22"
  have "ClusterWorkItemResponse_UnmarshalBinary (''{'' @ ?q # ''clusterid'' @ ?q # '' : '' @ [?q, CHR ''a'', CHR 0xFF, ?q] @ ''}'')
     zeroClusterWorkItemResponse = (\<lparr>cwi_ClusterID = CHR ''a'' # replacement_char, cwi_WorkItemID = ''''\<rparr>, None)"
    by code_simp
  then show ?thesis by (rule messages_typed [THEN conjunct2, THEN conjunct2, THEN conjunct1, THEN mp, THEN conjunct1])
qed

text \<open>C29. The checks of the messages: each accepts exactly the objects whose parts pass theirs and
  whose own fields are absent or in their enumeration or range; an error needs its code and its
  message. The state \<open>RUNNING\<close>, for which the provider waits, is not in the enumeration of the
  states of the masters, so the check refuses every description of a running cluster.\<close>

theorem model_checks:
  "(ClusterDetails_Validate d = None \<longleftrightarrow> pred_option (\<lambda>k8. Cluster_Validate k8 = None) (cds_K8 d) \<and>
      list_all (pred_option (\<lambda>w. wd_BmcLifecycleState w \<in> set ('''' # workerDetailsTypeBmcLifecycleStatePropEnum)))
        (the_list (cds_Workers d))) \<and>
   (Cluster_Validate k8 = None \<longleftrightarrow>
      pred_option (\<lambda>cd. pred_option (\<lambda>b. cdb_LbType b \<in> set ('''' # cloudDetailsBmcTypeLbTypePropEnum)) (cd_Bmc cd))
        (okc_CloudDetails k8) \<and>
      okc_MastersState k8 \<in> set ('''' # clusterTypeMastersStatePropEnum) \<and>
      okc_NodesState k8 \<in> set ('''' # clusterTypeNodesStatePropEnum) \<and>
      okc_State k8 \<in> set ('''' # clusterTypeStatePropEnum) \<and>
      okc_TkmState k8 \<in> set ('''' # clusterTypeTkmStatePropEnum) \<and>
      okc_TkwState k8 \<in> set ('''' # clusterTypeTkwStatePropEnum)) \<and>
   (WorkItem_Validate wi = None \<longleftrightarrow> pred_option (\<lambda>n. 0 \<le> sint n \<and> sint n \<le> 3) (wi_Status wi) \<and>
      wi_StatusString wi \<in> set ('''' # workItemTypeStatusStringPropEnum) \<and>
      pred_option (\<lambda>n. 0 \<le> sint n \<and> sint n \<le> 2) (wi_Type wi)) \<and>
   (Error_Validate er = None \<longleftrightarrow> oer_Code er \<noteq> None \<and> oer_Message er \<noteq> None) \<and>
   (okc_MastersState k8 = ClusterMastersStateRUNNING \<longrightarrow> Cluster_Validate k8 \<noteq> None)"
proof (intro conjI impI)
  show "ClusterDetails_Validate d = None \<longleftrightarrow> pred_option (\<lambda>k8. Cluster_Validate k8 = None) (cds_K8 d) \<and>
      list_all (pred_option (\<lambda>w. wd_BmcLifecycleState w \<in> set ('''' # workerDetailsTypeBmcLifecycleStatePropEnum)))
        (the_list (cds_Workers d))"
    by (simp only: ClusterDetails_valid WorkerDetails_valid list_all_ptrs)
  assume "okc_MastersState k8 = ClusterMastersStateRUNNING"
  then show "Cluster_Validate k8 \<noteq> None"
    using masters_constants_refused by (auto simp: Cluster_valid ClusterMastersState_constants_def)
qed (simp_all only: Cluster_valid CloudDetails_valid WorkItem_valid Error_valid)

theorem model_checks_witness:
  "Cluster_Validate (zeroOkeClusterState\<lparr>okc_MastersState := ''RUNNING'', okc_NodesState := ''RUNNING''\<rparr>) \<noteq> None \<and>
   Cluster_Validate (zeroOkeClusterState\<lparr>okc_MastersState := ''Running'', okc_NodesState := ''RUNNING''\<rparr>) = None"
proof -
  have "okc_MastersState (zeroOkeClusterState\<lparr>okc_MastersState := ''RUNNING'', okc_NodesState := ''RUNNING''\<rparr>) = ClusterMastersStateRUNNING"
    by code_simp
  then have "Cluster_Validate (zeroOkeClusterState\<lparr>okc_MastersState := ''RUNNING'', okc_NodesState := ''RUNNING''\<rparr>) \<noteq> None"
    using model_checks by blast
  moreover have "Cluster_Validate (zeroOkeClusterState\<lparr>okc_MastersState := ''Running'', okc_NodesState := ''RUNNING''\<rparr>) = None"
    by code_simp
  ultimately show ?thesis ..
qed

section \<open>The OKE provider\<close>

text \<open>C30. Creating on OKE: a creation without error has posted the request for the configuration of
  the annotation with its defaults filled in, the answer named a cluster and a work item, and
  the patch records both with the number of nodes, workers per domain times domains. The
  request passes the check of its own model exactly when the annotation names no load balancer
  or a known one.\<close>

theorem oke_create_request:
  assumes "okeCreateKubeCluster oke c w = (Ret (ann, None), w')"
  shows "create_sent oke c w ann w' \<and>
    (ClusterCreateRequest_Validate (createClusterBody oke (Name c) (setDefaultValues oke (oke_unMarshal c zeroOkeBmcConfig))) = None \<longleftrightarrow>
     obc_LbType (oke_unMarshal c zeroOkeBmcConfig) \<in> set ('''' # clusterCreateRequestTypeLbTypePropEnum))"
  using oke_create_steps [OF assms] create_body_valid by blast

theorem oke_create_request_witness:
  "\<exists>ann w'. okeCreateKubeCluster sim_oke (sim_cluster ''east'' ''oke'' NavarkosClusterStatePending [])
     (sim_world [] [] [sim_workitem_answer]) = (Ret (ann, None), w') \<and>
     create_sent sim_oke (sim_cluster ''east'' ''oke'' NavarkosClusterStatePending []) (sim_world [] [] [sim_workitem_answer]) ann w'"
proof -
  let ?run = "okeCreateKubeCluster sim_oke (sim_cluster ''east'' ''oke'' NavarkosClusterStatePending [])
     (sim_world [] [] [sim_workitem_answer])"
  have "case fst ?run of Ret (ann, None) \<Rightarrow> True | _ \<Rightarrow> False" by code_simp
  then obtain ann where r: "fst ?run = Ret (ann, None)" by (auto split: outcome.splits option.splits)
  from oke_create_request [OF run_split [OF r]] run_split [OF r] show ?thesis by blast
qed

text \<open>C31. Scaling on OKE: a scaling without error has read the pools and either found one worker and
  nothing to remove, and asks for the state \<open>ready\<close>; or put back the pools with the workers of
  the first one changed to the scaled size and all else unchanged, and records the new number
  of nodes when the answer names a work item.\<close>

theorem oke_scale_request:
  assumes "okeScaleKubeCluster oke c n w = (Ret (ann, None), w')"
  shows "scale_sent oke c n w ann w'"
  using assms by (rule oke_scale_steps)

theorem oke_scale_request_witness:
  "\<exists>ann w'. okeScaleKubeCluster sim_oke (heap sim_scale_up ! 0) 3 (world sim_scale_up) = (Ret (ann, None), w') \<and>
     scale_sent sim_oke (heap sim_scale_up ! 0) 3 (world sim_scale_up) ann w'"
proof -
  let ?run = "okeScaleKubeCluster sim_oke (heap sim_scale_up ! 0) 3 (world sim_scale_up)"
  have "case fst ?run of Ret (ann, None) \<Rightarrow> True | _ \<Rightarrow> False" by code_simp
  then obtain ann where r: "fst ?run = Ret (ann, None)" by (auto split: outcome.splits option.splits)
  from oke_scale_request [OF run_split [OF r]] run_split [OF r] show ?thesis by blast
qed

text \<open>C32. How the OKE provider takes the answers to a cluster with an id: a validation without error
  means that the service reported masters and nodes as \<open>RUNNING\<close> in the last answer, and that a
  work item, if there was one, is to be removed; a deletion is reported as done whatever the
  request returned, an error included; an answer that decodes but lacks what the code looks at
  crashes it, a description without the \<open>k8\<close> object in a validation and a list without pools in a
  scaling.\<close>

theorem oke_answers:
  assumes "annotation c ClusterManagerClusterOKEIdKey = Some clusterId"
  shows "(\<forall>ann w'. okeValidateKubeCluster oke c w = (Ret (ann, None), w') \<longrightarrow> reported_running oke c w' \<and>
      ann = (if annotation c ClusterManagerClusterOKEWorkItemKey = None then None
         else Some (DeleteAnnotation ClusterManagerClusterOKEWorkItemKey emptyClusterAnnotation))) \<and>
    (\<forall>r. transmitRequest oke (buildBaseRequest oke ''DELETE'' (OkeClusterEndPoint @ ''/'' @ clusterId)) w = (Ret r, w') \<longrightarrow>
      okeDeleteKubeCluster oke c w = (Ret None, w')) \<and>
    (\<forall>body details. annotation c ClusterManagerClusterOKEWorkItemKey = None \<and>
      transmitRequest oke (buildBaseRequest oke ''GET'' (OkeClusterEndPoint @ ''/'' @ clusterId)) w = (Ret (body, None), w') \<and>
      ClusterDetails_UnmarshalBinary body zeroClusterDetails = (details, None) \<and> cds_K8 details = None \<longrightarrow>
      okeValidateKubeCluster oke c w = (Crash NilDereference, w')) \<and>
    (\<forall>body pools. transmitRequest oke (buildBaseRequest oke ''GET'' (OkeClusterEndPoint @ ''/'' @ clusterId @ OkePoolsPath)) w =
        (Ret (body, None), w') \<and>
      ClusterPoolsResponse_UnmarshalBinary body zeroClusterPoolsResponse = (pools, None) \<and>
      the_list (cpr_Pools pools) = [] \<longrightarrow>
      okeScaleKubeCluster oke c n w = (Crash IndexOutOfRange, w'))"
  by (rule conjI, intro allI impI, erule oke_validate_running, intro conjI allI impI)
    (auto simp: okeValidateKubeCluster_def intro: oke_delete_sent [OF assms] oke_validate_no_k8 [OF assms] oke_scale_no_pools [OF assms])

theorem oke_answers_witness:
  "(\<exists>w'. transmitRequest sim_oke (buildBaseRequest sim_oke ''DELETE'' ''/api/v1/clusters/id1'') (sim_world [] [] []) =
      (Ret ('''', Some (Errorf ''connection refused'')), w') \<and>
    okeDeleteKubeCluster sim_oke (heap sim_shutdown ! 0) (sim_world [] [] []) = (Ret None, w')) \<and>
   (\<exists>w'. okeScaleKubeCluster sim_oke (heap sim_shutdown ! 0) 1 (world sim_shutdown) = (Crash IndexOutOfRange, w'))"
proof
  have a: "annotation (heap sim_shutdown ! 0) ClusterManagerClusterOKEIdKey = Some ''id1''" by code_simp
  let ?del = "transmitRequest sim_oke (buildBaseRequest sim_oke ''DELETE'' (OkeClusterEndPoint @ ''/'' @ ''id1'')) (sim_world [] [] [])"
  have r: "fst ?del = Ret ('''', Some (Errorf ''connection refused''))" by code_simp
  have d: "okeDeleteKubeCluster sim_oke (heap sim_shutdown ! 0) (sim_world [] [] []) = (Ret None, snd ?del)"
    by (rule conjunct1 [OF conjunct2 [OF oke_answers [OF a]], rule_format, OF run_split [OF r]])
  have "OkeClusterEndPoint @ ''/'' @ ''id1'' = ''/api/v1/clusters/id1''" by code_simp
  with d run_split [OF r]
  show "\<exists>w'. transmitRequest sim_oke (buildBaseRequest sim_oke ''DELETE'' ''/api/v1/clusters/id1'') (sim_world [] [] []) =
      (Ret ('''', Some (Errorf ''connection refused'')), w') \<and>
    okeDeleteKubeCluster sim_oke (heap sim_shutdown ! 0) (sim_world [] [] []) = (Ret None, w')"
    by metis
  let ?run = "transmitRequest sim_oke (buildBaseRequest sim_oke ''GET'' (OkeClusterEndPoint @ ''/'' @ ''id1'' @ OkePoolsPath))
      (world sim_shutdown)"
  have r: "fst ?run = Ret (''{}'', None)" by code_simp
  have u: "ClusterPoolsResponse_UnmarshalBinary ''{}'' zeroClusterPoolsResponse =
      (zeroClusterPoolsResponse, None)" by code_simp
  have "the_list (cpr_Pools zeroClusterPoolsResponse) = []" by code_simp
  with oke_answers [OF a, of sim_oke "world sim_shutdown" "snd ?run" 1] run_split [OF r] u
  show "\<exists>w'. okeScaleKubeCluster sim_oke (heap sim_shutdown ! 0) 1 (world sim_shutdown) = (Crash IndexOutOfRange, w')" by blast
qed

section \<open>The kops provider\<close>



text \<open>C34. Scaling with kops: a scaling without error found no configuration and did nothing, or asks
  for the state \<open>ready\<close> because one node is left to scale down, or wrote the scaled size as both
  bounds of the instance group, applied the cluster and records that size.\<close>

theorem kops_scale_request:
  assumes "kopsScaleKubeCluster k fc n w = (Ret (ann, None), w')"
  shows "(\<exists>w1. ts_getKopsCluster (toolSet k) (getClusterName k fc) w = (Ret (None, None), w1) \<and> ann = None \<and> w' = w1) \<or>
    kops_scaled k fc n w ann w'"
  using assms by (rule kops_scale_steps)

theorem kops_scale_request_witness:
  "\<exists>ann w'. kopsScaleKubeCluster sim_kopsProvider (heap sim_pending ! 0) 2 sim_kops_world = (Ret (ann, None), w') \<and>
     kops_scaled sim_kopsProvider (heap sim_pending ! 0) 2 sim_kops_world ann w'"
proof -
  let ?run = "kopsScaleKubeCluster sim_kopsProvider (heap sim_pending ! 0) 2 sim_kops_world"
  have "case fst ?run of Ret (Some _, None) \<Rightarrow> True | _ \<Rightarrow> False" by code_simp
  then obtain a where r: "fst ?run = Ret (Some a, None)" by (auto split: outcome.splits option.splits)
  from kops_scale_request [OF run_split [OF r]] run_split [OF r] show ?thesis by blast
qed

text \<open>C35. What kops makes of the registry. When it has a configuration of the cluster already, from an
  earlier attempt for instance, a creation does not create the instance groups and the SSH key;
  the configuration is only applied, and no number of nodes is recorded. A validation without
  error means that the library validated the cluster of the registry with its instance groups.\<close>

theorem kops_registry:
  "(\<forall>c w1. ts_getKopsCluster (toolSet k) (getClusterName k fc) w = (Ret (Some c, None), w1) \<longrightarrow>
      kopsCreateKubeCluster k fc w = bnd (apply_cluster k fc) (\<lambda>err. ret (None, err)) w1) \<and>
   (\<forall>ann w'. kopsValidateKubeCluster k fc w = (Ret (ann, None), w') \<longrightarrow> ann = None \<and> kops_validated k fc w w')"
  by (intro conjI allI impI) (erule kops_create_existing kops_validate_law kops_validate_success)+

theorem kops_registry_witness:
  "kopsCreateKubeCluster sim_kopsProvider (heap sim_pending ! 0) sim_kops_world =
     bnd (apply_cluster sim_kopsProvider (heap sim_pending ! 0)) (\<lambda>err. ret (None, err)) sim_kops_world \<and>
   (\<exists>w'. kopsValidateKubeCluster sim_kopsProvider (heap sim_pending ! 0) sim_kops_world = (Ret (None, None), w') \<and>
     kops_validated sim_kopsProvider (heap sim_pending ! 0) sim_kops_world w')"
proof -
  have g: "ts_getKopsCluster (toolSet sim_kopsProvider) (getClusterName sim_kopsProvider (heap sim_pending ! 0)) sim_kops_world =
      (Ret (Some emptyKopsCluster, None), sim_kops_world)"
    by (simp add: sim_kopsProvider_def newToolSet_def sim_kopsLibrary_def sim_kops_world_def gets_def)
  have r: "fst (kopsValidateKubeCluster sim_kopsProvider (heap sim_pending ! 0) sim_kops_world) = Ret (None, None)" by code_simp
  note reg = kops_registry [of sim_kopsProvider "heap sim_pending ! 0" sim_kops_world]
  from conjunct1 [OF reg] g conjunct2 [OF reg] run_split [OF r] show ?thesis by blast
qed



section \<open>Hazards of the controller\<close>

text \<open>C37. A provider that could not be set up is registered all the same: without the token of OKE a
  pending OKE cluster is accepted into the queue, and creating it is a nil dereference.\<close>

theorem disabled_provider_crashes:
  assumes "dep_lookupEnv d OkeBearerToken = None" "a < length (heap s)"
    and "annotation (heap s ! a) ClusterManagerClusterClassKey = Some ''oke''" "state_of (heap s ! a) = Some NavarkosClusterStatePending"
  shows "eligible (newClusterController d) (heap s ! a) \<and>
    (\<exists>s'. createCluster (newClusterController d) (Some a) s = (Crash NilDereference, s'))"
proof
  have p: "map_of (clusterProviders (newClusterController d)) ''oke'' = Some nil_provider"
    using assms(1) by (simp add: newClusterController_def builtin_lookup NewOke_def provider_value_def Let_def)
  with assms show "eligible (newClusterController d) (heap s ! a)"
    by (auto simp: eligible_def state_of_def newClusterController_def getActionableStates_def)
  have "getProvider (newClusterController d) (heap s ! a) = Some nil_provider"
    using p assms(3) by (simp add: getProvider_def annotation_or_empty_def)
  then show "\<exists>s'. createCluster (newClusterController d) (Some a) s = (Crash NilDereference, s')"
    using assms(2)
    by (simp add: createCluster_def callProvider_def bnd_def load_def deref_def ret_def logged_def outside_def zoom_def
        nil_provider_def crash_def)
qed

theorem disabled_provider_crashes_witness:
  "\<exists>s'. createCluster (newClusterController (sim_deployment\<lparr>dep_lookupEnv := (\<lambda>_. None)\<rparr>)) (Some 0) sim_pending_oke =
     (Crash NilDereference, s')"
proof -
  have "annotation (heap sim_pending_oke ! 0) ClusterManagerClusterClassKey = Some ''oke''"
    "state_of (heap sim_pending_oke ! 0) = Some NavarkosClusterStatePending" "0 < length (heap sim_pending_oke)"
    by code_simp+
  with disabled_provider_crashes [of "sim_deployment\<lparr>dep_lookupEnv := (\<lambda>_. None)\<rparr>" 0 sim_pending_oke] show ?thesis by simp
qed

text \<open>C38. A retry can hit the wrong cluster: the handlers of a pass are given the address of its loop
  variable. When the pass is over the variable holds the last cluster of the list, and the retry
  of an updater that still points to it, whichever cluster it was made for, fetches that last
  cluster and writes the changes to it.\<close>

theorem retry_hits_last:
  assumes "reconcileWhenReady (newClusterController d) s = (Ret None, s1)" "new_calls s s1 = EvList (Some items) None # evs" "items \<noteq> []"
    and "retry_ok n (item_value item)" "cu_cluster (item_value item) = Some (length (heap s))"
    and "retryHandler (newClusterController d) item s1 = (Ret u, s2)"
  shows "Name (heap s1 ! length (heap s)) = Name (last items) \<and>
    retry_spec (item_value item) (Name (last items)) (new_calls s1 s2) \<and>
    (\<forall>b e. EvUpdate b e \<in> set (new_calls s1 s2) \<longrightarrow>
       (\<exists>x. EvGet (Name (last items)) (Some x) None \<in> set (new_calls s1 s2) \<and> patched (item_value item) x b))"
proof -
  have r: "retry_spec (item_value item) (Name (last items)) (new_calls s1 s2)" by (rule built.loop_variable_retry [OF assms])
  then have "\<exists>x. EvGet (Name (last items)) (Some x) None \<in> set (new_calls s1 s2) \<and> patched (item_value item) x b"
    if "EvUpdate b e \<in> set (new_calls s1 s2)" for b e
    using that by (auto simp: retry_spec_def dest!: protocol_submissions)
  with r built.pass_leaves [OF assms(1-3)] show ?thesis by blast
qed

theorem retry_hits_last_witness:
  "map Name (map snd (sim_clusters (world sim_two))) = [''east'', ''west''] \<and>
   validated_names (new_calls sim_two sim_two_passed) = [''east''] \<and>
   (\<exists>b x. EvUpdate b None \<in> set (new_calls sim_two_passed sim_two_retried) \<and> state_of b = Some NavarkosClusterStateJoining \<and>
      EvGet ''west'' (Some x) None \<in> set (new_calls sim_two_passed sim_two_retried) \<and> patched (item_value sim_two_item) x b)"
proof -
  have n: "map Name (map snd (sim_clusters (world sim_two))) = [''east'', ''west'']"
    "validated_names (new_calls sim_two sim_two_passed) = [''east'']" by code_simp+
  have run: "reconcileWhenReady sim_cc sim_two = (Ret None, sim_two_passed)" "retryHandler sim_cc sim_two_item sim_two_passed = (Ret (), sim_two_retried)"
    unfolding sim_two_passed_def sim_two_retried_def by (rule run_split, code_simp)+
  have "case new_calls sim_two sim_two_passed of EvList (Some items) None # _ \<Rightarrow> map Name items = [''east'', ''west''] | _ \<Rightarrow> False"
    by code_simp
  then obtain items evs where l: "new_calls sim_two sim_two_passed = EvList (Some items) None # evs" "map Name items = [''east'', ''west'']"
    by (auto split: list.splits event.splits option.splits)
  then have last: "items \<noteq> []" "Name (last items) = ''west''" by auto
  have p: "cu_cluster (item_value sim_two_item) = Some (length (heap sim_two))" by code_simp
  have "sim_two_item \<in> set (new_items sim_two sim_two_passed)" by code_simp
  then have ok: "retry_ok (length (heap sim_two_passed)) (item_value sim_two_item)"
    using frame_new(3) [OF keepsD [OF frame_reconcile run(1)]] by (simp add: list_all_iff)
  have "list_ex (accepted_as NavarkosClusterStateJoining) (new_calls sim_two_passed sim_two_retried)" by code_simp
  then obtain b where b: "EvUpdate b None \<in> set (new_calls sim_two_passed sim_two_retried)" "state_of b = Some NavarkosClusterStateJoining"
    by (auto dest!: accepted_asD)
  from retry_hits_last [OF run(1) l(1) last(1) ok p run(2)] b last(2) n show ?thesis by metis
qed

section \<open>Kubeconfigs\<close>

text \<open>C39. The kubeconfig of OKE: in the converted form the last entry of a name is found under that
  name in each of the three maps, a name without entry is not there, and the current context is
  kept.\<close>

theorem shim_entries:
  "map_get (cfg_Clusters (shimKubeConf c)) k =
     map_option okeCluster_Cluster (find (\<lambda>x. okeCluster_Name x = k) (rev (the_list (okeCfg_Clusters c)))) \<and>
   map_get (cfg_AuthInfos (shimKubeConf c)) k =
     map_option okeUser_User (find (\<lambda>x. okeUser_Name x = k) (rev (the_list (okeCfg_Users c)))) \<and>
   map_get (cfg_Contexts (shimKubeConf c)) k =
     map_option okeContext_Context (find (\<lambda>x. okeContext_Name x = k) (rev (the_list (okeCfg_Contexts c)))) \<and>
   cfg_CurrentContext (shimKubeConf c) = okeCfg_CurrentContext c"
  by (simp only: shimKubeConf_lookup) (simp add: shimKubeConf_def)

section \<open>The process\<close>

text \<open>C40. The process serves exactly when no version is asked for, the client configuration was
  built and a client could be made of it; the controller that serves is the one built from that
  client and the options of the command line. It exits with status one exactly when building
  the configuration failed, and panics exactly when no client could be made of it.\<close>

theorem main_outcome:
  "(main env = Serving cc \<longleftrightarrow> \<not> env_versionFlag env \<and> \<not> env_verflagRequested env \<and>
     (\<exists>options cfg client. options = env_initFlags env (AddFlags NewCCO) NewCCO \<and>
        env_BuildConfigFromFlags env (opt_FkubeApiServer options) kubeconfigPath = (Some cfg, None) \<and>
        env_NewForConfig env (client_config env cfg) = Inr client \<and>
        cc = newClusterController (env_deployment env client options))) \<and>
   (main env = Exit 1 \<longleftrightarrow> \<not> env_versionFlag env \<and> \<not> env_verflagRequested env \<and>
     snd (env_BuildConfigFromFlags env (opt_FkubeApiServer (env_initFlags env (AddFlags NewCCO) NewCCO)) kubeconfigPath) \<noteq> None) \<and>
   (main env = Panicked \<longleftrightarrow> \<not> env_versionFlag env \<and> \<not> env_verflagRequested env \<and>
     (\<exists>cfg e. env_BuildConfigFromFlags env (opt_FkubeApiServer (env_initFlags env (AddFlags NewCCO) NewCCO)) kubeconfigPath = (Some cfg, None) \<and>
        env_NewForConfig env (client_config env cfg) = Inl e))"
proof (cases "env_versionFlag env \<or> env_verflagRequested env")
  case True
  then show ?thesis by (auto simp: main_def Let_def)
next
  case False
  then show ?thesis by (auto simp: main_runs split: prod.split option.split sum.split)
qed

end
